(* ===== verification/Gateway_Prelude.thy ===== *)
theory Gateway_Prelude
  imports Main "HOL-Library.Word"
begin

text \<open>
  What every component of the gateway model shares.

  \<^item> Rust results: \<open>Result<T, E>\<close> is the sum \<open>'e + 'a\<close>; \<open>Err\<close> and \<open>Ok\<close> name its
    injections and \<open>and_then\<close> is the \<open>?\<close> operator.
  \<^item> Rust integers: counters and durations are \<open>nat\<close> with the saturation of
    \<open>saturating_add\<close>, \<open>saturating_mul\<close>, \<open>saturating_pow\<close> written out against the bounds of
    \<open>u32\<close>, \<open>u64\<close> and \<open>i64\<close>; a wrapping counter is a word.
  \<^item> Time: an instant is a number of nanoseconds on the monotonic clock, a \<open>Duration\<close> a number of
    nanoseconds.
  \<^item> Strings: a Rust \<open>String\<close> is its UTF-8 byte sequence (one HOL \<open>char\<close> per byte), so that
    \<open>len()\<close> is the list length and \<open>chars().count()\<close> counts the bytes that start a code point.
\<close>

section \<open>Results\<close>

abbreviation Err :: "'e \<Rightarrow> 'e + 'a" where "Err \<equiv> Inl"
abbreviation Ok :: "'a \<Rightarrow> 'e + 'a" where "Ok \<equiv> Inr"

definition and_then :: "'e + 'a \<Rightarrow> ('a \<Rightarrow> 'e + 'b) \<Rightarrow> 'e + 'b" where
  "and_then r f = (case r of Inl e \<Rightarrow> Inl e | Inr x \<Rightarrow> f x)"

definition map_err :: "('e \<Rightarrow> 'f) \<Rightarrow> 'e + 'a \<Rightarrow> 'f + 'a" where
  "map_err g r = (case r of Inl e \<Rightarrow> Inl (g e) | Inr x \<Rightarrow> Inr x)"

definition ok_or :: "'e \<Rightarrow> 'a option \<Rightarrow> 'e + 'a" where
  "ok_or e x = (case x of None \<Rightarrow> Inl e | Some y \<Rightarrow> Inr y)"

definition is_ok :: "'e + 'a \<Rightarrow> bool" where
  "is_ok r = (case r of Inl _ \<Rightarrow> False | Inr _ \<Rightarrow> True)"

text \<open>\<open>iter().map(f).collect::<Result<Vec<_>, _>>()\<close>: the first error wins.\<close>

fun collect_results :: "('a \<Rightarrow> 'e + 'b) \<Rightarrow> 'a list \<Rightarrow> 'e + 'b list" where
  "collect_results f [] = Inr []"
| "collect_results f (x # xs) =
     (case f x of
        Inl e \<Rightarrow> Inl e
      | Inr y \<Rightarrow> (case collect_results f xs of Inl e \<Rightarrow> Inl e | Inr ys \<Rightarrow> Inr (y # ys)))"

named_theorems result_simps "the equations that run a Rust result"

lemma and_then_simps [simp, result_simps]:
  "and_then (Inl e) f = Inl e" "and_then (Inr x) f = f x"
  by (simp_all add: and_then_def)

lemma and_then_Inr_iff: "and_then r f = Inr y \<longleftrightarrow> (\<exists>x. r = Inr x \<and> f x = Inr y)"
  by (cases r) auto

lemma and_then_Inl_iff: "and_then r f = Inl e \<longleftrightarrow> r = Inl e \<or> (\<exists>x. r = Inr x \<and> f x = Inl e)"
  by (cases r) auto

lemma and_then_InrE [elim]:
  assumes "and_then r f = Inr y" obtains x where "r = Inr x" "f x = Inr y"
  using assms by (auto simp: and_then_Inr_iff)

lemma map_err_simps [simp, result_simps]:
  "map_err g (Inl e) = Inl (g e)" "map_err g (Inr x) = Inr x"
  by (simp_all add: map_err_def)

lemma map_err_Inr_iff [simp]: "map_err g r = Inr y \<longleftrightarrow> r = Inr y"
  by (cases r) auto

lemma ok_or_simps [simp, result_simps]: "ok_or e None = Inl e" "ok_or e (Some x) = Inr x"
  by (simp_all add: ok_or_def)

lemma ok_or_Inr_iff: "ok_or e x = Inr y \<longleftrightarrow> x = Some y"
  by (cases x) auto

lemma ok_or_Inl_iff: "ok_or e x = Inl e' \<longleftrightarrow> x = None \<and> e' = e"
  by (cases x) auto

lemma is_ok_simps [simp, result_simps]: "\<not> is_ok (Inl e)" "is_ok (Inr x)"
  by (simp_all add: is_ok_def)

lemma is_ok_iff: "is_ok r \<longleftrightarrow> (\<exists>x. r = Inr x)"
  by (cases r) auto

lemma collect_results_InrD:
  "collect_results f xs = Inr ys \<Longrightarrow> list_all2 (\<lambda>x y. f x = Inr y) xs ys"
  by (induction xs arbitrary: ys) (auto split: sum.splits)

lemma collect_results_length: "collect_results f xs = Inr ys \<Longrightarrow> length ys = length xs"
  by (auto dest!: collect_results_InrD simp: list_all2_lengthD)

lemma collect_results_total:
  "(\<forall>x \<in> set xs. \<exists>y. f x = Inr y) \<Longrightarrow> \<exists>ys. collect_results f xs = Inr ys"
proof (induction xs)
  case (Cons x xs)
  then obtain y ys where "f x = Inr y" "collect_results f xs = Inr ys" by auto
  then show ?case by simp
qed simp

section \<open>Machine integers\<close>

abbreviation u32_max :: nat where "u32_max \<equiv> 4294967295"
abbreviation u64_max :: nat where "u64_max \<equiv> 18446744073709551615"
abbreviation i64_max :: int where "i64_max \<equiv> 9223372036854775807"
abbreviation i64_min :: int where "i64_min \<equiv> -9223372036854775808"

definition sat_add :: "nat \<Rightarrow> nat \<Rightarrow> nat \<Rightarrow> nat" where
  "sat_add m a b = min m (a + b)"

definition sat_mul :: "nat \<Rightarrow> nat \<Rightarrow> nat \<Rightarrow> nat" where
  "sat_mul m a b = min m (a * b)"

definition sat_pow :: "nat \<Rightarrow> nat \<Rightarrow> nat \<Rightarrow> nat" where
  "sat_pow m a b = min m (a ^ b)"

definition checked_add_i64 :: "int \<Rightarrow> int \<Rightarrow> int option" where
  "checked_add_i64 a b =
     (if i64_min \<le> a + b \<and> a + b \<le> i64_max then Some (a + b) else None)"

lemma sat_add_le [simp]: "sat_add m a b \<le> m" by (simp add: sat_add_def)
lemma sat_mul_le [simp]: "sat_mul m a b \<le> m" by (simp add: sat_mul_def)
lemma sat_pow_le [simp]: "sat_pow m a b \<le> m" by (simp add: sat_pow_def)

lemma sat_add_exact: "a + b \<le> m \<Longrightarrow> sat_add m a b = a + b"
  by (simp add: sat_add_def)

section \<open>Durations\<close>

abbreviation ns_per_ms :: nat where "ns_per_ms \<equiv> 1000000"

definition from_millis :: "nat \<Rightarrow> nat" where "from_millis n = n * ns_per_ms"
definition from_secs :: "nat \<Rightarrow> nat" where "from_secs n = n * (1000 * ns_per_ms)"
definition as_millis :: "nat \<Rightarrow> nat" where "as_millis d = d div ns_per_ms"

text \<open>\<open>u64::try_from(duration.as_millis()).unwrap_or(u64::MAX)\<close>.\<close>

definition duration_ms :: "nat \<Rightarrow> nat" where
  "duration_ms d = min u64_max (as_millis d)"

lemma as_millis_from_millis [simp]: "as_millis (from_millis n) = n"
  by (simp add: as_millis_def from_millis_def)

lemma duration_ms_from_millis: "n \<le> u64_max \<Longrightarrow> duration_ms (from_millis n) = n"
  by (simp add: duration_ms_def)

lemma from_millis_eq_0 [simp]: "from_millis n = 0 \<longleftrightarrow> n = 0"
  by (simp add: from_millis_def)

lemma from_millis_pos [simp]: "0 < from_millis n \<longleftrightarrow> 0 < n"
  by (simp add: from_millis_def)

lemma from_millis_mono: "from_millis a \<le> from_millis b \<longleftrightarrow> a \<le> b"
  by (simp add: from_millis_def)

section \<open>Strings as UTF-8\<close>

text \<open>A continuation byte is \<open>10xxxxxx\<close>; every other byte starts a code point.\<close>

definition is_continuation :: "char \<Rightarrow> bool" where
  "is_continuation c = (128 \<le> (of_char c :: nat) \<and> (of_char c :: nat) < 192)"

definition char_count :: "string \<Rightarrow> nat" where
  "char_count s = length (filter (\<lambda>c. \<not> is_continuation c) s)"

lemma char_count_le_length: "char_count s \<le> length s"
  by (simp add: char_count_def)

text \<open>
  \<open>str::trim\<close> removes leading and trailing code points with the property \<open>White_Space\<close>. Their UTF-8
  encodings are listed once; no encoding is a prefix or a suffix of another.
\<close>

definition white_space_bytes :: "nat list list" where
  "white_space_bytes =
     [[9], [10], [11], [12], [13], [32], [0xC2, 0x85], [0xC2, 0xA0], [0xE1, 0x9A, 0x80]]
     @ map (\<lambda>k. [0xE2, 0x80, k])
         [0x80, 0x81, 0x82, 0x83, 0x84, 0x85, 0x86, 0x87, 0x88, 0x89, 0x8A, 0xA8, 0xA9, 0xAF]
     @ [[0xE2, 0x81, 0x9F], [0xE3, 0x80, 0x80]]"

definition code_of :: "string \<Rightarrow> nat list" where
  "code_of s = map of_char s"

text \<open>The number of bytes of the white-space code point at the front, 0 when there is none.\<close>

definition ws_prefix :: "nat list list \<Rightarrow> string \<Rightarrow> nat" where
  "ws_prefix ws s =
     (case List.find (\<lambda>w. take (length w) (code_of s) = w) ws of
        None \<Rightarrow> 0 | Some w \<Rightarrow> length w)"

function trim_front :: "nat list list \<Rightarrow> string \<Rightarrow> string" where
  "trim_front ws s =
     (let k = ws_prefix ws s in if k = 0 \<or> s = [] then s else trim_front ws (drop k s))"
  by pat_completeness auto
termination
  by (relation "measure (\<lambda>(ws, s). length s)") auto

declare trim_front.simps [simp del]

definition trim_start :: "string \<Rightarrow> string" where
  "trim_start s = trim_front white_space_bytes s"

definition trim_end :: "string \<Rightarrow> string" where
  "trim_end s = rev (trim_front (map rev white_space_bytes) (rev s))"

definition str_trim :: "string \<Rightarrow> string" where
  "str_trim s = trim_end (trim_start s)"

lemma length_trim_front: "length (trim_front ws s) \<le> length s"
proof (induction ws s rule: trim_front.induct)
  case (1 ws s)
  show ?case
  proof (cases "ws_prefix ws s = 0 \<or> s = []")
    case True
    then show ?thesis by (subst trim_front.simps) (simp add: Let_def)
  next
    case False
    with 1 have "length (trim_front ws (drop (ws_prefix ws s) s)) \<le> length s"
      by (metis diff_le_self dual_order.trans length_drop)
    with False show ?thesis by (subst trim_front.simps) (simp add: Let_def)
  qed
qed

lemma length_str_trim: "length (str_trim s) \<le> length s"
  unfolding str_trim_def trim_end_def trim_start_def
  by (metis length_trim_front le_trans length_rev)

lemma trim_front_Nil [simp]: "trim_front ws [] = []"
  by (subst trim_front.simps) simp

lemma str_trim_Nil [simp]: "str_trim [] = []"
  by (simp add: str_trim_def trim_start_def trim_end_def)

text \<open>\<open>u8::is_ascii_digit\<close> and the decimal value of a digit string.\<close>

definition is_ascii_digit :: "char \<Rightarrow> bool" where
  "is_ascii_digit c = (48 \<le> (of_char c :: nat) \<and> (of_char c :: nat) \<le> 57)"

definition decimal_value :: "string \<Rightarrow> nat" where
  "decimal_value s = foldl (\<lambda>n c. 10 * n + (of_char c - 48)) 0 s"

text \<open>\<open>u64::to_string\<close>: the decimal digits, without leading zeros.\<close>

definition digit_char :: "nat \<Rightarrow> char" where
  "digit_char d = char_of (48 + d)"

fun show_nat :: "nat \<Rightarrow> string" where
  "show_nat n = (if n < 10 then [digit_char n] else show_nat (n div 10) @ [digit_char (n mod 10)])"

declare show_nat.simps [simp del]

lemma digit_value: "d < 10 \<Longrightarrow> (of_char (digit_char d) :: nat) = 48 + d"
  by (simp add: digit_char_def)

lemma digit_char_is_digit: "d < 10 \<Longrightarrow> is_ascii_digit (digit_char d)"
  by (simp add: is_ascii_digit_def digit_value)

lemma decimal_value_snoc: "decimal_value (s @ [c]) = 10 * decimal_value s + (of_char c - 48)"
  by (simp add: decimal_value_def)

lemma show_nat_not_Nil: "show_nat n \<noteq> []"
  by (subst show_nat.simps) simp

lemma show_nat_digits: "list_all is_ascii_digit (show_nat n)"
proof (induction n rule: show_nat.induct)
  case (1 n)
  then show ?case
    by (subst show_nat.simps) (simp add: digit_char_is_digit)
qed

lemma decimal_value_show_nat [simp]: "decimal_value (show_nat n) = n"
proof (induction n rule: show_nat.induct)
  case (1 n)
  show ?case
  proof (cases "n < 10")
    case True
    then show ?thesis
      by (subst show_nat.simps) (simp add: decimal_value_def digit_value)
  next
    case False
    with 1 show ?thesis
      by (subst show_nat.simps) (simp add: decimal_value_snoc digit_value)
  qed
qed

section \<open>Lists\<close>

lemma prefix_app_trans:
  "\<exists>d. b = a @ d \<Longrightarrow> \<exists>d. c = b @ d \<Longrightarrow> \<exists>d. c = a @ d"
  by auto

end
