(* ===== verification/Execution_Metrics.thy ===== *)
theory Execution_Metrics
  imports Gateway_Prelude
begin

text \<open>
  \<open>core/metrics/labels.rs\<close> and \<open>core/metrics/execution.rs\<close>: the bounded label classes and the
  observations the executor records.

  A sink is modelled by what it keeps. \<open>RecordingExecutionMetrics\<close> keeps the list of events;
  \<open>NoopExecutionMetrics\<close> keeps nothing; \<open>PrometheusExecutionMetrics\<close> keeps counters and gauges,
  here one \<open>prometheus\<close> record of counter families (the Prometheus registry is a library: a counter
  family is a map from label values to totals). Both are folds of the same events, which is the
  contract the locale \<open>execution_sink\<close> states.
\<close>

section \<open>Labels\<close>

datatype attempt_outcome =
    OSuccess | ORetryable | OTimeout | ORateLimit | OQuota | OUpstreamAuth
  | OProtocol | ORejected | ODeadline | OCancelled | OCircuitOpen | OInternal

fun outcome_as_str :: "attempt_outcome \<Rightarrow> string" where
  "outcome_as_str OSuccess = ''success''"
| "outcome_as_str ORetryable = ''retryable''"
| "outcome_as_str OTimeout = ''timeout''"
| "outcome_as_str ORateLimit = ''rate_limit''"
| "outcome_as_str OQuota = ''quota''"
| "outcome_as_str OUpstreamAuth = ''upstream_auth''"
| "outcome_as_str OProtocol = ''protocol''"
| "outcome_as_str ORejected = ''rejected''"
| "outcome_as_str ODeadline = ''deadline''"
| "outcome_as_str OCancelled = ''cancelled''"
| "outcome_as_str OCircuitOpen = ''circuit_open''"
| "outcome_as_str OInternal = ''internal''"

datatype circuit_state_label = LClosed | LHalfOpen | LOpen

fun state_label_as_str :: "circuit_state_label \<Rightarrow> string" where
  "state_label_as_str LClosed = ''closed''"
| "state_label_as_str LHalfOpen = ''half_open''"
| "state_label_as_str LOpen = ''open''"

fun as_gauge :: "circuit_state_label \<Rightarrow> nat" where
  "as_gauge LClosed = 0"
| "as_gauge LHalfOpen = 1"
| "as_gauge LOpen = 2"

definition bound_catalog_id :: "string \<Rightarrow> string" where
  "bound_catalog_id v = v"

section \<open>Observations\<close>

datatype metric_event =
    MAttempt string attempt_outcome
  | MRetry string
  | MFallback string string
  | MCircuitTransition string circuit_state_label
  | MCircuitState string circuit_state_label
  | MDeadlineExceeded
  | MOverloadRejected
  | MUsage string int int

text \<open>The trait's methods, as the events \<open>RecordingExecutionMetrics\<close> appends.\<close>

definition record_attempt :: "string \<Rightarrow> attempt_outcome \<Rightarrow> metric_event list" where
  "record_attempt t out = [MAttempt (bound_catalog_id t) out]"

definition record_retry :: "string \<Rightarrow> metric_event list" where
  "record_retry t = [MRetry (bound_catalog_id t)]"

definition record_fallback :: "string \<Rightarrow> string \<Rightarrow> metric_event list" where
  "record_fallback from to = [MFallback (bound_catalog_id from) (bound_catalog_id to)]"

definition set_circuit_state :: "string \<Rightarrow> circuit_state_label \<Rightarrow> metric_event list" where
  "set_circuit_state t s = [MCircuitState (bound_catalog_id t) s]"

definition record_circuit_transition :: "string \<Rightarrow> circuit_state_label \<Rightarrow> metric_event list" where
  "record_circuit_transition t s =
     MCircuitTransition (bound_catalog_id t) s # set_circuit_state t s"

definition record_deadline_exceeded :: "metric_event list" where
  "record_deadline_exceeded = [MDeadlineExceeded]"

definition record_overload_rejected :: "metric_event list" where
  "record_overload_rejected = [MOverloadRejected]"

definition record_successful_usage :: "string \<Rightarrow> int \<Rightarrow> int \<Rightarrow> metric_event list" where
  "record_successful_usage t p c = [MUsage (bound_catalog_id t) p c]"

lemmas record_defs =
  record_attempt_def record_retry_def record_fallback_def record_circuit_transition_def
  set_circuit_state_def record_deadline_exceeded_def record_overload_rejected_def
  record_successful_usage_def bound_catalog_id_def

fun attempts_of :: "metric_event list \<Rightarrow> (string \<times> attempt_outcome) list" where
  "attempts_of [] = []"
| "attempts_of (MAttempt t out # es) = (t, out) # attempts_of es"
| "attempts_of (_ # es) = attempts_of es"

fun retries_of :: "metric_event list \<Rightarrow> string list" where
  "retries_of [] = []"
| "retries_of (MRetry t # es) = t # retries_of es"
| "retries_of (_ # es) = retries_of es"

fun fallbacks_of :: "metric_event list \<Rightarrow> (string \<times> string) list" where
  "fallbacks_of [] = []"
| "fallbacks_of (MFallback a b # es) = (a, b) # fallbacks_of es"
| "fallbacks_of (_ # es) = fallbacks_of es"

lemma attempts_of_append [simp]: "attempts_of (a @ b) = attempts_of a @ attempts_of b"
  by (induction a rule: attempts_of.induct) auto

lemma retries_of_append [simp]: "retries_of (a @ b) = retries_of a @ retries_of b"
  by (induction a rule: retries_of.induct) auto

lemma fallbacks_of_append [simp]: "fallbacks_of (a @ b) = fallbacks_of a @ fallbacks_of b"
  by (induction a rule: fallbacks_of.induct) auto

section \<open>Prometheus counters\<close>

record prometheus =
  attempts_total :: "string \<times> string \<Rightarrow> nat"
  retries_total :: "string \<Rightarrow> nat"
  fallbacks_total :: "string \<times> string \<Rightarrow> nat"
  transitions_total :: "string \<times> string \<Rightarrow> nat"
  circuit_gauge :: "string \<Rightarrow> nat option"
  deadline_total :: nat
  overload_total :: nat
  prompt_tokens_total :: "string \<Rightarrow> nat"
  completion_tokens_total :: "string \<Rightarrow> nat"

definition prometheus_empty :: prometheus where
  "prometheus_empty =
     \<lparr>attempts_total = (\<lambda>_. 0), retries_total = (\<lambda>_. 0), fallbacks_total = (\<lambda>_. 0),
      transitions_total = (\<lambda>_. 0), circuit_gauge = (\<lambda>_. None), deadline_total = 0,
      overload_total = 0, prompt_tokens_total = (\<lambda>_. 0), completion_tokens_total = (\<lambda>_. 0)\<rparr>"

definition bump :: "('k \<Rightarrow> nat) \<Rightarrow> 'k \<Rightarrow> nat \<Rightarrow> 'k \<Rightarrow> nat" where
  "bump m k n = m(k := m k + n)"

text \<open>
  One method call. A counter is a \<open>u64\<close> in the exporter; its overflow is out of reach of any process
  and is not modelled.
\<close>

fun prometheus_record :: "prometheus \<Rightarrow> metric_event \<Rightarrow> prometheus" where
  "prometheus_record p (MAttempt t out) =
     p\<lparr>attempts_total := bump (attempts_total p) (outcome_as_str out, t) 1\<rparr>"
| "prometheus_record p (MRetry t) = p\<lparr>retries_total := bump (retries_total p) t 1\<rparr>"
| "prometheus_record p (MFallback a b) =
     p\<lparr>fallbacks_total := bump (fallbacks_total p) (a, b) 1\<rparr>"
| "prometheus_record p (MCircuitTransition t s) =
     p\<lparr>transitions_total := bump (transitions_total p) (t, state_label_as_str s) 1\<rparr>"
| "prometheus_record p (MCircuitState t s) =
     p\<lparr>circuit_gauge := (circuit_gauge p)(t \<mapsto> as_gauge s)\<rparr>"
| "prometheus_record p MDeadlineExceeded = p\<lparr>deadline_total := deadline_total p + 1\<rparr>"
| "prometheus_record p MOverloadRejected = p\<lparr>overload_total := overload_total p + 1\<rparr>"
| "prometheus_record p (MUsage t pr co) =
     p\<lparr>prompt_tokens_total := bump (prompt_tokens_total p) t (nat (max pr 0)),
       completion_tokens_total := bump (completion_tokens_total p) t (nat (max co 0))\<rparr>"

fun noop_record :: "unit \<Rightarrow> metric_event \<Rightarrow> unit" where
  "noop_record u e = u"

definition recording_record :: "metric_event list \<Rightarrow> metric_event \<Rightarrow> metric_event list" where
  "recording_record es e = es @ [e]"

text \<open>
  The sink contract: the sink's state is a function of the events recorded so far, so replacing one
  sink by another cannot change what the executor observes.
\<close>

locale execution_sink =
  fixes rec :: "'m \<Rightarrow> metric_event \<Rightarrow> 'm"
    and start :: 'm
    and view :: "metric_event list \<Rightarrow> 'm"
  assumes view_start: "view [] = start"
    and view_record: "view (es @ [e]) = rec (view es) e"
begin

lemma view_is_fold: "view es = foldl rec start es"
  by (induction es rule: rev_induct) (simp_all add: view_start view_record)

lemma view_append: "view (es @ fs) = foldl rec (view es) fs"
  by (simp add: view_is_fold)

end

definition prometheus_view :: "metric_event list \<Rightarrow> prometheus" where
  "prometheus_view es = foldl prometheus_record prometheus_empty es"

interpretation prom_sink: execution_sink prometheus_record prometheus_empty prometheus_view
  by unfold_locales (simp_all add: prometheus_view_def)

interpretation noop_sink: execution_sink noop_record "()" "\<lambda>_. ()"
  by unfold_locales simp_all

interpretation recording_sink: execution_sink recording_record "[]" "\<lambda>es. es"
  by unfold_locales (simp_all add: recording_record_def)

text \<open>What the exported attempt counter is: the number of attempts recorded with those labels.\<close>

lemma outcome_as_str_inj: "outcome_as_str a = outcome_as_str b \<Longrightarrow> a = b"
  by (cases a; cases b) simp_all

lemma prometheus_attempts:
  "attempts_total (prometheus_view es) (outcome_as_str out, t)
     = count_list (attempts_of es) (t, out)"
proof (induction es rule: rev_induct)
  case Nil
  then show ?case by (simp add: prometheus_view_def prometheus_empty_def)
next
  case (snoc e es)
  then show ?case
    by (cases e) (auto simp: prom_sink.view_record bump_def dest: outcome_as_str_inj)
qed

lemma prometheus_gauge_last:
  "circuit_gauge (prometheus_view (es @ record_circuit_transition t s)) t = Some (as_gauge s)"
  by (simp add: prom_sink.view_append record_defs)

end
