(* ===== verification/Circuit.thy ===== *)
theory Circuit
  imports Execution_Metrics
begin

text \<open>
  \<open>features/executor/circuit.rs\<close>: target-scoped circuit breakers with generation-owned completions.

  The registry (\<open>HashMap<String, CircuitState>\<close> under one mutex) is a map from target ids to circuit
  states; each method holds the lock for its whole body, so each is one atomic function of the map.
  A method's clock readings are its arguments. The metrics a method records are returned as events.
  \<open>generation\<close> is a \<open>u64\<close> advanced by \<open>wrapping_add(1)\<close>, hence a 64-bit word.
\<close>

section \<open>State\<close>

datatype circuit_phase =
    Closed nat            \<comment> \<open>consecutive failures, a \<open>u32\<close>\<close>
  | Open nat              \<comment> \<open>\<open>opened_until\<close>\<close>
  | HalfOpen bool         \<comment> \<open>\<open>in_flight\<close>\<close>

record circuit_state =
  generation :: "64 word"
  phase :: circuit_phase

definition circuit_default :: circuit_state where
  "circuit_default = \<lparr>generation = 0, phase = Closed 0\<rparr>"

type_synonym registry = "string \<rightharpoonup> circuit_state"

record circuit_config =
  threshold :: nat
  cooldown :: nat

datatype permit_kind = PermitClosed | PermitProbe

datatype completion_outcome = Success | TransientFailure | Permanent

record circuit_permit =
  p_target :: string
  p_generation :: "64 word"
  p_kind :: permit_kind
  p_settled :: bool

datatype circuit_admission =
    Allow circuit_permit
  | Reject nat            \<comment> \<open>\<open>retry_after_ms\<close>\<close>
  | Probe circuit_permit

definition circuit_config_of :: "nat \<Rightarrow> nat \<Rightarrow> circuit_config" where
  "circuit_config_of failure_threshold cooldown_ms =
     \<lparr>threshold = max failure_threshold 1, cooldown = from_millis cooldown_ms\<rparr>"

section \<open>Operations\<close>

definition target_is_usable :: "registry \<Rightarrow> string \<Rightarrow> bool" where
  "target_is_usable reg t =
     (case map_option phase (reg t) of
        None \<Rightarrow> True
      | Some (Closed _) \<Rightarrow> True
      | Some (Open _) \<Rightarrow> False
      | Some (HalfOpen _) \<Rightarrow> False)"

definition retry_after_ms :: "nat \<Rightarrow> nat \<Rightarrow> nat" where
  "retry_after_ms now until =
     (if now < until then max (min u64_max (as_millis (until - now))) 1 else 1)"

definition cooldown_retry_after_ms :: "circuit_config \<Rightarrow> nat" where
  "cooldown_retry_after_ms cfg = max (min u64_max (as_millis (cooldown cfg))) 1"

definition closed_permit :: "string \<Rightarrow> 64 word \<Rightarrow> circuit_permit" where
  "closed_permit t g = \<lparr>p_target = t, p_generation = g, p_kind = PermitClosed, p_settled = False\<rparr>"

definition probe_permit :: "string \<Rightarrow> 64 word \<Rightarrow> circuit_permit" where
  "probe_permit t g = \<lparr>p_target = t, p_generation = g, p_kind = PermitProbe, p_settled = False\<rparr>"

definition start_probe :: "string \<Rightarrow> circuit_state \<Rightarrow> circuit_state \<times> metric_event list" where
  "start_probe t st =
     (\<lparr>generation = generation st + 1, phase = HalfOpen True\<rparr>,
      record_circuit_transition t LHalfOpen)"

definition set_open ::
    "circuit_config \<Rightarrow> string \<Rightarrow> circuit_state \<Rightarrow> nat \<Rightarrow> circuit_state \<times> metric_event list" where
  "set_open cfg t st now =
     (\<lparr>generation = generation st + 1, phase = Open (now + cooldown cfg)\<rparr>,
      record_circuit_transition t LOpen)"

definition close_circuit :: "string \<Rightarrow> circuit_state \<Rightarrow> circuit_state \<times> metric_event list" where
  "close_circuit t st =
     (\<lparr>generation = generation st + 1, phase = Closed 0\<rparr>, record_circuit_transition t LClosed)"

text \<open>\<open>map.entry(target_id).or_default()\<close>.\<close>

definition entry_or_default :: "registry \<Rightarrow> string \<Rightarrow> circuit_state" where
  "entry_or_default reg t = (case reg t of None \<Rightarrow> circuit_default | Some st \<Rightarrow> st)"

text \<open>
  \<open>admit\<close> reads the clock once for the phase decision (\<open>now\<close>) and, in the rejecting open branch,
  again inside \<open>retry_after_ms\<close> (\<open>now2\<close>).
\<close>

definition admit ::
    "circuit_config \<Rightarrow> nat \<Rightarrow> nat \<Rightarrow> string \<Rightarrow> registry
      \<Rightarrow> circuit_admission \<times> registry \<times> metric_event list" where
  "admit cfg now now2 t reg =
     (let e = entry_or_default reg t; reg' = reg(t \<mapsto> e) in
      case phase e of
        Closed _ \<Rightarrow> (Allow (closed_permit t (generation e)), reg', [])
      | Open opened_until \<Rightarrow>
          (if now < opened_until
           then (Reject (retry_after_ms now2 opened_until), reg', [])
           else (case start_probe t e of
                   (e', evs) \<Rightarrow> (Probe (probe_permit t (generation e')), reg(t \<mapsto> e'), evs)))
      | HalfOpen True \<Rightarrow> (Reject (cooldown_retry_after_ms cfg), reg', [])
      | HalfOpen False \<Rightarrow>
          (case start_probe t e of
             (e', evs) \<Rightarrow> (Probe (probe_permit t (generation e')), reg(t \<mapsto> e'), evs)))"

definition complete_state ::
    "circuit_config \<Rightarrow> nat \<Rightarrow> string \<Rightarrow> permit_kind \<Rightarrow> completion_outcome \<Rightarrow> circuit_state
      \<Rightarrow> circuit_state \<times> metric_event list" where
  "complete_state cfg now t kind outcome st =
     (case (kind, phase st, outcome) of
        (PermitClosed, Closed _, Success) \<Rightarrow> (st\<lparr>phase := Closed 0\<rparr>, [])
      | (PermitClosed, Closed failures, TransientFailure) \<Rightarrow>
          (let next = sat_add u32_max failures 1 in
           if threshold cfg \<le> next then set_open cfg t st now
           else (st\<lparr>phase := Closed next\<rparr>, []))
      | (PermitProbe, HalfOpen _, Success) \<Rightarrow> close_circuit t st
      | (PermitProbe, HalfOpen _, Permanent) \<Rightarrow> close_circuit t st
      | (PermitProbe, HalfOpen _, TransientFailure) \<Rightarrow> set_open cfg t st now
      | _ \<Rightarrow> (st, []))"

definition complete ::
    "circuit_config \<Rightarrow> nat \<Rightarrow> string \<Rightarrow> 64 word \<Rightarrow> permit_kind \<Rightarrow> completion_outcome \<Rightarrow> registry
      \<Rightarrow> registry \<times> metric_event list" where
  "complete cfg now t gen kind outcome reg =
     (case reg t of
        None \<Rightarrow> (reg, [])
      | Some st \<Rightarrow>
          (if generation st \<noteq> gen then (reg, [])
           else (case complete_state cfg now t kind outcome st of
                   (st', evs) \<Rightarrow> (reg(t \<mapsto> st'), evs))))"

definition release_probe :: "string \<Rightarrow> 64 word \<Rightarrow> registry \<Rightarrow> registry" where
  "release_probe t gen reg =
     (case reg t of
        None \<Rightarrow> reg
      | Some st \<Rightarrow>
          (if generation st \<noteq> gen then reg
           else (case phase st of
                   HalfOpen _ \<Rightarrow> reg(t \<mapsto> st\<lparr>phase := HalfOpen False\<rparr>)
                 | _ \<Rightarrow> reg)))"

section \<open>Permits\<close>

definition settle ::
    "circuit_config \<Rightarrow> nat \<Rightarrow> circuit_permit \<Rightarrow> completion_outcome \<Rightarrow> registry
      \<Rightarrow> circuit_permit \<times> registry \<times> metric_event list" where
  "settle cfg now p outcome reg =
     (if p_settled p then (p, reg, [])
      else (case complete cfg now (p_target p) (p_generation p) (p_kind p) outcome reg of
              (reg', evs) \<Rightarrow> (p\<lparr>p_settled := True\<rparr>, reg', evs)))"

definition drop_permit :: "circuit_permit \<Rightarrow> registry \<Rightarrow> registry" where
  "drop_permit p reg =
     (if \<not> p_settled p \<and> p_kind p = PermitProbe
      then release_probe (p_target p) (p_generation p) reg else reg)"

text \<open>
  \<open>success\<close>, \<open>transient_failure\<close> and \<open>ignore_permanent\<close> consume the permit: they settle it, and its
  \<open>Drop\<close> runs at the end of the method.
\<close>

definition consume ::
    "circuit_config \<Rightarrow> nat \<Rightarrow> circuit_permit \<Rightarrow> completion_outcome \<Rightarrow> registry
      \<Rightarrow> registry \<times> metric_event list" where
  "consume cfg now p outcome reg =
     (case settle cfg now p outcome reg of (p', reg', evs) \<Rightarrow> (drop_permit p' reg', evs))"

definition permit_success ::
    "circuit_config \<Rightarrow> nat \<Rightarrow> circuit_permit \<Rightarrow> registry \<Rightarrow> registry \<times> metric_event list" where
  "permit_success cfg now p reg = consume cfg now p Success reg"

definition permit_transient_failure ::
    "circuit_config \<Rightarrow> nat \<Rightarrow> circuit_permit \<Rightarrow> registry \<Rightarrow> registry \<times> metric_event list" where
  "permit_transient_failure cfg now p reg = consume cfg now p TransientFailure reg"

definition permit_ignore_permanent ::
    "circuit_config \<Rightarrow> nat \<Rightarrow> circuit_permit \<Rightarrow> registry \<Rightarrow> registry \<times> metric_event list" where
  "permit_ignore_permanent cfg now p reg = consume cfg now p Permanent reg"

end
