(* ===== verification/Circuit_Lemmas.thy ===== *)
theory Circuit_Lemmas
  imports Circuit
begin

text \<open>
  Sequential behaviour of one circuit: the equations of each operation per phase (collected in
  \<open>circuit_simps\<close>), the well-formedness invariant, and the agreement of the failure counter with a
  specification on the history of outcomes.
\<close>

named_theorems circuit_simps "the circuit operations, one equation per phase"

section \<open>Equations per phase\<close>

lemma entry_or_default_simps [circuit_simps]:
  "reg t = None \<Longrightarrow> entry_or_default reg t = circuit_default"
  "reg t = Some st \<Longrightarrow> entry_or_default reg t = st"
  by (simp_all add: entry_or_default_def)

lemma admit_closed [circuit_simps]:
  "phase (entry_or_default reg t) = Closed n \<Longrightarrow>
   admit cfg now now2 t reg =
     (Allow (closed_permit t (generation (entry_or_default reg t))),
      reg(t \<mapsto> entry_or_default reg t), [])"
  by (simp add: admit_def Let_def)

lemma admit_open_early [circuit_simps]:
  "phase (entry_or_default reg t) = Open u \<Longrightarrow> now < u \<Longrightarrow>
   admit cfg now now2 t reg =
     (Reject (retry_after_ms now2 u), reg(t \<mapsto> entry_or_default reg t), [])"
  by (simp add: admit_def Let_def)

lemma admit_open_late [circuit_simps]:
  "phase (entry_or_default reg t) = Open u \<Longrightarrow> u \<le> now \<Longrightarrow>
   admit cfg now now2 t reg =
     (Probe (probe_permit t (generation (entry_or_default reg t) + 1)),
      reg(t \<mapsto> \<lparr>generation = generation (entry_or_default reg t) + 1, phase = HalfOpen True\<rparr>),
      record_circuit_transition t LHalfOpen)"
  by (simp add: admit_def start_probe_def Let_def)

lemma admit_half_open_busy [circuit_simps]:
  "phase (entry_or_default reg t) = HalfOpen True \<Longrightarrow>
   admit cfg now now2 t reg =
     (Reject (cooldown_retry_after_ms cfg), reg(t \<mapsto> entry_or_default reg t), [])"
  by (simp add: admit_def Let_def)

lemma admit_half_open_free [circuit_simps]:
  "phase (entry_or_default reg t) = HalfOpen False \<Longrightarrow>
   admit cfg now now2 t reg =
     (Probe (probe_permit t (generation (entry_or_default reg t) + 1)),
      reg(t \<mapsto> \<lparr>generation = generation (entry_or_default reg t) + 1, phase = HalfOpen True\<rparr>),
      record_circuit_transition t LHalfOpen)"
  by (simp add: admit_def start_probe_def Let_def)

lemma complete_absent [circuit_simps]:
  "reg t = None \<Longrightarrow> complete cfg now t g k out reg = (reg, [])"
  by (simp add: complete_def)

lemma complete_stale [circuit_simps]:
  "reg t = Some st \<Longrightarrow> generation st \<noteq> g \<Longrightarrow> complete cfg now t g k out reg = (reg, [])"
  by (simp add: complete_def)

lemma complete_current [circuit_simps]:
  "reg t = Some st \<Longrightarrow> generation st = g \<Longrightarrow>
   complete cfg now t g k out reg =
     (reg(t \<mapsto> fst (complete_state cfg now t k out st)), snd (complete_state cfg now t k out st))"
  by (simp add: complete_def split: prod.split)

lemma complete_state_closed [circuit_simps]:
  "phase st = Closed n \<Longrightarrow>
     complete_state cfg now t PermitClosed Success st = (st\<lparr>phase := Closed 0\<rparr>, [])"
  "phase st = Closed n \<Longrightarrow>
     complete_state cfg now t PermitClosed Permanent st = (st, [])"
  "phase st = Closed n \<Longrightarrow>
     complete_state cfg now t PermitProbe out st = (st, [])"
  "phase st = Open u \<Longrightarrow> complete_state cfg now t k out st = (st, [])"
  "phase st = HalfOpen b \<Longrightarrow> complete_state cfg now t PermitClosed out st = (st, [])"
  by (cases k; cases out; simp add: complete_state_def)+

lemma complete_state_failure [circuit_simps]:
  "phase st = Closed n \<Longrightarrow> threshold cfg \<le> sat_add u32_max n 1 \<Longrightarrow>
     complete_state cfg now t PermitClosed TransientFailure st = set_open cfg t st now"
  "phase st = Closed n \<Longrightarrow> \<not> threshold cfg \<le> sat_add u32_max n 1 \<Longrightarrow>
     complete_state cfg now t PermitClosed TransientFailure st =
       (st\<lparr>phase := Closed (sat_add u32_max n 1)\<rparr>, [])"
  by (simp_all add: complete_state_def Let_def)

lemma complete_state_probe [circuit_simps]:
  "phase st = HalfOpen b \<Longrightarrow>
     complete_state cfg now t PermitProbe Success st = close_circuit t st"
  "phase st = HalfOpen b \<Longrightarrow>
     complete_state cfg now t PermitProbe Permanent st = close_circuit t st"
  "phase st = HalfOpen b \<Longrightarrow>
     complete_state cfg now t PermitProbe TransientFailure st = set_open cfg t st now"
  by (simp_all add: complete_state_def)

lemma release_probe_simps [circuit_simps]:
  "reg t = None \<Longrightarrow> release_probe t g reg = reg"
  "reg t = Some st \<Longrightarrow> generation st \<noteq> g \<Longrightarrow> release_probe t g reg = reg"
  "reg t = Some st \<Longrightarrow> phase st = Closed n \<Longrightarrow> release_probe t g reg = reg"
  "reg t = Some st \<Longrightarrow> phase st = Open u \<Longrightarrow> release_probe t g reg = reg"
  "reg t = Some st \<Longrightarrow> generation st = g \<Longrightarrow> phase st = HalfOpen b \<Longrightarrow>
     release_probe t g reg = reg(t \<mapsto> st\<lparr>phase := HalfOpen False\<rparr>)"
  by (simp_all add: release_probe_def)

lemma consume_unsettled [circuit_simps]:
  "\<not> p_settled p \<Longrightarrow>
   consume cfg now p out reg
     = complete cfg now (p_target p) (p_generation p) (p_kind p) out reg"
  by (simp add: consume_def settle_def drop_permit_def split: prod.split)

lemma drop_permit_simps [circuit_simps]:
  "p_kind p = PermitClosed \<Longrightarrow> drop_permit p reg = reg"
  "p_kind p = PermitProbe \<Longrightarrow> \<not> p_settled p \<Longrightarrow>
     drop_permit p reg = release_probe (p_target p) (p_generation p) reg"
  by (simp_all add: drop_permit_def)

lemma permit_fields [simp]:
  "p_target (closed_permit t g) = t" "p_generation (closed_permit t g) = g"
  "p_kind (closed_permit t g) = PermitClosed" "\<not> p_settled (closed_permit t g)"
  "p_target (probe_permit t g) = t" "p_generation (probe_permit t g) = g"
  "p_kind (probe_permit t g) = PermitProbe" "\<not> p_settled (probe_permit t g)"
  by (simp_all add: closed_permit_def probe_permit_def)

text \<open>Every operation touches its own target only.\<close>

lemma admit_other: "admit cfg n1 n2 t reg = (a, reg', evs) \<Longrightarrow> u \<noteq> t \<Longrightarrow> reg' u = reg u"
  by (auto simp: admit_def Let_def start_probe_def split: circuit_phase.splits bool.splits if_splits)

lemma complete_other: "complete cfg now t g k out reg = (reg', evs) \<Longrightarrow> u \<noteq> t \<Longrightarrow> reg' u = reg u"
  by (auto simp: complete_def split: option.splits prod.splits if_splits)

lemma release_probe_other: "u \<noteq> t \<Longrightarrow> release_probe t g reg u = reg u"
  by (auto simp: release_probe_def split: option.splits circuit_phase.splits)

lemma admit_dom: "admit cfg n1 n2 t reg = (a, reg', evs) \<Longrightarrow> dom reg' = insert t (dom reg)"
  by (auto simp: admit_def Let_def start_probe_def
        split: circuit_phase.splits bool.splits if_splits)

section \<open>Well-formedness\<close>

text \<open>A closed circuit holds fewer failures than the threshold: it opens when the last one arrives.\<close>

definition circuit_wf :: "circuit_config \<Rightarrow> circuit_state \<Rightarrow> bool" where
  "circuit_wf cfg st = (case phase st of Closed n \<Rightarrow> n < threshold cfg | _ \<Rightarrow> True)"

definition registry_wf :: "circuit_config \<Rightarrow> registry \<Rightarrow> bool" where
  "registry_wf cfg reg \<longleftrightarrow> (\<forall>t st. reg t = Some st \<longrightarrow> circuit_wf cfg st)"

definition config_wf :: "circuit_config \<Rightarrow> bool" where
  "config_wf cfg \<longleftrightarrow> 1 \<le> threshold cfg \<and> threshold cfg \<le> u32_max"

lemma circuit_config_of_wf: "n \<le> u32_max \<Longrightarrow> config_wf (circuit_config_of n c)"
  by (simp add: config_wf_def circuit_config_of_def)

lemma registry_wf_update:
  "registry_wf cfg reg \<Longrightarrow> circuit_wf cfg st \<Longrightarrow> registry_wf cfg (reg(t \<mapsto> st))"
  by (auto simp: registry_wf_def)

lemma entry_wf:
  "config_wf cfg \<Longrightarrow> registry_wf cfg reg \<Longrightarrow> circuit_wf cfg (entry_or_default reg t)"
  by (auto simp: entry_or_default_def registry_wf_def circuit_default_def circuit_wf_def
        config_wf_def split: option.splits)

lemma admit_wf:
  assumes "config_wf cfg" "registry_wf cfg reg" "admit cfg n1 n2 t reg = (a, reg', evs)"
  shows "registry_wf cfg reg'"
proof -
  have e: "circuit_wf cfg (entry_or_default reg t)" using assms by (simp add: entry_wf)
  have h: "circuit_wf cfg \<lparr>generation = g, phase = HalfOpen b\<rparr>" for g b
    by (simp add: circuit_wf_def)
  from assms(2,3) e h show ?thesis
    by (auto simp: admit_def Let_def start_probe_def
          split: circuit_phase.splits bool.splits if_splits intro!: registry_wf_update)
qed

lemma complete_state_wf:
  assumes "config_wf cfg" "circuit_wf cfg st"
  shows "circuit_wf cfg (fst (complete_state cfg now t k out st))"
  using assms
  by (cases k; cases out; cases "phase st")
     (auto simp: complete_state_def circuit_wf_def config_wf_def set_open_def close_circuit_def
        Let_def)

lemma complete_wf:
  assumes "config_wf cfg" "registry_wf cfg reg" "complete cfg now t g k out reg = (reg', evs)"
  shows "registry_wf cfg reg'"
proof (cases "reg t")
  case (Some st)
  with assms(2) have "circuit_wf cfg st" by (auto simp: registry_wf_def)
  with assms Some show ?thesis
    by (cases "generation st = g")
       (auto simp: circuit_simps intro!: registry_wf_update complete_state_wf)
qed (use assms in \<open>simp add: circuit_simps\<close>)

lemma release_probe_wf: "registry_wf cfg reg \<Longrightarrow> registry_wf cfg (release_probe t g reg)"
  by (auto simp: release_probe_def circuit_wf_def
        split: option.splits circuit_phase.splits intro!: registry_wf_update)

section \<open>The failure counter against a history\<close>

text \<open>
  The completions of normal hops against one closed circuit, in completion order, each at a time
  and with the permit of the circuit's current generation. The specification looks at the outcomes
  only: the circuit opens at the first point where the last \<open>threshold\<close> countable outcomes were all
  transient failures (a success resets the run, a permanent error neither extends nor breaks it).
\<close>

fun run_closed ::
    "circuit_config \<Rightarrow> string \<Rightarrow> circuit_state \<Rightarrow> (nat \<times> completion_outcome) list \<Rightarrow> circuit_state" where
  "run_closed cfg t st [] = st"
| "run_closed cfg t st ((now, out) # rest) =
     run_closed cfg t (fst (complete_state cfg now t PermitClosed out st)) rest"

fun spec_failures :: "nat \<Rightarrow> nat \<Rightarrow> completion_outcome list \<Rightarrow> nat option" where
  "spec_failures thr n [] = Some n"
| "spec_failures thr n (Success # os) = spec_failures thr 0 os"
| "spec_failures thr n (Permanent # os) = spec_failures thr n os"
| "spec_failures thr n (TransientFailure # os) =
     (if thr \<le> Suc n then None else spec_failures thr (Suc n) os)"

lemma run_open: "phase st = Open u \<Longrightarrow> run_closed cfg t st os = st"
  by (induction cfg t st os rule: run_closed.induct) (auto simp: circuit_simps)

lemma run_closed_spec:
  assumes "config_wf cfg" "phase st = Closed n" "n < threshold cfg"
  shows "case spec_failures (threshold cfg) n (map snd os) of
           Some m \<Rightarrow> run_closed cfg t st os = st\<lparr>phase := Closed m\<rparr> \<and> m < threshold cfg
         | None \<Rightarrow> \<exists>now \<in> fst ` set os. run_closed cfg t st os =
             \<lparr>generation = generation st + 1, phase = Open (now + cooldown cfg)\<rparr>"
  using assms(2,3)
proof (induction os arbitrary: st n)
  case Nil
  then show ?case by simp
next
  case (Cons x os)
  obtain now out where x: "x = (now, out)" by force
  have sat: "sat_add u32_max n 1 = Suc n"
    using assms(1) Cons.prems(2) by (simp add: config_wf_def sat_add_def)
  show ?case
  proof (cases out)
    case Success
    have "phase (st\<lparr>phase := Closed 0\<rparr>) = Closed 0" "0 < threshold cfg"
      using assms(1) by (auto simp: config_wf_def)
    from Cons.IH [OF this] Cons.prems show ?thesis
      by (auto simp: x Success circuit_simps split: option.splits)
  next
    case Permanent
    from Cons.IH [OF Cons.prems] Cons.prems show ?thesis
      by (auto simp: x Permanent circuit_simps split: option.splits)
  next
    case TransientFailure
    show ?thesis
    proof (cases "threshold cfg \<le> Suc n")
      case True
      then show ?thesis using Cons.prems sat
        by (simp add: x TransientFailure circuit_simps set_open_def run_open)
    next
      case False
      then have "phase (st\<lparr>phase := Closed (Suc n)\<rparr>) = Closed (Suc n)" "Suc n < threshold cfg"
        by auto
      from Cons.IH [OF this] False Cons.prems sat show ?thesis
        by (auto simp: x TransientFailure circuit_simps split: option.splits)
    qed
  qed
qed

text \<open>What the specification says in closed form: \<open>k\<close> failures in a row.\<close>

lemma spec_failures_run:
  "k + n < thr \<Longrightarrow> spec_failures thr n (replicate k TransientFailure) = Some (k + n)"
  by (induction k arbitrary: n) auto

lemma spec_failures_opens:
  "thr \<le> k + n \<Longrightarrow> 0 < k \<Longrightarrow> spec_failures thr n (replicate k TransientFailure) = None"
  by (induction k arbitrary: n) auto

lemma spec_failures_None_needs_run:
  assumes "spec_failures thr n os = None" "n < thr"
  shows "thr - n \<le> count_list os TransientFailure"
  using assms
proof (induction thr n os rule: spec_failures.induct)
  case (2 thr n os)
  then show ?case by auto
next
  case (4 thr n os)
  then show ?case by (cases "thr \<le> Suc n") auto
qed auto

end
