(* ===== verification/Circuit_System.thy ===== *)
theory Circuit_System
  imports Circuit_Lemmas
begin

text \<open>
  The registry under concurrent requests. A state holds the shared map, the permits that are
  outstanding (each request owns at most one per hop), the clock, and two ghosts: how often each
  target's generation has advanced (an unbounded count of the \<open>u64\<close> that wraps), and for every
  outstanding permit that count at its admission. A step is one lock acquisition by some request:
  an admission, a completion that consumes a permit, or the drop of an unsettled permit (a cancelled
  or expired request).
\<close>

record circuit_sys =
  s_reg :: registry
  s_permits :: "(circuit_permit \<times> nat) list"
  s_clock :: nat
  s_advances :: "string \<Rightarrow> nat"

definition sys_init :: circuit_sys where
  "sys_init = \<lparr>s_reg = Map.empty, s_permits = [], s_clock = 0, s_advances = (\<lambda>_. 0)\<rparr>"

definition gen_of :: "registry \<Rightarrow> string \<Rightarrow> 64 word" where
  "gen_of reg t = generation (entry_or_default reg t)"

text \<open>The ghost count advances exactly when the operation changed the target's generation.\<close>

definition note_advance :: "registry \<Rightarrow> registry \<Rightarrow> string \<Rightarrow> (string \<Rightarrow> nat) \<Rightarrow> string \<Rightarrow> nat" where
  "note_advance reg reg' t adv =
     (if gen_of reg' t = gen_of reg t then adv else adv(t := Suc (adv t)))"

definition granted :: "circuit_admission \<Rightarrow> circuit_permit list" where
  "granted a = (case a of Allow p \<Rightarrow> [p] | Probe p \<Rightarrow> [p] | Reject _ \<Rightarrow> [])"

definition remove_at :: "nat \<Rightarrow> 'a list \<Rightarrow> 'a list" where
  "remove_at i xs = take i xs @ drop (Suc i) xs"

datatype circuit_event =
    EAdmit string nat circuit_admission
  | ESettle nat completion_outcome nat
  | EDrop nat

inductive circuit_step :: "circuit_config \<Rightarrow> circuit_sys \<Rightarrow> circuit_event \<Rightarrow> circuit_sys \<Rightarrow> bool"
  for cfg where
  step_admit:
    "s_clock s \<le> n1 \<Longrightarrow> n1 \<le> n2 \<Longrightarrow>
     admit cfg n1 n2 t (s_reg s) = (a, reg', evs) \<Longrightarrow>
     adv' = note_advance (s_reg s) reg' t (s_advances s) \<Longrightarrow>
     circuit_step cfg s (EAdmit t n1 a)
       \<lparr>s_reg = reg', s_permits = s_permits s @ map (\<lambda>p. (p, adv' t)) (granted a),
        s_clock = n2, s_advances = adv'\<rparr>"
| step_settle:
    "i < length (s_permits s) \<Longrightarrow> s_permits s ! i = (p, k) \<Longrightarrow> s_clock s \<le> n \<Longrightarrow>
     consume cfg n p out (s_reg s) = (reg', evs) \<Longrightarrow>
     circuit_step cfg s (ESettle i out n)
       \<lparr>s_reg = reg', s_permits = remove_at i (s_permits s), s_clock = n,
        s_advances = note_advance (s_reg s) reg' (p_target p) (s_advances s)\<rparr>"
| step_drop:
    "i < length (s_permits s) \<Longrightarrow> s_permits s ! i = (p, k) \<Longrightarrow>
     circuit_step cfg s (EDrop i)
       \<lparr>s_reg = drop_permit p (s_reg s), s_permits = remove_at i (s_permits s),
        s_clock = s_clock s, s_advances = s_advances s\<rparr>"

inductive circuit_reach :: "circuit_config \<Rightarrow> circuit_sys \<Rightarrow> circuit_event list \<Rightarrow> circuit_sys \<Rightarrow> bool"
  for cfg where
  reach_refl: "circuit_reach cfg s [] s"
| reach_step: "circuit_reach cfg s es s' \<Longrightarrow> circuit_step cfg s' e s'' \<Longrightarrow>
               circuit_reach cfg s (es @ [e]) s''"

inductive_cases admit_stepE: "circuit_step cfg s (EAdmit t n a) s'"
inductive_cases settle_stepE: "circuit_step cfg s (ESettle i out n) s'"
inductive_cases drop_stepE: "circuit_step cfg s (EDrop i) s'"

lemma reach_invariant:
  assumes "circuit_reach cfg s es s'" "I s"
    and "\<And>a e b. circuit_step cfg a e b \<Longrightarrow> I a \<Longrightarrow> I b"
  shows "I s'"
  using assms by (induction rule: circuit_reach.induct) blast+

section \<open>Permits in the list\<close>

definition probes_for :: "string \<Rightarrow> (circuit_permit \<times> nat) list \<Rightarrow> (circuit_permit \<times> nat) list" where
  "probes_for t ps = filter (\<lambda>(p, k). p_kind p = PermitProbe \<and> p_target p = t) ps"

lemma probes_for_append [simp]: "probes_for t (a @ b) = probes_for t a @ probes_for t b"
  by (simp add: probes_for_def)

lemma set_remove_at: "set (remove_at i xs) \<subseteq> set xs"
  by (auto simp: remove_at_def dest: in_set_takeD in_set_dropD)

lemma split_at_nth: "i < length xs \<Longrightarrow> xs = take i xs @ xs ! i # drop (Suc i) xs"
  by (simp add: id_take_nth_drop)

lemma probes_for_split:
  assumes "i < length ps" "ps ! i = (p, k)"
  shows "probes_for t ps = probes_for t (take i ps)
           @ (if p_kind p = PermitProbe \<and> p_target p = t then [(p, k)] else [])
           @ probes_for t (drop (Suc i) ps)"
  by (subst split_at_nth [OF assms(1)]) (simp add: probes_for_def assms(2))

lemma probes_for_remove_at:
  "probes_for t (remove_at i ps) = probes_for t (take i ps) @ probes_for t (drop (Suc i) ps)"
  by (simp add: remove_at_def)

section \<open>The single-flight invariant\<close>

text \<open>
  For every target: while its circuit is half-open with \<open>in_flight\<close>, exactly one probe permit for it
  is outstanding and that permit carries the circuit's generation; in every other phase no probe
  permit for it is outstanding. No permit in the list is settled.
\<close>

definition probe_inv :: "registry \<Rightarrow> string \<Rightarrow> (circuit_permit \<times> nat) list \<Rightarrow> bool" where
  "probe_inv reg t ps =
     (case reg t of
        Some st \<Rightarrow>
          (if phase st = HalfOpen True
           then (\<exists>p k. probes_for t ps = [(p, k)] \<and> p_generation p = generation st)
           else probes_for t ps = [])
      | None \<Rightarrow> probes_for t ps = [])"

definition sys_inv :: "circuit_sys \<Rightarrow> bool" where
  "sys_inv s \<longleftrightarrow> (\<forall>t. probe_inv (s_reg s) t (s_permits s))
     \<and> (\<forall>(p, k) \<in> set (s_permits s). \<not> p_settled p)"

lemma sys_inv_init: "sys_inv sys_init"
  by (simp add: sys_inv_def sys_init_def probe_inv_def probes_for_def)

lemma probe_inv_cong:
  "reg' t = reg t \<Longrightarrow> probes_for t ps' = probes_for t ps \<Longrightarrow> probe_inv reg t ps \<Longrightarrow> probe_inv reg' t ps'"
  unfolding probe_inv_def by (cases "reg t") (auto split: if_splits)

lemma probe_inv_entry:
  "probe_inv reg t ps \<Longrightarrow> probe_inv (reg(t \<mapsto> entry_or_default reg t)) t ps"
  by (auto simp: probe_inv_def entry_or_default_def circuit_default_def split: option.splits)

lemma granted_target:
  "admit cfg n1 n2 t reg = (a, reg', evs) \<Longrightarrow> p \<in> set (granted a) \<Longrightarrow> p_target p = t \<and> \<not> p_settled p"
  by (auto simp: admit_def granted_def Let_def start_probe_def
        split: circuit_phase.splits bool.splits if_splits)

lemma admit_probe_inv:
  assumes "probe_inv reg t ps" "admit cfg n1 n2 t reg = (a, reg', evs)"
  shows "probe_inv reg' t (ps @ map (\<lambda>p. (p, k)) (granted a))"
proof (cases "phase (entry_or_default reg t)")
  case (Closed n)
  with assms probe_inv_entry [OF assms(1)] show ?thesis
    by (auto simp: circuit_simps granted_def probe_inv_def probes_for_def)
next
  case (Open u)
  then have none: "probes_for t ps = []"
    using assms(1)
    by (auto simp: probe_inv_def entry_or_default_def circuit_default_def split: option.splits)
  show ?thesis
  proof (cases "n1 < u")
    case True
    with Open assms probe_inv_entry [OF assms(1)] show ?thesis
      by (auto simp: circuit_simps granted_def)
  next
    case False
    with Open assms none show ?thesis
      by (auto simp: circuit_simps granted_def probe_inv_def)
         (simp_all add: probes_for_def)
  qed
next
  case (HalfOpen b)
  show ?thesis
  proof (cases b)
    case True
    with HalfOpen assms probe_inv_entry [OF assms(1)] show ?thesis
      by (auto simp: circuit_simps granted_def)
  next
    case False
    with HalfOpen have none: "probes_for t ps = []"
      using assms(1)
      by (auto simp: probe_inv_def entry_or_default_def circuit_default_def split: option.splits)
    from HalfOpen False assms none show ?thesis
      by (auto simp: circuit_simps granted_def probe_inv_def)
         (simp_all add: probes_for_def)
  qed
qed

text \<open>A probe permit that is outstanding owns the half-open circuit of its target.\<close>

lemma probe_owner:
  assumes "probe_inv reg (p_target p) ps" "i < length ps" "ps ! i = (p, k)"
    "p_kind p = PermitProbe"
  obtains st where "reg (p_target p) = Some st" "phase st = HalfOpen True"
    "generation st = p_generation p" "probes_for (p_target p) (remove_at i ps) = []"
proof -
  have split: "probes_for (p_target p) ps =
      probes_for (p_target p) (take i ps) @ [(p, k)] @ probes_for (p_target p) (drop (Suc i) ps)"
    using probes_for_split [OF assms(2,3)] assms(4) by simp
  with assms(1) obtain st where st: "reg (p_target p) = Some st" "phase st = HalfOpen True"
    by (auto simp: probe_inv_def split: option.splits if_splits)
  with assms(1) obtain q m where one: "probes_for (p_target p) ps = [(q, m)]"
      "p_generation q = generation st"
    by (auto simp: probe_inv_def)
  from one(1) split have "probes_for (p_target p) (take i ps) = []"
      "probes_for (p_target p) (drop (Suc i) ps) = []" "q = p"
    by (auto simp: append_eq_Cons_conv)
  then show thesis
    using that st one by (simp add: probes_for_remove_at)
qed

lemma consume_probe_inv:
  assumes "probe_inv reg (p_target p) ps" "i < length ps" "ps ! i = (p, k)" "\<not> p_settled p"
    "consume cfg n p out reg = (reg', evs)"
  shows "probe_inv reg' (p_target p) (remove_at i ps)"
proof (cases "p_kind p")
  case PermitProbe
  from assms(1-3) PermitProbe obtain st where st: "reg (p_target p) = Some st"
    "phase st = HalfOpen True" "generation st = p_generation p"
    "probes_for (p_target p) (remove_at i ps) = []" by (rule probe_owner)
  with assms(4,5) PermitProbe show ?thesis
    by (cases out) (auto simp: circuit_simps probe_inv_def close_circuit_def set_open_def)
next
  case PermitClosed
  have same: "probes_for (p_target p) (remove_at i ps) = probes_for (p_target p) ps"
    using probes_for_split [OF assms(2,3), of "p_target p"] PermitClosed
    by (simp add: probes_for_remove_at)
  show ?thesis
  proof (cases "reg (p_target p)")
    case None
    with assms(1,4,5) same show ?thesis by (auto simp: circuit_simps probe_inv_def)
  next
    case (Some st)
    then show ?thesis
      using assms(1,4,5) same PermitClosed
      by (cases "generation st = p_generation p"; cases out; cases "phase st")
         (auto simp: circuit_simps probe_inv_def complete_state_def set_open_def Let_def
            split: if_splits)
  qed
qed

lemma drop_probe_inv:
  assumes "probe_inv reg (p_target p) ps" "i < length ps" "ps ! i = (p, k)" "\<not> p_settled p"
  shows "probe_inv (drop_permit p reg) (p_target p) (remove_at i ps)"
proof (cases "p_kind p")
  case PermitProbe
  from assms(1-3) PermitProbe obtain st where st: "reg (p_target p) = Some st"
    "phase st = HalfOpen True" "generation st = p_generation p"
    "probes_for (p_target p) (remove_at i ps) = []" by (rule probe_owner)
  with assms(4) PermitProbe show ?thesis
    by (auto simp: circuit_simps probe_inv_def)
next
  case PermitClosed
  have "probes_for (p_target p) (remove_at i ps) = probes_for (p_target p) ps"
    using probes_for_split [OF assms(2,3), of "p_target p"] PermitClosed
    by (simp add: probes_for_remove_at)
  with assms(1) PermitClosed show ?thesis
    by (auto simp: circuit_simps intro: probe_inv_cong)
qed

lemma probes_other:
  assumes "i < length ps" "ps ! i = (p, k)" "t \<noteq> p_target p"
  shows "probes_for t (remove_at i ps) = probes_for t ps"
  using probes_for_split [OF assms(1,2), of t] assms(3) by (simp add: probes_for_remove_at)

lemma drop_permit_other: "t \<noteq> p_target p \<Longrightarrow> drop_permit p reg t = reg t"
  by (simp add: drop_permit_def release_probe_other)

lemma consume_other:
  "consume cfg n p out reg = (reg', evs) \<Longrightarrow> t \<noteq> p_target p \<Longrightarrow> reg' t = reg t"
  by (auto simp: consume_def settle_def drop_permit_other dest: complete_other
        split: if_splits prod.splits)

lemma permit_unsettled:
  "sys_inv s \<Longrightarrow> i < length (s_permits s) \<Longrightarrow> s_permits s ! i = (p, k) \<Longrightarrow> \<not> p_settled p"
  unfolding sys_inv_def by (metis (mono_tags, lifting) case_prodD nth_mem)

lemma circuit_step_inv: "circuit_step cfg s e s' \<Longrightarrow> sys_inv s \<Longrightarrow> sys_inv s'"
proof (induction rule: circuit_step.induct)
  case (step_admit s n1 n2 t a reg' evs adv')
  have "probe_inv reg' u (s_permits s @ map (\<lambda>p. (p, adv' t)) (granted a))" for u
  proof (cases "u = t")
    case True
    with step_admit show ?thesis by (auto simp: sys_inv_def intro: admit_probe_inv)
  next
    case False
    then have "probes_for u (map (\<lambda>p. (p, adv' t)) (granted a)) = []"
      using granted_target [OF step_admit(3)] by (auto simp: probes_for_def filter_empty_conv)
    with False step_admit show ?thesis
      by (auto simp: sys_inv_def admit_other intro: probe_inv_cong)
  qed
  with step_admit granted_target [OF step_admit(3)] show ?case
    by (fastforce simp: sys_inv_def)
next
  case (step_settle i s p k n out reg' evs)
  then have "\<not> p_settled p" by (metis permit_unsettled)
  have "probe_inv reg' u (remove_at i (s_permits s))" for u
  proof (cases "u = p_target p")
    case True
    with step_settle \<open>\<not> p_settled p\<close> show ?thesis
      by (auto simp: sys_inv_def intro: consume_probe_inv)
  next
    case False
    with step_settle show ?thesis
      by (auto simp: sys_inv_def intro: probe_inv_cong [OF consume_other probes_other])
  qed
  with step_settle set_remove_at [of i "s_permits s"] show ?case
    by (fastforce simp: sys_inv_def)
next
  case (step_drop i s p k)
  then have "\<not> p_settled p" by (metis permit_unsettled)
  have "probe_inv (drop_permit p (s_reg s)) u (remove_at i (s_permits s))" for u
  proof (cases "u = p_target p")
    case True
    with step_drop \<open>\<not> p_settled p\<close> show ?thesis
      by (auto simp: sys_inv_def intro: drop_probe_inv)
  next
    case False
    with step_drop show ?thesis
      by (auto simp: sys_inv_def intro: probe_inv_cong [OF drop_permit_other probes_other])
  qed
  with step_drop set_remove_at [of i "s_permits s"] show ?case
    by (fastforce simp: sys_inv_def)
qed

lemma reach_inv: "circuit_reach cfg sys_init es s \<Longrightarrow> sys_inv s"
  by (rule reach_invariant [where I = sys_inv]) (auto intro: circuit_step_inv sys_inv_init)


section \<open>Generations and stale permits\<close>

definition adv_inv :: "circuit_sys \<Rightarrow> bool" where
  "adv_inv s \<longleftrightarrow> (\<forall>t. gen_of (s_reg s) t = of_nat (s_advances s t))
     \<and> (\<forall>(p, k) \<in> set (s_permits s).
          p_generation p = of_nat k \<and> k \<le> s_advances s (p_target p))"

lemma adv_inv_init: "adv_inv sys_init"
  by (simp add: adv_inv_def sys_init_def gen_of_def entry_or_default_def circuit_default_def)

text \<open>An operation leaves the generation alone or advances it by one.\<close>

lemma admit_gen:
  "admit cfg n1 n2 t reg = (a, reg', evs) \<Longrightarrow>
   gen_of reg' t = gen_of reg t \<or> gen_of reg' t = gen_of reg t + 1"
  by (auto simp: admit_def Let_def start_probe_def gen_of_def entry_or_default_def
        split: circuit_phase.splits bool.splits if_splits)

lemma complete_gen:
  "complete cfg now t g k out reg = (reg', evs) \<Longrightarrow>
   gen_of reg' t = gen_of reg t \<or> gen_of reg' t = gen_of reg t + 1"
proof (cases "reg t")
  case (Some st)
  assume "complete cfg now t g k out reg = (reg', evs)"
  with Some show ?thesis
    by (cases "generation st = g"; cases k; cases out; cases "phase st")
       (auto simp: circuit_simps complete_state_def set_open_def close_circuit_def Let_def
          gen_of_def entry_or_default_def split: if_splits)
qed (auto simp: circuit_simps)

lemma consume_gen:
  assumes "consume cfg n p out reg = (reg', evs)" "\<not> p_settled p"
  shows "gen_of reg' (p_target p) = gen_of reg (p_target p)
       \<or> gen_of reg' (p_target p) = gen_of reg (p_target p) + 1"
  using assms by (auto simp: circuit_simps dest: complete_gen)

lemma drop_gen: "gen_of (drop_permit p reg) t = gen_of reg t"
  by (auto simp: drop_permit_def release_probe_def gen_of_def entry_or_default_def
        split: option.splits circuit_phase.splits)

lemma gen_of_other: "reg' t = reg t \<Longrightarrow> gen_of reg' t = gen_of reg t"
  by (simp add: gen_of_def entry_or_default_def)

lemma note_advance_gen:
  assumes "gen_of reg' t = gen_of reg t \<or> gen_of reg' t = gen_of reg t + 1"
    "gen_of reg t = of_nat (adv t)"
  shows "gen_of reg' t = of_nat (note_advance reg reg' t adv t)"
  using assms by (auto simp: note_advance_def)

lemma note_advance_mono: "adv u \<le> note_advance reg reg' t adv u"
  by (simp add: note_advance_def)

lemma note_advance_other: "u \<noteq> t \<Longrightarrow> note_advance reg reg' t adv u = adv u"
  by (simp add: note_advance_def)

lemma gens_after:
  assumes "\<And>u. gen_of reg u = of_nat (adv u)" "\<And>u. u \<noteq> t \<Longrightarrow> reg' u = reg u"
    "gen_of reg' t = gen_of reg t \<or> gen_of reg' t = gen_of reg t + 1"
  shows "gen_of reg' u = of_nat (note_advance reg reg' t adv u)"
proof (cases "u = t")
  case True
  with note_advance_gen [OF assms(3)] assms(1) show ?thesis by simp
next
  case False
  with assms(1) show ?thesis
    by (simp add: note_advance_other gen_of_other [of reg' u reg, OF assms(2) [OF False]])
qed

lemma granted_gen:
  assumes "admit cfg n1 n2 t reg = (a, reg', evs)" "p \<in> set (granted a)"
  shows "p_generation p = gen_of reg' t"
proof (cases "phase (entry_or_default reg t)")
  case (Closed n)
  with assms show ?thesis
    by (auto simp: admit_closed granted_def gen_of_def entry_or_default_simps)
next
  case (Open u)
  with assms show ?thesis
    by (cases "n1 < u")
       (auto simp: admit_open_early admit_open_late granted_def gen_of_def entry_or_default_simps)
next
  case (HalfOpen b)
  with assms show ?thesis
    by (cases b)
       (auto simp: admit_half_open_busy admit_half_open_free granted_def gen_of_def
          entry_or_default_simps)
qed

lemma circuit_step_adv_inv: "circuit_step cfg s e s' \<Longrightarrow> sys_inv s \<Longrightarrow> adv_inv s \<Longrightarrow> adv_inv s'"
proof (induction rule: circuit_step.induct)
  case (step_admit s n1 n2 t a reg' evs adv')
  have gens: "gen_of reg' u = of_nat (adv' u)" for u
    unfolding step_admit(4)
  proof (rule gens_after)
    show "gen_of (s_reg s) v = of_nat (s_advances s v)" for v
      using step_admit(6) by (simp add: adv_inv_def)
  qed (use step_admit(3) in \<open>auto simp: admit_other dest: admit_gen\<close>)
  have old: "k \<le> adv' (p_target p)" if "k \<le> s_advances s (p_target p)" for p k
    by (rule order_trans [OF that]) (simp add: step_admit(4) note_advance_mono)
  have new: "p_generation p = of_nat (adv' t) \<and> adv' t \<le> adv' (p_target p)"
    if "p \<in> set (granted a)" for p
    using granted_gen [OF step_admit(3) that] granted_target [OF step_admit(3) that] gens by simp
  from step_admit(6) old
  have "\<forall>(p, k) \<in> set (s_permits s). p_generation p = of_nat k \<and> k \<le> adv' (p_target p)"
    unfolding adv_inv_def by blast
  with gens new show ?case
    by (auto simp: adv_inv_def)
next
  case (step_settle i s p k n out reg' evs)
  then have ns: "\<not> p_settled p" by (metis permit_unsettled)
  let ?adv = "note_advance (s_reg s) reg' (p_target p) (s_advances s)"
  have gens: "gen_of reg' u = of_nat (?adv u)" for u
  proof (rule gens_after)
    show "gen_of (s_reg s) v = of_nat (s_advances s v)" for v
      using step_settle(6) by (simp add: adv_inv_def)
  qed (use step_settle(4) ns in \<open>auto simp: consume_other dest: consume_gen\<close>)
  have old: "m \<le> ?adv (p_target q)" if "m \<le> s_advances s (p_target q)" for q m
    by (rule order_trans [OF that]) (rule note_advance_mono)
  from step_settle(6) old
  have "\<forall>(p, k) \<in> set (s_permits s). p_generation p = of_nat k \<and> k \<le> ?adv (p_target p)"
    unfolding adv_inv_def by blast
  with gens set_remove_at [of i "s_permits s"] show ?case
    by (auto simp: adv_inv_def)
next
  case (step_drop i s p k)
  with set_remove_at [of i "s_permits s"] show ?case
    by (fastforce simp: adv_inv_def drop_gen)
qed

lemma reach_adv_inv: "circuit_reach cfg sys_init es s \<Longrightarrow> sys_inv s \<and> adv_inv s"
  by (rule reach_invariant [where I = "\<lambda>s. sys_inv s \<and> adv_inv s"])
     (auto intro: circuit_step_inv circuit_step_adv_inv sys_inv_init adv_inv_init)

lemma of_nat_word64_neq:
  assumes "a < b" "b - a < 2 ^ 64" shows "(of_nat a :: 64 word) \<noteq> of_nat b"
proof
  assume "(of_nat a :: 64 word) = of_nat b"
  then have "take_bit 64 a = take_bit 64 b"
    by (simp add: word_of_nat_eq_iff)
  then have "a mod 2 ^ 64 = b mod 2 ^ 64"
    by (simp only: take_bit_eq_mod)
  with assms(1) have "2 ^ 64 dvd b - a"
    by (metis less_imp_le_nat mod_eq_dvd_iff_nat)
  with assms show False by (auto dest: dvd_imp_le)
qed

text \<open>Opening lasts: no operation but an admission at or after \<open>opened_until\<close> moves an open circuit.\<close>

lemma open_stays:
  assumes "circuit_step cfg s e s'" "s_reg s t = Some st" "phase st = Open u"
    "\<forall>n a. e = EAdmit t n a \<longrightarrow> n < u" "sys_inv s"
  shows "s_reg s' t = Some st"
  using assms
proof (induction rule: circuit_step.induct)
  case (step_admit s n1 n2 v a reg' evs adv')
  show ?case
  proof (cases "v = t")
    case True
    with step_admit(5,6) have "phase (entry_or_default (s_reg s) v) = Open u"
      "entry_or_default (s_reg s) v = st" by (simp_all add: entry_or_default_simps)
    moreover from True step_admit(7) have "n1 < u" by simp
    ultimately show ?thesis using step_admit(3) True by (auto simp: admit_open_early)
  next
    case False
    with step_admit(3,5) show ?thesis by (simp add: admit_other)
  qed
next
  case (step_settle i s p k n out reg' evs)
  then have "\<not> p_settled p" by (metis permit_unsettled)
  note step = step_settle(4) step_settle(5,6)
  show ?case
  proof (cases "p_target p = t")
    case True
    with step \<open>\<not> p_settled p\<close> show ?thesis
      by (cases "generation st = p_generation p") (auto simp: circuit_simps)
  next
    case False
    with step show ?thesis by (simp add: consume_other)
  qed
next
  case (step_drop i s p k)
  show ?case
  proof (cases "p_target p = t")
    case True
    with step_drop show ?thesis by (auto simp: drop_permit_def release_probe_def)
  next
    case False
    with step_drop show ?thesis by (simp add: drop_permit_other)
  qed
qed

lemma step_clock_mono: "circuit_step cfg s e s' \<Longrightarrow> s_clock s \<le> s_clock s'"
  by (induction rule: circuit_step.induct) auto


text \<open>
  From an open circuit on: either it is still open and every admission of the target was refused, or
  the clock has reached \<open>opened_until\<close>; and a granted admission was never earlier than that.
\<close>

lemma open_until_granted:
  assumes "circuit_reach cfg s es s'" "s_reg s t = Some st" "phase st = Open u" "sys_inv s"
  shows "((s_reg s' t = Some st \<or> u \<le> s_clock s') \<and> sys_inv s')
    \<and> (\<forall>n a. EAdmit t n a \<in> set es \<longrightarrow> granted a \<noteq> [] \<longrightarrow> u \<le> n)"
  using assms
proof (induction rule: circuit_reach.induct)
  case (reach_refl s)
  then show ?case by simp
next
  case (reach_step s es s' e s'')
  then have IH: "s_reg s' t = Some st \<or> u \<le> s_clock s'" "sys_inv s'"
    "\<forall>n a. EAdmit t n a \<in> set es \<longrightarrow> granted a \<noteq> [] \<longrightarrow> u \<le> n" by auto
  have inv: "sys_inv s''" using reach_step(2) IH(2) by (rule circuit_step_inv)
  have last: "u \<le> n" if e: "e = EAdmit t n a" "granted a \<noteq> []" for n a
  proof (rule ccontr)
    assume "\<not> u \<le> n"
    from reach_step(2) e(1) obtain n2 reg' evs where
      adm: "s_clock s' \<le> n" "admit cfg n n2 t (s_reg s') = (a, reg', evs)"
      by (auto elim: admit_stepE)
    with \<open>\<not> u \<le> n\<close> IH(1) have "s_reg s' t = Some st" by simp
    with adm(2) reach_step.prems(2) \<open>\<not> u \<le> n\<close> e(2) show False
      by (auto simp: admit_open_early entry_or_default_simps granted_def)
  qed
  have next_state: "s_reg s'' t = Some st \<or> u \<le> s_clock s''"
  proof (cases "u \<le> s_clock s'' \<or> u \<le> s_clock s'")
    case True
    then show ?thesis using step_clock_mono [OF reach_step(2)] by auto
  next
    case False
    then have "\<forall>n a. e = EAdmit t n a \<longrightarrow> n < u"
      using reach_step(2) by (auto elim!: admit_stepE)
    with False IH reach_step(2) reach_step.prems(2) show ?thesis
      by (blast intro: open_stays)
  qed
  from inv next_state last IH(3) show ?case by auto
qed

end
