(* ===== verification/Circuit_Properties.thy ===== *)
theory Circuit_Properties
  imports Circuit_System
begin

text \<open>
  The properties of the circuit breaker: single flight of the recovery probe under any interleaving,
  generations that make stale completions harmless, the cooldown, the threshold, and recovery.
\<close>

text \<open>
  C4. Single flight. Under any interleaving of admissions, completions and drops by concurrent
  requests, at most one recovery probe per target is outstanding; one is outstanding exactly while
  the circuit is half-open with \<open>in_flight\<close>, and it carries the circuit's current generation. So a
  circuit never waits for a probe that nobody holds.
\<close>

theorem single_flight_probe:
  assumes "circuit_reach cfg sys_init es s"
  shows "length (probes_for t (s_permits s)) \<le> 1
    \<and> (length (probes_for t (s_permits s)) = 1
         \<longleftrightarrow> (\<exists>st. s_reg s t = Some st \<and> phase st = HalfOpen True))
    \<and> (\<forall>(p, k) \<in> set (probes_for t (s_permits s)). p_generation p = gen_of (s_reg s) t)"
proof -
  have "probe_inv (s_reg s) t (s_permits s)" using reach_inv [OF assms] by (simp add: sys_inv_def)
  then show ?thesis
    by (auto simp: probe_inv_def gen_of_def entry_or_default_def split: option.splits if_splits)
qed

text \<open>
  C26. Stale completions. A permit whose target has changed phase since its admission (opening, probe
  admission or recovery; fewer than \<open>2^64\<close> times, the range of the wrapping generation) cannot move
  the circuit: neither completing it with any outcome nor dropping it changes the registry.
\<close>

theorem stale_permit_is_ignored:
  assumes "circuit_reach cfg sys_init es s" "i < length (s_permits s)" "s_permits s ! i = (p, k)"
    and "k < s_advances s (p_target p)" "s_advances s (p_target p) - k < 2 ^ 64"
  shows "fst (consume cfg now p out (s_reg s)) = s_reg s \<and> drop_permit p (s_reg s) = s_reg s"
proof -
  from reach_adv_inv [OF assms(1)] have inv: "sys_inv s" "adv_inv s" by auto
  have ns: "\<not> p_settled p" using inv(1) assms(2,3) by (metis permit_unsettled)
  have "p_generation p = of_nat k" "gen_of (s_reg s) (p_target p) = of_nat (s_advances s (p_target p))"
    using inv(2) nth_mem [OF assms(2)] assms(3) by (auto simp: adv_inv_def)
  then have ne: "gen_of (s_reg s) (p_target p) \<noteq> p_generation p"
    using of_nat_word64_neq [OF assms(4,5)] by metis
  show ?thesis
  proof (cases "s_reg s (p_target p)")
    case None
    then show ?thesis using ns
      by (cases "p_kind p") (simp_all add: circuit_simps)
  next
    case (Some st)
    with ne have "generation st \<noteq> p_generation p" by (simp add: gen_of_def entry_or_default_simps)
    with Some show ?thesis using ns
      by (cases "p_kind p") (simp_all add: circuit_simps)
  qed
qed

text \<open>
  C27. Cooldown. Once a target's circuit is open until \<open>u\<close>, no admission of that target is granted at
  a clock reading before \<open>u\<close>, whatever the other requests do in between.
\<close>

theorem no_admission_before_cooldown:
  assumes "circuit_reach cfg sys_init es s" "s_reg s t = Some st" "phase st = Open u"
    and "circuit_reach cfg s es' s'" "EAdmit t n a \<in> set es'" "granted a \<noteq> []"
  shows "u \<le> n"
  using open_until_granted [OF assms(4,2,3) reach_inv [OF assms(1)]] assms(5,6) by blast

text \<open>
  C25. Threshold. For completions of normal hops against a closed circuit, in completion order, the
  circuit opens exactly when the specification on the outcome history does (the last
  \<open>circuit_failure_threshold\<close> countable outcomes were transient failures); otherwise it is closed with
  the length of the current run of failures, and opening sets the cooldown from the completion that
  opened it.
\<close>

theorem closed_circuit_counts_consecutive_failures:
  assumes "1 \<le> threshold cfg" "threshold cfg \<le> u32_max" "phase st = Closed n" "n < threshold cfg"
  shows "case spec_failures (threshold cfg) n (map snd os) of
           Some m \<Rightarrow> run_closed cfg t st os = st\<lparr>phase := Closed m\<rparr> \<and> m < threshold cfg
         | None \<Rightarrow> \<exists>now \<in> fst ` set os. run_closed cfg t st os =
             \<lparr>generation = generation st + 1, phase = Open (now + cooldown cfg)\<rparr>"
  by (rule run_closed_spec) (use assms in \<open>simp_all add: config_wf_def\<close>)


section \<open>A concrete run and the witnesses\<close>

text \<open>
  Threshold 1, cooldown 5ns. Two requests are admitted to the target \<open>m\<close> at 1; one fails at 2 and
  opens the circuit until 7, the other permit goes stale; a probe is admitted at 7.
\<close>

abbreviation demo_cfg :: circuit_config where
  "demo_cfg \<equiv> \<lparr>threshold = 1, cooldown = 5\<rparr>"

definition demo1 :: circuit_sys where
  "demo1 = \<lparr>s_reg = [''m'' \<mapsto> circuit_default], s_permits = [(closed_permit ''m'' 0, 0)],
            s_clock = 1, s_advances = (\<lambda>_. 0)\<rparr>"

definition demo2 :: circuit_sys where
  "demo2 = demo1\<lparr>s_permits := [(closed_permit ''m'' 0, 0), (closed_permit ''m'' 0, 0)]\<rparr>"

definition demo3 :: circuit_sys where
  "demo3 = \<lparr>s_reg = [''m'' \<mapsto> \<lparr>generation = 1, phase = Open 7\<rparr>],
            s_permits = [(closed_permit ''m'' 0, 0)],
            s_clock = 2, s_advances = (\<lambda>_. 0)(''m'' := Suc 0)\<rparr>"

definition demo4 :: circuit_sys where
  "demo4 = \<lparr>s_reg = [''m'' \<mapsto> \<lparr>generation = 2, phase = HalfOpen True\<rparr>],
            s_permits = [(closed_permit ''m'' 0, 0), (probe_permit ''m'' 2, Suc (Suc 0))],
            s_clock = 7, s_advances = (\<lambda>_. 0)(''m'' := Suc (Suc 0))\<rparr>"

text \<open>One step as a function, to run the relation on concrete states.\<close>

definition do_admit :: "circuit_config \<Rightarrow> circuit_sys \<Rightarrow> string \<Rightarrow> nat \<Rightarrow> circuit_admission \<times> circuit_sys" where
  "do_admit cfg s t n =
     (case admit cfg n n t (s_reg s) of (a, reg', evs) \<Rightarrow>
        (a, let adv' = note_advance (s_reg s) reg' t (s_advances s) in
            \<lparr>s_reg = reg', s_permits = s_permits s @ map (\<lambda>p. (p, adv' t)) (granted a),
             s_clock = n, s_advances = adv'\<rparr>))"

definition do_settle :: "circuit_config \<Rightarrow> circuit_sys \<Rightarrow> nat \<Rightarrow> completion_outcome \<Rightarrow> nat \<Rightarrow> circuit_sys" where
  "do_settle cfg s i out n =
     (case s_permits s ! i of (p, k) \<Rightarrow> case consume cfg n p out (s_reg s) of (reg', evs) \<Rightarrow>
        \<lparr>s_reg = reg', s_permits = remove_at i (s_permits s), s_clock = n,
         s_advances = note_advance (s_reg s) reg' (p_target p) (s_advances s)\<rparr>)"

lemma do_admit_step:
  "s_clock s \<le> n \<Longrightarrow> do_admit cfg s t n = (a, s') \<Longrightarrow> circuit_step cfg s (EAdmit t n a) s'"
  by (auto simp: do_admit_def Let_def split: prod.splits intro!: step_admit)

lemma do_settle_step:
  "i < length (s_permits s) \<Longrightarrow> s_clock s \<le> n \<Longrightarrow> do_settle cfg s i out n = s' \<Longrightarrow>
   circuit_step cfg s (ESettle i out n) s'"
  by (auto simp: do_settle_def split: prod.splits intro!: step_settle)

lemmas demo_simps =
  sys_init_def demo1_def demo2_def demo3_def demo4_def do_admit_def do_settle_def admit_def
  entry_or_default_def circuit_default_def note_advance_def gen_of_def granted_def start_probe_def
  consume_unsettled complete_def complete_state_def sat_add_def set_open_def remove_at_def

lemma demo_run:
  "do_admit demo_cfg sys_init ''m'' 1 = (Allow (closed_permit ''m'' 0), demo1)"
  "do_admit demo_cfg demo1 ''m'' 1 = (Allow (closed_permit ''m'' 0), demo2)"
  "do_settle demo_cfg demo2 0 TransientFailure 2 = demo3"
  "do_admit demo_cfg demo3 ''m'' 7 = (Probe (probe_permit ''m'' 2), demo4)"
  by (simp_all add: demo_simps)

lemma demo_clocks: "s_clock sys_init = 0" "s_clock demo1 = 1" "s_clock demo2 = 1" "s_clock demo3 = 2"
  by (simp_all add: demo_simps)

lemma demo_step4: "circuit_step demo_cfg demo3 (EAdmit ''m'' 7 (Probe (probe_permit ''m'' 2))) demo4"
  by (rule do_admit_step [OF _ demo_run(4)]) (simp add: demo_clocks)

lemma demo_reach3: "\<exists>es. circuit_reach demo_cfg sys_init es demo3"
proof -
  have "circuit_step demo_cfg sys_init (EAdmit ''m'' 1 (Allow (closed_permit ''m'' 0))) demo1"
    by (rule do_admit_step [OF _ demo_run(1)]) (simp add: demo_clocks)
  moreover have "circuit_step demo_cfg demo1 (EAdmit ''m'' 1 (Allow (closed_permit ''m'' 0))) demo2"
    by (rule do_admit_step [OF _ demo_run(2)]) (simp add: demo_clocks)
  moreover have "circuit_step demo_cfg demo2 (ESettle 0 TransientFailure 2) demo3"
    by (rule do_settle_step [OF _ _ demo_run(3)]) (simp_all add: demo_clocks demo2_def)
  ultimately show ?thesis by (blast intro: reach_refl reach_step)
qed

lemma demo_reach4: "\<exists>es. circuit_reach demo_cfg sys_init es demo4"
  using demo_reach3 demo_step4 by (blast intro: reach_step)

theorem single_flight_probe_witness:
  "length (probes_for ''m'' (s_permits demo4)) = 1
   \<and> list_all (\<lambda>(p, k). p_generation p = 2) (probes_for ''m'' (s_permits demo4))"
proof -
  obtain es where "circuit_reach demo_cfg sys_init es demo4" using demo_reach4 by blast
  from single_flight_probe [OF this, of "''m''"] show ?thesis
    by (simp add: demo4_def gen_of_def entry_or_default_def list_all_iff)
qed

theorem stale_permit_is_ignored_witness:
  "fst (consume demo_cfg 9 (closed_permit ''m'' 0) Success (s_reg demo3)) = s_reg demo3"
proof -
  obtain es where "circuit_reach demo_cfg sys_init es demo3" using demo_reach3 by blast
  from stale_permit_is_ignored [OF this, of 0 "closed_permit ''m'' 0" 0 9 Success]
  show ?thesis by (simp add: demo3_def)
qed

theorem no_admission_before_cooldown_witness:
  "(7 :: nat) \<le> 7 \<and> s_reg demo3 ''m'' = Some \<lparr>generation = 1, phase = Open 7\<rparr>"
proof -
  obtain es where r: "circuit_reach demo_cfg sys_init es demo3" using demo_reach3 by blast
  have run: "circuit_reach demo_cfg demo3 [EAdmit ''m'' 7 (Probe (probe_permit ''m'' 2))] demo4"
    using reach_step [OF reach_refl demo_step4] by simp
  have st: "s_reg demo3 ''m'' = Some \<lparr>generation = 1, phase = Open 7\<rparr>" by (simp add: demo3_def)
  have "(7 :: nat) \<le> 7"
    by (rule no_admission_before_cooldown [OF r st _ run, of 7 7 "Probe (probe_permit ''m'' 2)"])
       (simp_all add: granted_def)
  with st show ?thesis by simp
qed

theorem closed_circuit_counts_consecutive_failures_witness:
  "\<exists>now \<in> {3, 4}. run_closed \<lparr>threshold = 2, cooldown = 5\<rparr> ''m'' circuit_default
      [(3, TransientFailure), (4, TransientFailure)] = \<lparr>generation = 1, phase = Open (now + 5)\<rparr>"
  using closed_circuit_counts_consecutive_failures
    [of "\<lparr>threshold = 2, cooldown = 5\<rparr>" circuit_default 0
        "[(3, TransientFailure), (4, TransientFailure)]" "''m''"]
  by (simp add: circuit_default_def)


end
