(* ===== verification/Http_Error.thy ===== *)
theory Http_Error
  imports Gateway_Prelude
begin

text \<open>
  \<open>core/correlation.rs\<close>, \<open>core/http_error.rs\<close> and \<open>middleware/correlation_id.rs\<close>: the request context,
  the protected-API error envelope and the correlation headers.

  The HTTP library's header map is a map from lower-case names to values. Its two conversions between
  header values and strings are the arguments \<open>hv_to_str\<close> and \<open>hv_from_str\<close>; what the middleware
  relies on is the hypothesis \<open>header_text_laws\<close>: what reads as text can be written back unchanged.
  The JSON body of an error is the record \<open>error_body\<close>, whose fields are the keys of the envelope.
  Log lines are not modelled.
\<close>

section \<open>Request context\<close>

record request_context =
  request_id :: string
  client_correlation_id :: "string option"

definition request_context_new :: "string \<Rightarrow> string option \<Rightarrow> request_context" where
  "request_context_new rid cid = \<lparr>request_id = rid, client_correlation_id = cid\<rparr>"

text \<open>The task-local context: \<open>None\<close> outside a request.\<close>

definition current_request_id :: "request_context option \<Rightarrow> string" where
  "current_request_id ctx = (case ctx of None \<Rightarrow> [] | Some c \<Rightarrow> request_id c)"

definition current_client_correlation_id :: "request_context option \<Rightarrow> string option" where
  "current_client_correlation_id ctx =
     (case ctx of None \<Rightarrow> None | Some c \<Rightarrow> client_correlation_id c)"

section \<open>Error codes\<close>

datatype error_code =
    InvalidRequest | InvalidJson | UnsupportedMediaType | InvalidPath | Unauthorized | Forbidden
  | NotFound | AuthDependencyUnavailable | UpstreamError | UpstreamAuthentication
  | UpstreamProtocol | UpstreamRateLimit | InternalError | DeadlineExceeded | CircuitOpen
  | Overloaded | PayloadTooLarge | Draining

fun code_as_str :: "error_code \<Rightarrow> string" where
  "code_as_str InvalidRequest = ''INVALID_REQUEST''"
| "code_as_str InvalidJson = ''INVALID_JSON''"
| "code_as_str UnsupportedMediaType = ''UNSUPPORTED_MEDIA_TYPE''"
| "code_as_str InvalidPath = ''INVALID_PATH''"
| "code_as_str Unauthorized = ''UNAUTHORIZED''"
| "code_as_str Forbidden = ''FORBIDDEN''"
| "code_as_str NotFound = ''NOT_FOUND''"
| "code_as_str AuthDependencyUnavailable = ''AUTH_DEPENDENCY_UNAVAILABLE''"
| "code_as_str UpstreamError = ''UPSTREAM_ERROR''"
| "code_as_str UpstreamAuthentication = ''UPSTREAM_AUTHENTICATION''"
| "code_as_str UpstreamProtocol = ''UPSTREAM_PROTOCOL''"
| "code_as_str UpstreamRateLimit = ''UPSTREAM_RATE_LIMIT''"
| "code_as_str InternalError = ''INTERNAL_ERROR''"
| "code_as_str DeadlineExceeded = ''DEADLINE_EXCEEDED''"
| "code_as_str CircuitOpen = ''CIRCUIT_OPEN''"
| "code_as_str Overloaded = ''OVERLOADED''"
| "code_as_str PayloadTooLarge = ''PAYLOAD_TOO_LARGE''"
| "code_as_str Draining = ''DRAINING''"

fun code_status :: "error_code \<Rightarrow> nat" where
  "code_status InvalidRequest = 400"
| "code_status InvalidJson = 400"
| "code_status InvalidPath = 400"
| "code_status UnsupportedMediaType = 415"
| "code_status Unauthorized = 401"
| "code_status Forbidden = 403"
| "code_status NotFound = 404"
| "code_status PayloadTooLarge = 413"
| "code_status UpstreamRateLimit = 429"
| "code_status Overloaded = 429"
| "code_status AuthDependencyUnavailable = 503"
| "code_status CircuitOpen = 503"
| "code_status Draining = 503"
| "code_status UpstreamError = 502"
| "code_status UpstreamAuthentication = 502"
| "code_status UpstreamProtocol = 502"
| "code_status DeadlineExceeded = 504"
| "code_status InternalError = 500"

lemma code_as_str_inj: "code_as_str a = code_as_str b \<Longrightarrow> a = b"
  by (cases a; cases b) simp_all

lemma code_status_is_error: "400 \<le> code_status c \<and> code_status c < 600"
  by (cases c) simp_all

section \<open>Responses\<close>

type_synonym headers = "string \<rightharpoonup> string"

record error_body =
  eb_code :: string
  eb_message :: string
  eb_request_id :: string

text \<open>A response: its status, its headers, and either the error envelope or a handler's JSON.\<close>

record 'a http_response =
  r_status :: nat
  r_headers :: headers
  r_body :: "error_body + 'a"

definition retry_after_name :: string where "retry_after_name = ''retry-after''"

definition error_response ::
    "request_context option \<Rightarrow> error_code \<Rightarrow> string \<Rightarrow> nat option \<Rightarrow> 'a http_response" where
  "error_response ctx code message retry_after_secs =
     \<lparr>r_status = code_status code,
      r_headers = (case retry_after_secs of
                     Some s \<Rightarrow> (if 0 < s then [retry_after_name \<mapsto> show_nat s] else Map.empty)
                   | None \<Rightarrow> Map.empty),
      r_body = Inl \<lparr>eb_code = code_as_str code, eb_message = message,
                    eb_request_id = current_request_id ctx\<rparr>\<rparr>"

record http_error =
  he_code :: error_code
  he_message :: string
  he_retry_after_secs :: "nat option"

definition http_error_new :: "error_code \<Rightarrow> string \<Rightarrow> http_error" where
  "http_error_new c m = \<lparr>he_code = c, he_message = m, he_retry_after_secs = None\<rparr>"

definition http_error_with_retry_after ::
    "error_code \<Rightarrow> string \<Rightarrow> nat option \<Rightarrow> http_error" where
  "http_error_with_retry_after c m r = \<lparr>he_code = c, he_message = m, he_retry_after_secs = r\<rparr>"

definition http_error_into_response ::
    "request_context option \<Rightarrow> http_error \<Rightarrow> 'a http_response" where
  "http_error_into_response ctx e =
     error_response ctx (he_code e) (he_message e) (he_retry_after_secs e)"

lemma error_response_status [simp]: "r_status (error_response ctx c m s) = code_status c"
  by (simp add: error_response_def)

lemma error_response_body [simp]:
  "r_body (error_response ctx c m s) =
     Inl \<lparr>eb_code = code_as_str c, eb_message = m, eb_request_id = current_request_id ctx\<rparr>"
  by (simp add: error_response_def)

text \<open>The header is present exactly for a positive hint, and its digits read back as the hint.\<close>

lemma error_response_retry_after:
  "map_option decimal_value (r_headers (error_response ctx c m s) retry_after_name)
     = (if s = Some 0 then None else s)"
  by (auto simp: error_response_def split: option.splits)

section \<open>Correlation middleware\<close>

definition header_text_laws :: "(string \<Rightarrow> string option) \<Rightarrow> (string \<Rightarrow> string option) \<Rightarrow> bool" where
  "header_text_laws hv_to_str hv_from_str \<longleftrightarrow>
     (\<forall>v s. hv_to_str v = Some s \<longrightarrow> hv_from_str s = Some v)"

definition extract_client_correlation_id ::
    "(string \<Rightarrow> string option) \<Rightarrow> headers \<Rightarrow> string option" where
  "extract_client_correlation_id hv_to_str hs =
     (case hs ''x-correlation-id'' of
        None \<Rightarrow> None
      | Some value \<Rightarrow>
          (case hv_to_str value of
             None \<Rightarrow> None
           | Some txt \<Rightarrow>
               (if txt = [] then None else if 256 < length txt then None else Some txt)))"

definition attach_correlation_headers ::
    "(string \<Rightarrow> string option) \<Rightarrow> string \<Rightarrow> string option \<Rightarrow> 'a http_response \<Rightarrow> 'a http_response"
  where
  "attach_correlation_headers hv_from_str rid cid resp =
     (let resp1 = (case hv_from_str rid of
                     Some v \<Rightarrow> resp\<lparr>r_headers := (r_headers resp)(''x-request-id'' \<mapsto> v)\<rparr>
                   | None \<Rightarrow> resp)
      in case cid of
           None \<Rightarrow> resp1
         | Some c \<Rightarrow>
             (case hv_from_str c of
                Some v \<Rightarrow> resp1\<lparr>r_headers := (r_headers resp1)(''x-correlation-id'' \<mapsto> v)\<rparr>
              | None \<Rightarrow> resp1))"

text \<open>
  \<open>uuid\<close> is the identifier \<open>Uuid::new_v4\<close> draws; \<open>next_run\<close> is the rest of the stack, run with the
  context in scope.
\<close>

definition correlation_id_middleware ::
    "(string \<Rightarrow> string option) \<Rightarrow> (string \<Rightarrow> string option) \<Rightarrow> string \<Rightarrow> headers
      \<Rightarrow> (request_context \<Rightarrow> 'a http_response) \<Rightarrow> 'a http_response" where
  "correlation_id_middleware hv_to_str hv_from_str uuid hs next_run =
     (let cid = extract_client_correlation_id hv_to_str hs;
          ctx = request_context_new uuid cid
      in attach_correlation_headers hv_from_str (request_id ctx) (client_correlation_id ctx)
           (next_run ctx))"

lemma extract_correlation_bounds:
  "extract_client_correlation_id f hs = Some c \<Longrightarrow> c \<noteq> [] \<and> length c \<le> 256"
  by (auto simp: extract_client_correlation_id_def split: option.splits if_splits)

lemma attach_keeps [simp]:
  "r_status (attach_correlation_headers f rid cid resp) = r_status resp"
  "r_body (attach_correlation_headers f rid cid resp) = r_body resp"
  by (auto simp: attach_correlation_headers_def Let_def split: option.splits)

lemma attach_request_id:
  "f rid = Some v \<Longrightarrow> r_headers (attach_correlation_headers f rid cid resp) ''x-request-id'' = Some v"
  by (auto simp: attach_correlation_headers_def Let_def split: option.splits)

lemma attach_correlation:
  "f c = Some v \<Longrightarrow>
     r_headers (attach_correlation_headers f rid (Some c) resp) ''x-correlation-id'' = Some v"
  by (auto simp: attach_correlation_headers_def Let_def split: option.splits)

end
