(* ===== verification/Exec_Error.thy ===== *)
theory Exec_Error
  imports Http_Error
begin

text \<open>
  \<open>features/executor/error.rs\<close>: the executor's errors, their HTTP mapping, and the conversions from the
  HTTP client's and the JSON library's errors. A \<open>reqwest::Error\<close> is the record of the predicates the
  code asks it; its status carries the text the library displays for it.
\<close>

datatype executor_error =
    UnsupportedVendor string
  | UnsupportedModel string string
  | InvalidPayload string
  | ApiCallFailed string
  | RateLimitExceeded (rl_vendor: string) (rl_retry_after_ms: "nat option")
  | AuthenticationFailed string
  | TimeoutError nat
  | NetworkError string
  | JsonError string
  | NoVendorsConfigured
  | InvalidConfiguration
  | MissingPricing
  | InvalidUpstreamResult
  | UpstreamRejected
  | QuotaExceeded
  | ExecDeadlineExceeded
  | ExecCircuitOpen string nat

definition div_ceil :: "nat \<Rightarrow> nat \<Rightarrow> nat" where
  "div_ceil a b = (if a mod b = 0 then a div b else a div b + 1)"

definition retry_after_secs :: "nat option \<Rightarrow> nat option" where
  "retry_after_secs ms =
     (case ms of
        None \<Rightarrow> None
      | Some m \<Rightarrow> (if 0 < m then Some (max (div_ceil m 1000) 1) else None))"

fun http_mapping :: "executor_error \<Rightarrow> error_code \<times> string \<times> nat option" where
  "http_mapping (UnsupportedVendor _) =
     (InvalidRequest, ''The request payload is invalid'', None)"
| "http_mapping (UnsupportedModel _ _) =
     (InvalidRequest, ''The request payload is invalid'', None)"
| "http_mapping (InvalidPayload _) =
     (InvalidRequest, ''The request payload is invalid'', None)"
| "http_mapping (AuthenticationFailed _) =
     (UpstreamAuthentication, ''Upstream provider rejected the credentials'', None)"
| "http_mapping (RateLimitExceeded _ ms) =
     (UpstreamRateLimit, ''Upstream provider rate-limited the request'', retry_after_secs ms)"
| "http_mapping (ApiCallFailed _) = (UpstreamError, ''Upstream provider request failed'', None)"
| "http_mapping (NetworkError _) = (UpstreamError, ''Upstream provider request failed'', None)"
| "http_mapping (TimeoutError _) = (UpstreamError, ''Upstream provider request failed'', None)"
| "http_mapping UpstreamRejected = (UpstreamError, ''Upstream provider request failed'', None)"
| "http_mapping QuotaExceeded =
     (UpstreamError, ''Upstream provider quota was exhausted'', None)"
| "http_mapping (JsonError _) =
     (UpstreamProtocol, ''Upstream provider returned an unusable result'', None)"
| "http_mapping InvalidUpstreamResult =
     (UpstreamProtocol, ''Upstream provider returned an unusable result'', None)"
| "http_mapping NoVendorsConfigured = (InternalError, ''An internal error occurred'', None)"
| "http_mapping InvalidConfiguration = (InternalError, ''An internal error occurred'', None)"
| "http_mapping MissingPricing = (InternalError, ''An internal error occurred'', None)"
| "http_mapping ExecDeadlineExceeded =
     (DeadlineExceeded, ''The request deadline was exceeded'', None)"
| "http_mapping (ExecCircuitOpen _ ms) =
     (CircuitOpen, ''No eligible upstream target is currently available'',
      retry_after_secs (Some ms))"

definition executor_error_response ::
    "request_context option \<Rightarrow> executor_error \<Rightarrow> 'a http_response" where
  "executor_error_response ctx e =
     (case http_mapping e of (code, message, secs) \<Rightarrow> error_response ctx code message secs)"

record reqwest_error =
  re_is_timeout :: bool
  re_is_decode :: bool
  re_is_connect :: bool
  re_is_request :: bool
  re_is_status :: bool
  re_status :: "(nat \<times> string) option"

text \<open>
  The error of a request that could not be built (a header value the library refuses): it is none of the
  kinds the code asks for.
\<close>

definition builder_error :: reqwest_error where
  "builder_error =
     \<lparr>re_is_timeout = False, re_is_decode = False, re_is_connect = False, re_is_request = False,
      re_is_status = False, re_status = None\<rparr>"

definition from_reqwest_error :: "reqwest_error \<Rightarrow> executor_error" where
  "from_reqwest_error err =
     (if re_is_timeout err then TimeoutError 0
      else if re_is_decode err then JsonError ''malformed upstream JSON''
      else if re_is_connect err \<or> re_is_request err
      then NetworkError ''upstream transport error''
      else if re_is_status err
      then (case re_status err of
              Some (status, txt) \<Rightarrow>
                (if status = 401 then AuthenticationFailed ''unknown''
                 else if status = 429 then RateLimitExceeded ''unknown'' None
                 else ApiCallFailed (''HTTP '' @ txt))
            | None \<Rightarrow> ApiCallFailed ''HTTP status error'')
      else NetworkError ''upstream transport error'')"

lemma builder_error_is_network [simp]:
  "from_reqwest_error builder_error = NetworkError ''upstream transport error''"
  by (simp add: from_reqwest_error_def builder_error_def)

definition from_serde_error :: "executor_error" where
  "from_serde_error = JsonError ''malformed upstream JSON''"

lemma div_ceil_bounds: "0 < b \<Longrightarrow> a \<le> b * div_ceil a b \<and> b * div_ceil a b < a + b"
proof -
  assume b: "0 < b"
  have e: "b * (a div b) + a mod b = a" by simp
  show ?thesis
  proof (cases "a mod b = 0")
    case True
    with e b show ?thesis by (simp add: div_ceil_def)
  next
    case False
    have "a mod b < b" using b by simp
    then have "a \<le> b * (a div b) + b \<and> b * (a div b) + b < a + b" using e False by linarith
    with False show ?thesis by (simp add: div_ceil_def distrib_left)
  qed
qed

lemma retry_after_secs_eq:
  "retry_after_secs ms =
     (case ms of None \<Rightarrow> None | Some m \<Rightarrow> if 0 < m then Some (div_ceil m 1000) else None)"
proof (cases ms)
  case (Some m)
  have "1 \<le> div_ceil m 1000" if "0 < m"
    using div_ceil_bounds [of 1000 m] that by (cases "div_ceil m 1000") auto
  with Some show ?thesis by (auto simp: retry_after_secs_def max_def)
qed (simp add: retry_after_secs_def)

lemma executor_error_is_never_401:
  "r_status (executor_error_response ctx e) \<noteq> 401 \<and> 400 \<le> r_status (executor_error_response ctx e)"
  by (cases e) (auto simp: executor_error_response_def)

end
