(* ===== verification/Rust_Float.thy ===== *)
theory Rust_Float
  imports Gateway_Prelude Complex_Main
begin

text \<open>
  Rust's \<open>f64\<close>, as far as the gateway uses it: IEEE 754 binary64 with round-to-nearest-even, on exact
  rationals. A value is a rational, an infinity or NaN; the sign of a zero is not kept (no comparison
  of the program distinguishes it). The operations are executable.
\<close>

datatype f64 = NaN | NegInf | PosInf | Fin rat

section \<open>Rounding\<close>

function bit_length :: "int \<Rightarrow> int" where
  "bit_length n = (if n \<le> 0 then 0 else 1 + bit_length (n div 2))"
  by pat_completeness auto
termination by (relation "measure nat") auto

declare bit_length.simps [simp del]

definition pow2 :: "int \<Rightarrow> rat" where
  "pow2 q = (if 0 \<le> q then of_int (2 ^ nat q) else 1 / of_int (2 ^ nat (- q)))"

text \<open>The exponent of the leading bit of a positive rational.\<close>

definition exponent_of :: "rat \<Rightarrow> int" where
  "exponent_of x =
     (case quotient_of x of (n, d) \<Rightarrow>
        (let k = bit_length n - bit_length d
         in if pow2 k \<le> x then k else k - 1))"

definition round_half_even :: "rat \<Rightarrow> int" where
  "round_half_even m =
     (let f = \<lfloor>m\<rfloor>; r = m - of_int f in
      if r < 1 / 2 then f else if 1 / 2 < r then f + 1 else if even f then f else f + 1)"

definition ulp_exponent :: "rat \<Rightarrow> int" where
  "ulp_exponent x = max (exponent_of x - 52) (- 1074)"

definition round_positive :: "rat \<Rightarrow> rat" where
  "round_positive x =
     (let q = ulp_exponent x in of_int (round_half_even (x / pow2 q)) * pow2 q)"

definition rnd :: "rat \<Rightarrow> f64" where
  "rnd x =
     (if x = 0 then Fin 0
      else if 0 < x then (let y = round_positive x in if y < 2 ^ 1024 then Fin y else PosInf)
      else (let y = round_positive (- x) in if y < 2 ^ 1024 then Fin (- y) else NegInf))"

lemma pow2_pos [simp]: "0 < pow2 q"
  by (simp add: pow2_def)

lemma round_half_even_bounds:
  assumes "0 \<le> m"
  shows "0 \<le> round_half_even m" "of_int (round_half_even m) \<le> 2 * m"
proof -
  have f: "of_int \<lfloor>m\<rfloor> \<le> m" by simp
  have f0: "0 \<le> \<lfloor>m\<rfloor>" using assms by simp
  then show "0 \<le> round_half_even m" by (auto simp: round_half_even_def Let_def)
  have odd1: "1 \<le> \<lfloor>m\<rfloor>" if "odd \<lfloor>m\<rfloor>"
  proof -
    have "\<lfloor>m\<rfloor> \<noteq> 0" using that by (metis even_zero)
    with f0 show ?thesis by linarith
  qed
  have r: "(0::rat) \<le> of_int \<lfloor>m\<rfloor>" using f0 by simp
  show "of_int (round_half_even m) \<le> 2 * m"
  proof (cases "even \<lfloor>m\<rfloor>")
    case True
    then have e: "rat_of_int (round_half_even m)
        = (if 1 / 2 < m - of_int \<lfloor>m\<rfloor> then of_int \<lfloor>m\<rfloor> + 1 else of_int \<lfloor>m\<rfloor>)"
      by (simp add: round_half_even_def Let_def)
    show ?thesis
    proof (cases "1 / 2 < m - of_int \<lfloor>m\<rfloor>")
      case True
      with e have "rat_of_int (round_half_even m) = of_int \<lfloor>m\<rfloor> + 1" by simp
      with True r show ?thesis by linarith
    next
      case False
      with e have "rat_of_int (round_half_even m) = of_int \<lfloor>m\<rfloor>" by simp
      with f r show ?thesis by linarith
    qed
  next
    case False
    then have one: "(1::rat) \<le> of_int \<lfloor>m\<rfloor>" using odd1 by simp
    have "of_int (round_half_even m) \<le> (of_int \<lfloor>m\<rfloor> + 1 :: rat)"
      by (simp add: round_half_even_def Let_def)
    also have "\<dots> \<le> 2 * m" using f one by linarith
    finally show ?thesis .
  qed
qed

lemma round_positive_bounds:
  assumes "0 \<le> x" shows "0 \<le> round_positive x" "round_positive x \<le> 2 * x"
proof -
  define q where "q = ulp_exponent x"
  have m: "0 \<le> x / pow2 q" using assms pow2_pos [of q] by (simp add: less_imp_le)
  note b = round_half_even_bounds [OF m]
  have rp: "round_positive x = of_int (round_half_even (x / pow2 q)) * pow2 q"
    by (simp add: round_positive_def q_def Let_def)
  show "0 \<le> round_positive x" using b(1) pow2_pos [of q] by (simp add: rp less_imp_le)
  have "round_positive x \<le> (2 * (x / pow2 q)) * pow2 q"
    unfolding rp using b(2) pow2_pos [of q] by (intro mult_right_mono) (simp_all add: less_imp_le)
  also have "\<dots> = 2 * x" using less_imp_neq [OF pow2_pos [of q]] by simp
  finally show "round_positive x \<le> 2 * x" .
qed

text \<open>Rounding keeps the sign and stays below twice the exact value.\<close>

lemma rnd_nonneg:
  assumes "0 \<le> x"
  shows "rnd x = PosInf \<or> (\<exists>y. rnd x = Fin y \<and> 0 \<le> y \<and> y \<le> 2 * x)"
  using assms round_positive_bounds [OF assms] by (auto simp: rnd_def Let_def)

lemma rnd_finite:
  assumes "0 \<le> x" "x < 2 ^ 1023"
  shows "\<exists>y. rnd x = Fin y \<and> 0 \<le> y \<and> y \<le> 2 * x"
proof -
  have "round_positive x \<le> 2 * x" using round_positive_bounds(2) [OF assms(1)] .
  also have "\<dots> < 2 * 2 ^ 1023" using assms(2) by simp
  also have "\<dots> = 2 ^ 1024" by (simp flip: power_Suc)
  finally have "round_positive x < 2 ^ 1024" .
  with assms(1) round_positive_bounds [OF assms(1)] show ?thesis
    by (auto simp: rnd_def Let_def)
qed

text \<open>The exponent is correct, so integers below \<open>2^53\<close> are exact.\<close>

lemma bit_length_bounds:
  "0 < n \<Longrightarrow> 0 < bit_length n \<and> 2 ^ nat (bit_length n - 1) \<le> n \<and> n < 2 ^ nat (bit_length n)"
proof (induction n rule: bit_length.induct)
  case (1 n)
  show ?case
  proof (cases "n = 1")
    case True
    then show ?thesis by (simp add: bit_length.simps [of 1] bit_length.simps [of 0])
  next
    case False
    with 1 have IH: "0 < bit_length (n div 2)" "2 ^ nat (bit_length (n div 2) - 1) \<le> n div 2"
      "n div 2 < 2 ^ nat (bit_length (n div 2))" by simp_all
    have b: "bit_length n = 1 + bit_length (n div 2)"
      using 1(2) by (subst bit_length.simps) simp
    define k where "k = nat (bit_length (n div 2) - 1)"
    have k: "nat (bit_length (n div 2)) = Suc k" "nat (bit_length n) = Suc (Suc k)"
      "nat (bit_length n - 1) = Suc k"
      using IH(1) by (simp_all add: k_def b)
    have "2 ^ k \<le> n div 2" "n div 2 < 2 ^ Suc k" using IH(2,3) by (simp_all add: k k_def)
    then have "2 * 2 ^ k \<le> n" "n < 2 * 2 ^ Suc k" by linarith+
    then show ?thesis using IH(1) unfolding k by (simp add: b)
  qed
qed

lemma pow2_diff:
  assumes "0 \<le> a" "0 \<le> b" shows "pow2 (a - b) * 2 ^ nat b = 2 ^ nat a"
proof (cases "b \<le> a")
  case True
  then have "nat a = nat (a - b) + nat b" using assms by simp
  with True show ?thesis by (simp add: pow2_def flip: power_add)
next
  case False
  then have "nat b = nat (b - a) + nat a" using assms by simp
  with False show ?thesis by (simp add: pow2_def power_add)
qed

lemma exponent_of_le:
  assumes "0 < x" shows "pow2 (exponent_of x) \<le> x"
proof -
  obtain n d where q: "quotient_of x = (n, d)" by force
  then have d: "0 < d" and x: "x = of_int n / of_int d"
    by (auto dest: quotient_of_denom_pos quotient_of_div)
  with assms have n: "0 < n" by (simp add: zero_less_divide_iff)
  define a where "a = bit_length n"
  define b where "b = bit_length d"
  have a: "0 < a" "2 ^ nat (a - 1) \<le> n" using bit_length_bounds [OF n] by (simp_all add: a_def)
  have b: "0 < b" "d < 2 ^ nat b" using bit_length_bounds [OF d] by (simp_all add: b_def)
  have "pow2 (a - b - 1) * of_int d \<le> pow2 (a - 1 - b) * of_int (2 ^ nat b)"
    using b(2) pow2_pos [of "a - 1 - b"]
    by (intro mult_mono of_int_le_iff [THEN iffD2]) (simp_all add: algebra_simps d less_imp_le)
  also have "\<dots> = of_int (2 ^ nat (a - 1))" using pow2_diff [of "a - 1" b] a(1) b(1) by simp
  also have "\<dots> \<le> of_int n" using a(2) by (intro of_int_le_iff [THEN iffD2])
  finally have "pow2 (a - b - 1) \<le> x" using d by (simp add: x pos_le_divide_eq)
  then show ?thesis by (simp add: exponent_of_def q Let_def a_def b_def)
qed

lemma pow2_mono_iff: "0 \<le> a \<Longrightarrow> 2 ^ nat a = pow2 a"
  by (simp add: pow2_def)

lemma exponent_of_below: "0 < x \<Longrightarrow> x < 2 ^ 53 \<Longrightarrow> exponent_of x \<le> 52"
proof (rule ccontr)
  assume x: "0 < x" "x < 2 ^ 53" and "\<not> exponent_of x \<le> 52"
  then have e: "53 \<le> exponent_of x" by simp
  then have "(2::rat) ^ 53 \<le> 2 ^ nat (exponent_of x)" by (intro power_increasing) auto
  also have "\<dots> = pow2 (exponent_of x)" using e by (simp add: pow2_def)
  also have "\<dots> \<le> x" by (rule exponent_of_le [OF x(1)])
  finally show False using x(2) by simp
qed

lemma round_half_even_int: "round_half_even (of_int n) = n"
  by (simp add: round_half_even_def Let_def)

lemma round_positive_int:
  assumes "0 < n" "n < 2 ^ 53" shows "round_positive (of_int n) = of_int n"
proof -
  define q where "q = ulp_exponent (of_int n :: rat)"
  have "(of_int n :: rat) < of_int (2 ^ 53)" using assms(2) by (intro of_int_less_iff [THEN iffD2])
  then have "exponent_of (of_int n) \<le> 52" using assms(1) by (intro exponent_of_below) simp_all
  then have q: "q \<le> 0" by (simp add: q_def ulp_exponent_def)
  then have "(of_int n :: rat) / pow2 q = of_int (n * 2 ^ nat (- q))"
    by (auto simp: pow2_def)
  then have "round_half_even (of_int n / pow2 q) = n * 2 ^ nat (- q)"
    by (simp only: round_half_even_int)
  with q show ?thesis by (simp add: round_positive_def Let_def flip: q_def) (simp add: pow2_def)
qed

lemma rnd_int_exact:
  assumes "0 \<le> n" "n < 2 ^ 53" shows "rnd (of_int n) = Fin (of_int n)"
proof (cases "n = 0")
  case False
  have "(of_int n :: rat) < of_int (2 ^ 53)" using assms(2) by (intro of_int_less_iff [THEN iffD2])
  also have "\<dots> < 2 ^ 1024" by simp
  finally have "(of_int n :: rat) < 2 ^ 1024" .
  with False assms round_positive_int [of n] show ?thesis by (simp add: rnd_def Let_def)
qed (simp add: rnd_def)

section \<open>Operations\<close>

fun f64_is_finite :: "f64 \<Rightarrow> bool" where
  "f64_is_finite (Fin _) = True"
| "f64_is_finite _ = False"

text \<open>\<open>x < c\<close> and \<open>x > c\<close> against a finite constant; every comparison with NaN is false.\<close>

fun f64_less_const :: "f64 \<Rightarrow> rat \<Rightarrow> bool" where
  "f64_less_const (Fin x) c = (x < c)"
| "f64_less_const NegInf c = True"
| "f64_less_const PosInf c = False"
| "f64_less_const NaN c = False"

fun f64_greater_const :: "f64 \<Rightarrow> rat \<Rightarrow> bool" where
  "f64_greater_const (Fin x) c = (c < x)"
| "f64_greater_const PosInf c = True"
| "f64_greater_const NegInf c = False"
| "f64_greater_const NaN c = False"

definition f64_of_int :: "int \<Rightarrow> f64" where
  "f64_of_int n = rnd (of_int n)"

fun f64_add :: "f64 \<Rightarrow> f64 \<Rightarrow> f64" where
  "f64_add (Fin x) (Fin y) = rnd (x + y)"
| "f64_add NaN _ = NaN"
| "f64_add _ NaN = NaN"
| "f64_add PosInf NegInf = NaN"
| "f64_add NegInf PosInf = NaN"
| "f64_add PosInf _ = PosInf"
| "f64_add _ PosInf = PosInf"
| "f64_add NegInf _ = NegInf"
| "f64_add _ NegInf = NegInf"

fun f64_neg :: "f64 \<Rightarrow> f64" where
  "f64_neg NaN = NaN"
| "f64_neg PosInf = NegInf"
| "f64_neg NegInf = PosInf"
| "f64_neg (Fin x) = Fin (- x)"

definition inf_times :: "rat \<Rightarrow> f64" where
  "inf_times y = (if y = 0 then NaN else if 0 < y then PosInf else NegInf)"

fun f64_mul :: "f64 \<Rightarrow> f64 \<Rightarrow> f64" where
  "f64_mul (Fin x) (Fin y) = rnd (x * y)"
| "f64_mul NaN _ = NaN"
| "f64_mul _ NaN = NaN"
| "f64_mul PosInf (Fin y) = inf_times y"
| "f64_mul (Fin x) PosInf = inf_times x"
| "f64_mul NegInf (Fin y) = f64_neg (inf_times y)"
| "f64_mul (Fin x) NegInf = f64_neg (inf_times x)"
| "f64_mul PosInf PosInf = PosInf"
| "f64_mul NegInf NegInf = PosInf"
| "f64_mul PosInf NegInf = NegInf"
| "f64_mul NegInf PosInf = NegInf"

text \<open>Division by a finite positive constant, the only divisions of the program.\<close>

fun f64_div_const :: "f64 \<Rightarrow> rat \<Rightarrow> f64" where
  "f64_div_const (Fin x) c = rnd (x / c)"
| "f64_div_const v c = v"

text \<open>\<open>f64::round\<close>: to the nearest integer, halves away from zero.\<close>

fun f64_round :: "f64 \<Rightarrow> f64" where
  "f64_round (Fin x) =
     (if 0 \<le> x then Fin (of_int \<lfloor>x + 1 / 2\<rfloor>) else Fin (- of_int \<lfloor>- x + 1 / 2\<rfloor>))"
| "f64_round v = v"

definition f64_nonneg :: "f64 \<Rightarrow> bool" where
  "f64_nonneg v = (case v of Fin x \<Rightarrow> 0 \<le> x | PosInf \<Rightarrow> True | _ \<Rightarrow> False)"

lemma f64_nonneg_simps [simp]:
  "f64_nonneg (Fin x) \<longleftrightarrow> 0 \<le> x" "f64_nonneg PosInf" "\<not> f64_nonneg NegInf" "\<not> f64_nonneg NaN"
  by (simp_all add: f64_nonneg_def)

lemma rnd_is_nonneg: "0 \<le> x \<Longrightarrow> f64_nonneg (rnd x)"
  using rnd_nonneg [of x] by auto

lemma f64_round_nonneg: "f64_nonneg v \<Longrightarrow> f64_nonneg (f64_round v)"
  by (cases v) auto

lemma f64_round_finite: "f64_is_finite (f64_round v) = f64_is_finite v"
  by (cases v) auto

lemma f64_div_const_nonneg: "f64_nonneg v \<Longrightarrow> 0 < c \<Longrightarrow> f64_nonneg (f64_div_const v c)"
  by (cases v) (auto intro: rnd_is_nonneg)

lemma f64_finite_nonneg:
  "f64_is_finite v \<and> \<not> f64_less_const v 0 \<longleftrightarrow> (\<exists>x. v = Fin x \<and> 0 \<le> x)"
  by (cases v) auto

text \<open>A value known to be a finite nonnegative number below a bound, through each operation.\<close>

definition finite_limit :: rat where "finite_limit = 2 ^ 1023"

definition bounded_by :: "f64 \<Rightarrow> rat \<Rightarrow> bool" where
  "bounded_by v b = (case v of Fin x \<Rightarrow> 0 \<le> x \<and> x \<le> b | _ \<Rightarrow> False)"

lemma bounded_by_Fin [simp]: "bounded_by (Fin x) b \<longleftrightarrow> 0 \<le> x \<and> x \<le> b"
  by (simp add: bounded_by_def)

lemma bounded_byE:
  assumes "bounded_by v b" obtains x where "v = Fin x" "0 \<le> x" "x \<le> b"
  using assms by (cases v) (auto simp: bounded_by_def)

lemma bounded_by_mono: "bounded_by v b \<Longrightarrow> b \<le> c \<Longrightarrow> bounded_by v c"
  by (auto elim!: bounded_byE)

lemma bounded_by_rnd:
  assumes "0 \<le> x" "x \<le> b" "b < finite_limit" shows "bounded_by (rnd x) (2 * b)"
proof -
  have "x < 2 ^ 1023" using assms by (simp only: finite_limit_def)
  then obtain y where "rnd x = Fin y" "0 \<le> y" "y \<le> 2 * x"
    using rnd_finite [OF assms(1)] by blast
  with assms(2) show ?thesis by simp
qed

lemma bounded_by_of_int:
  "0 \<le> n \<Longrightarrow> of_int n \<le> b \<Longrightarrow> b < finite_limit \<Longrightarrow> bounded_by (f64_of_int n) (2 * b)"
  by (simp add: f64_of_int_def bounded_by_rnd)

lemma bounded_by_add:
  assumes "bounded_by u a" "bounded_by v b" "a + b < finite_limit"
  shows "bounded_by (f64_add u v) (2 * (a + b))"
proof -
  obtain x y where "u = Fin x" "0 \<le> x" "x \<le> a" "v = Fin y" "0 \<le> y" "y \<le> b"
    using assms by (auto elim!: bounded_byE)
  with bounded_by_rnd [of "x + y" "a + b"] assms(3) show ?thesis by simp
qed

lemma bounded_by_mul:
  assumes "bounded_by u a" "bounded_by v b" "a * b < finite_limit"
  shows "bounded_by (f64_mul u v) (2 * (a * b))"
proof -
  obtain x y where xy: "u = Fin x" "0 \<le> x" "x \<le> a" "v = Fin y" "0 \<le> y" "y \<le> b"
    using assms by (auto elim!: bounded_byE)
  then have "x * y \<le> a * b" by (intro mult_mono) auto
  with bounded_by_rnd [of "x * y" "a * b"] assms(3) xy show ?thesis by simp
qed

lemma bounded_by_div:
  assumes "bounded_by u a" "0 < c" "a / c < finite_limit"
  shows "bounded_by (f64_div_const u c) (2 * (a / c))"
proof -
  obtain x where x: "u = Fin x" "0 \<le> x" "x \<le> a" using assms by (auto elim!: bounded_byE)
  then have "x / c \<le> a / c" using assms(2) by (intro divide_right_mono) auto
  with bounded_by_rnd [of "x / c" "a / c"] assms(2,3) x show ?thesis by simp
qed

lemma bounded_by_round:
  assumes "bounded_by u a" shows "bounded_by (f64_round u) (a + 1)"
proof -
  obtain x where x: "u = Fin x" "0 \<le> x" "x \<le> a" using assms by (auto elim!: bounded_byE)
  have "of_int \<lfloor>x + 1 / 2\<rfloor> \<le> x + 1 / 2" by (rule of_int_floor_le)
  then have "of_int \<lfloor>x + 1 / 2\<rfloor> \<le> a + 1" using x(3) by linarith
  with x show ?thesis by simp
qed

end
