(* ===== verification/Json_Value.thy ===== *)
theory Json_Value
  imports Rust_Float
begin

text \<open>
  The JSON values the gateway inspects (\<open>serde_json::Value\<close>): its constructors, the three kinds of
  \<open>Number\<close>, and the accessors \<open>get\<close>, \<open>as_str\<close>, \<open>as_bool\<close>, \<open>as_i64\<close>, \<open>as_u64\<close>, \<open>as_f64\<close>,
  \<open>as_array\<close>, \<open>as_object\<close> and \<open>pointer\<close> as that library documents them. The parser from bytes is not
  modelled: it is an argument \<open>from_slice\<close> of the operations that call it.
\<close>

datatype json_number =
    PosInt nat        \<comment> \<open>a \<open>u64\<close>\<close>
  | NegInt nat        \<comment> \<open>the negative \<open>i64\<close> \<open>- n - 1\<close>\<close>
  | FloatNum f64      \<comment> \<open>finite\<close>

datatype json =
    JNull
  | JBool bool
  | JNum json_number
  | JStr string
  | JArr "json list"
  | JObj "(string \<times> json) list"

fun number_as_i64 :: "json_number \<Rightarrow> int option" where
  "number_as_i64 (PosInt n) = (if int n \<le> i64_max then Some (int n) else None)"
| "number_as_i64 (NegInt n) = Some (- int n - 1)"
| "number_as_i64 (FloatNum _) = None"

fun number_as_u64 :: "json_number \<Rightarrow> nat option" where
  "number_as_u64 (PosInt n) = Some n"
| "number_as_u64 _ = None"

fun number_as_f64 :: "json_number \<Rightarrow> f64 option" where
  "number_as_f64 (PosInt n) = Some (f64_of_int (int n))"
| "number_as_f64 (NegInt n) = Some (f64_of_int (- int n - 1))"
| "number_as_f64 (FloatNum x) = Some x"

fun as_object :: "json \<Rightarrow> (string \<times> json) list option" where
  "as_object (JObj kvs) = Some kvs"
| "as_object _ = None"

fun as_array :: "json \<Rightarrow> json list option" where
  "as_array (JArr xs) = Some xs"
| "as_array _ = None"

fun as_str :: "json \<Rightarrow> string option" where
  "as_str (JStr s) = Some s"
| "as_str _ = None"

fun as_bool :: "json \<Rightarrow> bool option" where
  "as_bool (JBool b) = Some b"
| "as_bool _ = None"

fun as_i64 :: "json \<Rightarrow> int option" where
  "as_i64 (JNum n) = number_as_i64 n"
| "as_i64 _ = None"

fun as_f64 :: "json \<Rightarrow> f64 option" where
  "as_f64 (JNum n) = number_as_f64 n"
| "as_f64 _ = None"

text \<open>\<open>Value::get(key)\<close> is the member of an object, and absent on every other value.\<close>

definition json_get :: "string \<Rightarrow> json \<Rightarrow> json option" where
  "json_get k v = Option.bind (as_object v) (\<lambda>kvs. map_of kvs k)"

text \<open>\<open>pointer("/a/b")\<close> through objects.\<close>

definition json_pointer2 :: "string \<Rightarrow> string \<Rightarrow> json \<Rightarrow> json option" where
  "json_pointer2 a b v = Option.bind (json_get a v) (json_get b)"

lemma json_get_simps [simp]:
  "json_get k (JObj kvs) = map_of kvs k"
  "json_get k JNull = None" "json_get k (JBool b) = None" "json_get k (JNum n) = None"
  "json_get k (JStr s) = None" "json_get k (JArr xs) = None"
  by (simp_all add: json_get_def)

end
