(* ===== verification/Exec_Models.thy ===== *)
theory Exec_Models
  imports Exec_Error Json_Value
begin

text \<open>
  \<open>core/contracts.rs\<close> and \<open>features/executor/models.rs\<close>: the routing contract between ingress and the
  executor, the generation parameters, and the result of one call.
\<close>

datatype route_plan = RoutePlan
  (vendor_id: string) (target_id: string) (model_id: string) (max_output_tokens: nat)
  (fallback_plans: "route_plan list")

record chat_message =
  msg_role :: string
  msg_content :: string

record execution_params =
  ep_messages :: "chat_message list"
  ep_temperature :: "f64 option"
  ep_max_tokens :: "int option"
  ep_top_p :: "f64 option"
  ep_stream :: bool

record execution_result =
  er_content :: string
  er_role :: string
  er_model_used :: string
  er_prompt_tokens :: int
  er_completion_tokens :: int
  er_total_cost :: f64
  er_finish_reason :: string

end
