(* ===== verification/Pricing.thy ===== *)
theory Pricing
  imports Exec_Error Rust_Float
begin

text \<open>\<open>features/executor/pricing.rs\<close>: the estimated cost of one successful response.\<close>

record model_pricing =
  input_per_million :: f64
  output_per_million :: f64

definition model_pricing_new :: "f64 \<Rightarrow> f64 \<Rightarrow> model_pricing" where
  "model_pricing_new i out = \<lparr>input_per_million = i, output_per_million = out\<rparr>"

abbreviation tokens_per_million :: rat where "tokens_per_million \<equiv> 1000000"
abbreviation cost_decimal_places :: rat where "cost_decimal_places \<equiv> 100000000"

definition estimate_successful_response_cost ::
    "int \<Rightarrow> int \<Rightarrow> model_pricing option \<Rightarrow> executor_error + f64" where
  "estimate_successful_response_cost prompt_tokens completion_tokens pricing =
     (case pricing of
        None \<Rightarrow> Err MissingPricing
      | Some p \<Rightarrow>
          (if prompt_tokens < 0 \<or> completion_tokens < 0 then Err InvalidUpstreamResult
           else if \<not> f64_is_finite (input_per_million p) \<or> \<not> f64_is_finite (output_per_million p)
                \<or> f64_less_const (input_per_million p) 0 \<or> f64_less_const (output_per_million p) 0
           then Err MissingPricing
           else
             (let cost = f64_add
                    (f64_mul (f64_div_const (f64_of_int prompt_tokens) tokens_per_million)
                       (input_per_million p))
                    (f64_mul (f64_div_const (f64_of_int completion_tokens) tokens_per_million)
                       (output_per_million p))
              in if \<not> f64_is_finite cost \<or> f64_less_const cost 0 then Err InvalidUpstreamResult
                 else Ok (f64_div_const (f64_round (f64_mul cost (Fin cost_decimal_places)))
                           cost_decimal_places))))"

lemma finite_limit_big: "2 ^ 200 < finite_limit"
  unfolding finite_limit_def by (rule power_strict_increasing) simp_all

lemma below_limit: "x \<le> 2 ^ 200 \<Longrightarrow> x < finite_limit"
  by (rule le_less_trans [OF _ finite_limit_big])

text \<open>One priced side of the sum: tokens of an \<open>i64\<close>, a price up to a million USD per million.\<close>

lemma priced_side:
  assumes "0 \<le> n" "n \<le> i64_max" "bounded_by p 1000000"
  shows "bounded_by (f64_mul (f64_div_const (f64_of_int n) tokens_per_million) p) (2 ^ 100)"
proof -
  have "of_int n \<le> (of_int i64_max :: rat)" using assms(2) by (intro of_int_le_iff [THEN iffD2])
  then have n: "of_int n \<le> (2 ^ 63 :: rat)" by simp
  have "bounded_by (f64_of_int n) (2 * 2 ^ 63)"
    using assms(1) n by (intro bounded_by_of_int below_limit) simp_all
  then have "bounded_by (f64_div_const (f64_of_int n) tokens_per_million)
      (2 * (2 * 2 ^ 63 / tokens_per_million))"
    by (rule bounded_by_div) (simp, rule below_limit, simp)
  from bounded_by_mul [OF this assms(3)]
  have "bounded_by (f64_mul (f64_div_const (f64_of_int n) tokens_per_million) p)
      (2 * (2 * (2 * 2 ^ 63 / tokens_per_million) * 1000000))"
    using below_limit [of "2 * (2 * 2 ^ 63 / tokens_per_million) * 1000000"] by simp
  then show ?thesis by (rule bounded_by_mono) simp
qed

lemma priced_cost:
  assumes "0 \<le> m" "m \<le> i64_max" "0 \<le> n" "n \<le> i64_max"
    and "bounded_by (input_per_million p) 1000000" "bounded_by (output_per_million p) 1000000"
  shows "\<exists>c. estimate_successful_response_cost m n (Some p) = Ok c \<and> bounded_by c (2 ^ 110)"
proof -
  define cost where "cost = f64_add
      (f64_mul (f64_div_const (f64_of_int m) tokens_per_million) (input_per_million p))
      (f64_mul (f64_div_const (f64_of_int n) tokens_per_million) (output_per_million p))"
  have "bounded_by cost (2 * (2 ^ 100 + 2 ^ 100))"
    unfolding cost_def using assms by (intro bounded_by_add priced_side below_limit) simp_all
  then have cost: "bounded_by cost (2 ^ 102)" by (rule bounded_by_mono) simp
  have "bounded_by (f64_mul cost (Fin cost_decimal_places)) (2 * (2 ^ 102 * cost_decimal_places))"
    using cost by (rule bounded_by_mul) (simp, rule below_limit, simp)
  then have "bounded_by (f64_round (f64_mul cost (Fin cost_decimal_places)))
      (2 * (2 ^ 102 * cost_decimal_places) + 1)"
    by (rule bounded_by_round)
  then have "bounded_by (f64_div_const (f64_round (f64_mul cost (Fin cost_decimal_places)))
      cost_decimal_places)
      (2 * ((2 * (2 ^ 102 * cost_decimal_places) + 1) / cost_decimal_places))"
    by (rule bounded_by_div) (simp, rule below_limit, simp)
  then have fin: "bounded_by (f64_div_const (f64_round (f64_mul cost (Fin cost_decimal_places)))
      cost_decimal_places) (2 ^ 110)"
    by (rule bounded_by_mono) simp
  have "f64_is_finite v \<and> \<not> f64_less_const v 0" if "bounded_by v b" for v b
    using that by (auto elim!: bounded_byE)
  note ok = this [OF assms(5)] this [OF assms(6)] this [OF cost]
  have "estimate_successful_response_cost m n (Some p)
      = Ok (f64_div_const (f64_round (f64_mul cost (Fin cost_decimal_places))) cost_decimal_places)"
    using assms(1,3) ok
    unfolding estimate_successful_response_cost_def Let_def option.case cost_def [symmetric]
    by (simp del: f64_mul.simps)
  with fin show ?thesis by blast
qed

lemma estimate_errors:
  assumes "estimate_successful_response_cost m n p = Err e"
  shows "e = MissingPricing \<or> e = InvalidUpstreamResult"
  using assms by (auto simp: estimate_successful_response_cost_def Let_def
      split: option.splits if_splits)


end
