(* ===== verification/OpenAI_Response.thy ===== *)
theory OpenAI_Response
  imports Exec_Models Pricing
begin

text \<open>
  \<open>features/executor/bounded_body.rs\<close> and \<open>features/executor/openai_response.rs\<close>: bounded
  accumulation of an upstream body, and the validation of a successful Chat Completions payload.

  The events of a body are a list: each comes a number of nanoseconds after the one before it, and a
  list that ends without an end of file is a body that stalls for ever. Reading returns the instant
  it finishes at and its result, or \<open>None\<close> when it never finishes. \<open>usize\<close> is 64 bits wide.
\<close>

section \<open>Bounded bodies\<close>

definition check_advertised_content_length :: "nat option \<Rightarrow> nat \<Rightarrow> executor_error + unit" where
  "check_advertised_content_length content_length max_bytes =
     (case content_length of
        Some len \<Rightarrow> (if max_bytes < len then Err InvalidUpstreamResult else Ok ())
      | None \<Rightarrow> Ok ())"

definition append_bounded :: "string \<Rightarrow> string \<Rightarrow> nat \<Rightarrow> executor_error + string" where
  "append_bounded buf chunk max_bytes =
     (let new_len = sat_add u64_max (length buf) (length chunk) in
      if max_bytes < new_len then Err InvalidUpstreamResult else Ok (buf @ chunk))"

datatype body_event = BChunk string | BEof | BFail reqwest_error

definition transport_error :: "reqwest_error \<Rightarrow> executor_error" where
  "transport_error err =
     (if re_is_timeout err then TimeoutError 0 else NetworkError ''upstream transport error'')"

fun read_chunks ::
    "nat \<Rightarrow> string \<Rightarrow> nat \<Rightarrow> (nat \<times> body_event) list \<Rightarrow> (nat \<times> (executor_error + string)) option"
  where
  "read_chunks max_bytes body t [] = None"
| "read_chunks max_bytes body t ((d, ev) # evs) =
     (case ev of
        BChunk chunk \<Rightarrow>
          (case append_bounded body chunk max_bytes of
             Inl e \<Rightarrow> Some (t + d, Err e)
           | Inr body' \<Rightarrow> read_chunks max_bytes body' (t + d) evs)
      | BEof \<Rightarrow> Some (t + d, Ok body)
      | BFail err \<Rightarrow> Some (t + d, Err (transport_error err)))"

definition read_bounded_response_body ::
    "nat option \<Rightarrow> nat \<Rightarrow> nat \<Rightarrow> (nat \<times> body_event) list
      \<Rightarrow> (nat \<times> (executor_error + string)) option" where
  "read_bounded_response_body content_length max_bytes t evs =
     (case check_advertised_content_length content_length max_bytes of
        Inl e \<Rightarrow> Some (t, Err e)
      | Inr _ \<Rightarrow> read_chunks max_bytes [] t evs)"

lemma append_bounded_Ok:
  "max_bytes < u64_max \<Longrightarrow>
   append_bounded b c max_bytes = Ok b' \<longleftrightarrow> b' = b @ c \<and> length b + length c \<le> max_bytes"
  by (auto simp: append_bounded_def sat_add_def Let_def)

text \<open>The concatenation of the chunks before the end of file, and how long that takes.\<close>

fun body_bytes :: "(nat \<times> body_event) list \<Rightarrow> string" where
  "body_bytes ((_, BChunk c) # evs) = c @ body_bytes evs"
| "body_bytes _ = []"

lemma read_chunks_Ok:
  "max_bytes < u64_max \<Longrightarrow> length body \<le> max_bytes \<Longrightarrow>
   read_chunks max_bytes body t evs = Some (t', Ok b) \<Longrightarrow>
   b = body @ body_bytes evs \<and> length b \<le> max_bytes"
proof (induction max_bytes body t evs rule: read_chunks.induct)
  case (2 max_bytes body t d ev evs)
  then show ?case
    by (cases ev) (auto simp: append_bounded_Ok split: sum.splits)
qed simp

lemma read_chunks_time: "read_chunks m b t evs = Some (t', r) \<Longrightarrow> t \<le> t'"
  by (induction m b t evs rule: read_chunks.induct)
    (fastforce split: body_event.splits sum.splits)+

lemma read_bounded_time: "read_bounded_response_body l m t evs = Some (t', r) \<Longrightarrow> t \<le> t'"
  by (auto simp: read_bounded_response_body_def dest: read_chunks_time split: sum.splits)

lemma read_bounded_Ok:
  assumes "max_bytes < u64_max" "read_bounded_response_body l max_bytes t evs = Some (t', Ok b)"
  shows "b = body_bytes evs \<and> length b \<le> max_bytes \<and> (\<forall>n. l = Some n \<longrightarrow> n \<le> max_bytes)"
  using assms read_chunks_Ok [of max_bytes "[]" t evs t' b]
  by (auto simp: read_bounded_response_body_def check_advertised_content_length_def
      split: sum.splits option.splits if_splits)

section \<open>Successful payloads\<close>

definition required_string :: "json option \<Rightarrow> executor_error + string" where
  "required_string v =
     (case v of Some (JStr txt) \<Rightarrow> Ok txt | _ \<Rightarrow> Err InvalidUpstreamResult)"

definition required_nonempty_string :: "json option \<Rightarrow> executor_error + string" where
  "required_nonempty_string v =
     and_then (required_string v)
       (\<lambda>txt. if txt = [] then Err InvalidUpstreamResult else Ok txt)"

definition required_assistant_role :: "json option \<Rightarrow> executor_error + string" where
  "required_assistant_role v =
     and_then (required_string v)
       (\<lambda>role. if role \<noteq> ''assistant'' then Err InvalidUpstreamResult else Ok role)"

definition required_token_count :: "json option \<Rightarrow> executor_error + int" where
  "required_token_count v =
     (case v of
        Some (JNum number) \<Rightarrow>
          and_then
            (case number_as_i64 number of
               Some i \<Rightarrow> Ok i
             | None \<Rightarrow>
                 (case number_as_u64 number of
                    Some n \<Rightarrow> (if int n \<le> i64_max then Ok (int n) else Err InvalidUpstreamResult)
                  | None \<Rightarrow> Err InvalidUpstreamResult))
            (\<lambda>tokens. if tokens < 0 then Err InvalidUpstreamResult else Ok tokens)
      | _ \<Rightarrow> Err InvalidUpstreamResult)"

definition parse_successful_chat_completion ::
    "(string \<Rightarrow> json option) \<Rightarrow> string \<Rightarrow> model_pricing option
      \<Rightarrow> executor_error + execution_result" where
  "parse_successful_chat_completion from_slice body pricing =
     and_then (ok_or (JsonError ''malformed upstream JSON'') (from_slice body)) (\<lambda>value.
     and_then (ok_or InvalidUpstreamResult (as_object value)) (\<lambda>obj.
     and_then (required_nonempty_string (map_of obj ''model'')) (\<lambda>model_used.
     and_then (ok_or InvalidUpstreamResult (Option.bind (map_of obj ''choices'') as_array))
       (\<lambda>choices.
     and_then (ok_or InvalidUpstreamResult
                 (case choices of [] \<Rightarrow> None | c # _ \<Rightarrow> as_object c)) (\<lambda>choice.
     and_then (ok_or InvalidUpstreamResult (Option.bind (map_of choice ''message'') as_object))
       (\<lambda>message.
     and_then (required_string (map_of message ''content'')) (\<lambda>content.
     and_then (required_assistant_role (map_of message ''role'')) (\<lambda>role.
     and_then (required_nonempty_string (map_of choice ''finish_reason'')) (\<lambda>finish_reason.
     and_then (ok_or InvalidUpstreamResult (Option.bind (map_of obj ''usage'') as_object))
       (\<lambda>usage.
     and_then (required_token_count (map_of usage ''prompt_tokens'')) (\<lambda>prompt_tokens.
     and_then (required_token_count (map_of usage ''completion_tokens'')) (\<lambda>completion_tokens.
     and_then (required_token_count (map_of usage ''total_tokens'')) (\<lambda>total_tokens.
     and_then (ok_or InvalidUpstreamResult (checked_add_i64 prompt_tokens completion_tokens))
       (\<lambda>expected_total.
     if total_tokens \<noteq> expected_total then Err InvalidUpstreamResult
     else and_then (estimate_successful_response_cost prompt_tokens completion_tokens pricing)
       (\<lambda>total_cost.
     Ok \<lparr>er_content = content, er_role = role, er_model_used = model_used,
         er_prompt_tokens = prompt_tokens, er_completion_tokens = completion_tokens,
         er_total_cost = total_cost, er_finish_reason = finish_reason\<rparr>)))))))))))))))"

lemma required_string_Ok: "required_string v = Ok s \<longleftrightarrow> v = Some (JStr s)"
  by (auto simp: required_string_def split: option.splits json.splits)

lemma required_nonempty_string_Ok:
  "required_nonempty_string v = Ok s \<longleftrightarrow> v = Some (JStr s) \<and> s \<noteq> []"
  by (auto simp: required_nonempty_string_def and_then_Inr_iff required_string_Ok split: if_splits)

lemma required_assistant_role_Ok:
  "required_assistant_role v = Ok s \<longleftrightarrow> v = Some (JStr s) \<and> s = ''assistant''"
  by (auto simp: required_assistant_role_def and_then_Inr_iff required_string_Ok split: if_splits)

lemma required_token_count_Ok:
  "required_token_count v = Ok n \<longleftrightarrow>
     (\<exists>k. v = Some (JNum k) \<and> number_as_i64 k = Some n \<and> 0 \<le> n)"
  by (auto simp: required_token_count_def split: option.splits json.splits if_splits
      elim!: number_as_i64.elims)

lemma number_as_i64_bound: "number_as_i64 k = Some n \<Longrightarrow> n \<le> i64_max"
  by (cases k) (auto split: if_splits)

lemmas response_iffs =
  and_then_Inr_iff ok_or_Inr_iff required_string_Ok required_nonempty_string_Ok
  required_assistant_role_Ok required_token_count_Ok

end
