(* ===== verification/Deadline.thy ===== *)
theory Deadline
  imports Gateway_Prelude
begin

text \<open>
  \<open>core/deadline.rs\<close>: the monotonic protected-request deadline, as a function of the clock reading
  each method makes (\<open>now\<close>). \<open>tokio::time::timeout_at\<close> is a library operation whose documented
  behaviour is used in \<open>timeout_poll\<close>: the inner future is polled first, and the timer never fires
  before its deadline.
\<close>

record request_deadline = dl_instant :: nat

definition deadline_from_timeout :: "nat \<Rightarrow> nat \<Rightarrow> request_deadline" where
  "deadline_from_timeout now timeout = \<lparr>dl_instant = now + timeout\<rparr>"

definition deadline_at :: "nat \<Rightarrow> request_deadline" where
  "deadline_at d = \<lparr>dl_instant = d\<rparr>"

definition as_instant :: "request_deadline \<Rightarrow> nat" where
  "as_instant d = dl_instant d"

definition is_expired :: "request_deadline \<Rightarrow> nat \<Rightarrow> bool" where
  "is_expired d now \<longleftrightarrow> dl_instant d \<le> now"

text \<open>\<open>checked_duration_since(now).unwrap_or(ZERO)\<close> is the truncated difference.\<close>

definition remaining :: "request_deadline \<Rightarrow> nat \<Rightarrow> nat" where
  "remaining d now = dl_instant d - now"

definition cap :: "request_deadline \<Rightarrow> nat \<Rightarrow> nat \<Rightarrow> nat option" where
  "cap d mx now =
     (let r = remaining d now in if r = 0 then None else Some (min r mx))"

definition attempt_cutoff :: "request_deadline \<Rightarrow> nat \<Rightarrow> nat \<Rightarrow> nat option" where
  "attempt_cutoff d max_attempt now =
     (if dl_instant d \<le> now then None
      else let max_cutoff = now + max_attempt;
               cutoff = (if dl_instant d < max_cutoff then dl_instant d else max_cutoff)
           in if cutoff \<le> now then None else Some cutoff)"

lemma is_expired_iff_remaining: "is_expired d now \<longleftrightarrow> remaining d now = 0"
  by (simp add: is_expired_def remaining_def)

lemma is_expired_mono: "is_expired d t \<Longrightarrow> t \<le> u \<Longrightarrow> is_expired d u"
  by (simp add: is_expired_def)

lemma remaining_antimono: "t \<le> u \<Longrightarrow> remaining d u \<le> remaining d t"
  by (simp add: remaining_def)

lemma remaining_plus: "t \<le> dl_instant d \<Longrightarrow> t + remaining d t = dl_instant d"
  by (simp add: remaining_def)

lemma attempt_cutoff_SomeD:
  assumes "attempt_cutoff d m now = Some c"
  shows "now < c" "c \<le> dl_instant d" "c \<le> now + m" "c = min (dl_instant d) (now + m)"
  using assms by (auto simp: attempt_cutoff_def Let_def split: if_splits)

lemma attempt_cutoff_None_iff:
  "attempt_cutoff d m now = None \<longleftrightarrow> is_expired d now \<or> m = 0"
  by (auto simp: attempt_cutoff_def is_expired_def Let_def)

lemma cap_SomeD: "cap d mx now = Some r \<Longrightarrow> r \<le> mx \<and> r \<le> remaining d now \<and> \<not> is_expired d now"
  by (auto simp: cap_def Let_def is_expired_def remaining_def split: if_splits)

section \<open>A future under \<open>timeout_at\<close>\<close>

text \<open>
  The inner future becomes ready at an instant, or never (\<open>None\<close>). The task is polled again at the
  earlier of that instant and the cutoff, or later by a scheduling lag. At a poll the inner future
  goes first: it wins whenever it is ready, also when the cutoff has passed.
\<close>

definition poll_at :: "nat option \<Rightarrow> nat \<Rightarrow> nat \<Rightarrow> nat \<Rightarrow> nat" where
  "poll_at ready cutoff now lag =
     max now (case ready of None \<Rightarrow> cutoff | Some r \<Rightarrow> min r cutoff) + lag"

definition timeout_poll :: "nat option \<Rightarrow> nat \<Rightarrow> bool" where
  "timeout_poll ready t = (case ready of None \<Rightarrow> False | Some r \<Rightarrow> r \<le> t)"

lemma poll_at_ge_now: "now \<le> poll_at ready cutoff now lag"
  by (auto simp: poll_at_def)

lemma elapsed_not_early:
  "\<not> timeout_poll ready (poll_at ready cutoff now lag) \<Longrightarrow> cutoff \<le> poll_at ready cutoff now lag"
  by (auto simp: timeout_poll_def poll_at_def split: option.splits)

end
