(* ===== verification/Attempt_Budget.thy ===== *)
theory Attempt_Budget
  imports Deadline
begin

text \<open>
  \<open>features/executor/budget.rs\<close>: the shared attempt counter, capped exponential full jitter, and the
  Retry-After policy. The trait \<open>JitterSource\<close> is the locale \<open>jitter_source\<close>; the operations that
  draw jitter take the source's method as an argument, and the two sources of the file interpret the
  locale. The date parsers of the chrono crate are arguments: \<open>rfc2822\<close> and \<open>from_format\<close> return the
  instant, in nanoseconds since the epoch, that a date string denotes.
\<close>

section \<open>Attempt counter\<close>

record attempt_budget =
  max_total :: nat
  started :: nat

definition budget_new :: "nat \<Rightarrow> attempt_budget" where
  "budget_new n = \<lparr>max_total = max n 1, started = 0\<rparr>"

definition budget_remaining :: "attempt_budget \<Rightarrow> nat" where
  "budget_remaining b = max_total b - started b"

definition try_start :: "attempt_budget \<Rightarrow> bool \<times> attempt_budget" where
  "try_start b =
     (if max_total b \<le> started b then (False, b)
      else (True, b\<lparr>started := sat_add u32_max (started b) 1\<rparr>))"

text \<open>Both fields are \<open>u32\<close>s, and the counter never passes its ceiling.\<close>

definition budget_wf :: "attempt_budget \<Rightarrow> bool" where
  "budget_wf b \<longleftrightarrow> started b \<le> max_total b \<and> max_total b \<le> u32_max"

lemma budget_new_wf: "n \<le> u32_max \<Longrightarrow> budget_wf (budget_new n)"
  by (simp add: budget_wf_def budget_new_def)

lemma try_start_wf: "budget_wf b \<Longrightarrow> try_start b = (ok, b') \<Longrightarrow> budget_wf b'"
  by (auto simp: budget_wf_def try_start_def sat_add_def split: if_splits)

lemma try_start_remaining:
  assumes "budget_wf b" "try_start b = (ok, b')"
  shows "ok \<longleftrightarrow> 0 < budget_remaining b"
    and "ok \<Longrightarrow> budget_remaining b' + 1 = budget_remaining b"
    and "ok \<Longrightarrow> started b' = started b + 1"
    and "\<not> ok \<Longrightarrow> b' = b"
    and "max_total b' = max_total b"
  using assms by (auto simp: budget_wf_def try_start_def budget_remaining_def sat_add_def
      split: if_splits)

section \<open>Jitter\<close>

text \<open>
  \<open>SystemJitter\<close> draws eight bytes from the process CSPRNG. Its state is the sequence of later draws:
  a raw \<open>u64\<close>, or \<open>None\<close> where \<open>getrandom\<close> fails; an exhausted sequence fails too.
\<close>

definition system_jitter :: "nat \<Rightarrow> nat option list \<Rightarrow> nat \<times> nat option list" where
  "system_jitter upper ent =
     (if upper = 0 then (0, ent)
      else case ent of
             [] \<Rightarrow> (0, [])
           | None # rest \<Rightarrow> (0, rest)
           | Some raw # rest \<Rightarrow> (raw mod sat_add u64_max upper 1, rest))"

definition scripted_jitter :: "nat \<Rightarrow> nat list \<Rightarrow> nat \<times> nat list" where
  "scripted_jitter upper values =
     (case values of [] \<Rightarrow> (min 0 upper, []) | v # rest \<Rightarrow> (min v upper, rest))"

definition jittered_backoff_ms ::
    "(nat \<Rightarrow> 's \<Rightarrow> nat \<times> 's) \<Rightarrow> nat \<Rightarrow> nat \<Rightarrow> 's \<Rightarrow> nat \<times> 's" where
  "jittered_backoff_ms jitter_ms retry_index cap_ms rng =
     (let exp = retry_index - 1;
          base_ms = sat_mul u64_max 1000 (sat_pow u64_max 2 exp);
          window = min base_ms cap_ms
      in jitter_ms window rng)"

section \<open>Planned waits\<close>

datatype retry_delay = Immediate | Sleep (delay: nat) (provider_minimum: bool)

datatype delay_error = DelayDeadlineExceeded | ProviderDelayCannotFit nat

definition plan_retry_delay ::
    "(nat \<Rightarrow> 's \<Rightarrow> nat \<times> 's) \<Rightarrow> nat \<Rightarrow> nat \<Rightarrow> nat option \<Rightarrow> 's \<Rightarrow> retry_delay \<times> 's" where
  "plan_retry_delay jitter_ms retry_index backoff_cap provider_retry_after rng =
     (case provider_retry_after of
        Some provider \<Rightarrow> (if provider = 0 then Immediate else Sleep provider True, rng)
      | None \<Rightarrow>
          (case jittered_backoff_ms jitter_ms retry_index (duration_ms backoff_cap) rng of
             (ms, rng') \<Rightarrow>
               (let d = from_millis ms
                in (if d = 0 then Immediate else Sleep d False, rng'))))"

definition evaluate_retry_delay :: "retry_delay \<Rightarrow> nat \<Rightarrow> delay_error + nat" where
  "evaluate_retry_delay d rem =
     (case d of
        Immediate \<Rightarrow> Ok 0
      | Sleep dl pm \<Rightarrow>
          (if dl \<le> rem then Ok dl
           else if pm then Err (ProviderDelayCannotFit dl)
           else Err DelayDeadlineExceeded))"

definition provider_minimum_cannot_fit :: "nat option \<Rightarrow> nat \<Rightarrow> bool" where
  "provider_minimum_cannot_fit provider_retry_after rem =
     (case provider_retry_after of
        None \<Rightarrow> False
      | Some d \<Rightarrow>
          (if d = 0 then False
           else (case evaluate_retry_delay (Sleep d True) rem of
                   Inl (ProviderDelayCannotFit _) \<Rightarrow> True
                 | _ \<Rightarrow> False)))"

lemma provider_minimum_cannot_fit_iff:
  "provider_minimum_cannot_fit p rem \<longleftrightarrow> (\<exists>d. p = Some d \<and> 0 < d \<and> rem < d)"
  by (auto simp: provider_minimum_cannot_fit_def evaluate_retry_delay_def split: option.splits)

lemma plan_provider:
  "plan_retry_delay j i c (Some p) rng = (if p = 0 then Immediate else Sleep p True, rng)"
  by (simp add: plan_retry_delay_def)

section \<open>The jitter interface\<close>

locale jitter_source =
  fixes jitter_ms :: "nat \<Rightarrow> 's \<Rightarrow> nat \<times> 's"
  assumes jitter_bounded: "fst (jitter_ms upper s) \<le> upper"
begin

lemma backoff_le_cap: "fst (jittered_backoff_ms jitter_ms i cap_ms rng) \<le> cap_ms"
  using jitter_bounded [of _ rng] by (simp add: jittered_backoff_ms_def Let_def)
    (meson dual_order.trans min.cobounded2)

lemma backoff_le_window:
  "fst (jittered_backoff_ms jitter_ms i cap_ms rng) \<le> 1000 * 2 ^ (i - 1)"
proof -
  have "fst (jittered_backoff_ms jitter_ms i cap_ms rng)
      \<le> sat_mul u64_max 1000 (sat_pow u64_max 2 (i - 1))"
    using jitter_bounded [of _ rng] by (simp add: jittered_backoff_ms_def Let_def)
      (meson dual_order.trans min.cobounded1)
  also have "\<dots> \<le> 1000 * sat_pow u64_max 2 (i - 1)" by (simp add: sat_mul_def)
  also have "\<dots> \<le> 1000 * 2 ^ (i - 1)" by (simp add: sat_pow_def)
  finally show ?thesis .
qed

text \<open>A jittered wait is at most the cap and is never marked as a provider minimum.\<close>

lemma plan_no_provider:
  assumes "plan_retry_delay jitter_ms i c None rng = (Sleep d pm, rng')"
  shows "\<not> pm \<and> 0 < d \<and> d \<le> from_millis (duration_ms c) \<and> d \<le> from_millis (1000 * 2 ^ (i - 1))"
proof -
  obtain ms r where b: "jittered_backoff_ms jitter_ms i (duration_ms c) rng = (ms, r)" by force
  then have "ms \<le> duration_ms c" "ms \<le> 1000 * 2 ^ (i - 1)"
    using backoff_le_cap [of i "duration_ms c" rng] backoff_le_window [of i "duration_ms c" rng]
    by simp_all
  with assms b show ?thesis
    by (auto simp: plan_retry_delay_def from_millis_mono Let_def split: if_splits)
qed

text \<open>The wait the caller sleeps fits the remaining time, and never shortens a provider minimum.\<close>

lemma evaluated_wait:
  assumes "plan_retry_delay jitter_ms i c p rng = (pl, rng')" "evaluate_retry_delay pl rem = Inr w"
  shows "w \<le> rem \<and> (case p of Some m \<Rightarrow> w = m | None \<Rightarrow> w \<le> from_millis (duration_ms c))"
proof (cases p)
  case None
  with assms show ?thesis
    by (cases pl) (auto simp: evaluate_retry_delay_def dest: plan_no_provider split: if_splits)
next
  case (Some m)
  with assms show ?thesis
    by (auto simp: plan_provider evaluate_retry_delay_def split: if_splits)
qed

end

lemma mod_sat_succ_le: "raw mod sat_add m n 1 \<le> n" if "0 < m" for raw :: nat
proof -
  have "raw mod sat_add m n 1 < sat_add m n 1"
    using that by (intro mod_less_divisor) (simp add: sat_add_def)
  also have "\<dots> \<le> n + 1" by (simp add: sat_add_def)
  finally show ?thesis by simp
qed

lemma system_jitter_bounded: "fst (system_jitter upper s) \<le> upper"
  by (auto simp: system_jitter_def mod_sat_succ_le simp del: One_nat_def
      split: list.splits option.splits)

interpretation sysj: jitter_source system_jitter
  by unfold_locales (rule system_jitter_bounded)

interpretation scripted: jitter_source scripted_jitter
  by unfold_locales (auto simp: scripted_jitter_def split: list.splits)

section \<open>Retry-After\<close>

definition parse_u64_digits :: "string \<Rightarrow> nat option" where
  "parse_u64_digits s = (if decimal_value s \<le> u64_max then Some (decimal_value s) else None)"

text \<open>
  The HTTP-date forms, tried in order: RFC 2822, then the four format strings.
\<close>

definition http_date_formats :: "string list" where
  "http_date_formats =
     [''%a, %d %b %Y %H:%M:%S GMT'', ''%a, %e %b %Y %H:%M:%S GMT'',
      ''%A, %d-%b-%y %H:%M:%S GMT'', ''%a %b %e %H:%M:%S %Y'']"

fun first_format :: "(string \<Rightarrow> string \<Rightarrow> int option) \<Rightarrow> string \<Rightarrow> string list \<Rightarrow> int option" where
  "first_format from_format v [] = None"
| "first_format from_format v (f # fs) =
     (case from_format v f of Some t \<Rightarrow> Some t | None \<Rightarrow> first_format from_format v fs)"

definition parse_http_date ::
    "(string \<Rightarrow> int option) \<Rightarrow> (string \<Rightarrow> string \<Rightarrow> int option) \<Rightarrow> string \<Rightarrow> int option" where
  "parse_http_date rfc2822 from_format v =
     (case rfc2822 v of
        Some t \<Rightarrow> Some t
      | None \<Rightarrow> first_format from_format v http_date_formats)"

definition parse_retry_after :: "(string \<Rightarrow> int option) \<Rightarrow> string \<Rightarrow> int \<Rightarrow> nat option" where
  "parse_retry_after http_date value now =
     (let trimmed = str_trim value in
      if trimmed = [] then None
      else if list_all is_ascii_digit trimmed
      then map_option from_secs (parse_u64_digits trimmed)
      else map_option (\<lambda>when. nat (max 0 (when - now))) (http_date trimmed))"

definition retry_after_header_ms :: "(string \<Rightarrow> int option) \<Rightarrow> string \<Rightarrow> int \<Rightarrow> nat option" where
  "retry_after_header_ms http_date value now =
     map_option duration_ms (parse_retry_after http_date value now)"

lemma retry_after_ms_bound: "retry_after_header_ms hdate v now = Some ms \<Longrightarrow> ms \<le> u64_max"
  by (auto simp: retry_after_header_ms_def duration_ms_def)

end
