(* ===== verification/OpenAI_Vendor.thy ===== *)
theory OpenAI_Vendor
  imports OpenAI_Response Attempt_Budget
begin

text \<open>
  \<open>features/executor/attempt.rs\<close> (the per-attempt context), \<open>features/executor/vendors/openai.rs\<close>,
  \<open>features/executor/vendors/traits.rs\<close> and \<open>features/executor/repository.rs\<close>: one provider call.

  A call is asynchronous. It is modelled by what the network answers, an \<open>exchange\<close>: the delay after
  which sending fails or the response headers arrive (or neither, ever), and the events of the body.
  A run of the call, \<open>call_run\<close>, is the list of the errors it observes on the attempt context with
  the instant of each, and the instant and result it finishes with, if it finishes. The libraries the
  call uses (the JSON parser, the header values that can be built from a text, the conversion of header
  values to text, the date parsers) are the fields of the record \<open>libs\<close>. A request whose
  authorization is not a legal header value is never sent: the builder keeps the error and \<open>send\<close>
  returns it at once.
\<close>

record libs =
  lib_from_slice :: "string \<Rightarrow> json option"
  lib_header_value_ok :: "string \<Rightarrow> bool"
  lib_to_str :: "string \<Rightarrow> string option"
  lib_rfc2822 :: "string \<Rightarrow> int option"
  lib_from_format :: "string \<Rightarrow> string \<Rightarrow> int option"

record provider_response =
  pr_status :: nat
  pr_status_text :: string
  pr_retry_after :: "string option"
  pr_content_length :: "nat option"
  pr_body :: "(nat \<times> body_event) list"
  pr_wall :: int                       \<comment> \<open>\<open>SystemTime::now()\<close> when the headers are classified\<close>
  pr_window_lag :: nat                 \<comment> \<open>from the headers to the clock reading of the window\<close>
  pr_poll_lag :: nat                   \<comment> \<open>scheduling lag of the body refinement\<close>

text \<open>\<open>None\<close> is a request whose answer never comes.\<close>

type_synonym exchange = "(nat \<times> (reqwest_error + provider_response)) option"

type_synonym call_result = "executor_error + execution_result"

record call_run =
  run_observed :: "(nat \<times> executor_error) list"
  run_ready :: "(nat \<times> call_result) option"

definition run_at :: "nat \<Rightarrow> call_result \<Rightarrow> call_run" where
  "run_at t r = \<lparr>run_observed = [], run_ready = Some (t, r)\<rparr>"

definition run_never :: call_run where
  "run_never = \<lparr>run_observed = [], run_ready = None\<rparr>"

section \<open>Attempt context\<close>

abbreviation body_refinement_cap :: nat where "body_refinement_cap \<equiv> 100 * ns_per_ms"

definition attempt_remaining :: "nat \<Rightarrow> nat \<Rightarrow> nat" where
  "attempt_remaining cutoff now = cutoff - now"

definition body_refinement_window :: "nat \<Rightarrow> nat \<Rightarrow> nat" where
  "body_refinement_window cutoff now =
     (let rem = attempt_remaining cutoff now
      in min (min rem body_refinement_cap) (rem div 2))"

text \<open>\<open>observed()\<close> at an instant: the last error observed until then.\<close>

definition observed_at :: "(nat \<times> executor_error) list \<Rightarrow> nat \<Rightarrow> executor_error option" where
  "observed_at obs t =
     (case filter (\<lambda>(u, _). u \<le> t) obs of [] \<Rightarrow> None | xs \<Rightarrow> Some (snd (last xs)))"

lemma window_fits: "2 * body_refinement_window cutoff now \<le> attempt_remaining cutoff now"
  by (simp add: body_refinement_window_def Let_def)

lemma observed_at_mem: "observed_at obs t = Some e \<Longrightarrow> \<exists>u \<le> t. (u, e) \<in> set obs"
proof -
  let ?xs = "filter (\<lambda>(u, _). u \<le> t) obs"
  assume "observed_at obs t = Some e"
  then have ne: "?xs \<noteq> []" and e: "e = snd (last ?xs)"
    by (auto simp: observed_at_def split: list.splits)
  obtain u where u: "last ?xs = (u, e)" using e by (cases "last ?xs") auto
  have "last ?xs \<in> set ?xs" by (rule last_in_set [OF ne])
  then show ?thesis unfolding u by auto
qed

section \<open>The OpenAI adapter\<close>

record openai_config =
  oc_api_key :: string
  oc_base_url :: string
  oc_timeout_ms :: nat
  oc_supported_models :: "string list"
  oc_pricing :: "string \<rightharpoonup> model_pricing"
  oc_max_response_bytes :: nat

text \<open>The request on the wire; the absent optional fields are skipped by the serializer.\<close>

record chat_request =
  cr_url :: string
  cr_authorization :: string
  cr_model :: string
  cr_messages :: "chat_message list"
  cr_temperature :: "f64 option"
  cr_max_tokens :: "int option"
  cr_top_p :: "f64 option"

definition supports_model :: "openai_config \<Rightarrow> string \<Rightarrow> bool" where
  "supports_model cfg model = (model \<in> set (oc_supported_models cfg))"

definition calculate_cost ::
    "openai_config \<Rightarrow> int \<Rightarrow> int \<Rightarrow> string \<Rightarrow> executor_error + f64" where
  "calculate_cost cfg prompt completion target =
     estimate_successful_response_cost prompt completion (oc_pricing cfg target)"

text \<open>\<open>eq_ignore_ascii_case\<close>, and the quota code of an error body.\<close>

definition to_ascii_lower :: "char \<Rightarrow> char" where
  "to_ascii_lower c =
     (if 65 \<le> (of_char c :: nat) \<and> (of_char c :: nat) \<le> 90 then char_of (of_char c + 32 :: nat)
      else c)"

definition eq_ignore_ascii_case :: "string \<Rightarrow> string \<Rightarrow> bool" where
  "eq_ignore_ascii_case a b = (map to_ascii_lower a = map to_ascii_lower b)"

definition quota_exhausted :: "libs \<Rightarrow> string \<Rightarrow> bool" where
  "quota_exhausted L body =
     (case lib_from_slice L body of
        None \<Rightarrow> False
      | Some value \<Rightarrow>
          (let str_or_empty = (\<lambda>v. case Option.bind v as_str of None \<Rightarrow> [] | Some s \<Rightarrow> s);
               code = str_or_empty (json_pointer2 ''error'' ''code'' value);
               error_type = str_or_empty (json_pointer2 ''error'' ''type'' value)
           in eq_ignore_ascii_case code ''insufficient_quota''
              \<or> eq_ignore_ascii_case error_type ''insufficient_quota''))"

definition classify_unsuccessful_status :: "libs \<Rightarrow> nat \<Rightarrow> string \<Rightarrow> executor_error" where
  "classify_unsuccessful_status L status body =
     (if quota_exhausted L body then QuotaExceeded
      else if status = 401 \<or> status = 403 then AuthenticationFailed ''openai''
      else if 400 \<le> status \<and> status < 500 then UpstreamRejected
      else ApiCallFailed ''upstream http error'')"

definition throttling_of :: "libs \<Rightarrow> provider_response \<Rightarrow> executor_error" where
  "throttling_of L resp =
     RateLimitExceeded ''openai''
       (Option.bind (Option.bind (pr_retry_after resp) (lib_to_str L))
          (\<lambda>v. retry_after_header_ms (parse_http_date (lib_rfc2822 L) (lib_from_format L)) v
                  (pr_wall resp)))"

text \<open>
  The response headers arrive at \<open>t\<close>. The throttling is observed at once; the body is then read under
  \<open>tokio::time::timeout(window, _)\<close>.
\<close>

definition classify_too_many_requests ::
    "libs \<Rightarrow> provider_response \<Rightarrow> nat \<Rightarrow> nat \<Rightarrow> nat \<Rightarrow> call_run" where
  "classify_too_many_requests L resp max_bytes cutoff t =
     (let throttling = throttling_of L resp;
          now = t + pr_window_lag resp;
          window = body_refinement_window cutoff now
      in if window = 0
         then \<lparr>run_observed = [(t, throttling)], run_ready = Some (now, Err throttling)\<rparr>
         else
           (let read = read_bounded_response_body (pr_content_length resp) max_bytes t (pr_body resp);
                u = poll_at (map_option fst read) (now + window) now (pr_poll_lag resp)
            in case read of
                 Some (rt, Inr body) \<Rightarrow>
                   (if timeout_poll (Some rt) u \<and> quota_exhausted L body
                    then \<lparr>run_observed = [(t, throttling), (u, QuotaExceeded)],
                          run_ready = Some (u, Err QuotaExceeded)\<rparr>
                    else \<lparr>run_observed = [(t, throttling)],
                          run_ready = Some (u, Err throttling)\<rparr>)
               | _ \<Rightarrow> \<lparr>run_observed = [(t, throttling)], run_ready = Some (u, Err throttling)\<rparr>))"

text \<open>The request builder accepts the authorization header.\<close>

definition key_is_sendable :: "libs \<Rightarrow> openai_config \<Rightarrow> bool" where
  "key_is_sendable L cfg = lib_header_value_ok L (''Bearer '' @ oc_api_key cfg)"

definition wire_request :: "openai_config \<Rightarrow> string \<Rightarrow> execution_params \<Rightarrow> chat_request" where
  "wire_request cfg model params =
     \<lparr>cr_url = oc_base_url cfg @ ''/chat/completions'',
      cr_authorization = ''Bearer '' @ oc_api_key cfg, cr_model = model,
      cr_messages = ep_messages params, cr_temperature = ep_temperature params,
      cr_max_tokens = ep_max_tokens params, cr_top_p = ep_top_p params\<rparr>"

text \<open>The answer to a sent request. The request leaves at \<open>now\<close>.\<close>

definition answer_run ::
    "libs \<Rightarrow> openai_config \<Rightarrow> string \<Rightarrow> nat \<Rightarrow> nat \<Rightarrow> exchange \<Rightarrow> call_run" where
  "answer_run L cfg target cutoff now ex =
     (case ex of
        None \<Rightarrow> run_never
      | Some (d, Inl err) \<Rightarrow> run_at (now + d) (Err (from_reqwest_error err))
      | Some (d, Inr resp) \<Rightarrow>
          (let t = now + d in
           if pr_status resp = 429
           then classify_too_many_requests L resp (oc_max_response_bytes cfg) cutoff t
           else
             (case read_bounded_response_body (pr_content_length resp)
                     (oc_max_response_bytes cfg) t (pr_body resp) of
                None \<Rightarrow> run_never
              | Some (t', body) \<Rightarrow>
                  (if \<not> (200 \<le> pr_status resp \<and> pr_status resp < 300)
                   then run_at t' (Err (classify_unsuccessful_status L (pr_status resp)
                                          (case body of Inl _ \<Rightarrow> [] | Inr b \<Rightarrow> b)))
                   else run_at t' (and_then body (\<lambda>b. parse_successful_chat_completion
                                     (lib_from_slice L) b (oc_pricing cfg target)))))))"

text \<open>
  One call: its run, the request it puts on the wire (if any), and the exchanges left for later
  calls. A network whose list is exhausted answers nothing.
\<close>

definition execute_classified ::
    "libs \<Rightarrow> openai_config \<Rightarrow> string \<Rightarrow> string \<Rightarrow> execution_params \<Rightarrow> nat \<Rightarrow> nat \<Rightarrow> exchange list
      \<Rightarrow> call_run \<times> chat_request list \<times> exchange list" where
  "execute_classified L cfg model target params cutoff now net =
     (if \<not> supports_model cfg model
      then (run_at now (Err (UnsupportedModel model ''openai'')), [], net)
      else if ep_stream params
      then (run_at now (Err (InvalidPayload ''Streaming is not supported for OpenAI requests'')),
            [], net)
      else if \<not> key_is_sendable L cfg
      then (run_at now (Err (from_reqwest_error builder_error)), [], net)
      else
        (case net of
           [] \<Rightarrow> (run_never, [wire_request cfg model params], [])
         | ex # net' \<Rightarrow>
             (answer_run L cfg target cutoff now ex, [wire_request cfg model params], net')))"

text \<open>\<open>LLMVendor::execute\<close> makes its own context from the configured timeout.\<close>

definition vendor_execute ::
    "libs \<Rightarrow> openai_config \<Rightarrow> string \<Rightarrow> string \<Rightarrow> execution_params \<Rightarrow> nat \<Rightarrow> exchange list
      \<Rightarrow> call_run \<times> chat_request list \<times> exchange list" where
  "vendor_execute L cfg model target params now net =
     execute_classified L cfg model target params (now + from_millis (oc_timeout_ms cfg)) now net"

text \<open>
  \<open>GET /models\<close> under its own timeout. The answer is the exchange (its body is not read), or at once the
  error of a request that cannot be built.
\<close>

definition vendor_health_check ::
    "libs \<Rightarrow> openai_config \<Rightarrow> nat \<Rightarrow> nat \<Rightarrow> nat \<Rightarrow> exchange \<Rightarrow> nat \<times> (executor_error + unit)" where
  "vendor_health_check L cfg timeout_secs now lag answer =
     (let ex = (if key_is_sendable L cfg then answer else Some (0, Inl builder_error));
          u = poll_at (map_option (\<lambda>(d, _). now + d) ex) (now + from_secs timeout_secs) now lag in
      (u, case ex of
            None \<Rightarrow> Err (TimeoutError (timeout_secs * 1000))
          | Some (d, ans) \<Rightarrow>
              (if \<not> timeout_poll (Some (now + d)) u then Err (TimeoutError (timeout_secs * 1000))
               else case ans of
                      Inl _ \<Rightarrow> Err (NetworkError ''upstream transport error'')
                    | Inr resp \<Rightarrow>
                        (if pr_status resp = 200 then Ok ()
                         else if pr_status resp = 401 \<or> pr_status resp = 403
                         then Err (AuthenticationFailed ''openai'')
                         else if pr_status resp = 429
                         then Err (RateLimitExceeded ''openai'' None)
                         else Err (ApiCallFailed (''Health check failed with status: ''
                                                   @ pr_status_text resp))))))"

section \<open>The repository\<close>

type_synonym vendors = "string \<rightharpoonup> openai_config"

definition openai_vendor_new ::
    "(string \<Rightarrow> bool) \<Rightarrow> openai_config \<Rightarrow> executor_error + openai_config" where
  "openai_vendor_new client_builds cfg =
     (if str_trim (oc_api_key cfg) = [] then Err InvalidConfiguration
      else if \<not> client_builds (oc_base_url cfg) then Err InvalidConfiguration
      else Ok cfg)"

definition repository_from_config ::
    "(string \<Rightarrow> bool) \<Rightarrow> openai_config option \<Rightarrow> executor_error + vendors" where
  "repository_from_config client_builds openai =
     (case openai of
        None \<Rightarrow> Err NoVendorsConfigured
      | Some oc \<Rightarrow> and_then (openai_vendor_new client_builds oc) (\<lambda>v. Ok [''openai'' \<mapsto> v]))"

definition get_vendor :: "vendors \<Rightarrow> string \<Rightarrow> executor_error + openai_config" where
  "get_vendor vs vid = ok_or (UnsupportedVendor vid) (vs vid)"

definition call_llm ::
    "libs \<Rightarrow> vendors \<Rightarrow> route_plan \<Rightarrow> execution_params \<Rightarrow> nat \<Rightarrow> nat \<Rightarrow> exchange list
      \<Rightarrow> call_run \<times> chat_request list \<times> exchange list" where
  "call_llm L vs plan params cutoff now net =
     (case get_vendor vs (vendor_id plan) of
        Inl e \<Rightarrow> (run_at now (Err e), [], net)
      | Inr cfg \<Rightarrow>
          (if \<not> supports_model cfg (model_id plan)
           then (run_at now (Err (UnsupportedModel (vendor_id plan) (model_id plan))), [], net)
           else execute_classified L cfg (model_id plan) (target_id plan) params cutoff now net))"


section \<open>The vendor interface\<close>

text \<open>
  The trait \<open>LLMVendor\<close> as the executor relies on it: an unsupported model is refused without network
  traffic, a call sends at most one request, and nothing a call reports precedes its start. The
  errors a call observes before it finishes are the two classes of a 429.
\<close>

definition call_run_ok :: "nat \<Rightarrow> call_run \<Rightarrow> bool" where
  "call_run_ok now run \<longleftrightarrow>
     (\<forall>(u, e) \<in> set (run_observed run). now \<le> u \<and>
        (e = QuotaExceeded \<or> (\<exists>v ms. e = RateLimitExceeded v ms)))
     \<and> (\<forall>t r. run_ready run = Some (t, r) \<longrightarrow> now \<le> t)"

locale llm_vendor =
  fixes supports :: "string \<Rightarrow> bool"
    and attempt :: "string \<Rightarrow> string \<Rightarrow> execution_params \<Rightarrow> nat \<Rightarrow> nat \<Rightarrow> exchange list
          \<Rightarrow> call_run \<times> chat_request list \<times> exchange list"
  assumes unsupported:
      "\<not> supports m \<Longrightarrow> \<exists>e. attempt m tid ps c now net = (run_at now (Err e), [], net)"
    and one_request:
      "attempt m tid ps c now net = (run, wire, net') \<Longrightarrow>
         length wire \<le> 1 \<and> net' = drop (length wire) net \<and> (\<forall>q \<in> set wire. cr_model q = m)"
    and in_order: "attempt m tid ps c now net = (run, wire, net') \<Longrightarrow> call_run_ok now run"
begin

lemma observed_is_throttling:
  assumes "attempt m tid ps c now net = (run, wire, net')" "observed_at (run_observed run) t = Some e"
  shows "now \<le> t \<and> (e = QuotaExceeded \<or> (\<exists>v ms. e = RateLimitExceeded v ms))"
  using observed_at_mem [OF assms(2)] in_order [OF assms(1)]
  by (fastforce simp: call_run_ok_def)

lemma not_ready_before_start:
  assumes "attempt m tid ps c now net = (run, wire, net')" "t < now"
  shows "\<not> timeout_poll (map_option fst (run_ready run)) t"
  using in_order [OF assms(1)] assms(2)
  by (auto simp: call_run_ok_def timeout_poll_def split: option.splits)

lemma sends_only_the_model:
  assumes "attempt m tid ps c now net = (run, wire, net')" "q \<in> set wire"
  shows "cr_model q = m \<and> supports m"
  using one_request [OF assms(1)] assms unsupported [of m tid ps c now net] by fastforce

end

lemma run_at_ok [simp]: "call_run_ok now (run_at t r) \<longleftrightarrow> now \<le> t"
  by (simp add: call_run_ok_def run_at_def)

lemma run_never_ok [simp]: "call_run_ok now run_never"
  by (simp add: call_run_ok_def run_never_def)

lemma throttling_is_rate_limit: "\<exists>ms. throttling_of L resp = RateLimitExceeded ''openai'' ms"
  by (simp add: throttling_of_def)

lemma classify_429_ok:
  assumes "now \<le> t" shows "call_run_ok now (classify_too_many_requests L resp mb cutoff t)"
proof -
  obtain ms where th: "throttling_of L resp = RateLimitExceeded ''openai'' ms"
    using throttling_is_rate_limit by blast
  have p: "now \<le> poll_at r c (t + pr_window_lag resp) lag" for r c lag
    using assms poll_at_ge_now [of "t + pr_window_lag resp" r c lag] by linarith
  show ?thesis
    using assms
    by (auto simp: classify_too_many_requests_def call_run_ok_def th p Let_def
        split: option.splits sum.splits)
qed

lemma answer_run_ok: "call_run_ok now (answer_run L cfg tid cutoff now ex)"
  using read_bounded_time
  by (fastforce simp: answer_run_def Let_def intro: classify_429_ok
      split: option.splits sum.splits dest: read_bounded_time)

interpretation openai: llm_vendor "supports_model cfg" "execute_classified L cfg" for L cfg
proof (unfold_locales, goal_cases)
  case (1 m tid ps c now net)
  then show ?case by (auto simp: execute_classified_def)
next
  case (2 m tid ps c now net run wire net')
  then show ?case
    by (auto simp: execute_classified_def wire_request_def split: if_splits list.splits)
next
  case (3 m tid ps c now net run wire net')
  then show ?case
    by (auto simp: execute_classified_def answer_run_ok split: if_splits list.splits)
qed

text \<open>The repository's call inherits the contract, whatever vendors are registered.\<close>

lemma call_llm_cases:
  assumes "call_llm L vs plan ps c now net = (run, wire, net')"
  shows "(\<exists>e. run = run_at now (Err e) \<and> wire = [] \<and> net' = net)
    \<or> (\<exists>cfg. vs (vendor_id plan) = Some cfg \<and> supports_model cfg (model_id plan) \<and>
         execute_classified L cfg (model_id plan) (target_id plan) ps c now net = (run, wire, net'))"
  using assms by (auto simp: call_llm_def get_vendor_def ok_or_def
      split: sum.splits option.splits if_splits)

lemma call_llm_ok: "call_llm L vs plan ps c now net = (run, wire, net') \<Longrightarrow> call_run_ok now run"
  by (drule call_llm_cases) (auto dest: openai.in_order)

lemma call_llm_wire:
  "call_llm L vs plan ps c now net = (run, wire, net') \<Longrightarrow>
     length wire \<le> 1 \<and> net' = drop (length wire) net \<and> (\<forall>q \<in> set wire. cr_model q = model_id plan)"
  by (drule call_llm_cases) (auto dest: openai.one_request)

end
