(* ===== verification/Executor.thy ===== *)
theory Executor
  imports OpenAI_Vendor Circuit_Lemmas
begin

text \<open>
  \<open>features/executor/service.rs\<close> (and the attempt guard of \<open>features/executor/attempt.rs\<close>): attempts,
  retries, circuit admission, fallbacks.

  The service's fixed parts are the record \<open>service\<close>. Everything a request changes or observes is the
  record \<open>world\<close>: the monotonic clock, the target circuits, the metric events, the requests put on the
  wire, and three supplies: \<open>w_ticks\<close>, the nanoseconds that pass before each later clock reading or
  timer wake-up (0 when exhausted); \<open>w_others\<close>, what the concurrent requests did to the circuit map
  before each later acquisition of its lock; \<open>w_net\<close>, the answers of the provider; and \<open>w_entropy\<close>, the
  draws of the jitter source. Every operation takes the world and returns it updated; a theorem about
  all worlds is one about all timings, all interleavings at the lock and all provider behaviours.
\<close>

record executor_config =
  xc_openai :: "openai_config option"
  xc_timeout_ms :: nat
  xc_max_retries :: nat
  xc_max_total_attempts :: nat
  xc_backoff_cap_ms :: nat
  xc_circuit_failure_threshold :: nat
  xc_circuit_cooldown_ms :: nat

record service =
  sv_libs :: libs
  sv_vendors :: vendors
  sv_config :: executor_config
  sv_circuit :: circuit_config

record wire_call =
  wc_time :: nat
  wc_target :: string
  wc_request :: chat_request

record world =
  w_now :: nat
  w_ticks :: "nat list"
  w_circuits :: registry
  w_others :: "(registry \<Rightarrow> registry) list"
  w_events :: "metric_event list"
  w_net :: "exchange list"
  w_entropy :: "nat option list"
  w_sent :: "wire_call list"

definition service_from_config :: "libs \<Rightarrow> (string \<Rightarrow> bool) \<Rightarrow> executor_config \<Rightarrow> executor_error + service"
  where
  "service_from_config L client_builds cfg =
     and_then (repository_from_config client_builds (xc_openai cfg)) (\<lambda>vs.
       Ok \<lparr>sv_libs = L, sv_vendors = vs, sv_config = cfg,
           sv_circuit = circuit_config_of (xc_circuit_failure_threshold cfg)
                          (xc_circuit_cooldown_ms cfg)\<rparr>)"

section \<open>World primitives\<close>

text \<open>A clock reading, after whatever time has passed.\<close>

definition read_clock :: "world \<Rightarrow> nat \<times> world" where
  "read_clock w =
     (case w_ticks w of
        [] \<Rightarrow> (w_now w, w)
      | d # ds \<Rightarrow> (w_now w + d, w\<lparr>w_now := w_now w + d, w_ticks := ds\<rparr>))"

text \<open>The lag of the next timer wake-up.\<close>

definition next_lag :: "world \<Rightarrow> nat \<times> world" where
  "next_lag w =
     (case w_ticks w of [] \<Rightarrow> (0, w) | d # ds \<Rightarrow> (d, w\<lparr>w_ticks := ds\<rparr>))"

definition emit :: "metric_event list \<Rightarrow> world \<Rightarrow> world" where
  "emit evs w = w\<lparr>w_events := w_events w @ evs\<rparr>"

text \<open>The circuit lock: the others' changes first, then this request's operation.\<close>

definition with_circuits ::
    "(registry \<Rightarrow> 'a \<times> registry \<times> metric_event list) \<Rightarrow> world \<Rightarrow> 'a \<times> world" where
  "with_circuits op w =
     (let (reg, os) = (case w_others w of [] \<Rightarrow> (w_circuits w, [])
                                        | f # fs \<Rightarrow> (f (w_circuits w), fs))
      in case op reg of
           (x, reg', evs) \<Rightarrow> (x, emit evs (w\<lparr>w_circuits := reg', w_others := os\<rparr>)))"

definition deadline_exceeded :: "world \<Rightarrow> executor_error \<times> world" where
  "deadline_exceeded w = (ExecDeadlineExceeded, emit record_deadline_exceeded w)"

definition observe_terminal :: "executor_error \<Rightarrow> world \<Rightarrow> executor_error \<times> world" where
  "observe_terminal e w =
     (e, if e = ExecDeadlineExceeded then emit record_deadline_exceeded w else w)"

definition record_success :: "string \<Rightarrow> execution_result \<Rightarrow> world \<Rightarrow> world" where
  "record_success tid r w =
     emit (record_successful_usage tid (er_prompt_tokens r) (er_completion_tokens r)) w"

section \<open>Classification\<close>

fun is_retryable_error :: "executor_error \<Rightarrow> bool" where
  "is_retryable_error (NetworkError _) = True"
| "is_retryable_error (TimeoutError _) = True"
| "is_retryable_error (RateLimitExceeded _ _) = True"
| "is_retryable_error (ApiCallFailed _) = True"
| "is_retryable_error _ = False"

fun is_circuit_failure :: "executor_error \<Rightarrow> bool" where
  "is_circuit_failure (NetworkError _) = True"
| "is_circuit_failure (TimeoutError _) = True"
| "is_circuit_failure (ApiCallFailed _) = True"
| "is_circuit_failure _ = False"

fun is_fallback_eligible :: "executor_error \<Rightarrow> bool" where
  "is_fallback_eligible (NetworkError _) = True"
| "is_fallback_eligible (TimeoutError _) = True"
| "is_fallback_eligible (ApiCallFailed _) = True"
| "is_fallback_eligible (ExecCircuitOpen _ _) = True"
| "is_fallback_eligible _ = False"

text \<open>\<open>u32::try_from\<close> of a positive \<open>i64\<close> fails above \<open>u32::MAX\<close>.\<close>

definition hop_supports_params :: "route_plan \<Rightarrow> execution_params \<Rightarrow> bool" where
  "hop_supports_params plan ps =
     (case ep_max_tokens ps of
        Some requested \<Rightarrow>
          (if 0 < requested
           then (if requested \<le> int u32_max then nat requested \<le> max_output_tokens plan else False)
           else True)
      | None \<Rightarrow> True)"

fun attempt_outcome_of :: "executor_error \<Rightarrow> attempt_outcome" where
  "attempt_outcome_of (NetworkError _) = ORetryable"
| "attempt_outcome_of (ApiCallFailed _) = ORetryable"
| "attempt_outcome_of (TimeoutError _) = OTimeout"
| "attempt_outcome_of (RateLimitExceeded _ _) = ORateLimit"
| "attempt_outcome_of QuotaExceeded = OQuota"
| "attempt_outcome_of (AuthenticationFailed _) = OUpstreamAuth"
| "attempt_outcome_of (JsonError _) = OProtocol"
| "attempt_outcome_of InvalidUpstreamResult = OProtocol"
| "attempt_outcome_of UpstreamRejected = ORejected"
| "attempt_outcome_of ExecDeadlineExceeded = ODeadline"
| "attempt_outcome_of (ExecCircuitOpen _ _) = OCircuitOpen"
| "attempt_outcome_of (UnsupportedVendor _) = OInternal"
| "attempt_outcome_of (UnsupportedModel _ _) = OInternal"
| "attempt_outcome_of (InvalidPayload _) = OInternal"
| "attempt_outcome_of NoVendorsConfigured = OInternal"
| "attempt_outcome_of InvalidConfiguration = OInternal"
| "attempt_outcome_of MissingPricing = OInternal"

text \<open>
  The clock is read once for the expiry and, for a throttling with a hint, once more for the
  remaining time.
\<close>

definition terminate_for_provider_minimum ::
    "executor_error \<Rightarrow> request_deadline \<Rightarrow> world \<Rightarrow> executor_error option \<times> world" where
  "terminate_for_provider_minimum e dl w =
     (case read_clock w of (t, w1) \<Rightarrow>
        (if is_expired dl t then (Some ExecDeadlineExceeded, w1)
         else case e of
                RateLimitExceeded _ (Some ms) \<Rightarrow>
                  (case read_clock w1 of (t2, w2) \<Rightarrow>
                     (if provider_minimum_cannot_fit (Some (from_millis ms)) (remaining dl t2)
                      then (Some e, w2) else (None, w2)))
              | _ \<Rightarrow> (None, w1)))"

section \<open>The started-attempt guard\<close>

record started_attempt =
  sa_target :: string
  sa_deadline :: request_deadline
  sa_recorded :: bool

definition started_attempt_new :: "string \<Rightarrow> request_deadline \<Rightarrow> started_attempt" where
  "started_attempt_new tid dl = \<lparr>sa_target = tid, sa_deadline = dl, sa_recorded = False\<rparr>"

definition sa_record :: "attempt_outcome \<Rightarrow> started_attempt \<Rightarrow> started_attempt \<times> metric_event list"
  where
  "sa_record out g =
     (if sa_recorded g then (g, [])
      else (g\<lparr>sa_recorded := True\<rparr>, record_attempt (sa_target g) out))"

text \<open>\<open>Drop\<close> at an instant, and \<open>complete\<close>, which records and then drops the guard.\<close>

definition sa_drop :: "nat \<Rightarrow> started_attempt \<Rightarrow> metric_event list" where
  "sa_drop now g =
     (if sa_recorded g then []
      else snd (sa_record (if is_expired (sa_deadline g) now then ODeadline else OCancelled) g))"

definition sa_complete :: "nat \<Rightarrow> attempt_outcome \<Rightarrow> started_attempt \<Rightarrow> metric_event list" where
  "sa_complete now out g = (case sa_record out g of (g', evs) \<Rightarrow> evs @ sa_drop now g')"

lemma sa_complete_once [simp]:
  "sa_complete now out (started_attempt_new tid dl) = [MAttempt tid out]"
  by (simp add: sa_complete_def sa_record_def sa_drop_def started_attempt_new_def record_defs)

lemma sa_drop_once:
  "sa_drop now (started_attempt_new tid dl)
     = [MAttempt tid (if is_expired dl now then ODeadline else OCancelled)]"
  by (simp add: sa_record_def sa_drop_def started_attempt_new_def record_defs)

section \<open>One attempt\<close>

text \<open>
  The wait before a retry: \<open>Some e\<close> leaves the loop with the error \<open>e\<close>. A timer fires at its deadline
  or later.
\<close>

definition sleep_until_retry ::
    "request_deadline \<Rightarrow> nat \<Rightarrow> world \<Rightarrow> bool \<times> world" where
  "sleep_until_retry dl wait w =
     (case read_clock w of (t, w1) \<Rightarrow>
      case next_lag w1 of (late, w2) \<Rightarrow>
      case next_lag w2 of (lag, w3) \<Rightarrow>
        (let ready = Some (t + wait + late);
             u = poll_at ready (as_instant dl) t lag
         in (timeout_poll ready u, w3\<lparr>w_now := u\<rparr>)))"

definition retry_wait ::
    "service \<Rightarrow> route_plan \<Rightarrow> request_deadline \<Rightarrow> nat \<Rightarrow> nat option \<Rightarrow> executor_error option
      \<Rightarrow> world \<Rightarrow> executor_error option \<times> world" where
  "retry_wait sv plan dl attempt hint_ms last_error w =
     (case plan_retry_delay system_jitter attempt (from_millis (xc_backoff_cap_ms (sv_config sv)))
             (map_option from_millis hint_ms) (w_entropy w) of
        (planned, ent) \<Rightarrow>
      case read_clock (w\<lparr>w_entropy := ent\<rparr>) of (t, w1) \<Rightarrow>
      (case evaluate_retry_delay planned (remaining dl t) of
         Inr wait \<Rightarrow>
           (case (if wait = 0 then (True, w1) else sleep_until_retry dl wait w1) of
              (False, w2) \<Rightarrow> (case deadline_exceeded w2 of (e, w3) \<Rightarrow> (Some e, w3))
            | (True, w2) \<Rightarrow>
                (case read_clock w2 of (t2, w3) \<Rightarrow>
                   (if is_expired dl t2
                    then (case deadline_exceeded w3 of (e, w4) \<Rightarrow> (Some e, w4))
                    else (None, w3))))
       | Inl (ProviderDelayCannotFit retry_after) \<Rightarrow>
           (Some (case last_error of
                    Some (RateLimitExceeded v ms) \<Rightarrow> RateLimitExceeded v ms
                  | _ \<Rightarrow> RateLimitExceeded (vendor_id plan) (Some (duration_ms retry_after))), w1)
       | Inl DelayDeadlineExceeded \<Rightarrow>
           (case deadline_exceeded w1 of (e, w2) \<Rightarrow> (Some e, w2))))"

text \<open>
  The provider call under \<open>timeout_at(cutoff, _)\<close>: its outcome (\<open>None\<close> when the timer elapsed), and
  the error observed on the attempt context by then.
\<close>

definition timed_call ::
    "service \<Rightarrow> route_plan \<Rightarrow> execution_params \<Rightarrow> nat \<Rightarrow> world
      \<Rightarrow> (call_result option \<times> executor_error option) \<times> world" where
  "timed_call sv plan ps cutoff w =
     (case read_clock w of (t, w1) \<Rightarrow>
      case call_llm (sv_libs sv) (sv_vendors sv) plan ps cutoff t (w_net w1) of
        (run, wire, net') \<Rightarrow>
      case next_lag w1 of (lag, w2) \<Rightarrow>
        (let ready = map_option fst (run_ready run);
             u = poll_at ready cutoff t lag;
             sent = map (\<lambda>q. \<lparr>wc_time = t, wc_target = target_id plan, wc_request = q\<rparr>) wire
         in ((if timeout_poll ready u then map_option snd (run_ready run) else None,
              observed_at (run_observed run) u),
             w2\<lparr>w_now := u, w_net := net', w_sent := w_sent w2 @ sent\<rparr>)))"

datatype attempt_step =
    Return call_result
  | Break
  | Continue executor_error "nat option"   \<comment> \<open>\<open>last_error\<close> and \<open>retry_after_ms\<close>\<close>

text \<open>What follows the call, once the attempt's own error is known.\<close>

definition after_error ::
    "request_deadline \<Rightarrow> executor_error \<Rightarrow> world \<Rightarrow> attempt_step \<times> world" where
  "after_error dl e w =
     (if is_retryable_error e
      then (case terminate_for_provider_minimum e dl w of
              (Some terminal, w1) \<Rightarrow>
                (case observe_terminal terminal w1 of (e', w2) \<Rightarrow> (Return (Err e'), w2))
            | (None, w1) \<Rightarrow>
                (Continue e (case e of RateLimitExceeded _ (Some ms) \<Rightarrow> Some ms | _ \<Rightarrow> None), w1))
      else (Return (Err e), w))"

text \<open>
  What follows the call: the overall expiry wins over every outcome; otherwise the guard records the
  attempt's own outcome.
\<close>

definition conclude_attempt ::
    "request_deadline \<Rightarrow> started_attempt \<Rightarrow> nat \<Rightarrow> call_result option \<Rightarrow> executor_error option
      \<Rightarrow> world \<Rightarrow> attempt_step \<times> world" where
  "conclude_attempt dl guard attempt_timeout outcome observed w =
     (case read_clock w of (t, w1) \<Rightarrow>
      (if is_expired dl t
       then (case deadline_exceeded (emit (sa_complete t ODeadline guard) w1) of
               (e, w2) \<Rightarrow> (Return (Err e), w2))
       else case outcome of
              Some (Inr r) \<Rightarrow>
                (Return (Ok r),
                 record_success (sa_target guard) r (emit (sa_complete t OSuccess guard) w1))
            | Some (Inl e) \<Rightarrow>
                after_error dl e (emit (sa_complete t (attempt_outcome_of e) guard) w1)
            | None \<Rightarrow>
                (case observed of
                   Some e \<Rightarrow>
                     after_error dl e (emit (sa_complete t (attempt_outcome_of e) guard) w1)
                 | None \<Rightarrow>
                     after_error dl (TimeoutError (as_millis attempt_timeout))
                       (emit (sa_complete t OTimeout guard) w1))))"

definition run_attempt ::
    "service \<Rightarrow> route_plan \<Rightarrow> execution_params \<Rightarrow> request_deadline \<Rightarrow> nat \<Rightarrow> attempt_budget
      \<Rightarrow> world \<Rightarrow> attempt_step \<times> attempt_budget \<times> world" where
  "run_attempt sv plan ps dl attempt b w =
     (case read_clock w of (t, w1) \<Rightarrow>
      (case attempt_cutoff dl (from_millis (xc_timeout_ms (sv_config sv))) t of
         None \<Rightarrow> (case deadline_exceeded w1 of (e, w2) \<Rightarrow> (Return (Err e), b, w2))
       | Some cutoff \<Rightarrow>
           (case try_start b of
              (False, b') \<Rightarrow> (Break, b', w1)
            | (True, b') \<Rightarrow>
                (case read_clock (if 0 < attempt then emit (record_retry (target_id plan)) w1 else w1)
                 of (t2, w2) \<Rightarrow>
                 (let attempt_timeout = cutoff - t2;
                      guard = started_attempt_new (target_id plan) dl
                  in case timed_call sv plan ps cutoff w2 of ((outcome, observed), w3) \<Rightarrow>
                     case conclude_attempt dl guard attempt_timeout outcome observed w3 of
                       (st, w4) \<Rightarrow> (st, b', w4))))))"

text \<open>
  The attempt whose caller goes away: the future is dropped at the only point where an attempt waits, its
  provider call, \<open>held\<close> nanoseconds after it began. The guard is dropped with it. \<open>None\<close> when the attempt
  ends before it waits (its call is ready when first polled, say).
\<close>

definition run_attempt_dropped ::
    "service \<Rightarrow> route_plan \<Rightarrow> execution_params \<Rightarrow> request_deadline \<Rightarrow> nat \<Rightarrow> attempt_budget
      \<Rightarrow> nat \<Rightarrow> world \<Rightarrow> (attempt_budget \<times> world) option" where
  "run_attempt_dropped sv plan ps dl attempt b held w =
     (case read_clock w of (t, w1) \<Rightarrow>
      (case attempt_cutoff dl (from_millis (xc_timeout_ms (sv_config sv))) t of
         None \<Rightarrow> None
       | Some cutoff \<Rightarrow>
           (case try_start b of
              (False, b') \<Rightarrow> None
            | (True, b') \<Rightarrow>
                (case read_clock (if 0 < attempt then emit (record_retry (target_id plan)) w1 else w1)
                 of (t2, w2) \<Rightarrow>
                 (case read_clock w2 of (t3, w3) \<Rightarrow>
                  case call_llm (sv_libs sv) (sv_vendors sv) plan ps cutoff t3 (w_net w3) of
                    (run, wire, net') \<Rightarrow>
                    (let guard = started_attempt_new (target_id plan) dl;
                         sent = map (\<lambda>q. \<lparr>wc_time = t3, wc_target = target_id plan, wc_request = q\<rparr>) wire;
                         w4 = w3\<lparr>w_now := t3 + held, w_net := net', w_sent := w_sent w3 @ sent\<rparr>
                     in if timeout_poll (map_option fst (run_ready run)) t3 then None
                        else Some (b', emit (sa_drop (t3 + held) guard) w4)))))))"

section \<open>Attempts of one hop\<close>

definition max_retries_exceeded :: executor_error where
  "max_retries_exceeded = ApiCallFailed ''Max retries exceeded''"

definition finish_attempts :: "executor_error option \<Rightarrow> call_result" where
  "finish_attempts last_error =
     Err (case last_error of Some e \<Rightarrow> e | None \<Rightarrow> max_retries_exceeded)"

text \<open>\<open>for attempt in 0..=max_retries\<close>, over the list of the indexes still to run.\<close>

fun attempts_loop ::
    "service \<Rightarrow> route_plan \<Rightarrow> execution_params \<Rightarrow> request_deadline \<Rightarrow> nat list
      \<Rightarrow> executor_error option \<Rightarrow> nat option \<Rightarrow> attempt_budget \<Rightarrow> world
      \<Rightarrow> call_result \<times> attempt_budget \<times> world" where
  "attempts_loop sv plan ps dl [] last_error hint_ms b w =
     (finish_attempts last_error, b, w)"
| "attempts_loop sv plan ps dl (attempt # rest) last_error hint_ms b w =
     (case read_clock w of (t, w1) \<Rightarrow>
      (if is_expired dl t then (case deadline_exceeded w1 of (e, w2) \<Rightarrow> (Err e, b, w2))
       else if budget_remaining b = 0 then (finish_attempts last_error, b, w1)
       else
         (case (if 0 < attempt then retry_wait sv plan dl attempt hint_ms last_error w1
                else (None, w1)) of
            (Some e, w2) \<Rightarrow> (Err e, b, w2)
          | (None, w2) \<Rightarrow>
              (case run_attempt sv plan ps dl attempt b w2 of
                 (Return r, b', w3) \<Rightarrow> (r, b', w3)
               | (Break, b', w3) \<Rightarrow> (finish_attempts last_error, b', w3)
               | (Continue e ra, b', w3) \<Rightarrow>
                   attempts_loop sv plan ps dl rest (Some e) ra b' w3))))"

definition execute_attempts ::
    "service \<Rightarrow> route_plan \<Rightarrow> execution_params \<Rightarrow> request_deadline \<Rightarrow> attempt_budget \<Rightarrow> nat
      \<Rightarrow> world \<Rightarrow> call_result \<times> attempt_budget \<times> world" where
  "execute_attempts sv plan ps dl b max_retries w =
     attempts_loop sv plan ps dl [0..<Suc max_retries] None None b w"

section \<open>One hop\<close>

definition settle_hop ::
    "service \<Rightarrow> circuit_permit \<Rightarrow> completion_outcome \<Rightarrow> world \<Rightarrow> world" where
  "settle_hop sv p outcome w =
     (case read_clock w of (t, w1) \<Rightarrow>
        snd (with_circuits (\<lambda>reg. ((), consume (sv_circuit sv) t p outcome reg)) w1))"

definition drop_hop :: "circuit_permit \<Rightarrow> world \<Rightarrow> world" where
  "drop_hop p w =
     (if p_kind p = PermitProbe
      then snd (with_circuits (\<lambda>reg. ((), drop_permit p reg, [])) w) else w)"

definition admit_hop :: "service \<Rightarrow> string \<Rightarrow> world \<Rightarrow> circuit_admission \<times> world" where
  "admit_hop sv tid w =
     (case read_clock w of (t, w1) \<Rightarrow>
      case read_clock w1 of (t2, w2) \<Rightarrow>
        with_circuits (\<lambda>reg. admit (sv_circuit sv) t t2 tid reg) w2)"

definition execute_hop ::
    "service \<Rightarrow> route_plan \<Rightarrow> execution_params \<Rightarrow> request_deadline \<Rightarrow> attempt_budget
      \<Rightarrow> world \<Rightarrow> call_result \<times> attempt_budget \<times> world" where
  "execute_hop sv plan ps dl b w =
     (case read_clock w of (t, w1) \<Rightarrow>
      (if is_expired dl t then (case deadline_exceeded w1 of (e, w2) \<Rightarrow> (Err e, b, w2))
       else if budget_remaining b = 0 then (Err max_retries_exceeded, b, w1)
       else
         (case admit_hop sv (target_id plan) w1 of
            (Reject ms, w2) \<Rightarrow> (Err (ExecCircuitOpen (vendor_id plan) ms), b, w2)
          | (Probe guard, w2) \<Rightarrow>
              (case execute_attempts sv plan ps dl b 0 w2 of
                 (Inr r, b', w3) \<Rightarrow> (Ok r, b', settle_hop sv guard Success w3)
               | (Inl e, b', w3) \<Rightarrow>
                   (Err e, b',
                    if e = ExecDeadlineExceeded then drop_hop guard w3
                    else if is_circuit_failure e then settle_hop sv guard TransientFailure w3
                    else settle_hop sv guard Permanent w3))
          | (Allow permit, w2) \<Rightarrow>
              (case execute_attempts sv plan ps dl b (xc_max_retries (sv_config sv)) w2 of
                 (Inr r, b', w3) \<Rightarrow> (Ok r, b', settle_hop sv permit Success w3)
               | (Inl e, b', w3) \<Rightarrow>
                   (Err e, b',
                    if e = ExecDeadlineExceeded then drop_hop permit w3
                    else if is_circuit_failure e then settle_hop sv permit TransientFailure w3
                    else drop_hop permit w3)))))"

section \<open>Fallbacks\<close>

definition finish_fallbacks ::
    "executor_error \<Rightarrow> request_deadline \<Rightarrow> attempt_budget \<Rightarrow> world
      \<Rightarrow> call_result \<times> attempt_budget \<times> world" where
  "finish_fallbacks primary_error dl b w =
     (case read_clock w of (t, w1) \<Rightarrow>
        (if is_expired dl t then (case deadline_exceeded w1 of (e, w2) \<Rightarrow> (Err e, b, w2))
         else (Err primary_error, b, w1)))"

fun fallbacks_loop ::
    "service \<Rightarrow> execution_params \<Rightarrow> executor_error \<Rightarrow> request_deadline \<Rightarrow> route_plan list \<Rightarrow> string
      \<Rightarrow> attempt_budget \<Rightarrow> world \<Rightarrow> call_result \<times> attempt_budget \<times> world" where
  "fallbacks_loop sv ps primary_error dl [] from_target b w =
     finish_fallbacks primary_error dl b w"
| "fallbacks_loop sv ps primary_error dl (fallback # rest) from_target b w =
     (case read_clock w of (t, w1) \<Rightarrow>
      (if is_expired dl t then (case deadline_exceeded w1 of (e, w2) \<Rightarrow> (Err e, b, w2))
       else if \<not> hop_supports_params fallback ps
       then fallbacks_loop sv ps primary_error dl rest from_target b w1
       else
         (case execute_hop sv fallback ps dl b
                 (emit (record_fallback from_target (target_id fallback)) w1) of
            (Inr r, b', w2) \<Rightarrow> (Ok r, b', w2)
          | (Inl e, b', w2) \<Rightarrow>
              (if e = ExecDeadlineExceeded then (Err e, b', w2)
               else
                 (case terminate_for_provider_minimum e dl w2 of
                    (Some terminal, w3) \<Rightarrow>
                      (case observe_terminal terminal w3 of (e', w4) \<Rightarrow> (Err e', b', w4))
                  | (None, w3) \<Rightarrow>
                      (if \<not> is_fallback_eligible e then finish_fallbacks primary_error dl b' w3
                       else fallbacks_loop sv ps primary_error dl rest (target_id fallback) b' w3))))))"

definition execute_fallbacks ::
    "service \<Rightarrow> route_plan list \<Rightarrow> execution_params \<Rightarrow> executor_error \<Rightarrow> request_deadline
      \<Rightarrow> attempt_budget \<Rightarrow> string \<Rightarrow> world \<Rightarrow> call_result \<times> attempt_budget \<times> world" where
  "execute_fallbacks sv plans ps primary_error dl b primary_target w =
     (case read_clock w of (t, w1) \<Rightarrow>
      (if is_expired dl t then (case deadline_exceeded w1 of (e, w2) \<Rightarrow> (Err e, b, w2))
       else if plans = [] then (Err primary_error, b, w1)
       else fallbacks_loop sv ps primary_error dl plans primary_target b w1))"

section \<open>Parameters and the whole request\<close>

text \<open>
  \<open>from_value::<Vec<Message>>\<close>: the derived reader takes an object with both string members (others
  are ignored) or the two strings in order as an array.
\<close>

fun message_from_json :: "json \<Rightarrow> chat_message option" where
  "message_from_json (JObj kvs) =
     (case (map_of kvs ''role'', map_of kvs ''content'') of
        (Some (JStr r), Some (JStr c)) \<Rightarrow> Some \<lparr>msg_role = r, msg_content = c\<rparr>
      | _ \<Rightarrow> None)"
| "message_from_json (JArr [JStr r, JStr c]) = Some \<lparr>msg_role = r, msg_content = c\<rparr>"
| "message_from_json _ = None"

definition messages_from_json :: "json \<Rightarrow> chat_message list option" where
  "messages_from_json v =
     (case as_array v of None \<Rightarrow> None | Some xs \<Rightarrow> those (map message_from_json xs))"

definition extract_params :: "json \<Rightarrow> executor_error + execution_params" where
  "extract_params payload =
     and_then (ok_or (InvalidPayload ''Missing or invalid 'messages' field'')
                 (Option.bind (json_get ''messages'' payload) messages_from_json)) (\<lambda>messages.
       Ok \<lparr>ep_messages = messages,
           ep_temperature = Option.bind (json_get ''temperature'' payload) as_f64,
           ep_max_tokens = Option.bind (json_get ''max_tokens'' payload) as_i64,
           ep_top_p = Option.bind (json_get ''top_p'' payload) as_f64,
           ep_stream = (case Option.bind (json_get ''stream'' payload) as_bool of
                          None \<Rightarrow> False | Some b \<Rightarrow> b)\<rparr>)"

text \<open>\<open>execute\<close> makes the budget \<open>b\<close> that the hops share; its final value is dropped on return.\<close>

definition execute_on_budget ::
    "service \<Rightarrow> route_plan \<Rightarrow> json \<Rightarrow> request_deadline \<Rightarrow> attempt_budget \<Rightarrow> world
      \<Rightarrow> call_result \<times> attempt_budget \<times> world" where
  "execute_on_budget sv plan payload dl b w =
     (case read_clock w of (t, w1) \<Rightarrow>
      (if is_expired dl t then (case deadline_exceeded w1 of (e, w2) \<Rightarrow> (Err e, b, w2))
       else
         (case extract_params payload of
            Inl e \<Rightarrow> (Err e, b, w1)
          | Inr ps \<Rightarrow>
              (case execute_hop sv plan ps dl b w1 of
                 (Inr r, b', w2) \<Rightarrow> (Ok r, b', w2)
               | (Inl e, b', w2) \<Rightarrow>
                   (if e = ExecDeadlineExceeded then (Err e, b', w2)
                    else
                      (case terminate_for_provider_minimum e dl w2 of
                         (Some terminal, w3) \<Rightarrow>
                           (case observe_terminal terminal w3 of (e', w4) \<Rightarrow> (Err e', b', w4))
                       | (None, w3) \<Rightarrow>
                           (if \<not> is_fallback_eligible e then (Err e, b', w3)
                            else execute_fallbacks sv (fallback_plans plan) ps e dl b'
                                   (target_id plan) w3)))))))"

definition execute ::
    "service \<Rightarrow> route_plan \<Rightarrow> json \<Rightarrow> request_deadline \<Rightarrow> world \<Rightarrow> call_result \<times> world" where
  "execute sv plan payload dl w =
     (case execute_on_budget sv plan payload dl (budget_new (xc_max_total_attempts (sv_config sv))) w of
        (r, _, w') \<Rightarrow> (r, w'))"

lemma execute_unfold:
  "execute sv plan payload dl w =
     (case read_clock w of (t, w1) \<Rightarrow>
      (if is_expired dl t then (case deadline_exceeded w1 of (e, w2) \<Rightarrow> (Err e, w2))
       else
         (case extract_params payload of
            Inl e \<Rightarrow> (Err e, w1)
          | Inr ps \<Rightarrow>
              (case execute_hop sv plan ps dl
                      (budget_new (xc_max_total_attempts (sv_config sv))) w1 of
                 (Inr r, b, w2) \<Rightarrow> (Ok r, w2)
               | (Inl e, b, w2) \<Rightarrow>
                   (if e = ExecDeadlineExceeded then (Err e, w2)
                    else
                      (case terminate_for_provider_minimum e dl w2 of
                         (Some terminal, w3) \<Rightarrow>
                           (case observe_terminal terminal w3 of (e', w4) \<Rightarrow> (Err e', w4))
                       | (None, w3) \<Rightarrow>
                           (if \<not> is_fallback_eligible e then (Err e, w3)
                            else (case execute_fallbacks sv (fallback_plans plan) ps e dl b
                                         (target_id plan) w3 of
                                    (r, _, w4) \<Rightarrow> (r, w4)))))))))"
  unfolding execute_def execute_on_budget_def
  by (simp split: prod.split sum.split option.split)

end
