(* ===== verification/Executor_Lemmas.thy ===== *)
theory Executor_Lemmas
  imports Executor "HOL-Library.Sublist"
begin

text \<open>
  What every operation of the executor does to the world. \<open>advance dl T M b w b' w'\<close> is the contract of
  the operations that may call the provider for one hop with target \<open>T\<close> and model \<open>M\<close>: time does not
  go back, the budget pays for every started attempt, each started attempt leaves exactly one attempt
  event and at most one request on the wire, and the circuits are untouched. It is reflexive and
  transitive, so each operation's lemma composes those of the operations it calls.
\<close>

section \<open>World primitives\<close>

text \<open>The delay that may still pass before later clock readings.\<close>

definition slack :: "world \<Rightarrow> nat" where
  "slack w = sum_list (w_ticks w)"

lemma slack_upd [simp]: "slack (w\<lparr>w_ticks := ts\<rparr>) = sum_list ts"
  by (simp add: slack_def)

lemma slack_cong [simp]:
  "slack (w\<lparr>w_now := n\<rparr>) = slack w" "slack (w\<lparr>w_events := es\<rparr>) = slack w"
  "slack (w\<lparr>w_sent := cs\<rparr>) = slack w" "slack (w\<lparr>w_net := net\<rparr>) = slack w"
  "slack (w\<lparr>w_entropy := ent\<rparr>) = slack w" "slack (w\<lparr>w_circuits := reg\<rparr>) = slack w"
  "slack (w\<lparr>w_others := os\<rparr>) = slack w" "slack (emit es w) = slack w"
  by (simp_all add: slack_def emit_def)

text \<open>
  The delays are consumed in order: an operation leaves a suffix of them. \<open>soon_after dl w t\<close>: the instant
  \<open>t\<close> comes before the deadline, or exceeds it by less than two consecutive delays of those still to come,
  the two that pass between the last check of the deadline and the call.
\<close>

definition nth_delay :: "world \<Rightarrow> nat \<Rightarrow> nat" where
  "nth_delay w i = (if i < length (w_ticks w) then w_ticks w ! i else 0)"

definition soon_after :: "request_deadline \<Rightarrow> world \<Rightarrow> nat \<Rightarrow> bool" where
  "soon_after dl w t \<longleftrightarrow> (\<exists>i. t < dl_instant dl + nth_delay w i + nth_delay w (Suc i))"

abbreviation consumes :: "world \<Rightarrow> world \<Rightarrow> bool" where
  "consumes w w' \<equiv> suffix (w_ticks w') (w_ticks w)"

declare suffix_drop [simp]

lemma soon_after_consumes:
  assumes "consumes w w'" "soon_after dl w' t" shows "soon_after dl w t"
proof -
  obtain ts where ts: "w_ticks w = ts @ w_ticks w'" using assms(1) by (auto simp: suffix_def)
  have "nth_delay w' i = nth_delay w (length ts + i)" for i
    by (simp add: nth_delay_def ts nth_append)
  with assms(2) show ?thesis unfolding soon_after_def by (metis add_Suc_right)
qed

text \<open>Without scheduling delays the bound is the deadline itself.\<close>

lemma soon_after_punctual: "w_ticks w = [] \<Longrightarrow> soon_after dl w t \<longleftrightarrow> t < dl_instant dl"
  by (simp add: soon_after_def nth_delay_def)

lemma read_clockE:
  assumes "read_clock w = (t, w')"
  obtains d ts where "t = w_now w + d" "w' = w\<lparr>w_now := w_now w + d, w_ticks := ts\<rparr>"
    "slack w = d + sum_list ts" "ts = drop 1 (w_ticks w)" "d = nth_delay w 0"
proof (cases "w_ticks w")
  case Nil
  with assms show thesis
    by (intro that [of 0 "[]"]) (cases w; auto simp: read_clock_def slack_def nth_delay_def)+
next
  case (Cons d ds)
  with assms show thesis
    by (intro that [of d ds]) (auto simp: read_clock_def slack_def nth_delay_def)
qed

lemma next_lagE:
  assumes "next_lag w = (d, w')"
  obtains ts where "w' = w\<lparr>w_ticks := ts\<rparr>" "ts = drop 1 (w_ticks w)"
proof (cases "w_ticks w")
  case Nil
  with assms show thesis by (intro that [of "[]"]) (cases w; auto simp: next_lag_def)+
next
  case (Cons d ds)
  with assms show thesis by (intro that [of ds]) (simp_all add: next_lag_def)
qed

lemma read_clock_fields:
  "read_clock w = (t, w') \<Longrightarrow>
     w_now w' = t \<and> w_now w \<le> t \<and> w_sent w' = w_sent w \<and> w_events w' = w_events w
     \<and> w_circuits w' = w_circuits w \<and> w_others w' = w_others w \<and> w_net w' = w_net w
     \<and> w_entropy w' = w_entropy w"
  by (auto elim!: read_clockE)

lemma emit_fields [simp]:
  "w_now (emit es w) = w_now w" "w_ticks (emit es w) = w_ticks w"
  "w_circuits (emit es w) = w_circuits w" "w_others (emit es w) = w_others w"
  "w_events (emit es w) = w_events w @ es" "w_net (emit es w) = w_net w"
  "w_entropy (emit es w) = w_entropy w" "w_sent (emit es w) = w_sent w"
  by (simp_all add: emit_def)

lemma emit_Nil [simp]: "emit [] w = w"
  by (simp add: emit_def)

lemma deadline_exceeded_eq [simp]:
  "deadline_exceeded w = (ExecDeadlineExceeded, emit [MDeadlineExceeded] w)"
  by (simp add: deadline_exceeded_def record_defs)

section \<open>The contract\<close>

definition advance ::
    "request_deadline \<Rightarrow> string \<Rightarrow> string \<Rightarrow> attempt_budget \<Rightarrow> world \<Rightarrow> attempt_budget \<Rightarrow> world \<Rightarrow> bool" where
  "advance dl T M b w b' w' \<longleftrightarrow>
     w_now w \<le> w_now w' \<and> consumes w w'
     \<and> w_circuits w' = w_circuits w \<and> w_others w' = w_others w
     \<and> max_total b' = max_total b \<and> started b \<le> started b' \<and> (budget_wf b \<longrightarrow> budget_wf b')
     \<and> (\<exists>cs es.
          w_sent w' = w_sent w @ cs \<and> w_events w' = w_events w @ es
          \<and> length cs \<le> started b' - started b
          \<and> length (attempts_of es) = started b' - started b
          \<and> (\<forall>c \<in> set cs. wc_target c = T \<and> cr_model (wc_request c) = M
                \<and> w_now w \<le> wc_time c \<and> wc_time c \<le> w_now w'
                \<and> soon_after dl w (wc_time c))
          \<and> (\<forall>a \<in> set (attempts_of es). fst a = T))"

lemma advanceI:
  assumes "w_now w \<le> w_now w'" "consumes w w'"
    "w_circuits w' = w_circuits w" "w_others w' = w_others w"
    "max_total b' = max_total b" "started b \<le> started b'" "budget_wf b \<Longrightarrow> budget_wf b'"
    "w_sent w' = w_sent w @ cs" "w_events w' = w_events w @ es"
    "length cs \<le> started b' - started b"
    "length (attempts_of es) = started b' - started b"
    "\<And>c. c \<in> set cs \<Longrightarrow> wc_target c = T \<and> cr_model (wc_request c) = M
        \<and> w_now w \<le> wc_time c \<and> wc_time c \<le> w_now w' \<and> soon_after dl w (wc_time c)"
    "\<And>a. a \<in> set (attempts_of es) \<Longrightarrow> fst a = T"
  shows "advance dl T M b w b' w'"
  unfolding advance_def using assms by blast

lemma advance_refl: "advance dl T M b w b w"
  by (rule advanceI [where cs = "[]" and es = "[]"]) simp_all

text \<open>Time passing and events that are not attempts.\<close>

lemma advance_quiet:
  assumes "w_now w \<le> w_now w'" "consumes w w'"
    "w_circuits w' = w_circuits w" "w_others w' = w_others w"
    "w_sent w' = w_sent w" "w_events w' = w_events w @ es" "attempts_of es = []"
  shows "advance dl T M b w b w'"
  by (rule advanceI [where cs = "[]" and es = es]) (use assms in simp_all)

lemma advance_trans:
  assumes "advance dl T M b w b1 w1" "advance dl T M b1 w1 b2 w2" shows "advance dl T M b w b2 w2"
proof -
  obtain cs es where 1: "w_sent w1 = w_sent w @ cs" "w_events w1 = w_events w @ es"
      "length cs \<le> started b1 - started b" "length (attempts_of es) = started b1 - started b"
      "\<forall>c \<in> set cs. wc_target c = T \<and> cr_model (wc_request c) = M
          \<and> w_now w \<le> wc_time c \<and> wc_time c \<le> w_now w1 \<and> soon_after dl w (wc_time c)"
      "\<forall>a \<in> set (attempts_of es). fst a = T"
    using assms(1) unfolding advance_def by blast
  obtain cs' es' where 2: "w_sent w2 = w_sent w1 @ cs'" "w_events w2 = w_events w1 @ es'"
      "length cs' \<le> started b2 - started b1" "length (attempts_of es') = started b2 - started b1"
      "\<forall>c \<in> set cs'. wc_target c = T \<and> cr_model (wc_request c) = M
          \<and> w_now w1 \<le> wc_time c \<and> wc_time c \<le> w_now w2 \<and> soon_after dl w1 (wc_time c)"
      "\<forall>a \<in> set (attempts_of es'). fst a = T"
    using assms(2) unfolding advance_def by blast
  have m: "w_now w \<le> w_now w1" "w_now w1 \<le> w_now w2" "started b \<le> started b1"
      "started b1 \<le> started b2" "consumes w w1" "consumes w1 w2"
    using assms by (simp_all add: advance_def)
  then have m2: "consumes w w2" "w_now w \<le> w_now w2" by (auto intro: suffix_order.trans)
  show ?thesis
  proof (rule advanceI [where cs = "cs @ cs'" and es = "es @ es'"])
    fix c assume "c \<in> set (cs @ cs')"
    then show "wc_target c = T \<and> cr_model (wc_request c) = M
        \<and> w_now w \<le> wc_time c \<and> wc_time c \<le> w_now w2 \<and> soon_after dl w (wc_time c)"
      using 1(5) 2(5) m(1,2) soon_after_consumes [OF m(5)] by force
  next
    fix a assume "a \<in> set (attempts_of (es @ es'))"
    then show "fst a = T" using 1(6) 2(6) by auto
  qed (use assms 1(1-4) 2(1-4) m m2 in \<open>simp_all add: advance_def\<close>)
qed

lemma advance_read_clock: "read_clock w = (t, w') \<Longrightarrow> advance dl T M b w b w'"
  by (erule read_clockE) (rule advance_quiet [where es = "[]"], simp_all)

lemma advance_emit: "attempts_of es = [] \<Longrightarrow> advance dl T M b w b (emit es w)"
  by (rule advance_quiet [where es = es]) simp_all

lemmas advance_step = advance_trans [OF advance_read_clock]

lemma advance_deadline: "deadline_exceeded w = (e, w') \<Longrightarrow> advance dl T M b w b w'"
  by (auto intro: advance_emit)

section \<open>The operations\<close>

lemma terminate_advance:
  "terminate_for_provider_minimum e dl w = (r, w') \<Longrightarrow> advance dl T M b w b w'"
  unfolding terminate_for_provider_minimum_def
  by (auto split: prod.splits if_splits executor_error.splits option.splits
      intro: advance_read_clock advance_step)

lemma terminate_result:
  "terminate_for_provider_minimum e dl w = (Some e', w') \<Longrightarrow>
     e' = ExecDeadlineExceeded
     \<or> e' = e \<and> (\<exists>v ms. e = RateLimitExceeded v (Some ms) \<and> remaining dl (w_now w') < from_millis ms)"
  unfolding terminate_for_provider_minimum_def
  by (auto split: prod.splits if_splits executor_error.splits option.splits
      simp: provider_minimum_cannot_fit_iff dest!: read_clock_fields)

lemma observe_terminal_advance:
  "observe_terminal e w = (e', w') \<Longrightarrow> advance dl T M b w b w'"
  by (auto simp: observe_terminal_def record_defs intro: advance_refl advance_emit split: if_splits)

lemma observe_terminal_same: "fst (observe_terminal e w) = e"
  by (simp add: observe_terminal_def)

lemma sleep_advance: "sleep_until_retry dl wait w = (ok, w') \<Longrightarrow> advance dl T M b w b w'"
  unfolding sleep_until_retry_def
  by (auto split: prod.splits simp: Let_def elim!: read_clockE next_lagE
      intro!: advance_quiet [where es = "[]"] order_trans [OF _ poll_at_ge_now])

lemma after_error_advance: "after_error dl e w = (st, w') \<Longrightarrow> advance dl T M b w b w'"
  unfolding after_error_def
  by (auto split: prod.splits if_splits option.splits
      intro: advance_refl terminate_advance advance_trans [OF terminate_advance observe_terminal_advance])


lemma retry_wait_advance: "retry_wait sv plan dl i h le w = (r, w') \<Longrightarrow> advance dl T M b w b w'"
proof -
  assume r: "retry_wait sv plan dl i h le w = (r, w')"
  obtain planned ent where pl: "plan_retry_delay system_jitter i
      (from_millis (xc_backoff_cap_ms (sv_config sv))) (map_option from_millis h) (w_entropy w)
      = (planned, ent)" by force
  obtain t w1 where rc: "read_clock (w\<lparr>w_entropy := ent\<rparr>) = (t, w1)" by force
  have a1: "advance dl T M b w b w1"
    using rc by (auto elim!: read_clockE intro!: advance_quiet [where es = "[]"])
  show ?thesis
  proof (cases "evaluate_retry_delay planned (remaining dl t)")
    case (Inl e)
    with r pl rc a1 show ?thesis
      by (cases e) (auto simp: retry_wait_def intro: advance_trans [OF a1 advance_emit])
  next
    case (Inr wait)
    obtain ok w2 where sl: "(if wait = 0 then (True, w1) else sleep_until_retry dl wait w1) = (ok, w2)"
      by force
    then have a2: "advance dl T M b w b w2"
      using a1 by (auto split: if_splits intro: advance_trans sleep_advance)
    obtain t2 w3 where rc2: "read_clock w2 = (t2, w3)" by force
    note a3 = advance_trans [OF a2 advance_read_clock [OF rc2]]
    have a4: "advance dl T M b w b (emit [MDeadlineExceeded] w2)"
      "advance dl T M b w b (emit [MDeadlineExceeded] w3)"
      by (simp_all add: advance_trans [OF a2 advance_emit] advance_trans [OF a3 advance_emit])
    have "r = None \<and> w' = w3 \<or> w' = emit [MDeadlineExceeded] w2 \<or> w' = emit [MDeadlineExceeded] w3"
      using r unfolding retry_wait_def pl rc prod.case Inr sum.case sl
      by (cases ok) (auto simp: rc2 split: if_splits)
    with a3 a4 show ?thesis by auto
  qed
qed

lemma read_clock_delays:
  "read_clock w = (t, w') \<Longrightarrow> t = w_now w + nth_delay w 0 \<and> (\<forall>i. nth_delay w' i = nth_delay w (Suc i))"
  by (auto elim!: read_clockE simp: nth_delay_def)

lemma read_clock_ticks: "read_clock w = (t, w') \<Longrightarrow> w_ticks w' = drop 1 (w_ticks w)"
  by (auto elim!: read_clockE)

lemma nth_delay_emit [simp]: "nth_delay (emit es w) i = nth_delay w i"
  by (simp add: nth_delay_def)

text \<open>The call of an attempt leaves at the clock reading that begins it.\<close>

lemma timed_call_effect:
  assumes "timed_call sv plan ps cutoff w = ((out, obs), w')"
  shows "\<exists>cs. w_sent w' = w_sent w @ cs \<and> length cs \<le> 1 \<and> w_events w' = w_events w
    \<and> w_circuits w' = w_circuits w \<and> w_others w' = w_others w \<and> w_now w \<le> w_now w'
    \<and> consumes w w'
    \<and> (\<forall>c \<in> set cs. wc_target c = target_id plan \<and> cr_model (wc_request c) = model_id plan
          \<and> wc_time c \<le> w_now w' \<and> wc_time c = w_now w + nth_delay w 0)"
proof -
  obtain t w1 where 1: "read_clock w = (t, w1)" by force
  obtain run wire net where 2:
    "call_llm (sv_libs sv) (sv_vendors sv) plan ps cutoff t (w_net w1) = (run, wire, net)"
    by (metis prod_cases3)
  obtain lag w2 where 3: "next_lag w1 = (lag, w2)" by force
  let ?u = "poll_at (map_option fst (run_ready run)) cutoff t lag"
  let ?cs = "map (\<lambda>q. \<lparr>wc_time = t, wc_target = target_id plan, wc_request = q\<rparr>) wire"
  have t: "t = w_now w + nth_delay w 0" "w_ticks w1 = drop 1 (w_ticks w)"
    using read_clock_delays [OF 1] read_clock_ticks [OF 1] by simp_all
  obtain ts where w2: "w2 = w1\<lparr>w_ticks := ts\<rparr>" "ts = drop 1 (w_ticks w1)" using next_lagE [OF 3] by metis
  have "w' = w2\<lparr>w_now := ?u, w_net := net, w_sent := w_sent w2 @ ?cs\<rparr>"
    using assms unfolding timed_call_def 1 prod.case 2 3 Let_def by simp
  moreover have "t \<le> ?u" by (rule poll_at_ge_now)
  moreover have "suffix ts (w_ticks w)" by (simp add: w2(2) t(2))
  ultimately show ?thesis
    using call_llm_wire [OF 2] read_clock_fields [OF 1] t(1)
    by (intro exI [of _ ?cs]) (auto simp: w2(1))
qed

text \<open>A started attempt: it spends one unit and leaves one event, whatever its outcome.\<close>

lemma advance_attempt:
  assumes "budget_wf b" "try_start b = (True, b')"
    and tc: "timed_call sv plan ps cutoff w = ((out, obs), w3)"
    and rc: "read_clock w3 = (t4, w4)" and es: "attempts_of es = [(target_id plan, oc)]"
    and live: "w_now w0 < dl_instant dl" "read_clock w0 = (t2, w)"
  shows "advance dl (target_id plan) (model_id plan) b w0 b' (emit es w4)"
proof -
  obtain cs where c: "w_sent w3 = w_sent w @ cs" "length cs \<le> 1" "w_events w3 = w_events w"
      "w_circuits w3 = w_circuits w" "w_others w3 = w_others w" "w_now w \<le> w_now w3" "consumes w w3"
      "\<forall>c \<in> set cs. wc_target c = target_id plan \<and> cr_model (wc_request c) = model_id plan
          \<and> wc_time c \<le> w_now w3 \<and> wc_time c = w_now w + nth_delay w 0"
    using timed_call_effect [OF tc] by blast
  note b = try_start_remaining [OF assms(1,2)] try_start_wf [OF assms(1,2)]
  note f0 = read_clock_fields [OF live(2)] and f3 = read_clock_fields [OF rc]
  note d0 = read_clock_delays [OF live(2)]
  have "consumes w0 w" "consumes w3 w4" using live(2) rc by (auto elim!: read_clockE)
  then have cons: "consumes w0 w4" using c(7) by (meson suffix_order.trans)
  show ?thesis
  proof (rule advanceI [where cs = cs and es = es])
    fix q assume "q \<in> set cs"
    with c(8) have q: "wc_target q = target_id plan" "cr_model (wc_request q) = model_id plan"
        "wc_time q \<le> w_now w3" "wc_time q = w_now w + nth_delay w 0" by auto
    have "wc_time q = w_now w0 + nth_delay w0 0 + nth_delay w0 (Suc 0)" using q(4) d0 f0 by simp
    then have "soon_after dl w0 (wc_time q)" using live(1) by (auto simp: soon_after_def intro!: exI [of _ 0])
    then show "wc_target q = target_id plan \<and> cr_model (wc_request q) = model_id plan
        \<and> w_now w0 \<le> wc_time q \<and> wc_time q \<le> w_now (emit es w4) \<and> soon_after dl w0 (wc_time q)"
      using q f0 f3 by simp
  qed (use c(1-6) b es f0 f3 cons in simp_all)
qed

lemma run_attempt_cases:
  assumes "run_attempt sv plan ps dl i b w = (st, b', w')"
  obtains
    (expired) t w1 where "read_clock w = (t, w1)"
      "attempt_cutoff dl (from_millis (xc_timeout_ms (sv_config sv))) t = None"
      "st = Return (Err ExecDeadlineExceeded)" "b' = b" "w' = emit [MDeadlineExceeded] w1"
  | (spent) t where "read_clock w = (t, w')" "try_start b = (False, b')" "st = Break"
  | (called) t w1 cutoff t2 w2 out obs w3 where "read_clock w = (t, w1)"
      "attempt_cutoff dl (from_millis (xc_timeout_ms (sv_config sv))) t = Some cutoff"
      "try_start b = (True, b')"
      "read_clock (if 0 < i then emit (record_retry (target_id plan)) w1 else w1) = (t2, w2)"
      "timed_call sv plan ps cutoff w2 = ((out, obs), w3)"
      "conclude_attempt dl (started_attempt_new (target_id plan) dl) (cutoff - t2) out obs w3 = (st, w')"
proof -
  obtain t w1 where 1: "read_clock w = (t, w1)" by force
  show thesis
  proof (cases "attempt_cutoff dl (from_millis (xc_timeout_ms (sv_config sv))) t")
    case None
    with assms 1 show thesis by (intro expired [of t w1]) (auto simp: run_attempt_def)
  next
    case (Some cutoff)
    obtain ok b1 where ts: "try_start b = (ok, b1)" by force
    show thesis
    proof (cases ok)
      case False
      with assms 1 Some ts show thesis by (intro spent [of t]) (auto simp: run_attempt_def)
    next
      case True
      obtain t2 w2 where 2:
        "read_clock (if 0 < i then emit (record_retry (target_id plan)) w1 else w1) = (t2, w2)"
        by force
      obtain out obs w3 where 3: "timed_call sv plan ps cutoff w2 = ((out, obs), w3)"
        by (metis prod.collapse)
      obtain st1 w4 where 4: "conclude_attempt dl (started_attempt_new (target_id plan) dl)
          (cutoff - t2) out obs w3 = (st1, w4)" by force
      have "run_attempt sv plan ps dl i b w = (st1, b1, w4)"
        unfolding run_attempt_def 1 Some ts prod.case option.case 2 Let_def 3 4 using True by simp
      with assms True 1 Some ts 2 3 4 show thesis by (intro called [of t w1 cutoff t2 w2 out obs w3]) auto
    qed
  qed
qed

text \<open>A dropped attempt: the guard's drop is its one event.\<close>

lemma run_attempt_dropped_event:
  assumes "budget_wf b" "run_attempt_dropped sv plan ps dl i b held w = Some (b', w')"
  shows "started b' = Suc (started b) \<and> (\<exists>es. w_events w' = w_events w @ es
    \<and> attempts_of es = [(target_id plan, if is_expired dl (w_now w') then ODeadline else OCancelled)])"
proof -
  obtain t w1 where 1: "read_clock w = (t, w1)" by force
  obtain cutoff where 2: "attempt_cutoff dl (from_millis (xc_timeout_ms (sv_config sv))) t = Some cutoff"
    using assms(2) by (auto simp: run_attempt_dropped_def 1 split: option.splits)
  have 3: "try_start b = (True, b')"
    using assms(2) by (auto simp: run_attempt_dropped_def 1 2 Let_def split: prod.splits bool.splits if_splits)
  obtain t2 w2 where 4: "read_clock (if 0 < i then emit (record_retry (target_id plan)) w1 else w1) = (t2, w2)"
    by force
  obtain t3 w3 where 5: "read_clock w2 = (t3, w3)" by force
  have e: "\<exists>es. w_events w3 = w_events w @ es \<and> attempts_of es = []"
    using read_clock_fields [OF 1] read_clock_fields [OF 4] read_clock_fields [OF 5]
    by (auto simp: record_defs split: if_splits)
  have "w_now w' = t3 + held \<and> w_events w'
      = w_events w3 @ sa_drop (t3 + held) (started_attempt_new (target_id plan) dl)"
    using assms(2) unfolding run_attempt_dropped_def 1 prod.case 2 option.case 3 bool.case 4 5 Let_def
    by (auto split: prod.splits if_splits)
  with e have "\<exists>es. w_events w' = w_events w @ es
      \<and> attempts_of es = [(target_id plan, if is_expired dl (w_now w') then ODeadline else OCancelled)]"
    by (auto simp: sa_drop_once)
  with try_start_remaining [OF assms(1) 3] show ?thesis by simp
qed

text \<open>A concluded attempt: its event, then whatever the error handling adds.\<close>

lemma conclude_cases:
  assumes "conclude_attempt dl (started_attempt_new T dl) to out obs w = (st, w')"
  obtains
    (expired) t w1 where "read_clock w = (t, w1)" "is_expired dl t"
      "st = Return (Err ExecDeadlineExceeded)" "w' = emit [MAttempt T ODeadline, MDeadlineExceeded] w1"
  | (success) t w1 r where "read_clock w = (t, w1)" "\<not> is_expired dl t" "out = Some (Ok r)"
      "st = Return (Ok r)"
      "w' = emit [MAttempt T OSuccess, MUsage T (er_prompt_tokens r) (er_completion_tokens r)] w1"
  | (failure) t w1 e oc where "read_clock w = (t, w1)" "\<not> is_expired dl t"
      "out = Some (Err e) \<or> out = None \<and> obs = Some e
        \<or> out = None \<and> obs = None \<and> e = TimeoutError (as_millis to)"
      "oc = attempt_outcome_of e" "after_error dl e (emit [MAttempt T oc] w1) = (st, w')"
proof -
  obtain t w1 where 1: "read_clock w = (t, w1)" by force
  have e: "emit es (emit es' w1) = emit (es' @ es) w1" for es es' by (simp add: emit_def)
  have tg: "sa_target (started_attempt_new T dl) = T" by (simp add: started_attempt_new_def)
  show thesis
  proof (cases "is_expired dl t")
    case True
    with assms 1 show thesis by (intro expired [of t w1]) (auto simp: conclude_attempt_def e)
  next
    case False
    note c = assms [unfolded conclude_attempt_def 1 prod.case]
    show thesis
    proof (cases out)
      case None
      then show thesis
      proof (cases obs)
        case None
        with c \<open>out = None\<close> 1 False show thesis
          by (intro failure [of t w1 "TimeoutError (as_millis to)"]) auto
      next
        case (Some x)
        with c \<open>out = None\<close> 1 False show thesis by (intro failure [of t w1 x]) auto
      qed
    next
      case (Some x)
      with c 1 False show thesis
        by (cases x) (auto simp: record_success_def record_defs e tg intro: failure success)
    qed
  qed
qed

lemma conclude_advance:
  assumes "budget_wf b" "try_start b = (True, b')"
    and tc: "timed_call sv plan ps cutoff w = ((out, obs), w3)"
    and live: "w_now w0 < dl_instant dl" "read_clock w0 = (t2, w)"
    and ca: "conclude_attempt dl (started_attempt_new (target_id plan) dl) to out obs w3 = (st, w')"
  shows "advance dl (target_id plan) (model_id plan) b w0 b' w'"
  using ca
proof (cases rule: conclude_cases)
  case (expired t w1)
  with advance_attempt [OF assms(1-3) _ _ live] show ?thesis by simp
next
  case (success t w1 r)
  with advance_attempt [OF assms(1-3) _ _ live] show ?thesis by simp
next
  case (failure t w1 e oc)
  have "advance dl (target_id plan) (model_id plan) b w0 b' (emit [MAttempt (target_id plan) oc] w1)"
    by (rule advance_attempt [OF assms(1-3) failure(1) _ live]) simp
  from advance_trans [OF this after_error_advance [OF failure(5)]] show ?thesis .
qed

lemma run_attempt_advance:
  assumes wf: "budget_wf b" and ra: "run_attempt sv plan ps dl i b w = (st, b', w')"
  shows "advance dl (target_id plan) (model_id plan) b w b' w'"
  using ra
proof (cases rule: run_attempt_cases)
  case (expired t w1)
  then show ?thesis
    by (simp add: advance_trans [OF advance_read_clock [OF expired(1)] advance_emit])
next
  case (spent t)
  with try_start_remaining(4) [OF wf spent(2)] show ?thesis by (simp add: advance_read_clock)
next
  case (called t w1 cutoff t2 w2 out obs w3)
  have "advance dl (target_id plan) (model_id plan) b w1 b
      (if 0 < i then emit (record_retry (target_id plan)) w1 else w1)"
    by (auto simp: record_defs intro: advance_refl advance_emit)
  note a1 = advance_trans [OF advance_read_clock [OF called(1)] this]
  have "w_now w1 = t" by (rule read_clockE [OF called(1)]) simp
  then have "w_now (if 0 < i then emit (record_retry (target_id plan)) w1 else w1) < dl_instant dl"
    using attempt_cutoff_SomeD(1,2) [OF called(2)] by simp
  from advance_trans [OF a1 conclude_advance [OF wf called(3,5) this called(4,6)]] show ?thesis .
qed

lemma attempts_loop_advance:
  assumes "budget_wf b" "attempts_loop sv plan ps dl is le h b w = (r, b', w')"
  shows "advance dl (target_id plan) (model_id plan) b w b' w'"
  using assms
proof (induction "is" arbitrary: le h b w)
  case Nil
  then show ?case by (auto intro: advance_refl)
next
  case (Cons i rest)
  let ?T = "target_id plan" and ?M = "model_id plan"
  obtain t w1 where 1: "read_clock w = (t, w1)" by force
  have a1: "advance dl ?T ?M b w b w1" by (rule advance_read_clock [OF 1])
  obtain e w2 where rw: "(if 0 < i then retry_wait sv plan dl i h le w1 else (None, w1)) = (e, w2)"
    by force
  have a2: "advance dl ?T ?M b w b w2"
    using rw a1 by (auto split: if_splits intro: advance_trans retry_wait_advance)
  obtain st b1 w3 where ra: "run_attempt sv plan ps dl i b w2 = (st, b1, w3)"
    by (metis prod_cases3)
  note a3 = advance_trans [OF a2 run_attempt_advance [OF Cons.prems(1) ra]]
  have wf1: "budget_wf b1"
    using run_attempt_advance [OF Cons.prems(1) ra] Cons.prems(1) by (simp add: advance_def)
  have cont: "advance dl ?T ?M b w b' w'"
    if "attempts_loop sv plan ps dl rest le' h' b1 w3 = (r, b', w')" for le' h'
    by (rule advance_trans [OF a3 Cons.IH [OF wf1 that]])
  have a1': "advance dl ?T ?M b w b (emit [MDeadlineExceeded] w1)"
    by (simp add: advance_trans [OF a1 advance_emit])
  show ?case
    using Cons.prems(2) a1 a1' a2 a3 cont
    by (cases e; cases st) (auto simp: 1 rw ra split: if_splits)
qed

lemma execute_attempts_advance:
  "budget_wf b \<Longrightarrow> execute_attempts sv plan ps dl b n w = (r, b', w') \<Longrightarrow>
   advance dl (target_id plan) (model_id plan) b w b' w'"
  unfolding execute_attempts_def by (rule attempts_loop_advance)


section \<open>Bounds and results of the attempts of a hop\<close>

lemma sat_add_diff: "sat_add m a (Suc 0) - a \<le> Suc 0"
  by (simp add: sat_add_def)

lemma run_attempt_spends_one:
  "run_attempt sv plan ps dl i b w = (st, b', w') \<Longrightarrow> started b' - started b \<le> Suc 0"
  by (erule run_attempt_cases) (auto simp: try_start_def sat_add_diff split: if_splits)

lemma run_attempt_events:
  assumes "budget_wf b" "run_attempt sv plan ps dl i b w = (st, b', w')"
  shows "\<exists>es. w_events w' = w_events w @ es \<and> length (attempts_of es) = started b' - started b
    \<and> started b' - started b \<le> 1 \<and> (\<forall>a \<in> set (attempts_of es). fst a = target_id plan)"
  using run_attempt_advance [OF assms] run_attempt_spends_one [OF assms(2)] unfolding advance_def by auto

lemma attempts_loop_spends:
  "attempts_loop sv plan ps dl is le h b w = (r, b', w') \<Longrightarrow>
   started b' - started b \<le> length is"
proof (induction "is" arbitrary: le h b w)
  case (Cons i rest)
  obtain t w1 where 1: "read_clock w = (t, w1)" by force
  obtain e w2 where rw: "(if 0 < i then retry_wait sv plan dl i h le w1 else (None, w1)) = (e, w2)"
    by force
  obtain st b1 w3 where ra: "run_attempt sv plan ps dl i b w2 = (st, b1, w3)"
    by (metis prod_cases3)
  note one = run_attempt_spends_one [OF ra]
  have "started b' - started b1 \<le> length rest"
    if "attempts_loop sv plan ps dl rest le' h' b1 w3 = (r, b', w')" for le' h'
    by (rule Cons.IH [OF that])
  with one Cons.prems show ?case
    by (cases e; cases st) (auto simp: 1 rw ra split: if_splits, fastforce+)
qed simp

text \<open>A result is only accepted while the deadline has not expired.\<close>

lemma after_error_not_ok: "after_error dl e w \<noteq> (Return (Ok r), w')"
  by (auto simp: after_error_def split: if_splits prod.splits option.splits)

lemma run_attempt_ok_in_time:
  assumes "run_attempt sv plan ps dl i b w = (Return (Ok r), b', w')"
  shows "w_now w' < dl_instant dl"
  using assms
proof (cases rule: run_attempt_cases)
  case (called t w1 cutoff t2 w2 out obs w3)
  from called(6) show ?thesis
  proof (cases rule: conclude_cases)
    case (success t w1 r)
    then show ?thesis by (auto simp: is_expired_def elim!: read_clockE)
  qed (use after_error_not_ok in auto)
qed auto

lemma attempts_loop_ok_in_time:
  "attempts_loop sv plan ps dl is le h b w = (Ok r, b', w') \<Longrightarrow> w_now w' < dl_instant dl"
proof (induction "is" arbitrary: le h b w)
  case (Cons i rest)
  then show ?case
    by (auto simp: finish_attempts_def dest: run_attempt_ok_in_time
        split: prod.splits if_splits option.splits attempt_step.splits)
qed (simp add: finish_attempts_def)

text \<open>Once the deadline has passed nothing is sent.\<close>

lemma read_clock_expired:
  "read_clock w = (t, w') \<Longrightarrow> dl_instant dl \<le> w_now w \<Longrightarrow> is_expired dl t"
  by (auto simp: is_expired_def elim!: read_clockE)

lemma execute_attempts_expired:
  assumes "dl_instant dl \<le> w_now w" "execute_attempts sv plan ps dl b n w = (r, b', w')"
  shows "r = Err ExecDeadlineExceeded \<and> b' = b \<and> w_sent w' = w_sent w"
proof -
  obtain t w1 where 1: "read_clock w = (t, w1)" by force
  have "[0..<Suc n] = 0 # [1..<Suc n]" by (simp add: upt_conv_Cons)
  with assms(2) read_clock_expired [OF 1 assms(1)] read_clock_fields [OF 1] show ?thesis
    by (auto simp: execute_attempts_def 1 simp del: upt_Suc)
qed

section \<open>One hop\<close>

text \<open>
  \<open>spends dl T M n b w b' w'\<close>: at most \<open>n\<close> attempts on target \<open>T\<close> and model \<open>M\<close>; the circuits may
  change.
\<close>

definition spends ::
    "request_deadline \<Rightarrow> string \<Rightarrow> string \<Rightarrow> nat \<Rightarrow> attempt_budget \<Rightarrow> world \<Rightarrow> attempt_budget \<Rightarrow> world \<Rightarrow> bool" where
  "spends dl T M n b w b' w' \<longleftrightarrow>
     w_now w \<le> w_now w' \<and> consumes w w'
     \<and> max_total b' = max_total b \<and> started b \<le> started b'
     \<and> started b' - started b \<le> n \<and> (budget_wf b \<longrightarrow> budget_wf b')
     \<and> (\<exists>cs es.
          w_sent w' = w_sent w @ cs \<and> w_events w' = w_events w @ es
          \<and> length cs \<le> started b' - started b
          \<and> length (attempts_of es) = started b' - started b
          \<and> (\<forall>c \<in> set cs. wc_target c = T \<and> cr_model (wc_request c) = M
                \<and> soon_after dl w (wc_time c))
          \<and> (\<forall>a \<in> set (attempts_of es). fst a = T))"

text \<open>Changes of the world that neither call nor spend: time, circuits, other events.\<close>

definition idle :: "world \<Rightarrow> world \<Rightarrow> bool" where
  "idle w w' \<longleftrightarrow> w_now w \<le> w_now w' \<and> consumes w w' \<and> w_sent w' = w_sent w
     \<and> (\<exists>es. w_events w' = w_events w @ es \<and> attempts_of es = [])"

lemma idle_refl [simp]: "idle w w"
  by (simp add: idle_def)

lemma idle_trans: "idle w w1 \<Longrightarrow> idle w1 w2 \<Longrightarrow> idle w w2"
  by (force simp: idle_def)

lemma idle_read_clock: "read_clock w = (t, w') \<Longrightarrow> idle w w'"
  by (auto simp: idle_def elim!: read_clockE)

lemma idle_emit [simp]: "attempts_of es = [] \<Longrightarrow> idle w (emit es w)"
  by (simp add: idle_def)

lemma spends_idle: "idle w w' \<Longrightarrow> spends dl T M n b w b w'"
  by (auto simp: idle_def spends_def)

lemma consumes_trans: "consumes w w1 \<Longrightarrow> consumes w1 w2 \<Longrightarrow> consumes w w2"
  by (rule suffix_order.trans)

lemma spends_idle_left:
  assumes "idle w w1" "spends dl T M n b w1 b' w'" shows "spends dl T M n b w b' w'"
proof -
  obtain es where i: "w_now w \<le> w_now w1" "consumes w w1" "w_sent w1 = w_sent w" "w_events w1 = w_events w @ es"
      "attempts_of es = []" using assms(1) by (auto simp: idle_def)
  obtain cs fs where s: "w_sent w' = w_sent w1 @ cs" "w_events w' = w_events w1 @ fs"
      "length cs \<le> started b' - started b" "length (attempts_of fs) = started b' - started b"
      "\<forall>c \<in> set cs. wc_target c = T \<and> cr_model (wc_request c) = M
          \<and> soon_after dl w1 (wc_time c)"
      "\<forall>a \<in> set (attempts_of fs). fst a = T"
    using assms(2) unfolding spends_def by blast
  note c = consumes_trans [OF i(2)]
  have soon: "\<forall>c \<in> set cs. wc_target c = T \<and> cr_model (wc_request c) = M \<and> soon_after dl w (wc_time c)"
    using s(5) soon_after_consumes [OF i(2)] by blast
  show ?thesis unfolding spends_def
  proof (intro conjI exI)
    show "w_sent w' = w_sent w @ cs" using s i by simp
    show "w_events w' = w_events w @ es @ fs" using s i by simp
  qed (use assms(2) s(3,4,6) i(1,5) c soon in \<open>auto simp: spends_def\<close>)
qed

lemma spends_idle_right:
  assumes "spends dl T M n b w b' w1" "idle w1 w'" shows "spends dl T M n b w b' w'"
proof -
  obtain es where i: "w_now w1 \<le> w_now w'" "consumes w1 w'" "w_sent w' = w_sent w1" "w_events w' = w_events w1 @ es"
      "attempts_of es = []" using assms(2) by (auto simp: idle_def)
  obtain cs fs where s: "w_sent w1 = w_sent w @ cs" "w_events w1 = w_events w @ fs"
      "length cs \<le> started b' - started b" "length (attempts_of fs) = started b' - started b"
      "\<forall>c \<in> set cs. wc_target c = T \<and> cr_model (wc_request c) = M
          \<and> soon_after dl w (wc_time c)"
      "\<forall>a \<in> set (attempts_of fs). fst a = T"
    using assms(1) unfolding spends_def by blast
  show ?thesis unfolding spends_def
  proof (intro conjI exI)
    show "w_sent w' = w_sent w @ cs" using s i by simp
    show "w_events w' = w_events w @ fs @ es" using s i by simp
  qed (use assms(1) s i consumes_trans [OF _ i(2)] in \<open>auto simp: spends_def\<close>)
qed

lemma advance_spends:
  "advance dl T M b w b' w' \<Longrightarrow> started b' - started b \<le> n \<Longrightarrow> spends dl T M n b w b' w'"
  unfolding advance_def spends_def by blast

lemma execute_attempts_spends:
  assumes "budget_wf b" "execute_attempts sv plan ps dl b n w = (r, b', w')"
  shows "spends dl (target_id plan) (model_id plan) (Suc n) b w b' w'"
  using attempts_loop_spends assms(2)
  by (intro advance_spends [OF execute_attempts_advance [OF assms]])
    (fastforce simp: execute_attempts_def)

lemma admit_events: "admit cfg t t2 tid reg = (a, reg', evs) \<Longrightarrow> attempts_of evs = []"
  by (auto simp: admit_def start_probe_def record_defs Let_def
      split: circuit_phase.splits bool.splits if_splits)

lemma complete_state_events:
  "complete_state cfg t tid k out st = (st', evs) \<Longrightarrow> attempts_of evs = []"
  by (auto simp: complete_state_def set_open_def close_circuit_def record_defs Let_def
      split: circuit_phase.splits permit_kind.splits completion_outcome.splits if_splits)

lemma consume_events: "consume cfg t p out reg = (reg', evs) \<Longrightarrow> attempts_of evs = []"
  by (auto simp: consume_def settle_def complete_def dest: complete_state_events
      split: prod.splits option.splits if_splits)

lemma with_circuits_idle:
  assumes "with_circuits op w = (x, w')" "\<And>reg y reg' evs. op reg = (y, reg', evs) \<Longrightarrow> attempts_of evs = []"
  shows "idle w w'"
  using assms(1) by (auto simp: with_circuits_def idle_def Let_def dest: assms(2)
      split: list.splits prod.splits)

lemma admit_hop_idle:
  assumes "admit_hop sv tid w = (a, w')" shows "idle w w'"
proof -
  obtain t w1 where 1: "read_clock w = (t, w1)" by force
  obtain t2 w2 where 2: "read_clock w1 = (t2, w2)" by force
  have "with_circuits (\<lambda>reg. admit (sv_circuit sv) t t2 tid reg) w2 = (a, w')"
    using assms by (simp add: admit_hop_def 1 2)
  then have "idle w2 w'" by (rule with_circuits_idle) (rule admit_events)
  with idle_read_clock [OF 1] idle_read_clock [OF 2] show ?thesis by (blast intro: idle_trans)
qed

lemma settle_hop_idle [simp]: "idle w (settle_hop sv p out w)"
proof -
  obtain t w1 where 1: "read_clock w = (t, w1)" by force
  obtain x :: unit and w2 where 2:
    "with_circuits (\<lambda>reg. ((), consume (sv_circuit sv) t p out reg)) w1 = (x, w2)"
    by (metis prod.exhaust)
  have "idle w1 w2" by (rule with_circuits_idle [OF 2]) (auto dest: consume_events)
  with 1 2 show ?thesis by (auto simp: settle_hop_def intro: idle_trans idle_read_clock)
qed

lemma drop_hop_idle [simp]: "idle w (drop_hop p w)"
  by (cases "with_circuits (\<lambda>reg. ((), drop_permit p reg, [])) w")
    (auto simp: drop_hop_def dest!: with_circuits_idle)

lemma execute_hop_spends:
  assumes wf: "budget_wf b" and eh: "execute_hop sv plan ps dl b w = (r, b', w')"
  shows "spends dl (target_id plan) (model_id plan) (Suc (xc_max_retries (sv_config sv))) b w b' w'"
proof -
  let ?S = "spends dl (target_id plan) (model_id plan) (Suc (xc_max_retries (sv_config sv)))"
  obtain t w1 where 1: "read_clock w = (t, w1)" by force
  obtain a w2 where ad: "admit_hop sv (target_id plan) w1 = (a, w2)" by force
  have i1: "idle w w1" and i2: "idle w w2"
    using idle_read_clock [OF 1] admit_hop_idle [OF ad] by (auto intro: idle_trans)
  have run: "?S b w b3 w4" if "execute_attempts sv plan ps dl b n w2 = (r3, b3, w3)"
      "n \<le> xc_max_retries (sv_config sv)" "idle w3 w4" for n r3 b3 w3 w4
  proof -
    have "spends dl (target_id plan) (model_id plan) (Suc n) b w2 b3 w3"
      by (rule execute_attempts_spends [OF wf that(1)])
    then have "?S b w2 b3 w3" using that(2) by (auto simp: spends_def)
    then show ?thesis by (intro spends_idle_right [OF spends_idle_left [OF i2] that(3)])
  qed
  have "idle w1 (emit [MDeadlineExceeded] w1)" by simp
  then have "?S b w b w1" "?S b w b w2" "?S b w b (emit [MDeadlineExceeded] w1)"
    using i1 i2 idle_trans spends_idle by blast+
  with eh run show ?thesis
    by (cases a) (auto simp: execute_hop_def 1 ad split: if_splits prod.splits sum.splits)
qed

end
