(* ===== verification/Executor_Chain.thy ===== *)
theory Executor_Chain
  imports Executor_Lemmas
begin

text \<open>
  The executor above one hop: the calls of the whole chain of targets, what the errors of a request can
  be, expired deadlines, and the circuits of a hop.
\<close>

section \<open>Calls in chain order\<close>

text \<open>
  The calls of one hop of the chain: all to its target and model, and none for a hop that may not serve
  the request (\<open>ok\<close>).
\<close>

definition hop_block :: "service \<Rightarrow> (route_plan \<Rightarrow> bool) \<Rightarrow> route_plan \<Rightarrow> wire_call list \<Rightarrow> bool" where
  "hop_block sv ok hop cs \<longleftrightarrow>
     length cs \<le> Suc (xc_max_retries (sv_config sv)) \<and> (\<not> ok hop \<longrightarrow> cs = [])
     \<and> (\<forall>c \<in> set cs. wc_target c = target_id hop \<and> cr_model (wc_request c) = model_id hop)"

text \<open>
  The attempt events of the hops: each hop's name its own target, and they are at least as many as its
  calls.
\<close>

definition accounted ::
    "route_plan list \<Rightarrow> wire_call list list \<Rightarrow> (string \<times> attempt_outcome) list list \<Rightarrow> bool" where
  "accounted hops css ass \<longleftrightarrow>
     list_all2 (\<lambda>hop as. \<forall>a \<in> set as. fst a = target_id hop) hops ass
     \<and> list_all2 (\<lambda>cs as. length cs \<le> length as) css ass"

lemma accounted_Nils:
  "length hops = n \<Longrightarrow> accounted hops (replicate n []) (replicate n [])"
  by (simp add: accounted_def list_all2_conv_all_nth)

lemma accounted_Cons [simp]:
  "accounted (hop # hops) (cs # css) (as # ass) \<longleftrightarrow>
     (\<forall>a \<in> set as. fst a = target_id hop) \<and> length cs \<le> length as \<and> accounted hops css ass"
  by (auto simp: accounted_def)

definition chain ::
    "request_deadline \<Rightarrow> service \<Rightarrow> (route_plan \<Rightarrow> bool) \<Rightarrow> route_plan list \<Rightarrow> attempt_budget \<Rightarrow> world
      \<Rightarrow> attempt_budget \<Rightarrow> world \<Rightarrow> bool" where
  "chain dl sv ok hops b w b' w' \<longleftrightarrow>
     w_now w \<le> w_now w' \<and> consumes w w' \<and> max_total b' = max_total b \<and> started b \<le> started b' \<and> budget_wf b'
     \<and> (\<exists>css ass es.
          w_sent w' = w_sent w @ concat css \<and> w_events w' = w_events w @ es
          \<and> list_all2 (hop_block sv ok) hops css
          \<and> (\<forall>c \<in> set (concat css). soon_after dl w (wc_time c))
          \<and> length (concat css) \<le> started b' - started b
          \<and> attempts_of es = concat ass \<and> accounted hops css ass
          \<and> length (attempts_of es) = started b' - started b)"

lemma hop_block_Nil [simp]: "hop_block sv ok hop []"
  by (simp add: hop_block_def)

lemma empty_blocks: "list_all2 (hop_block sv ok) hops (replicate (length hops) [])"
  by (simp add: list_all2_conv_all_nth)

lemma concat_replicate_Nil [simp]: "concat (replicate n []) = []"
  by (induction n) simp_all

lemma chainI:
  assumes "w_now w \<le> w_now w'" "consumes w w'" "max_total b' = max_total b" "started b \<le> started b'" "budget_wf b'"
    "w_sent w' = w_sent w @ concat css" "w_events w' = w_events w @ es"
    "list_all2 (hop_block sv ok) hops css" "length (concat css) \<le> started b' - started b"
    "length (attempts_of es) = started b' - started b"
    "attempts_of es = concat ass" "accounted hops css ass"
    "\<And>c. c \<in> set (concat css) \<Longrightarrow> soon_after dl w (wc_time c)"
  shows "chain dl sv ok hops b w b' w'"
  unfolding chain_def using assms by blast

lemma chain_idle: "budget_wf b \<Longrightarrow> idle w w' \<Longrightarrow> chain dl sv ok hops b w b w'"
  unfolding idle_def
  by (elim conjE exE, rule chainI [OF _ _ _ _ _ _ _ empty_blocks _ _ _ accounted_Nils]) simp_all

lemma chain_cons:
  assumes sp: "spends dl (target_id hop) (model_id hop) (Suc (xc_max_retries (sv_config sv))) b w b1 w1"
    and ch: "chain dl sv ok hops b1 w1 b' w'" and ok: "ok hop"
  shows "chain dl sv ok (hop # hops) b w b' w'"
proof -
  obtain cs es where s: "w_sent w1 = w_sent w @ cs" "w_events w1 = w_events w @ es"
      "length cs \<le> started b1 - started b" "length (attempts_of es) = started b1 - started b"
      "\<forall>c \<in> set cs. wc_target c = target_id hop \<and> cr_model (wc_request c) = model_id hop
          \<and> soon_after dl w (wc_time c)"
      "\<forall>a \<in> set (attempts_of es). fst a = target_id hop"
    using sp unfolding spends_def by blast
  obtain css ass fs where c: "w_sent w' = w_sent w1 @ concat css" "w_events w' = w_events w1 @ fs"
      "list_all2 (hop_block sv ok) hops css" "length (concat css) \<le> started b' - started b1"
      "length (attempts_of fs) = started b' - started b1"
      "\<forall>c \<in> set (concat css). soon_after dl w1 (wc_time c)"
      "attempts_of fs = concat ass" "accounted hops css ass"
    using ch unfolding chain_def by blast
  have m: "w_now w \<le> w_now w1" "consumes w w1" "started b \<le> started b1" "started b1 - started b
      \<le> Suc (xc_max_retries (sv_config sv))" "max_total b1 = max_total b"
    using sp by (simp_all add: spends_def)
  have h: "hop_block sv ok hop cs" using s(3,5) m(4) ok by (auto simp: hop_block_def)
  show ?thesis
  proof (rule chainI)
    show "w_sent w' = w_sent w @ concat (cs # css)" using s c by simp
    show "w_events w' = w_events w @ es @ fs" using s c by simp
    show "list_all2 (hop_block sv ok) (hop # hops) (cs # css)" using c h by simp
    show "soon_after dl w (wc_time q)" if "q \<in> set (concat (cs # css))" for q
      using that s(5) c(6) soon_after_consumes [OF m(2)] by auto
    show "attempts_of (es @ fs) = concat (attempts_of es # ass)" using c(7) by simp
    show "accounted (hop # hops) (cs # css) (attempts_of es # ass)" using s(3,4,6) c(8) by simp
    show "consumes w w'" using ch m(2) by (auto simp: chain_def intro: consumes_trans)
  qed (use ch m(1,3-5) s(1-4) c(1-5) in \<open>auto simp: chain_def\<close>)
qed

lemma chain_skip:
  assumes "chain dl sv ok hops b w b' w'" shows "chain dl sv ok (hop # hops) b w b' w'"
proof -
  obtain css ass es where c: "w_sent w' = w_sent w @ concat css" "w_events w' = w_events w @ es"
      "list_all2 (hop_block sv ok) hops css" "length (concat css) \<le> started b' - started b"
      "length (attempts_of es) = started b' - started b"
      "\<forall>c \<in> set (concat css). soon_after dl w (wc_time c)"
      "attempts_of es = concat ass" "accounted hops css ass"
    using assms unfolding chain_def by blast
  show ?thesis
    by (rule chainI [where css = "[] # css" and es = es and ass = "[] # ass"])
      (use assms c in \<open>auto simp: chain_def\<close>)
qed

lemma chain_idle_left:
  assumes "idle w w1" "chain dl sv ok hops b w1 b' w'" shows "chain dl sv ok hops b w b' w'"
proof -
  obtain css ass es where c: "w_sent w' = w_sent w1 @ concat css" "w_events w' = w_events w1 @ es"
      "list_all2 (hop_block sv ok) hops css" "length (concat css) \<le> started b' - started b"
      "length (attempts_of es) = started b' - started b"
      "\<forall>c \<in> set (concat css). soon_after dl w1 (wc_time c)"
      "attempts_of es = concat ass" "accounted hops css ass"
    using assms(2) unfolding chain_def by blast
  obtain fs where f: "w_now w \<le> w_now w1" "consumes w w1" "w_sent w1 = w_sent w" "w_events w1 = w_events w @ fs"
      "attempts_of fs = []" using assms(1) by (auto simp: idle_def)
  have cons: "consumes w w'" using assms(2) f(2) by (auto simp: chain_def intro: consumes_trans)
  have "soon_after dl w (wc_time q)" if "q \<in> set (concat css)" for q
    using that c(6) soon_after_consumes [OF f(2)] by blast
  then show ?thesis
    by (intro chainI [where css = css and es = "fs @ es" and ass = ass])
      (use assms(2) c cons f(1,3-5) in \<open>auto simp: chain_def\<close>)
qed

lemma chain_wf: "chain dl sv ok hops b w b' w' \<Longrightarrow> budget_wf b'"
  by (simp add: chain_def)

lemma idle_terminate: "terminate_for_provider_minimum e dl w = (r, w') \<Longrightarrow> idle w w'"
  unfolding terminate_for_provider_minimum_def
  by (auto split: prod.splits if_splits executor_error.splits option.splits
      intro: idle_read_clock idle_trans [OF idle_read_clock idle_read_clock])

lemma idle_observe: "observe_terminal e w = (e', w') \<Longrightarrow> idle w w'"
  by (auto simp: observe_terminal_def record_defs split: if_splits)

lemma finish_fallbacks_idle:
  assumes "finish_fallbacks pe dl b w = (r, b', w')"
  shows "b' = b \<and> idle w w' \<and> (r = Err pe \<or> r = Err ExecDeadlineExceeded)"
proof -
  obtain t w1 where 1: "read_clock w = (t, w1)" by force
  have "idle w (emit [MDeadlineExceeded] w1)"
    by (rule idle_trans [OF idle_read_clock [OF 1] idle_emit]) simp
  with assms 1 idle_read_clock [OF 1] show ?thesis
    by (auto simp: finish_fallbacks_def split: if_splits)
qed

lemma spends_wf: "spends dl T M n b w b' w' \<Longrightarrow> budget_wf b \<Longrightarrow> budget_wf b'"
  by (simp add: spends_def)

lemma fallbacks_loop_chain:
  "budget_wf b \<Longrightarrow> fallbacks_loop sv ps pe dl hops from b w = (r, b', w') \<Longrightarrow>
   chain dl sv (\<lambda>h. hop_supports_params h ps) hops b w b' w'"
proof (induction hops arbitrary: "from" b w)
  case Nil
  then show ?case by (auto dest!: finish_fallbacks_idle intro: chain_idle)
next
  case (Cons hop rest)
  let ?C = "chain dl sv (\<lambda>h. hop_supports_params h ps) (hop # rest)"
  obtain t w1 where 1: "read_clock w = (t, w1)" by force
  have i1: "idle w w1" by (rule idle_read_clock [OF 1])
  define w2 where "w2 = emit (record_fallback from (target_id hop)) w1"
  have i2: "idle w w2" using i1 by (auto simp: w2_def record_defs intro: idle_trans)
  obtain hr b1 w3 where eh: "execute_hop sv hop ps dl b w2 = (hr, b1, w3)" by (metis prod_cases3)
  have sp: "spends dl (target_id hop) (model_id hop) (Suc (xc_max_retries (sv_config sv))) b w b1 w3"
    by (rule spends_idle_left [OF i2 execute_hop_spends [OF Cons.prems(1) eh]])
  have wf1: "budget_wf b1" by (rule spends_wf [OF sp Cons.prems(1)])
  show ?case
  proof (cases "is_expired dl t")
    case True
    have "idle w (emit [MDeadlineExceeded] w1)" by (rule idle_trans [OF i1 idle_emit]) simp
    from chain_idle [OF Cons.prems(1) this] Cons.prems(2) 1 True show ?thesis by auto
  next
    case False
    show ?thesis
    proof (cases "hop_supports_params hop ps")
      case False
      with Cons.prems(2) 1 \<open>\<not> is_expired dl t\<close>
      have "fallbacks_loop sv ps pe dl rest from b w1 = (r, b', w')" by simp
      from chain_skip [OF chain_idle_left [OF i1 Cons.IH [OF Cons.prems(1) this]]] show ?thesis .
    next
      case True
      have stop: "?C b w b1 w4" if "idle w3 w4" for w4
        by (rule chain_cons [OF sp chain_idle [OF wf1 that]]) (rule True)
      note r = Cons.prems(2) [simplified 1 fallbacks_loop.simps prod.case, folded w2_def]
      show ?thesis
      proof (cases hr)
        case (Inr x)
        with r True \<open>\<not> is_expired dl t\<close> eh stop [of w3] show ?thesis by simp
      next
        case (Inl e)
        obtain tm w4 where tm: "terminate_for_provider_minimum e dl w3 = (tm, w4)" by force
        have i4: "idle w3 w4" by (rule idle_terminate [OF tm])
        have obs: "?C b w b1 w5" if "observe_terminal x w4 = (e', w5)" for x e' w5
          by (rule stop [OF idle_trans [OF i4 idle_observe [OF that]]])
        have fin: "b' = b1 \<and> ?C b w b1 w'"
          if "finish_fallbacks pe dl b1 w4 = (r, b', w')"
          using finish_fallbacks_idle [OF that] by (auto intro: stop idle_trans [OF i4])
        have cont: "?C b w b' w'"
          if "fallbacks_loop sv ps pe dl rest (target_id hop) b1 w4 = (r, b', w')"
          by (rule chain_cons [OF sp chain_idle_left [OF i4 Cons.IH [OF wf1 that]]]) (rule True)
        from r True \<open>\<not> is_expired dl t\<close> eh Inl tm stop [of w3] obs fin cont show ?thesis
          by (auto split: if_splits option.splits prod.splits)
      qed
    qed
  qed
qed

lemma execute_fallbacks_chain:
  assumes "budget_wf b" "execute_fallbacks sv hops ps pe dl b from w = (r, b', w')"
  shows "chain dl sv (\<lambda>h. hop_supports_params h ps) hops b w b' w'"
proof -
  obtain t w1 where 1: "read_clock w = (t, w1)" by force
  have i1: "idle w w1" by (rule idle_read_clock [OF 1])
  have "idle w (emit [MDeadlineExceeded] w1)" by (rule idle_trans [OF i1 idle_emit]) simp
  then have "chain dl sv (\<lambda>h. hop_supports_params h ps) hops b w b w1" "chain dl sv (\<lambda>h. hop_supports_params h ps) hops b w b (emit [MDeadlineExceeded] w1)"
    using i1 assms(1) by (auto intro: chain_idle)
  moreover have "chain dl sv (\<lambda>h. hop_supports_params h ps) hops b w b' w'"
    if "fallbacks_loop sv ps pe dl hops from b w1 = (r, b', w')"
    by (rule chain_idle_left [OF i1 fallbacks_loop_chain [OF assms(1) that]])
  ultimately show ?thesis
    using assms(2) by (auto simp: execute_fallbacks_def 1 split: if_splits)
qed

lemma chain_mono:
  assumes "chain dl sv ok hops b w b' w'" "\<And>h. ok h \<Longrightarrow> ok' h" shows "chain dl sv ok' hops b w b' w'"
proof -
  have m: "\<And>h cs. hop_block sv ok h cs \<Longrightarrow> hop_block sv ok' h cs"
    using assms(2) by (auto simp: hop_block_def)
  have "\<And>hs css. list_all2 (hop_block sv ok) hs css \<Longrightarrow> list_all2 (hop_block sv ok') hs css"
    using m by (metis list_all2_mono)
  with assms(1) show ?thesis unfolding chain_def by blast
qed

text \<open>A hop of a request: the primary, or a fallback that can serve the parameters.\<close>

definition may_serve :: "route_plan \<Rightarrow> json \<Rightarrow> route_plan \<Rightarrow> bool" where
  "may_serve plan payload hop \<longleftrightarrow>
     hop = plan \<or> (\<exists>ps. extract_params payload = Ok ps \<and> hop_supports_params hop ps)"

text \<open>The whole request: its budget is what the chain spends.\<close>

lemma execute_on_budget_chain:
  assumes wf: "budget_wf b" and ex: "execute_on_budget sv plan payload dl b w = (r, b', w')"
  shows "chain dl sv (may_serve plan payload) (plan # fallback_plans plan) b w b' w'"
proof -
  let ?C = "chain dl sv (may_serve plan payload) (plan # fallback_plans plan) b w"
  have mp: "may_serve plan payload plan" by (simp add: may_serve_def)
  obtain t w1 where 1: "read_clock w = (t, w1)" by force
  have i1: "idle w w1" by (rule idle_read_clock [OF 1])
  have "idle w (emit [MDeadlineExceeded] w1)" by (rule idle_trans [OF i1 idle_emit]) simp
  then have c0: "?C b w1" "?C b (emit [MDeadlineExceeded] w1)"
    using i1 wf by (auto intro: chain_idle)
  show ?thesis
  proof (cases "is_expired dl t")
    case True
    with ex 1 c0 show ?thesis by (auto simp: execute_on_budget_def)
  next
    case live: False
    show ?thesis
    proof (cases "extract_params payload")
      case (Inl e)
      with ex 1 live c0 show ?thesis by (auto simp: execute_on_budget_def)
    next
      case Inr_ps: (Inr ps)
      obtain hr b1 w2 where eh: "execute_hop sv plan ps dl b w1 = (hr, b1, w2)"
        by (metis prod_cases3)
      have sp: "spends dl (target_id plan) (model_id plan) (Suc (xc_max_retries (sv_config sv))) b w b1 w2"
        by (rule spends_idle_left [OF i1 execute_hop_spends [OF wf eh]])
      have wf1: "budget_wf b1" by (rule spends_wf [OF sp wf])
      have stop: "?C b1 w3" if "idle w2 w3" for w3
        by (rule chain_cons [where ok = "may_serve plan payload", OF sp chain_idle [OF wf1 that] mp])
      note r = ex [unfolded execute_on_budget_def 1 prod.case Inr_ps sum.case eh] live
      show ?thesis
      proof (cases hr)
        case (Inr x)
        with r stop [of w2] show ?thesis by auto
      next
        case (Inl e)
        obtain tm w3 where tm: "terminate_for_provider_minimum e dl w2 = (tm, w3)" by force
        have i3: "idle w2 w3" by (rule idle_terminate [OF tm])
        have obs: "?C b1 w5" if "observe_terminal x w3 = (e', w5)" for x e' w5
          by (rule stop [OF idle_trans [OF i3 idle_observe [OF that]]])
        have cont: "?C b2 w4"
          if "execute_fallbacks sv (fallback_plans plan) ps e dl b1 (target_id plan) w3 = (fr, b2, w4)" for fr b2 w4
        proof -
          have "chain dl sv (may_serve plan payload) (fallback_plans plan) b1 w3 b2 w4"
            by (rule chain_mono [OF execute_fallbacks_chain [OF wf1 that]])
              (use Inr_ps in \<open>auto simp: may_serve_def\<close>)
          from chain_cons [where ok = "may_serve plan payload", OF sp chain_idle_left [OF i3 this] mp] show ?thesis .
        qed
        from r Inl tm stop [of w2] stop [OF i3] obs cont show ?thesis
          by (auto split: if_splits option.splits prod.splits)
      qed
    qed
  qed
qed

lemma execute_chain:
  assumes n: "xc_max_total_attempts (sv_config sv) \<le> u32_max"
    and ex: "execute sv plan payload dl w = (r, w')"
  obtains b' where "execute_on_budget sv plan payload dl
      (budget_new (xc_max_total_attempts (sv_config sv))) w = (r, b', w')"
    "chain dl sv (may_serve plan payload) (plan # fallback_plans plan)
       (budget_new (xc_max_total_attempts (sv_config sv))) w b' w'"
proof -
  obtain b' where "execute_on_budget sv plan payload dl
      (budget_new (xc_max_total_attempts (sv_config sv))) w = (r, b', w')"
    using ex by (auto simp: execute_def split: prod.splits)
  with execute_on_budget_chain [OF budget_new_wf [OF n]] show thesis by (blast intro: that)
qed

end
