(* ===== verification/Executor_Wire.thy ===== *)
theory Executor_Wire
  imports Executor_Chain
begin

text \<open>
  What a request puts on the wire: every call, in every attempt, retry and fallback, is the request of a
  registered vendor, whose key is a legal header value, with the caller's own messages and parameters.
\<close>

definition carried :: "service \<Rightarrow> execution_params \<Rightarrow> wire_call \<Rightarrow> bool" where
  "carried sv ps c \<longleftrightarrow>
     (\<exists>vid cfg m. sv_vendors sv vid = Some cfg \<and> key_is_sendable (sv_libs sv) cfg
        \<and> wc_request c = wire_request cfg m ps)"

definition carries :: "service \<Rightarrow> execution_params \<Rightarrow> world \<Rightarrow> world \<Rightarrow> bool" where
  "carries sv ps w w' \<longleftrightarrow>
     (\<exists>cs. w_sent w' = w_sent w @ cs \<and> (\<forall>c \<in> set cs. carried sv ps c))"

lemma carries_same: "w_sent w' = w_sent w \<Longrightarrow> carries sv ps w w'"
  by (simp add: carries_def)

lemma carries_trans:
  assumes "carries sv ps w w1" "carries sv ps w1 w2" shows "carries sv ps w w2"
proof -
  obtain cs ds where "w_sent w1 = w_sent w @ cs" "\<forall>c \<in> set cs. carried sv ps c"
    "w_sent w2 = w_sent w1 @ ds" "\<forall>c \<in> set ds. carried sv ps c"
    using assms unfolding carries_def by blast
  then show ?thesis unfolding carries_def by (intro exI [of _ "cs @ ds"]) auto
qed

lemma carries_after_idle: "idle w w1 \<Longrightarrow> carries sv ps w1 w2 \<Longrightarrow> carries sv ps w w2"
  by (auto simp: idle_def carries_def)

lemma carries_then_idle: "carries sv ps w w1 \<Longrightarrow> idle w1 w2 \<Longrightarrow> carries sv ps w w2"
  by (auto simp: idle_def carries_def)

lemma carries_idle: "idle w w' \<Longrightarrow> carries sv ps w w'"
  by (simp add: carries_same idle_def)

section \<open>Steps that send nothing\<close>

lemma sent_read_clock: "read_clock w = (t, w') \<Longrightarrow> w_sent w' = w_sent w"
  by (auto elim!: read_clockE)

lemma sent_terminate: "terminate_for_provider_minimum e dl w = (r, w') \<Longrightarrow> w_sent w' = w_sent w"
  by (drule idle_terminate) (simp add: idle_def)

lemma sent_observe: "observe_terminal e w = (e', w') \<Longrightarrow> w_sent w' = w_sent w"
  by (drule idle_observe) (simp add: idle_def)

lemma sent_after_error: "after_error dl e w = (st, w') \<Longrightarrow> w_sent w' = w_sent w"
  unfolding after_error_def
  by (auto split: prod.splits if_splits option.splits dest!: sent_terminate sent_observe)

lemma sent_conclude:
  assumes "conclude_attempt dl (started_attempt_new T dl) to out obs w = (st, w')"
  shows "w_sent w' = w_sent w"
  using assms
  by (cases rule: conclude_cases) (auto dest!: sent_read_clock sent_after_error)

lemma sent_sleep: "sleep_until_retry dl wait w = (ok, w') \<Longrightarrow> w_sent w' = w_sent w"
  unfolding sleep_until_retry_def
  by (auto split: prod.splits simp: Let_def elim!: read_clockE next_lagE)

lemma sent_retry_wait:
  assumes "retry_wait sv plan dl i h le w = (r, w')" shows "w_sent w' = w_sent w"
proof -
  obtain planned ent where pl: "plan_retry_delay system_jitter i
      (from_millis (xc_backoff_cap_ms (sv_config sv))) (map_option from_millis h) (w_entropy w)
      = (planned, ent)" by force
  obtain t w1 where rc: "read_clock (w\<lparr>w_entropy := ent\<rparr>) = (t, w1)" by force
  have s1: "w_sent w1 = w_sent w" using sent_read_clock [OF rc] by simp
  show ?thesis
  proof (cases "evaluate_retry_delay planned (remaining dl t)")
    case (Inl e)
    with assms pl rc s1 show ?thesis by (cases e) (auto simp: retry_wait_def)
  next
    case (Inr wait)
    obtain ok w2 where sl: "(if wait = 0 then (True, w1) else sleep_until_retry dl wait w1) = (ok, w2)"
      by force
    then have s2: "w_sent w2 = w_sent w" using s1 by (auto split: if_splits dest!: sent_sleep)
    obtain t2 w3 where rc2: "read_clock w2 = (t2, w3)" by force
    have s3: "w_sent w3 = w_sent w" using sent_read_clock [OF rc2] s2 by simp
    have "w' = w3 \<or> w' = emit [MDeadlineExceeded] w2 \<or> w' = emit [MDeadlineExceeded] w3"
      using assms unfolding retry_wait_def pl rc prod.case Inr sum.case sl
      by (cases ok) (auto simp: rc2 split: if_splits)
    with s2 s3 show ?thesis by auto
  qed
qed

section \<open>Calls\<close>

lemma call_llm_carried:
  assumes "call_llm (sv_libs sv) (sv_vendors sv) plan ps cutoff now net = (run, wire, net')" "q \<in> set wire"
  shows "carried sv ps \<lparr>wc_time = t, wc_target = tid, wc_request = q\<rparr>"
  using call_llm_cases [OF assms(1)] assms(2)
  by (fastforce simp: carried_def execute_classified_def wire_request_def split: if_splits list.splits)

lemma timed_call_carries:
  assumes "timed_call sv plan ps cutoff w = (x, w')" shows "carries sv ps w w'"
proof -
  obtain t w1 where 1: "read_clock w = (t, w1)" by force
  obtain run wire net where 2:
    "call_llm (sv_libs sv) (sv_vendors sv) plan ps cutoff t (w_net w1) = (run, wire, net)"
    by (metis prod_cases3)
  obtain lag w2 where 3: "next_lag w1 = (lag, w2)" by force
  have s: "w_sent w2 = w_sent w" using sent_read_clock [OF 1] 3 by (auto elim!: next_lagE)
  have "w_sent w' = w_sent w
      @ map (\<lambda>q. \<lparr>wc_time = t, wc_target = target_id plan, wc_request = q\<rparr>) wire"
    using assms s unfolding timed_call_def 1 prod.case 2 3 Let_def by auto
  with call_llm_carried [OF 2] show ?thesis by (auto simp: carries_def)
qed

lemma run_attempt_carries:
  assumes "run_attempt sv plan ps dl i b w = (st, b', w')" shows "carries sv ps w w'"
  using assms
proof (cases rule: run_attempt_cases)
  case (expired t w1)
  with sent_read_clock [OF expired(1)] show ?thesis by (auto intro: carries_same)
next
  case (spent t)
  with sent_read_clock [OF spent(1)] show ?thesis by (auto intro: carries_same)
next
  case (called t w1 cutoff t2 w2 out obs w3)
  have "w_sent w2 = w_sent w"
    using sent_read_clock [OF called(1)] sent_read_clock [OF called(4)] by (auto split: if_splits)
  with timed_call_carries [OF called(5)] sent_conclude [OF called(6)] show ?thesis
    by (auto simp: carries_def)
qed

lemma attempts_loop_carries:
  "attempts_loop sv plan ps dl is le h b w = (r, b', w') \<Longrightarrow> carries sv ps w w'"
proof (induction "is" arbitrary: le h b w)
  case Nil
  then show ?case by (auto intro: carries_same)
next
  case (Cons i rest)
  obtain t w1 where 1: "read_clock w = (t, w1)" by force
  note s1 = sent_read_clock [OF 1]
  obtain e w2 where rw: "(if 0 < i then retry_wait sv plan dl i h le w1 else (None, w1)) = (e, w2)"
    by force
  have s2: "w_sent w2 = w_sent w" using rw s1 by (auto split: if_splits dest!: sent_retry_wait)
  obtain st b1 w3 where ra: "run_attempt sv plan ps dl i b w2 = (st, b1, w3)"
    by (metis prod_cases3)
  have c: "carries sv ps w w3"
    by (rule carries_trans [OF carries_same [OF s2] run_attempt_carries [OF ra]])
  have cont: "carries sv ps w w'" if "attempts_loop sv plan ps dl rest le' h' b1 w3 = (r, b', w')" for le' h'
    by (rule carries_trans [OF c Cons.IH [OF that]])
  have "carries sv ps w (emit [MDeadlineExceeded] w1)" "carries sv ps w w1" "carries sv ps w w2"
    using s1 s2 by (auto intro: carries_same)
  then show ?case
    using Cons.prems c cont by (cases e; cases st) (auto simp: 1 rw ra split: if_splits)
qed

lemma execute_hop_carries:
  assumes "execute_hop sv plan ps dl b w = (r, b', w')" shows "carries sv ps w w'"
proof -
  obtain t w1 where 1: "read_clock w = (t, w1)" by force
  obtain a w2 where ad: "admit_hop sv (target_id plan) w1 = (a, w2)" by force
  have i1: "idle w w1" and i2: "idle w w2"
    using idle_read_clock [OF 1] admit_hop_idle [OF ad] by (auto intro: idle_trans)
  have att: "carries sv ps w w4"
    if "execute_attempts sv plan ps dl b n w2 = (r3, b3, w3)" "idle w3 w4" for n r3 b3 w3 w4
    using attempts_loop_carries that carries_after_idle [OF i2] carries_then_idle
    unfolding execute_attempts_def by blast
  have "carries sv ps w (emit [MDeadlineExceeded] w1)" "carries sv ps w w1" "carries sv ps w w2"
    using i1 i2 by (auto simp: idle_def intro: carries_same)
  then show ?thesis
    using assms att unfolding execute_hop_def 1 prod.case ad
    by (cases a) (auto split: if_splits prod.splits sum.splits)
qed

section \<open>The whole request\<close>

lemma finish_fallbacks_carries:
  "finish_fallbacks pe dl b w = (r, b', w') \<Longrightarrow> carries sv ps w w'"
  by (drule finish_fallbacks_idle) (auto intro: carries_idle)

lemma fallbacks_loop_carries:
  "fallbacks_loop sv ps pe dl hops from b w = (r, b', w') \<Longrightarrow> carries sv ps w w'"
proof (induction hops arbitrary: "from" b w)
  case Nil
  then show ?case by (auto intro: finish_fallbacks_carries)
next
  case (Cons hop rest)
  obtain t w1 where 1: "read_clock w = (t, w1)" by force
  have c1: "carries sv ps w w1" "carries sv ps w (emit [MDeadlineExceeded] w1)"
    "carries sv ps w (emit (record_fallback from (target_id hop)) w1)"
    using sent_read_clock [OF 1] by (auto intro: carries_same)
  obtain hr b1 w2 where eh: "execute_hop sv hop ps dl b
      (emit (record_fallback from (target_id hop)) w1) = (hr, b1, w2)"
    by (metis prod_cases3)
  note c2 = carries_trans [OF c1(3) execute_hop_carries [OF eh]]
  obtain x tm w3 where tm: "terminate_for_provider_minimum (projl hr) dl w2 = (tm, w3)" by force
  have c3: "carries sv ps w w3" using c2 sent_terminate [OF tm] by (auto simp: carries_def)
  have obs: "carries sv ps w w4" if "observe_terminal e w3 = (e', w4)" for e e' w4
    using c3 sent_observe [OF that] by (auto simp: carries_def)
  have fin: "carries sv ps w w'" if "finish_fallbacks pe dl b1 w3 = (r, b', w')"
    by (rule carries_trans [OF c3 finish_fallbacks_carries [OF that]])
  have next_hop: "carries sv ps w w'"
    if "fallbacks_loop sv ps pe dl rest (target_id hop) b1 w3 = (r, b', w')"
    by (rule carries_trans [OF c3 Cons.IH [OF that]])
  have skip: "carries sv ps w w'" if "fallbacks_loop sv ps pe dl rest from b w1 = (r, b', w')"
    by (rule carries_trans [OF c1(1) Cons.IH [OF that]])
  show ?case
    using Cons.prems c1 c2 obs fin next_hop skip tm
    by (cases hr; cases tm) (auto simp: 1 eh split: if_splits prod.splits)
qed

lemma execute_carries:
  assumes "execute sv plan payload dl w = (r, w')"
  shows "w_sent w' = w_sent w \<or> (\<exists>ps. extract_params payload = Ok ps \<and> carries sv ps w w')"
proof -
  obtain t w1 where 1: "read_clock w = (t, w1)" by force
  note s1 = sent_read_clock [OF 1]
  show ?thesis
  proof (cases "is_expired dl t")
    case True
    with assms 1 s1 show ?thesis by (auto simp: execute_unfold)
  next
    case live: False
    show ?thesis
    proof (cases "extract_params payload")
      case (Inl e)
      with assms 1 s1 live show ?thesis by (auto simp: execute_unfold)
    next
      case (Inr ps)
      obtain hr b1 w2 where eh: "execute_hop sv plan ps dl
          (budget_new (xc_max_total_attempts (sv_config sv))) w1 = (hr, b1, w2)"
        by (metis prod_cases3)
      have c2: "carries sv ps w w2"
        by (rule carries_trans [OF carries_same [OF s1] execute_hop_carries [OF eh]])
      obtain tm w3 where tm: "terminate_for_provider_minimum (projl hr) dl w2 = (tm, w3)" by force
      have c3: "carries sv ps w w3" using c2 sent_terminate [OF tm] by (auto simp: carries_def)
      have obs: "carries sv ps w w4" if "observe_terminal e w3 = (e', w4)" for e e' w4
        using c3 sent_observe [OF that] by (auto simp: carries_def)
      have fb: "carries sv ps w w4" if "execute_fallbacks sv plans ps e dl b1 tid w3 = (fr, b2, w4)"
        for plans e tid fr b2 w4
      proof -
        obtain t3 w5 where 3: "read_clock w3 = (t3, w5)" by force
        have "carries sv ps w w5" "carries sv ps w (emit [MDeadlineExceeded] w5)"
          using c3 sent_read_clock [OF 3] by (auto simp: carries_def)
        with that show ?thesis
          by (auto simp: execute_fallbacks_def 3 split: if_splits
              intro: carries_trans dest: fallbacks_loop_carries)
      qed
      have "carries sv ps w w'"
        using assms c2 c3 obs fb tm live unfolding execute_unfold 1 prod.case Inr sum.case eh
        by (cases hr; cases tm) (auto split: if_splits prod.splits)
      with Inr show ?thesis by blast
    qed
  qed
qed

text \<open>
  The provider key is not validated as a header value: with a key that is none (a trailing newline is
  enough) the process starts, no request ever reaches the provider, and every call fails as if the network
  were down.
\<close>

lemma illegal_key_sends_nothing:
  assumes "\<And>vid cfg. sv_vendors sv vid = Some cfg \<Longrightarrow> \<not> key_is_sendable (sv_libs sv) cfg"
    and "execute sv plan payload dl w = (r, w')"
  shows "w_sent w' = w_sent w"
proof -
  have "\<not> carried sv ps c" for ps c using assms(1) by (auto simp: carried_def)
  then have "w_sent w' = w_sent w" if "carries sv ps w w'" for ps
    using that by (auto simp: carries_def)
  with execute_carries [OF assms(2)] show ?thesis by blast
qed

lemma illegal_key_is_a_network_error:
  assumes "\<not> key_is_sendable L cfg" "supports_model cfg m" "\<not> ep_stream ps"
  shows "execute_classified L cfg m tid ps cutoff now net
    = (run_at now (Err (NetworkError ''upstream transport error'')), [], net)"
  using assms by (simp add: execute_classified_def)

end
