(* ===== verification/Demo_Deployment.thy ===== *)
theory Demo_Deployment
  imports Executor
begin

text \<open>
  A concrete deployment, on which the witnesses run. One provider, two targets. Its JSON parser knows three bodies: a completion, a quota error and an
  empty object.
\<close>

definition demo_completion :: json where
  "demo_completion = JObj
     [(''choices'', JArr [JObj [(''finish_reason'', JStr ''stop''),
        (''message'', JObj [(''content'', JStr ''hi''), (''role'', JStr ''assistant'')])]]),
      (''model'', JStr ''m1-2024''),
      (''usage'', JObj [(''completion_tokens'', JNum (PosInt 0)), (''prompt_tokens'', JNum (PosInt 0)),
        (''total_tokens'', JNum (PosInt 0))])]"

definition demo_from_slice :: "string \<Rightarrow> json option" where
  "demo_from_slice s =
     (if s = ''ok'' then Some demo_completion
      else if s = ''quota'' then Some (JObj [(''error'', JObj [(''code'', JStr ''INSUFFICIENT_quota'')])])
      else if s = ''{}'' then Some (JObj []) else None)"

text \<open>The bytes a header value may hold: the visible ones, the space and the tab.\<close>

definition demo_header_value_ok :: "string \<Rightarrow> bool" where
  "demo_header_value_ok v =
     list_all (\<lambda>c. (of_char c :: nat) = 9 \<or> 32 \<le> (of_char c :: nat) \<and> (of_char c :: nat) \<noteq> 127) v"

definition demo_libs :: libs where
  "demo_libs = \<lparr>lib_from_slice = demo_from_slice, lib_header_value_ok = demo_header_value_ok,
     lib_to_str = Some, lib_rfc2822 = (\<lambda>_. None), lib_from_format = (\<lambda>_ _. None)\<rparr>"

definition demo_openai :: openai_config where
  "demo_openai = \<lparr>oc_api_key = ''k'', oc_base_url = ''u'', oc_timeout_ms = 1000,
     oc_supported_models = [''m1'', ''m2''],
     oc_pricing = (\<lambda>_. Some (model_pricing_new (Fin 1) (Fin 2))), oc_max_response_bytes = 100\<rparr>"

definition demo_service :: service where
  "demo_service = \<lparr>sv_libs = demo_libs, sv_vendors = [''openai'' \<mapsto> demo_openai],
     sv_config = \<lparr>xc_openai = Some demo_openai, xc_timeout_ms = 1000, xc_max_retries = 1,
       xc_max_total_attempts = 3, xc_backoff_cap_ms = 2000, xc_circuit_failure_threshold = 3,
       xc_circuit_cooldown_ms = 30000\<rparr>,
     sv_circuit = circuit_config_of 3 30000\<rparr>"

definition demo_fallback :: route_plan where
  "demo_fallback = RoutePlan ''openai'' ''t2'' ''m2'' 100 []"

definition demo_plan :: route_plan where
  "demo_plan = RoutePlan ''openai'' ''t1'' ''m1'' 100 [demo_fallback]"

definition demo_payload :: json where
  "demo_payload = JObj [(''max_tokens'', JNum (PosInt 50)),
     (''messages'', JArr [JObj [(''content'', JStr ''hello''), (''role'', JStr ''user'')]])]"

definition demo_params :: execution_params where
  "demo_params = \<lparr>ep_messages = [\<lparr>msg_role = ''user'', msg_content = ''hello''\<rparr>],
     ep_temperature = None, ep_max_tokens = Some 50, ep_top_p = None, ep_stream = False\<rparr>"

definition demo_world :: "exchange list \<Rightarrow> world" where
  "demo_world net = \<lparr>w_now = 5, w_ticks = [], w_circuits = Map.empty, w_others = [], w_events = [],
     w_net = net, w_entropy = [], w_sent = []\<rparr>"

definition demo_response :: "nat \<Rightarrow> string \<Rightarrow> provider_response" where
  "demo_response status body = \<lparr>pr_status = status, pr_status_text = [], pr_retry_after = None,
     pr_content_length = None, pr_body = [(1, BChunk body), (1, BEof)], pr_wall = 0,
     pr_window_lag = 0, pr_poll_lag = 0\<rparr>"

definition demo_result :: execution_result where
  "demo_result = \<lparr>er_content = ''hi'', er_role = ''assistant'', er_model_used = ''m1-2024'',
     er_prompt_tokens = 0, er_completion_tokens = 0, er_total_cost = Fin 0, er_finish_reason = ''stop''\<rparr>"

lemmas demo_defs =
  demo_libs_def demo_openai_def demo_service_def demo_fallback_def demo_plan_def demo_payload_def
  demo_params_def demo_world_def demo_response_def demo_result_def

lemma demo_key_sendable [simp]: "key_is_sendable demo_libs demo_openai"
  by (simp add: key_is_sendable_def demo_libs_def demo_openai_def demo_header_value_ok_def)

lemma demo_extract: "extract_params demo_payload = Ok demo_params"
  by (simp add: demo_payload_def demo_params_def extract_params_def messages_from_json_def)

lemma demo_parse:
  "parse_successful_chat_completion demo_from_slice ''ok'' (Some (model_pricing_new (Fin 1) (Fin 2)))
     = Ok demo_result"
proof -
  have fl: "\<lfloor>1 / 2 :: rat\<rfloor> = 0" by (rule floor_unique) simp_all
  have z: "f64_of_int 0 = Fin 0" "rnd 0 = Fin 0" by (simp_all add: f64_of_int_def rnd_def)
  show ?thesis
    by (simp add: parse_successful_chat_completion_def demo_from_slice_def demo_completion_def
        required_nonempty_string_def required_string_def required_assistant_role_def
        required_token_count_def checked_add_i64_def estimate_successful_response_cost_def
        model_pricing_new_def z fl demo_result_def Let_def)
qed

section \<open>Running the concrete deployment\<close>

lemma no_entropy: "plan_retry_delay system_jitter i c None [] = (Immediate, [])"
  by (simp add: plan_retry_delay_def jittered_backoff_ms_def system_jitter_def Let_def)

text \<open>The bundle that runs the executor on the concrete deployment.\<close>

lemmas exec_eval =
  execute_unfold execute_hop_def execute_attempts_def run_attempt_def conclude_attempt_def
  timed_call_def call_llm_def get_vendor_def execute_classified_def answer_run_def run_at_def
  key_is_sendable_def demo_header_value_ok_def
  after_error_def terminate_for_provider_minimum_def settle_hop_def drop_hop_def admit_hop_def
  with_circuits_def read_bounded_response_body_def check_advertised_content_length_def
  append_bounded_def sat_add_def classify_unsuccessful_status_def quota_exhausted_def
  supports_model_def attempt_cutoff_def is_expired_def budget_new_def budget_remaining_def
  try_start_def poll_at_def timeout_poll_def observed_at_def wire_request_def
  started_attempt_new_def sa_complete_def sa_record_def sa_drop_def record_success_def
  demo_defs demo_from_slice_def demo_completion_def json_pointer2_def eq_ignore_ascii_case_def
  admit_def entry_or_default_def circuit_default_def closed_permit_def consume_def settle_def
  complete_def complete_state_def drop_permit_def circuit_config_of_def from_millis_def record_defs emit_def
  execute_fallbacks_def finish_fallbacks_def hop_supports_params_def finish_attempts_def

end
