(* ===== verification/Executor_Properties.thy ===== *)
theory Executor_Properties
  imports Executor_Wire Demo_Deployment
begin

text \<open>
  The properties of the executor and the concrete requests that show their hypotheses can hold.
\<close>

section \<open>Lemmas on results and errors\<close>

lemma finish_attempts_not_ok [simp]: "finish_attempts le \<noteq> Ok r"
  by (simp add: finish_attempts_def)

lemma fallbacks_loop_error:
  "fallbacks_loop sv ps pe dl hops from b w = (Err e, b', w') \<Longrightarrow>
   e = pe \<or> e = ExecDeadlineExceeded
   \<or> (\<exists>v ms. e = RateLimitExceeded v (Some ms) \<and> remaining dl (w_now w') < from_millis ms)"
proof (induction hops arbitrary: "from" b w)
  case Nil
  then show ?case by (auto dest!: finish_fallbacks_idle)
next
  case (Cons hop rest)
  obtain t w1 where 1: "read_clock w = (t, w1)" by force
  define w2 where "w2 = emit (record_fallback from (target_id hop)) w1"
  obtain hr b1 w3 where eh: "execute_hop sv hop ps dl b w2 = (hr, b1, w3)" by (metis prod_cases3)
  note r = Cons.prems [simplified 1 fallbacks_loop.simps prod.case, folded w2_def]
  show ?case
  proof (cases "is_expired dl t \<or> \<not> hop_supports_params hop ps")
    case True
    with r Cons.IH show ?thesis by (auto split: if_splits)
  next
    case live: False
    show ?thesis
    proof (cases hr)
      case (Inr x)
      with r live eh show ?thesis by simp
    next
      case (Inl x)
      obtain tm w4 where tm: "terminate_for_provider_minimum x dl w3 = (tm, w4)" by force
      have "(if x = ExecDeadlineExceeded then (Err x, b1, w3)
          else case tm of
                 Some terminal \<Rightarrow> (case observe_terminal terminal w4 of (e', w5) \<Rightarrow> (Err e', b1, w5))
               | None \<Rightarrow> (if \<not> is_fallback_eligible x then finish_fallbacks pe dl b1 w4
                          else fallbacks_loop sv ps pe dl rest (target_id hop) b1 w4))
          = (Err e, b', w')"
        using r live eh Inl tm by (simp split: if_splits option.splits)
      with terminate_result [of x dl w3 _ w4] tm show ?thesis
        by (auto simp: observe_terminal_def split: if_splits option.splits
            dest!: finish_fallbacks_idle Cons.IH)
    qed
  qed
qed

lemma retry_wait_hint:
  assumes "retry_wait sv plan dl i (Some ms) le w = (None, w')"
  shows "w_now w + from_millis ms \<le> w_now w'"
proof -
  obtain t w1 where 1: "read_clock w = (t, w1)" by force
  have t: "w_now w \<le> w_now w1 \<and> w_now w1 = t" using read_clock_fields [OF 1] by simp
  have e: "w\<lparr>w_entropy := w_entropy w\<rparr> = w" by simp
  show ?thesis
  proof (cases "ms = 0")
    case True
    with assms 1 t show ?thesis
      by (auto simp: retry_wait_def plan_provider evaluate_retry_delay_def e from_millis_def
          split: prod.splits if_splits dest!: read_clock_fields)
  next
    case False
    show ?thesis
    proof (cases "from_millis ms \<le> remaining dl t")
      case True
      obtain ok w2 where sl: "sleep_until_retry dl (from_millis ms) w1 = (ok, w2)" by force
      obtain t2 w3 where 2: "read_clock w2 = (t2, w3)" by force
      have ok: "ok" "w' = w3"
        using assms 1 False True sl 2
        by (auto simp: retry_wait_def plan_provider evaluate_retry_delay_def e
            split: if_splits bool.splits)
      have "w_now w1 + from_millis ms \<le> w_now w2"
        using sl ok(1)
        by (auto simp: sleep_until_retry_def timeout_poll_def Let_def
            split: prod.splits dest!: read_clock_fields)
      with t read_clock_fields [OF 2] ok(2) show ?thesis by simp
    next
      case no_fit: False
      with assms 1 False show ?thesis
        by (simp add: retry_wait_def plan_provider evaluate_retry_delay_def e)
    qed
  qed
qed

lemma attempts_loop_hint:
  assumes "budget_wf b" "0 < i"
    and "attempts_loop sv plan ps dl (i # rest) le (Some ms) b w = (r, b', w')"
  shows "\<exists>cs. w_sent w' = w_sent w @ cs \<and> (\<forall>c \<in> set cs. w_now w + from_millis ms \<le> wc_time c)"
proof -
  obtain t w1 where 1: "read_clock w = (t, w1)" by force
  note f1 = read_clock_fields [OF 1]
  obtain e w2 where rw: "retry_wait sv plan dl i (Some ms) le w1 = (e, w2)" by force
  have s2: "w_sent w2 = w_sent w1"
    using retry_wait_advance [OF rw, where T = "[]" and M = "[]" and b = "\<lparr>max_total = 0, started = 0\<rparr>"]
    by (auto simp: advance_def)
  show ?thesis
  proof (cases "is_expired dl t \<or> budget_remaining b = 0 \<or> e \<noteq> None")
    case True
    with assms(2,3) 1 rw s2 f1 have "w_sent w' = w_sent w" by (auto split: if_splits)
    then show ?thesis by auto
  next
    case False
    then have en: "e = None" by simp
    have later: "w_now w + from_millis ms \<le> w_now w2"
      using retry_wait_hint [OF rw [unfolded en]] f1 by simp
    obtain st b1 w3 where ra: "run_attempt sv plan ps dl i b w2 = (st, b1, w3)"
      by (metis prod_cases3)
    note a2 = run_attempt_advance [OF assms(1) ra]
    have wf1: "budget_wf b1" using a2 assms(1) by (simp add: advance_def)
    have "advance dl (target_id plan) (model_id plan) b w2 b' w'"
      using assms(2,3) 1 rw False en ra a2
        advance_trans [OF a2 attempts_loop_advance [OF wf1]]
      by (cases st) (auto split: if_splits)
    then show ?thesis using later s2 f1 unfolding advance_def by (auto intro: order_trans)
  qed
qed


text \<open>
  The instants of one iteration's attempt. The deadline is checked at the first clock reading; a request
  leaves at the third.
\<close>

lemma run_attempt_call_time:
  assumes "run_attempt sv plan ps dl i b w = (st, b', w')"
  shows "(dl_instant dl \<le> w_now w + nth_delay w 0 \<longrightarrow>
      st = Return (Err ExecDeadlineExceeded) \<and> b' = b \<and> w_sent w' = w_sent w)
    \<and> (\<exists>cs. w_sent w' = w_sent w @ cs
      \<and> (\<forall>c \<in> set cs. wc_time c = w_now w + nth_delay w 0 + nth_delay w 1 + nth_delay w 2))"
  using assms
proof (cases rule: run_attempt_cases)
  case (expired t w1)
  with sent_read_clock [OF expired(1)] show ?thesis by simp
next
  case (spent t)
  have "\<exists>cutoff. attempt_cutoff dl (from_millis (xc_timeout_ms (sv_config sv))) t = Some cutoff"
    using assms spent by (auto simp: run_attempt_def split: option.splits)
  then have "t < dl_instant dl" using attempt_cutoff_SomeD(1,2) by (metis order_less_le_trans)
  with read_clock_delays [OF spent(1)] sent_read_clock [OF spent(1)] show ?thesis by simp
next
  case (called t w1 cutoff t2 w2 out obs w3)
  note d1 = read_clock_delays [OF called(1)] and d2 = read_clock_delays [OF called(4)]
  note f1 = read_clock_fields [OF called(1)] and f2 = read_clock_fields [OF called(4)]
  obtain cs where cs: "w_sent w3 = w_sent w2 @ cs"
      "\<forall>c \<in> set cs. wc_time c = w_now w2 + nth_delay w2 0"
    using timed_call_effect [OF called(5)] by blast
  have live: "t < dl_instant dl" using attempt_cutoff_SomeD(1,2) [OF called(2)] by simp
  have e: "nth_delay (if 0 < i then emit (record_retry (target_id plan)) w1 else w1) j = nth_delay w1 j"
    "w_now (if 0 < i then emit (record_retry (target_id plan)) w1 else w1) = t"
    "w_sent (if 0 < i then emit (record_retry (target_id plan)) w1 else w1) = w_sent w" for j
    using f1 by simp_all
  have "w_now w2 + nth_delay w2 0 = w_now w + nth_delay w 0 + nth_delay w 1 + nth_delay w 2"
    using d1 d2 f2 by (simp add: e numeral_2_eq_2)
  with cs f2 sent_conclude [OF called(6)] live d1 show ?thesis by (simp add: e)
qed

section \<open>Lemmas on the circuits of a hop\<close>

text \<open>When no other request touches the circuits, admission and settlement are the circuit's own.\<close>

lemma admit_hop_alone:
  assumes "w_others w = []" "admit_hop sv tid w = (a, w')"
  obtains t t2 evs where "w_now w \<le> t" "t \<le> w_now w + slack w"
    "admit (sv_circuit sv) t t2 tid (w_circuits w) = (a, w_circuits w', evs)" "w_others w' = []"
    "w_sent w' = w_sent w" "w_now w \<le> w_now w'"
proof -
  obtain t w1 where 1: "read_clock w = (t, w1)" by force
  obtain t2 w2 where 2: "read_clock w1 = (t2, w2)" by force
  obtain a' reg' evs where ad: "admit (sv_circuit sv) t t2 tid (w_circuits w) = (a', reg', evs)"
    by (metis prod_cases3)
  note f = read_clock_fields [OF 1] read_clock_fields [OF 2]
  have late: "t \<le> w_now w + slack w" by (rule read_clockE [OF 1]) simp
  have "w_others w2 = []" "w_circuits w2 = w_circuits w" using f assms(1) by simp_all
  then have w': "w' = emit evs (w2\<lparr>w_circuits := reg', w_others := []\<rparr>)" "a = a'"
    using assms(2) by (auto simp: admit_hop_def 1 2 with_circuits_def ad)
  show thesis
  proof (rule that)
    show "admit (sv_circuit sv) t t2 tid (w_circuits w) = (a, w_circuits w', evs)"
      using ad w' by simp
  qed (use f late w' in auto)
qed

lemma settle_hop_alone:
  assumes "w_others w = []"
  obtains t evs where "w_now w \<le> t"
    "consume (sv_circuit sv) t p out (w_circuits w) = (w_circuits (settle_hop sv p out w), evs)"
proof -
  obtain t w1 where 1: "read_clock w = (t, w1)" by force
  obtain reg' evs where co: "consume (sv_circuit sv) t p out (w_circuits w) = (reg', evs)" by force
  note f = read_clock_fields [OF 1]
  have "w_circuits (settle_hop sv p out w) = reg'"
    using f assms by (simp add: settle_hop_def 1 with_circuits_def co)
  with f co show thesis by (intro that [of t evs]) auto
qed

lemma execute_attempts_circuits:
  "budget_wf b \<Longrightarrow> execute_attempts sv plan ps dl b n w = (r, b', w') \<Longrightarrow>
   w_circuits w' = w_circuits w \<and> w_others w' = w_others w"
  by (drule (1) execute_attempts_advance) (simp add: advance_def)

lemma blocked_hop:
  assumes "w_others w = []" "w_circuits w tid = Some st"
    and "phase st = HalfOpen True \<or> (\<exists>u. phase st = Open u \<and> w_now w + slack w < u)"
  shows "\<exists>ms w'. admit_hop sv tid w = (Reject ms, w') \<and> w_sent w' = w_sent w"
proof -
  obtain a w' where ad: "admit_hop sv tid w = (a, w')" by force
  from admit_hop_alone [OF assms(1) ad] obtain t t2 evs where
    *: "w_now w \<le> t" "t \<le> w_now w + slack w"
      "admit (sv_circuit sv) t t2 tid (w_circuits w) = (a, w_circuits w', evs)"
      "w_sent w' = w_sent w" by metis
  have "\<exists>ms. a = Reject ms"
    using assms(2,3) *(2,3) by (auto simp: entry_or_default_simps admit_open_early admit_half_open_busy)
  with ad *(4) show ?thesis by auto
qed

text \<open>How a hop on a closed circuit runs when nothing else touches the circuits: its attempts leave the entry, and it
  is settled once, for a success or a circuit failure.\<close>

lemma settle_closed_hop:
  assumes "w_circuits w T = Some \<lparr>generation = g, phase = Closed n\<rparr>" "w_others w = []"
  obtains u where "u \<ge> w_now w" "w_circuits (settle_hop sv (closed_permit T g) out w) T
    = Some (fst (complete_state (sv_circuit sv) u T PermitClosed out \<lparr>generation = g, phase = Closed n\<rparr>))"
proof -
  obtain u evs where u: "w_now w \<le> u" "consume (sv_circuit sv) u (closed_permit T g) out (w_circuits w)
      = (w_circuits (settle_hop sv (closed_permit T g) out w), evs)"
    using settle_hop_alone [OF assms(2)] by metis
  then have "w_circuits (settle_hop sv (closed_permit T g) out w) = (w_circuits w)
      (T \<mapsto> fst (complete_state (sv_circuit sv) u T PermitClosed out \<lparr>generation = g, phase = Closed n\<rparr>))"
    using assms(1) by (simp add: consume_unsettled complete_current)
  with u(1) show thesis by (intro that [of u]) simp_all
qed

lemma closed_hop_runs:
  assumes wf: "budget_wf b" and rem: "0 < budget_remaining b" and alone: "w_others w = []"
    and cl: "entry_or_default (w_circuits w) (target_id plan) = \<lparr>generation = g, phase = Closed n\<rparr>"
    and eh: "execute_hop sv plan ps dl b w = (r, b', w')"
    and live: "\<not> is_expired dl (fst (read_clock w))"
  obtains w3 where "w_circuits w3 (target_id plan) = Some \<lparr>generation = g, phase = Closed n\<rparr>" "w_others w3 = []"
    "w_now w \<le> w_now w3"
    "w' = (case r of Inr x \<Rightarrow> settle_hop sv (closed_permit (target_id plan) g) Success w3
           | Inl e \<Rightarrow> (if is_circuit_failure e
                      then settle_hop sv (closed_permit (target_id plan) g) TransientFailure w3 else w3))"
proof -
  let ?T = "target_id plan"
  obtain t w1 where 1: "read_clock w = (t, w1)" by force
  note f1 = read_clock_fields [OF 1]
  obtain a w2 where ad: "admit_hop sv ?T w1 = (a, w2)" by force
  have o1: "w_others w1 = []" using f1 alone by simp
  obtain ta tb evs where ad2: "admit (sv_circuit sv) ta tb ?T (w_circuits w1)
      = (a, w_circuits w2, evs)" "w_others w2 = []" "w_now w1 \<le> w_now w2"
    using admit_hop_alone [OF o1 ad] by metis
  have "entry_or_default (w_circuits w1) ?T = \<lparr>generation = g, phase = Closed n\<rparr>"
    using cl f1 by simp
  then have a: "a = Allow (closed_permit ?T g)"
    and "w_circuits w2 = (w_circuits w1)(?T \<mapsto> \<lparr>generation = g, phase = Closed n\<rparr>)"
    using ad2(1) by (simp_all add: admit_closed)
  then have c2: "w_circuits w2 ?T = Some \<lparr>generation = g, phase = Closed n\<rparr>" by simp
  obtain r3 b3 w3 where ea:
    "execute_attempts sv plan ps dl b (xc_max_retries (sv_config sv)) w2 = (r3, b3, w3)"
    by (metis prod_cases3)
  have "w_circuits w3 ?T = Some \<lparr>generation = g, phase = Closed n\<rparr>" "w_others w3 = []"
    using execute_attempts_circuits [OF wf ea] c2 ad2(2) by simp_all
  moreover have "w_now w \<le> w_now w3"
    using execute_attempts_advance [OF wf ea] f1 ad2(3) by (simp add: advance_def)
  moreover note eh [unfolded execute_hop_def 1 prod.case ad a circuit_admission.case ea]
  ultimately show thesis
    using rem live 1 by (intro that [of w3]) (auto simp: drop_hop_def split: sum.splits)
qed

lemma breaker_after_hop:
  assumes wf: "budget_wf b" and rem: "0 < budget_remaining b" and alone: "w_others w = []"
    and cl: "entry_or_default (w_circuits w) (target_id plan) = \<lparr>generation = g, phase = Closed n\<rparr>"
    and eh: "execute_hop sv plan ps dl b w = (r, b', w')"
  defines "e' \<equiv> entry_or_default (w_circuits w') (target_id plan)"
  shows "(\<forall>x. r = Ok x \<longrightarrow> e' = \<lparr>generation = g, phase = Closed 0\<rparr>)
    \<and> (\<forall>e. r = Err e \<longrightarrow>
        (if is_circuit_failure e
         then (if threshold (sv_circuit sv) \<le> sat_add u32_max n 1
               then \<exists>t \<ge> w_now w. e' = \<lparr>generation = g + 1, phase = Open (t + cooldown (sv_circuit sv))\<rparr>
               else e' = \<lparr>generation = g, phase = Closed (sat_add u32_max n 1)\<rparr>)
         else e' = \<lparr>generation = g, phase = Closed n\<rparr>))"
proof (cases "is_expired dl (fst (read_clock w))")
  case True
  obtain t w1 where 1: "read_clock w = (t, w1)" by force
  with True eh read_clock_fields [OF 1] cl show ?thesis by (auto simp: execute_hop_def e'_def)
next
  case False
  let ?T = "target_id plan"
  obtain w3 where w3: "w_circuits w3 ?T = Some \<lparr>generation = g, phase = Closed n\<rparr>" "w_others w3 = []"
    and now: "w_now w \<le> w_now w3"
    and w': "w' = (case r of Inr x \<Rightarrow> settle_hop sv (closed_permit ?T g) Success w3
           | Inl e \<Rightarrow> (if is_circuit_failure e
                      then settle_hop sv (closed_permit ?T g) TransientFailure w3 else w3))"
    by (rule closed_hop_runs [OF wf rem alone cl eh False])
  show ?thesis
  proof (cases r)
    case (Inr x)
    obtain u where "w_circuits (settle_hop sv (closed_permit ?T g) Success w3) ?T
        = Some (fst (complete_state (sv_circuit sv) u ?T PermitClosed Success \<lparr>generation = g, phase = Closed n\<rparr>))"
      by (rule settle_closed_hop [OF w3])
    with w' Inr show ?thesis by (auto simp: e'_def entry_or_default_simps complete_state_closed)
  next
    case (Inl e)
    obtain u where u: "u \<ge> w_now w3" "w_circuits (settle_hop sv (closed_permit ?T g) TransientFailure w3) ?T
        = Some (fst (complete_state (sv_circuit sv) u ?T PermitClosed TransientFailure
            \<lparr>generation = g, phase = Closed n\<rparr>))"
      by (rule settle_closed_hop [OF w3])
    then have "u \<ge> w_now w" using now by simp
    with u(2) w' Inl w3(1) show ?thesis
      by (cases "threshold (sv_circuit sv) \<le> sat_add u32_max n 1")
        (auto simp: e'_def entry_or_default_simps complete_state_failure set_open_def)
  qed
qed

text \<open>A target whose circuit is not closed is called at most once: by its recovery probe.\<close>

lemma recovering_hop:
  assumes wf: "budget_wf b" and alone: "w_others w = []"
    and cl: "\<not> (\<exists>n. phase (entry_or_default (w_circuits w) (target_id plan)) = Closed n)"
    and eh: "execute_hop sv plan ps dl b w = (r, b', w')"
  shows "\<exists>cs. w_sent w' = w_sent w @ cs \<and> length cs \<le> 1"
proof -
  obtain t w1 where 1: "read_clock w = (t, w1)" by force
  note f1 = read_clock_fields [OF 1]
  obtain a w2 where ad: "admit_hop sv (target_id plan) w1 = (a, w2)" by force
  have o1: "w_others w1 = []" using f1 alone by simp
  obtain ta tb evs where ad2: "admit (sv_circuit sv) ta tb (target_id plan) (w_circuits w1)
      = (a, w_circuits w2, evs)" "w_sent w2 = w_sent w1"
    using admit_hop_alone [OF o1 ad] by metis
  have na: "a \<noteq> Allow p" for p
    using ad2(1) cl f1 by (auto simp: admit_def Let_def start_probe_def
        split: circuit_phase.splits bool.splits if_splits)
  obtain r3 b3 w3 where ea: "execute_attempts sv plan ps dl b 0 w2 = (r3, b3, w3)"
    by (metis prod_cases3)
  obtain cs where cs: "w_sent w3 = w_sent w2 @ cs" "length cs \<le> 1"
    using execute_attempts_spends [OF wf ea] unfolding spends_def by auto
  have same: "w_sent (settle_hop sv p out w3) = w_sent w3" "w_sent (drop_hop p w3) = w_sent w3" for p out
    using settle_hop_idle [of w3 sv p out] drop_hop_idle [of w3 p] unfolding idle_def by auto
  have "w_sent w' = w_sent w \<or> w_sent w' = w_sent w3"
    using eh na f1 ad2(2) same
    by (cases a; cases r3) (auto simp: execute_hop_def 1 ad ea split: if_splits)
  with cs ad2(2) f1 show ?thesis by auto
qed


section \<open>The successful request\<close>

lemma no_ticks [simp]: "w_ticks w = [] \<Longrightarrow> read_clock w = (w_now w, w)"
  "w_ticks w = [] \<Longrightarrow> next_lag w = (0, w)"
  by (simp_all add: read_clock_def next_lag_def)

lemma first_answer_call:
  assumes "w_ticks w = []" "w_net w = Some (d, Inr resp) # net"
    and "sv_vendors sv (vendor_id plan) = Some cfg" "supports_model cfg (model_id plan)"
    and "key_is_sendable (sv_libs sv) cfg"
    and "\<not> ep_stream ps" "200 \<le> pr_status resp" "pr_status resp < 300"
    and "read_bounded_response_body (pr_content_length resp) (oc_max_response_bytes cfg)
           (w_now w + d) (pr_body resp) = Some (t, Ok body)"
    and "parse_successful_chat_completion (lib_from_slice (sv_libs sv)) body
           (oc_pricing cfg (target_id plan)) = Ok x"
    and "t \<le> cutoff"
  shows "timed_call sv plan ps cutoff w =
    ((Some (Ok x), None),
     w\<lparr>w_now := t, w_net := net,
       w_sent := w_sent w @ [\<lparr>wc_time = w_now w, wc_target = target_id plan,
                              wc_request = wire_request cfg (model_id plan) ps\<rparr>]\<rparr>)"
proof -
  have t: "w_now w \<le> t" using read_bounded_time [OF assms(9)] by simp
  have n429: "pr_status resp \<noteq> 429" using assms(8) by simp
  have "answer_run (sv_libs sv) cfg (target_id plan) cutoff (w_now w) (Some (d, Inr resp))
      = run_at t (Ok x)"
    using assms(7-10) n429 by (simp add: answer_run_def Let_def)
  then have "call_llm (sv_libs sv) (sv_vendors sv) plan ps cutoff (w_now w) (w_net w)
      = (run_at t (Ok x), [wire_request cfg (model_id plan) ps], net)"
    using assms(2-6) by (simp add: call_llm_def get_vendor_def execute_classified_def)
  moreover have "poll_at (Some t) cutoff (w_now w) 0 = t"
    using t assms(11) by (simp add: poll_at_def)
  ultimately show ?thesis
    using assms(1) by (simp add: timed_call_def run_at_def timeout_poll_def observed_at_def Let_def)
qed

lemma first_answer_attempts:
  assumes ticks: "w_ticks w = []" and b: "0 < budget_remaining b"
    and dl: "w_now w < dl_instant dl" "t < dl_instant dl"
    and tm: "0 < xc_timeout_ms (sv_config sv)" "t \<le> w_now w + from_millis (xc_timeout_ms (sv_config sv))"
    and tc: "\<And>cutoff. t \<le> cutoff \<Longrightarrow>
      timed_call sv plan ps cutoff w = ((Some (Ok x), None), w\<lparr>w_now := t, w_net := net, w_sent := sent\<rparr>)"
  shows "execute_attempts sv plan ps dl b n w =
    (Ok x, b\<lparr>started := sat_add u32_max (started b) 1\<rparr>,
     emit [MAttempt (target_id plan) OSuccess,
           MUsage (target_id plan) (er_prompt_tokens x) (er_completion_tokens x)]
       (w\<lparr>w_now := t, w_net := net, w_sent := sent\<rparr>))"
proof -
  have up: "[0..<Suc n] = 0 # [1..<Suc n]" by (simp add: upt_conv_Cons)
  define cutoff where
    "cutoff = min (dl_instant dl) (w_now w + from_millis (xc_timeout_ms (sv_config sv)))"
  have co: "attempt_cutoff dl (from_millis (xc_timeout_ms (sv_config sv))) (w_now w)
      = Some cutoff" "t \<le> cutoff"
    using dl tm by (auto simp: attempt_cutoff_def cutoff_def Let_def min_def)
  have ne: "\<not> is_expired dl (w_now w)" "\<not> is_expired dl t" using dl by (simp_all add: is_expired_def)
  have ts: "try_start b = (True, b\<lparr>started := sat_add u32_max (started b) 1\<rparr>)"
    using b by (simp add: try_start_def budget_remaining_def)
  have "run_attempt sv plan ps dl 0 b w = (Return (Ok x), b\<lparr>started := sat_add u32_max (started b) 1\<rparr>,
     emit [MAttempt (target_id plan) OSuccess,
           MUsage (target_id plan) (er_prompt_tokens x) (er_completion_tokens x)]
       (w\<lparr>w_now := t, w_net := net, w_sent := sent\<rparr>))"
    using ticks co ts tc [OF co(2)] ne
    by (simp add: run_attempt_def conclude_attempt_def record_success_def record_defs emit_def
        started_attempt_new_def Let_def sa_complete_def sa_record_def sa_drop_def)
  then show ?thesis
    using ticks ne b by (simp add: execute_attempts_def up del: upt_Suc)
qed


text \<open>A throttling for nine seconds.\<close>

lemma demo_throttled:
  assumes "pr_retry_after resp = Some ''9''" "lib_to_str L = Some"
  shows "throttling_of L resp = RateLimitExceeded ''openai'' (Some 9000)"
proof -
  have "str_trim ''9'' = ''9''" by code_simp
  then have "parse_retry_after d ''9'' now = Some (from_secs 9)" for d now
    by (simp add: parse_retry_after_def is_ascii_digit_def parse_u64_digits_def decimal_value_def)
  with assms show ?thesis
    by (simp add: throttling_of_def retry_after_header_ms_def duration_ms_def from_secs_def as_millis_def)
qed

section \<open>Properties\<close>

text \<open>
  C2. The provider calls of one request follow the route: they split into one block per hop, in chain
  order, each block calling its own target with its own model at most \<open>max_retries + 1\<close> times, blocks
  of hops that cannot serve the requested \<open>max_tokens\<close> empty, and all blocks together within the one
  shared attempt budget. This holds for every timing, every interleaving of other requests on the
  circuits, and every provider behaviour.
\<close>

theorem calls_follow_the_chain:
  assumes "xc_max_total_attempts (sv_config sv) \<le> u32_max"
    and "execute sv plan payload dl w = (r, w')"
  shows "\<exists>css. w_sent w' = w_sent w @ concat css
    \<and> list_all2 (hop_block sv (may_serve plan payload)) (plan # fallback_plans plan) css
    \<and> length (concat css) \<le> max (xc_max_total_attempts (sv_config sv)) 1"
proof -
  obtain b' where "chain dl sv (may_serve plan payload) (plan # fallback_plans plan)
      (budget_new (xc_max_total_attempts (sv_config sv))) w b' w'"
    by (rule execute_chain [OF assms])
  then show ?thesis
    unfolding chain_def budget_wf_def by (fastforce simp: budget_new_def)
qed

theorem calls_follow_the_chain_witness:
  "\<exists>r w' css. execute demo_service demo_plan demo_payload \<lparr>dl_instant = 1000000\<rparr>
       (demo_world [Some (1, Inr (demo_response 200 ''ok''))]) = (r, w')
     \<and> w_sent w' = concat css \<and> length (concat css) \<le> 3"
proof -
  obtain r w' where e: "execute demo_service demo_plan demo_payload \<lparr>dl_instant = 1000000\<rparr>
       (demo_world [Some (1, Inr (demo_response 200 ''ok''))]) = (r, w')" by force
  from calls_follow_the_chain [OF _ e] show ?thesis
    using e by (auto simp: demo_service_def demo_world_def)
qed

text \<open>
  C11. No provider call is started on an expired deadline. Each attempt reads the clock against the
  deadline; when that reading is not before the deadline the attempt ends the request with the deadline
  error, spends no budget and sends nothing, and otherwise its call leaves exactly two clock readings
  later. So over a whole request, with every retry and fallback, a call's instant exceeds the deadline by
  less than two consecutive scheduling delays, and not at all when the task is scheduled without delay.
\<close>

theorem no_call_after_the_deadline:
  assumes "xc_max_total_attempts (sv_config sv) \<le> u32_max"
    and "execute sv plan payload dl w = (r, w')"
  shows "(\<exists>cs. w_sent w' = w_sent w @ cs
      \<and> (\<forall>c \<in> set cs. \<exists>i. wc_time c < dl_instant dl + nth_delay w i + nth_delay w (Suc i)))
    \<and> (\<forall>hop ps i b v st b1 v'. run_attempt sv hop ps dl i b v = (st, b1, v') \<longrightarrow>
        (dl_instant dl \<le> w_now v + nth_delay v 0 \<longrightarrow>
           st = Return (Err ExecDeadlineExceeded) \<and> b1 = b \<and> w_sent v' = w_sent v)
        \<and> (\<exists>cs. w_sent v' = w_sent v @ cs
           \<and> (\<forall>c \<in> set cs. wc_time c = w_now v + nth_delay v 0 + nth_delay v 1 + nth_delay v 2)))"
proof (intro conjI allI impI)
  obtain b' where "chain dl sv (may_serve plan payload) (plan # fallback_plans plan)
      (budget_new (xc_max_total_attempts (sv_config sv))) w b' w'"
    by (rule execute_chain [OF assms])
  then show "\<exists>cs. w_sent w' = w_sent w @ cs
      \<and> (\<forall>c \<in> set cs. \<exists>i. wc_time c < dl_instant dl + nth_delay w i + nth_delay w (Suc i))"
    unfolding chain_def soon_after_def by blast
qed (use run_attempt_call_time in blast)+

theorem no_call_after_the_deadline_witness:
  "\<exists>r w' cs. execute demo_service demo_plan demo_payload \<lparr>dl_instant = 1000000\<rparr>
       (demo_world [None]) = (r, w')
     \<and> w_sent w' = cs \<and> (\<forall>c \<in> set cs. wc_time c < 1000000)"
proof -
  obtain r w' where e: "execute demo_service demo_plan demo_payload \<lparr>dl_instant = 1000000\<rparr>
       (demo_world [None]) = (r, w')" by force
  from no_call_after_the_deadline [OF _ e] show ?thesis
    using e by (auto simp: demo_service_def demo_world_def nth_delay_def)
qed

text \<open>
  C28. Every started attempt is recorded exactly once. Over a whole request the attempt events are as many
  as the attempts its budget started, they split into one block per hop that names the hop's target, and no
  hop calls the provider more often than it records attempts. One iteration records an event exactly when
  it starts an attempt. An attempt whose caller goes away while it waits for the provider is recorded once,
  when its guard is dropped: as a deadline when the deadline has passed by then, as a cancellation otherwise.
\<close>

theorem attempts_are_recorded_once:
  assumes "xc_max_total_attempts (sv_config sv) \<le> u32_max"
    and "execute_on_budget sv plan payload dl (budget_new (xc_max_total_attempts (sv_config sv))) w
           = (r, b', w')"
  shows "execute sv plan payload dl w = (r, w')
    \<and> (\<exists>css ass es. w_sent w' = w_sent w @ concat css \<and> w_events w' = w_events w @ es
        \<and> attempts_of es = concat ass \<and> length (concat ass) = started b'
        \<and> started b' \<le> max (xc_max_total_attempts (sv_config sv)) 1
        \<and> list_all2 (hop_block sv (may_serve plan payload)) (plan # fallback_plans plan) css
        \<and> list_all2 (\<lambda>hop as. \<forall>a \<in> set as. fst a = target_id hop) (plan # fallback_plans plan) ass
        \<and> list_all2 (\<lambda>cs as. length cs \<le> length as) css ass)
    \<and> (\<forall>hop ps i b v st b1 v'. budget_wf b \<longrightarrow> run_attempt sv hop ps dl i b v = (st, b1, v') \<longrightarrow>
        (\<exists>es. w_events v' = w_events v @ es \<and> length (attempts_of es) = started b1 - started b
          \<and> started b1 - started b \<le> 1 \<and> (\<forall>a \<in> set (attempts_of es). fst a = target_id hop)))
    \<and> (\<forall>hop ps i b held v b1 v'. budget_wf b \<longrightarrow>
        run_attempt_dropped sv hop ps dl i b held v = Some (b1, v') \<longrightarrow>
        started b1 = started b + 1 \<and> (\<exists>es. w_events v' = w_events v @ es
          \<and> attempts_of es = [(target_id hop, if is_expired dl (w_now v') then ODeadline else OCancelled)]))"
proof (intro conjI)
  show "execute sv plan payload dl w = (r, w')" using assms(2) by (simp add: execute_def)
  have "chain dl sv (may_serve plan payload) (plan # fallback_plans plan)
      (budget_new (xc_max_total_attempts (sv_config sv))) w b' w'"
    by (rule execute_on_budget_chain [OF budget_new_wf [OF assms(1)] assms(2)])
  then show "\<exists>css ass es. w_sent w' = w_sent w @ concat css \<and> w_events w' = w_events w @ es
      \<and> attempts_of es = concat ass \<and> length (concat ass) = started b'
      \<and> started b' \<le> max (xc_max_total_attempts (sv_config sv)) 1
      \<and> list_all2 (hop_block sv (may_serve plan payload)) (plan # fallback_plans plan) css
      \<and> list_all2 (\<lambda>hop as. \<forall>a \<in> set as. fst a = target_id hop) (plan # fallback_plans plan) ass
      \<and> list_all2 (\<lambda>cs as. length cs \<le> length as) css ass"
    unfolding chain_def accounted_def budget_wf_def budget_new_def by fastforce
qed (use run_attempt_events in blast, use run_attempt_dropped_event [unfolded Suc_eq_plus1] in blast)

theorem attempts_are_recorded_once_witness:
  "\<exists>r b' w' css ass. execute_on_budget demo_service demo_plan demo_payload \<lparr>dl_instant = 1000000\<rparr>
       (budget_new 3) (demo_world [None, None]) = (r, b', w')
     \<and> w_sent w' = concat css \<and> attempts_of (w_events w') = concat ass \<and> length (concat ass) = started b'
     \<and> list_all2 (\<lambda>cs as. length cs \<le> length as) css ass"
proof -
  obtain r b' w' where e: "execute_on_budget demo_service demo_plan demo_payload \<lparr>dl_instant = 1000000\<rparr>
       (budget_new 3) (demo_world [None, None]) = (r, b', w')" by (metis prod_cases3)
  have n: "xc_max_total_attempts (sv_config demo_service) \<le> u32_max"
    "budget_new (xc_max_total_attempts (sv_config demo_service)) = budget_new 3"
    by (simp_all add: demo_service_def)
  from attempts_are_recorded_once [OF n(1), unfolded n(2), OF e] e show ?thesis
    by (auto simp: demo_world_def)
qed

text \<open>
  C29. An error of the primary hop that is not transient - throttling, quota, credentials, a rejected or
  unusable answer - ends the request: no fallback is called, and the client sees that error, or the
  expiry of the deadline.
\<close>

theorem no_fallback_after_permanent_error:
  assumes "extract_params payload = Ok ps" "read_clock w = (t, w1)" "\<not> is_expired dl t"
    and "execute_hop sv plan ps dl (budget_new (xc_max_total_attempts (sv_config sv))) w1
           = (Err e, b, w2)"
    and "\<not> is_fallback_eligible e"
    and "execute sv plan payload dl w = (r, w')"
  shows "w_sent w' = w_sent w2 \<and> (r = Err e \<or> r = Err ExecDeadlineExceeded)"
proof -
  obtain tm w3 where tm: "terminate_for_provider_minimum e dl w2 = (tm, w3)" by force
  have s3: "w_sent w3 = w_sent w2" using idle_terminate [OF tm] by (auto simp: idle_def)
  have "r = Err e \<and> (w' = w2 \<or> w' = w3)
      \<or> (\<exists>x. tm = Some x \<and> r = Err (fst (observe_terminal x w3)) \<and> w' = snd (observe_terminal x w3))"
    using assms(6) unfolding execute_unfold assms(2) prod.case assms(1) sum.case assms(4) tm
    using assms(3,5) by (cases tm) (auto split: if_splits prod.splits)
  with s3 terminate_result [of e dl w2 _ w3] tm show ?thesis
    by (auto simp: observe_terminal_def)
qed

theorem no_fallback_after_permanent_error_witness:
  "\<exists>b w2 r w'.
     execute_hop demo_service demo_plan demo_params \<lparr>dl_instant = 1000000\<rparr> (budget_new 3)
       (demo_world [Some (1, Inr (demo_response 401 ''{}''))])
       = (Err (AuthenticationFailed ''openai''), b, w2)
     \<and> execute demo_service demo_plan demo_payload \<lparr>dl_instant = 1000000\<rparr>
         (demo_world [Some (1, Inr (demo_response 401 ''{}''))]) = (r, w')
     \<and> w_sent w' = w_sent w2
     \<and> (r = Err (AuthenticationFailed ''openai'') \<or> r = Err ExecDeadlineExceeded)"
proof -
  let ?w = "demo_world [Some (1, Inr (demo_response 401 ''{}''))]"
  obtain b w2 where eh: "execute_hop demo_service demo_plan demo_params \<lparr>dl_instant = 1000000\<rparr>
      (budget_new 3) ?w = (Err (AuthenticationFailed ''openai''), b, w2)"
    by (simp add: exec_eval Let_def upt_rec)
  obtain r w' where ex: "execute demo_service demo_plan demo_payload \<lparr>dl_instant = 1000000\<rparr> ?w
      = (r, w')" by force
  have "w_sent w' = w_sent w2
      \<and> (r = Err (AuthenticationFailed ''openai'') \<or> r = Err ExecDeadlineExceeded)"
  proof (rule no_fallback_after_permanent_error [OF demo_extract _ _ _ _ ex])
    show "read_clock ?w = (5, ?w)" by (simp add: demo_world_def read_clock_def)
    show "execute_hop demo_service demo_plan demo_params \<lparr>dl_instant = 1000000\<rparr>
      (budget_new (xc_max_total_attempts (sv_config demo_service))) ?w
        = (Err (AuthenticationFailed ''openai''), b, w2)"
      using eh by (simp add: demo_service_def)
  qed (simp_all add: is_expired_def)
  with eh ex show ?thesis by blast
qed

text \<open>
  C30. When every fallback fails, the client sees the primary hop's error: a fallback can only replace it
  by the expiry of the deadline, or by a throttling whose \<open>Retry-After\<close> is longer than the time that remains
  before the deadline when the request ends.
\<close>

theorem fallback_errors_do_not_leak:
  assumes "execute_fallbacks sv hops ps primary_error dl b from w = (Err e, b', w')"
  shows "e = primary_error \<or> e = ExecDeadlineExceeded
    \<or> (\<exists>v ms. e = RateLimitExceeded v (Some ms) \<and> remaining dl (w_now w') < from_millis ms)"
  using assms fallbacks_loop_error
  by (fastforce simp: execute_fallbacks_def split: prod.splits if_splits)

theorem fallback_errors_do_not_leak_witness:
  "\<exists>e b' w'. execute_fallbacks demo_service [demo_fallback] demo_params (NetworkError ''down'')
       \<lparr>dl_instant = 1000000\<rparr> (budget_new 3) ''t1''
       (demo_world [Some (1, Inr (demo_response 429 ''{}''\<lparr>pr_retry_after := Some ''9''\<rparr>))]) = (Err e, b', w')
     \<and> (\<exists>v ms. e = RateLimitExceeded v (Some ms)
          \<and> remaining \<lparr>dl_instant = 1000000\<rparr> (w_now w') < from_millis ms)"
proof -
  obtain b' w' where e: "execute_fallbacks demo_service [demo_fallback] demo_params
       (NetworkError ''down'') \<lparr>dl_instant = 1000000\<rparr> (budget_new 3) ''t1''
       (demo_world [Some (1, Inr (demo_response 429 ''{}''\<lparr>pr_retry_after := Some ''9''\<rparr>))])
         = (Err (RateLimitExceeded ''openai'' (Some 9000)), b', w')"
    by (simp add: exec_eval observe_terminal_def Let_def upt_rec classify_too_many_requests_def demo_throttled
        provider_minimum_cannot_fit_iff body_refinement_window_def remaining_def attempt_remaining_def)
  with fallback_errors_do_not_leak [OF e] show ?thesis by blast
qed

text \<open>
  An open circuit, before its cooldown ends, and a circuit whose recovery probe is outstanding keep
  the hop from the provider: it sends nothing and fails with the circuit error (or because the deadline
  or the budget was already gone), leaving the budget untouched.
\<close>

theorem open_circuit_sends_nothing:
  assumes "w_others w = []" "w_circuits w (target_id plan) = Some st"
    and "phase st = HalfOpen True \<or> (\<exists>u. phase st = Open u \<and> w_now w + slack w < u)"
    and "execute_hop sv plan ps dl b w = (r, b', w')"
  shows "w_sent w' = w_sent w \<and> b' = b
    \<and> (r = Err ExecDeadlineExceeded \<or> r = Err max_retries_exceeded
       \<or> (\<exists>ms. r = Err (ExecCircuitOpen (vendor_id plan) ms)))"
proof -
  obtain t w1 where 1: "read_clock w = (t, w1)" by force
  note f1 = read_clock_fields [OF 1]
  have sl: "w_now w1 + slack w1 = w_now w + slack w" by (rule read_clockE [OF 1]) simp
  obtain ms w2 where ad: "admit_hop sv (target_id plan) w1 = (Reject ms, w2)" "w_sent w2 = w_sent w1"
    using blocked_hop [of w1 "target_id plan" st sv] assms(1-3) f1 sl by auto
  show ?thesis
    using assms(4) f1 ad by (auto simp: execute_hop_def 1 split: if_splits)
qed

theorem open_circuit_sends_nothing_witness:
  "\<exists>ms w'. execute_hop demo_service demo_plan demo_params \<lparr>dl_instant = 1000000\<rparr> (budget_new 3)
       (demo_world []\<lparr>w_circuits := [''t1'' \<mapsto> \<lparr>generation = 1, phase = Open 9\<rparr>]\<rparr>)
       = (Err (ExecCircuitOpen ''openai'' ms), budget_new 3, w')
     \<and> w_sent w' = []"
proof -
  let ?w = "demo_world []\<lparr>w_circuits := [''t1'' \<mapsto> \<lparr>generation = 1, phase = Open 9\<rparr>]\<rparr>"
  obtain r b' w' where e: "execute_hop demo_service demo_plan demo_params \<lparr>dl_instant = 1000000\<rparr>
      (budget_new 3) ?w = (r, b', w')" by (metis prod_cases3)
  have h: "w_others ?w = []"
      "w_circuits ?w (target_id demo_plan) = Some \<lparr>generation = 1, phase = Open 9\<rparr>"
      "phase \<lparr>generation = 1, phase = Open 9\<rparr> = HalfOpen True
        \<or> (\<exists>u. phase \<lparr>generation = 1, phase = Open 9\<rparr> = Open u \<and> w_now ?w + slack ?w < u)"
    by (simp_all add: demo_world_def demo_plan_def slack_def)
  have "w_sent w' = w_sent ?w \<and> b' = budget_new 3"
    using open_circuit_sends_nothing [OF h e] by simp
  moreover have "\<exists>ms. r = Err (ExecCircuitOpen ''openai'' ms)"
    using e by (auto simp: exec_eval Let_def)
  ultimately show ?thesis using e by (auto simp: demo_world_def)
qed

text \<open>
  C31. The outcome of a hop drives its circuit (when no other request interferes): success resets the
  failure count; a transient failure adds one to it, or opens the circuit for the cooldown when the
  threshold is reached; every other error, the expired deadline included, leaves the circuit as it was.
\<close>

theorem hop_outcome_drives_the_breaker:
  assumes "budget_wf b" "0 < budget_remaining b" "w_others w = []"
    and "entry_or_default (w_circuits w) (target_id plan) = \<lparr>generation = g, phase = Closed n\<rparr>"
    and "execute_hop sv plan ps dl b w = (r, b', w')"
  shows "(\<forall>x. r = Ok x \<longrightarrow>
      entry_or_default (w_circuits w') (target_id plan) = \<lparr>generation = g, phase = Closed 0\<rparr>)
    \<and> (\<forall>e. r = Err e \<longrightarrow>
        (if is_circuit_failure e
         then (if threshold (sv_circuit sv) \<le> sat_add u32_max n 1
               then \<exists>t \<ge> w_now w. entry_or_default (w_circuits w') (target_id plan)
                      = \<lparr>generation = g + 1, phase = Open (t + cooldown (sv_circuit sv))\<rparr>
               else entry_or_default (w_circuits w') (target_id plan)
                      = \<lparr>generation = g, phase = Closed (sat_add u32_max n 1)\<rparr>)
         else entry_or_default (w_circuits w') (target_id plan)
                = \<lparr>generation = g, phase = Closed n\<rparr>))"
  by (rule breaker_after_hop [OF assms])

theorem hop_outcome_drives_the_breaker_witness:
  "\<exists>b' w'. execute_hop demo_service demo_plan demo_params \<lparr>dl_instant = 1000000\<rparr> (budget_new 3)
       (demo_world [Some (1, Inr (demo_response 500 ''{}'')), Some (1, Inr (demo_response 500 ''{}''))])
       = (Err (ApiCallFailed ''upstream http error''), b', w')
     \<and> entry_or_default (w_circuits w') ''t1'' = \<lparr>generation = 0, phase = Closed 1\<rparr>"
proof -
  let ?w = "demo_world [Some (1, Inr (demo_response 500 ''{}'')), Some (1, Inr (demo_response 500 ''{}''))]"
  obtain r b' w' where e: "execute_hop demo_service demo_plan demo_params \<lparr>dl_instant = 1000000\<rparr>
      (budget_new 3) ?w = (r, b', w')" by (metis prod_cases3)
  have r: "r = Err (ApiCallFailed ''upstream http error'')"
    using e by (auto simp: exec_eval Let_def upt_rec retry_wait_def no_entropy
        evaluate_retry_delay_def)
  have h: "budget_wf (budget_new 3)" "0 < budget_remaining (budget_new 3)" "w_others ?w = []"
      "entry_or_default (w_circuits ?w) (target_id demo_plan) = \<lparr>generation = 0, phase = Closed 0\<rparr>"
    by (simp_all add: budget_new_def budget_wf_def budget_remaining_def demo_world_def
        entry_or_default_def circuit_default_def)
  have "entry_or_default (w_circuits w') ''t1'' = \<lparr>generation = 0, phase = Closed 1\<rparr>"
    using hop_outcome_drives_the_breaker [OF h e] r
    by (simp add: demo_service_def demo_plan_def circuit_config_of_def sat_add_def)
  with e r show ?thesis by blast
qed

text \<open>
  C32. A target that is recovering is probed, not retried: while its circuit is not closed, and no other
  request touches the circuits in the meantime, one hop sends at most one request to it.
\<close>

theorem recovery_is_probed_once:
  assumes "budget_wf b" "w_others w = []"
    and "\<not> (\<exists>n. phase (entry_or_default (w_circuits w) (target_id plan)) = Closed n)"
    and "execute_hop sv plan ps dl b w = (r, b', w')"
  shows "\<exists>cs. w_sent w' = w_sent w @ cs \<and> length cs \<le> 1"
  by (rule recovering_hop [OF assms])

theorem recovery_is_probed_once_witness:
  "\<exists>r b' w' cs. execute_hop demo_service demo_plan demo_params \<lparr>dl_instant = 1000000\<rparr> (budget_new 3)
       (demo_world [None]\<lparr>w_circuits := [''t1'' \<mapsto> \<lparr>generation = 1, phase = HalfOpen False\<rparr>]\<rparr>)
       = (r, b', w')
     \<and> w_sent w' = cs \<and> length cs \<le> 1"
proof -
  let ?w = "demo_world [None]\<lparr>w_circuits := [''t1'' \<mapsto> \<lparr>generation = 1, phase = HalfOpen False\<rparr>]\<rparr>"
  obtain r b' w' where e: "execute_hop demo_service demo_plan demo_params \<lparr>dl_instant = 1000000\<rparr>
      (budget_new 3) ?w = (r, b', w')" by (metis prod_cases3)
  have h: "budget_wf (budget_new 3)" "w_others ?w = []"
      "\<not> (\<exists>n. phase (entry_or_default (w_circuits ?w) (target_id demo_plan)) = Closed n)"
    by (simp_all add: budget_new_def budget_wf_def demo_world_def demo_plan_def entry_or_default_def)
  from recovery_is_probed_once [OF h e] e show ?thesis by (auto simp: demo_world_def)
qed

text \<open>
  C33. A provider's \<open>Retry-After\<close> is never shortened: when an attempt ended in a throttling with the
  hint \<open>ms\<close>, every later call of the hop starts at least \<open>ms\<close> milliseconds afterwards.
\<close>

theorem retry_after_is_honoured:
  assumes "budget_wf b" "0 < i"
    and "attempts_loop sv plan ps dl (i # rest) last_error (Some ms) b w = (r, b', w')"
  shows "\<exists>cs. w_sent w' = w_sent w @ cs \<and> (\<forall>c \<in> set cs. w_now w + from_millis ms \<le> wc_time c)"
  by (rule attempts_loop_hint [OF assms])

theorem retry_after_is_honoured_witness:
  "\<exists>r b' w' cs. attempts_loop demo_service demo_plan demo_params \<lparr>dl_instant = 9000000\<rparr> [1]
       (Some (RateLimitExceeded ''openai'' (Some 2))) (Some 2) (budget_new 3)
       (demo_world [Some (1, Inr (demo_response 200 ''ok''))]) = (r, b', w')
     \<and> w_sent w' = cs \<and> (\<forall>c \<in> set cs. 5 + from_millis 2 \<le> wc_time c)"
proof -
  obtain r b' w' where e: "attempts_loop demo_service demo_plan demo_params \<lparr>dl_instant = 9000000\<rparr>
       (1 # []) (Some (RateLimitExceeded ''openai'' (Some 2))) (Some 2) (budget_new 3)
       (demo_world [Some (1, Inr (demo_response 200 ''ok''))]) = (r, b', w')" by (metis prod_cases3)
  have h: "budget_wf (budget_new 3)" "(0::nat) < 1" by (simp_all add: budget_new_def budget_wf_def)
  from retry_after_is_honoured [OF h e] e show ?thesis by (auto simp: demo_world_def)
qed

text \<open>
  C34. A valid first answer is the result. On an ideal schedule (no other request touches the circuits and
  no scheduling delay passes), when the primary circuit is closed, the credential is a legal header value and
  the provider answers 2xx with a valid body within the attempt timeout and the deadline, the request succeeds with that
  body's result at the instant the body ends, after exactly one call, and records one successful attempt
  and its token usage.
\<close>

theorem valid_first_answer_succeeds:
  assumes "w_ticks w = []" "w_others w = []" "w_net w = Some (d, Inr resp) # net"
    and "phase (entry_or_default (w_circuits w) (target_id plan)) = Closed n"
    and "extract_params payload = Ok ps" "\<not> ep_stream ps"
    and "sv_vendors sv (vendor_id plan) = Some cfg" "supports_model cfg (model_id plan)"
    and "key_is_sendable (sv_libs sv) cfg"
    and "200 \<le> pr_status resp" "pr_status resp < 300"
    and "read_bounded_response_body (pr_content_length resp) (oc_max_response_bytes cfg)
           (w_now w + d) (pr_body resp) = Some (t, Ok body)"
    and "parse_successful_chat_completion (lib_from_slice (sv_libs sv)) body
           (oc_pricing cfg (target_id plan)) = Ok x"
    and "t < dl_instant dl" "0 < xc_timeout_ms (sv_config sv)"
    and "t \<le> w_now w + from_millis (xc_timeout_ms (sv_config sv))"
  shows "\<exists>w'. execute sv plan payload dl w = (Ok x, w') \<and> w_now w' = t
    \<and> w_sent w' = w_sent w @ [\<lparr>wc_time = w_now w, wc_target = target_id plan,
                               wc_request = wire_request cfg (model_id plan) ps\<rparr>]
    \<and> w_events w' = w_events w @ [MAttempt (target_id plan) OSuccess,
                     MUsage (target_id plan) (er_prompt_tokens x) (er_completion_tokens x)]"
proof -
  let ?T = "target_id plan" and ?b = "budget_new (xc_max_total_attempts (sv_config sv))"
  let ?e = "entry_or_default (w_circuits w) ?T"
  define w1 where "w1 = w\<lparr>w_circuits := (w_circuits w)(?T \<mapsto> ?e)\<rparr>"
  have ad: "admit_hop sv ?T w = (Allow (closed_permit ?T (generation ?e)), w1)"
    using assms(1,2,4) by (simp add: admit_hop_def with_circuits_def admit_closed w1_def)
  have now: "w_now w \<le> t" using read_bounded_time [OF assms(12)] by simp
  have rem: "0 < budget_remaining ?b" by (simp add: budget_remaining_def budget_new_def)
  note tc = first_answer_call [of w1 d resp net sv plan cfg ps t body x]
  obtain w3 where ea: "execute_attempts sv plan ps dl ?b (xc_max_retries (sv_config sv)) w1
      = (Ok x, ?b\<lparr>started := sat_add u32_max (started ?b) 1\<rparr>, w3)"
    and w3: "w_now w3 = t" "w_ticks w3 = []" "w_others w3 = []"
      "w_sent w3 = w_sent w @ [\<lparr>wc_time = w_now w, wc_target = ?T,
         wc_request = wire_request cfg (model_id plan) ps\<rparr>]"
      "w_events w3 = w_events w @ [MAttempt ?T OSuccess,
         MUsage ?T (er_prompt_tokens x) (er_completion_tokens x)]"
      "w_circuits w3 ?T = Some ?e"
    using first_answer_attempts [OF _ rem _ assms(14,15) _ tc] assms now by (simp add: w1_def)
  have "settle_hop sv (closed_permit ?T (generation ?e)) Success w3
      = w3\<lparr>w_circuits := (w_circuits w3)(?T \<mapsto> ?e\<lparr>phase := Closed 0\<rparr>), w_others := []\<rparr>"
    using w3(2,3,6) assms(4)
    by (simp add: settle_hop_def with_circuits_def consume_unsettled complete_current
        complete_state_closed)
  moreover have "\<not> is_expired dl (w_now w)" using now assms(14) by (simp add: is_expired_def)
  ultimately show ?thesis
    using assms(1,5) rem ad ea w3 by (simp add: execute_unfold execute_hop_def)
qed

theorem valid_first_answer_succeeds_witness:
  "\<exists>w'. execute demo_service demo_plan demo_payload \<lparr>dl_instant = 1000000\<rparr>
       (demo_world [Some (1, Inr (demo_response 200 ''ok''))]) = (Ok demo_result, w')
     \<and> w_now w' = 8 \<and> w_events w' = [MAttempt ''t1'' OSuccess, MUsage ''t1'' 0 0]"
proof -
  let ?w = "demo_world [Some (1, Inr (demo_response 200 ''ok''))]"
  have "\<exists>w'. execute demo_service demo_plan demo_payload \<lparr>dl_instant = 1000000\<rparr> ?w
      = (Ok demo_result, w') \<and> w_now w' = 8
    \<and> w_sent w' = w_sent ?w @ [\<lparr>wc_time = w_now ?w, wc_target = target_id demo_plan,
         wc_request = wire_request demo_openai (model_id demo_plan) demo_params\<rparr>]
    \<and> w_events w' = w_events ?w @ [MAttempt (target_id demo_plan) OSuccess,
         MUsage (target_id demo_plan) (er_prompt_tokens demo_result) (er_completion_tokens demo_result)]"
  proof (rule valid_first_answer_succeeds [where d = 1 and resp = "demo_response 200 ''ok''" and n = 0])
    show "parse_successful_chat_completion (lib_from_slice (sv_libs demo_service)) ''ok''
        (oc_pricing demo_openai (target_id demo_plan)) = Ok demo_result"
      using demo_parse by (simp add: demo_service_def demo_libs_def demo_openai_def)
    show "extract_params demo_payload = Ok demo_params" by (rule demo_extract)
    show "key_is_sendable (sv_libs demo_service) demo_openai" by (simp add: demo_service_def)
  qed (simp_all add: demo_service_def demo_world_def demo_plan_def demo_openai_def demo_params_def
      demo_response_def entry_or_default_def circuit_default_def supports_model_def
      read_bounded_response_body_def check_advertised_content_length_def append_bounded_def
      sat_add_def Let_def from_millis_def)
  then show ?thesis by (auto simp: demo_world_def demo_plan_def demo_result_def)
qed

text \<open>
  An accepted result beat the deadline: when the attempts of a hop return a result, the clock had
  not reached the deadline at the check that accepted it.
\<close>

theorem accepted_results_beat_the_deadline:
  assumes "execute_attempts sv plan ps dl b n w = (Ok x, b', w')"
  shows "w_now w' < dl_instant dl"
  using assms unfolding execute_attempts_def by (rule attempts_loop_ok_in_time)

theorem accepted_results_beat_the_deadline_witness:
  "\<exists>b' w'. execute_attempts demo_service demo_plan demo_params \<lparr>dl_instant = 9\<rparr> (budget_new 3) 0
       (demo_world [Some (1, Inr (demo_response 200 ''ok''))]) = (Ok demo_result, b', w')
     \<and> w_now w' < 9"
proof -
  let ?w = "demo_world [Some (1, Inr (demo_response 200 ''ok''))]"
  have tc: "timed_call demo_service demo_plan demo_params cutoff ?w = ((Some (Ok demo_result), None),
      ?w\<lparr>w_now := 8, w_net := [], w_sent := w_sent ?w @ [\<lparr>wc_time = w_now ?w,
        wc_target = target_id demo_plan,
        wc_request = wire_request demo_openai (model_id demo_plan) demo_params\<rparr>]\<rparr>)"
    if "8 \<le> cutoff" for cutoff
    using that demo_parse
    by (intro first_answer_call [where d = 1 and resp = "demo_response 200 ''ok''" and body = "''ok''"])
      (simp_all add: demo_service_def demo_world_def demo_plan_def demo_openai_def demo_params_def
        key_is_sendable_def demo_header_value_ok_def demo_libs_def demo_response_def supports_model_def read_bounded_response_body_def
        check_advertised_content_length_def append_bounded_def sat_add_def Let_def)
  obtain b' w' where e: "execute_attempts demo_service demo_plan demo_params \<lparr>dl_instant = 9\<rparr>
      (budget_new 3) 0 ?w = (Ok demo_result, b', w')"
    using first_answer_attempts [OF _ _ _ _ _ _ tc, of "budget_new 3" "\<lparr>dl_instant = 9\<rparr>"]
    by (fastforce simp: demo_world_def demo_service_def budget_new_def budget_remaining_def from_millis_def)
  from accepted_results_beat_the_deadline [OF e] e show ?thesis by auto
qed

end
