(* ===== verification/OpenAI_Properties.thy ===== *)
theory OpenAI_Properties
  imports Demo_Deployment
begin

text \<open>
  Properties of one provider call: bounded bodies, the successful payload, its price, and the
  classification of a 429.
\<close>

section \<open>Specifications\<close>

text \<open>
  What a Chat Completions payload must be to be used, as a relation between the JSON value and the
  fields of the result: exactly the role \<open>assistant\<close>, a text content, a model and a finish reason, and
  a token count that adds up within \<open>i64\<close>.
\<close>

inductive chat_completion ::
    "json \<Rightarrow> string \<Rightarrow> string \<Rightarrow> string \<Rightarrow> int \<Rightarrow> int \<Rightarrow> bool" where
  "\<lbrakk> map_of obj ''model'' = Some (JStr model); model \<noteq> [];
     map_of obj ''choices'' = Some (JArr (JObj choice # others));
     map_of choice ''message'' = Some (JObj message);
     map_of message ''content'' = Some (JStr content);
     map_of message ''role'' = Some (JStr ''assistant'');
     map_of choice ''finish_reason'' = Some (JStr finish); finish \<noteq> [];
     map_of obj ''usage'' = Some (JObj usage);
     map_of usage ''prompt_tokens'' = Some (JNum k1); number_as_i64 k1 = Some p; 0 \<le> p;
     map_of usage ''completion_tokens'' = Some (JNum k2); number_as_i64 k2 = Some c; 0 \<le> c;
     map_of usage ''total_tokens'' = Some (JNum k3); number_as_i64 k3 = Some (p + c) \<rbrakk>
   \<Longrightarrow> chat_completion (JObj obj) content model finish p c"

inductive_cases chat_completionE: "chat_completion v content model finish p c"

lemma head_object: "(case xs of [] \<Rightarrow> None | c # _ \<Rightarrow> as_object c) = Some kvs
    \<longleftrightarrow> (\<exists>others. xs = JObj kvs # others)"
  by (cases xs) (auto elim!: as_object.elims)

lemma as_object_iff [simp]: "as_object v = Some kvs \<longleftrightarrow> v = JObj kvs"
  by (cases v) auto

lemma as_array_iff [simp]: "as_array v = Some xs \<longleftrightarrow> v = JArr xs"
  by (cases v) auto

lemma bind_object: "Option.bind m as_object = Some kvs \<longleftrightarrow> m = Some (JObj kvs)"
  by (cases m) auto

lemma bind_array: "Option.bind m as_array = Some xs \<longleftrightarrow> m = Some (JArr xs)"
  by (cases m) auto

lemma checked_sum:
  "number_as_i64 k = Some n \<Longrightarrow> 0 \<le> a \<Longrightarrow> 0 \<le> b \<Longrightarrow> checked_add_i64 a b = Some n \<longleftrightarrow> n = a + b"
  using number_as_i64_bound [of k n] by (auto simp: checked_add_i64_def)

lemma parse_sound:
  assumes "parse_successful_chat_completion from_slice body pricing = Ok r"
  shows "\<exists>v. from_slice body = Some v
    \<and> chat_completion v (er_content r) (er_model_used r) (er_finish_reason r)
        (er_prompt_tokens r) (er_completion_tokens r)
    \<and> er_role r = ''assistant''
    \<and> estimate_successful_response_cost (er_prompt_tokens r) (er_completion_tokens r) pricing
        = Ok (er_total_cost r)"
  using assms
  unfolding parse_successful_chat_completion_def response_iffs head_object bind_object bind_array
  by (fastforce simp: and_then_Inr_iff checked_add_i64_def split: if_splits
      intro!: chat_completion.intros)

lemma parse_complete:
  assumes "from_slice body = Some v" "chat_completion v content model finish p c"
    and "estimate_successful_response_cost p c pricing = Ok cost"
  shows "parse_successful_chat_completion from_slice body pricing = Ok
    \<lparr>er_content = content, er_role = ''assistant'', er_model_used = model, er_prompt_tokens = p,
     er_completion_tokens = c, er_total_cost = cost, er_finish_reason = finish\<rparr>"
  using assms(2)
proof (rule chat_completionE)
  fix obj choice others message usage k1 k2 k3
  assume h: "v = JObj obj" "map_of obj ''model'' = Some (JStr model)" "model \<noteq> []"
    "map_of obj ''choices'' = Some (JArr (JObj choice # others))"
    "map_of choice ''message'' = Some (JObj message)"
    "map_of message ''content'' = Some (JStr content)"
    "map_of message ''role'' = Some (JStr ''assistant'')"
    "map_of choice ''finish_reason'' = Some (JStr finish)" "finish \<noteq> []"
    "map_of obj ''usage'' = Some (JObj usage)"
    "map_of usage ''prompt_tokens'' = Some (JNum k1)" "number_as_i64 k1 = Some p" "0 \<le> p"
    "map_of usage ''completion_tokens'' = Some (JNum k2)" "number_as_i64 k2 = Some c" "0 \<le> c"
    "map_of usage ''total_tokens'' = Some (JNum k3)" "number_as_i64 k3 = Some (p + c)"
  have t: "required_token_count (Some (JNum k1)) = Ok p"
    "required_token_count (Some (JNum k2)) = Ok c"
    "required_token_count (Some (JNum k3)) = Ok (p + c)"
    using h by (simp_all add: required_token_count_Ok)
  have "checked_add_i64 p c = Some (p + c)"
    using checked_sum [OF h(18) h(13) h(16)] by simp
  then show ?thesis
    using assms(1,3) h t
    by (simp add: parse_successful_chat_completion_def required_nonempty_string_def
        required_string_def required_assistant_role_def)
qed

text \<open>Every failure to parse is one of the protocol errors, or the missing price.\<close>

lemma parse_errors:
  assumes "parse_successful_chat_completion from_slice body pricing = Err e"
  shows "e = JsonError ''malformed upstream JSON'' \<and> from_slice body = None
    \<or> (e = InvalidUpstreamResult \<or> e = MissingPricing) \<and> from_slice body \<noteq> None"
proof (cases "from_slice body")
  case None
  with assms show ?thesis by (simp add: parse_successful_chat_completion_def)
next
  case (Some v)
  have inl: "and_then m f = Err e \<longleftrightarrow> m = Err e \<or> (\<exists>x. m = Ok x \<and> f x = Err e)"
    for m :: "executor_error + 'a" and f :: "'a \<Rightarrow> executor_error + 'b" and e
    by (cases m) auto
  have rs: "required_string x = Err y \<Longrightarrow> y = InvalidUpstreamResult" for x y
    by (auto simp: required_string_def split: option.splits json.splits)
  have rn: "required_nonempty_string x = Err y \<Longrightarrow> y = InvalidUpstreamResult" for x y
    by (cases "required_string x") (auto simp: required_nonempty_string_def dest: rs split: if_splits)
  have ra: "required_assistant_role x = Err y \<Longrightarrow> y = InvalidUpstreamResult" for x y
    by (cases "required_string x") (auto simp: required_assistant_role_def dest: rs split: if_splits)
  have rt: "required_token_count x = Err y \<Longrightarrow> y = InvalidUpstreamResult" for x y
    by (auto simp: required_token_count_def split: option.splits json.splits if_splits)
  from assms Some show ?thesis
    unfolding parse_successful_chat_completion_def
    by (auto simp: inl ok_or_Inl_iff dest!: rs rn ra rt estimate_errors split: if_splits)
qed


section \<open>Classification of a 429\<close>

lemma observed_at_first:
  assumes "obs = (t, e) # rest" "t \<le> u" shows "\<exists>v s. observed_at obs u = Some s \<and> (v, s) \<in> set obs"
  using observed_at_mem [of obs u] assms by (fastforce simp: observed_at_def split: list.splits)

lemma classify_429_run:
  fixes resp :: provider_response
  defines "u0 \<equiv> \<lambda>t. t + pr_window_lag resp"
  assumes "run = classify_too_many_requests L resp mb cutoff t"
  obtains rest u e where "run_observed run = (t, throttling_of L resp) # rest"
    "run_ready run = Some (u, Err e)" "t \<le> u"
    "u \<le> u0 t + body_refinement_window cutoff (u0 t) + pr_poll_lag resp"
    "e = throttling_of L resp
     \<or> e = QuotaExceeded \<and> rest = [(u, QuotaExceeded)] \<and>
       (\<exists>rt body. read_bounded_response_body (pr_content_length resp) mb t (pr_body resp)
           = Some (rt, Ok body) \<and> quota_exhausted L body)"
    "\<forall>(v, x) \<in> set rest. x = QuotaExceeded"
proof -
  define window where "window = body_refinement_window cutoff (u0 t)"
  define read where "read = read_bounded_response_body (pr_content_length resp) mb t (pr_body resp)"
  define u where "u = poll_at (map_option fst read) (u0 t + window) (u0 t) (pr_poll_lag resp)"
  have u: "t \<le> u" "u \<le> u0 t + window + pr_poll_lag resp"
    by (auto simp: u_def poll_at_def u0_def split: option.splits)
  have run: "run = (if window = 0
      then \<lparr>run_observed = [(t, throttling_of L resp)], run_ready = Some (u0 t, Err (throttling_of L resp))\<rparr>
      else case read of
        Some (rt, Inr body) \<Rightarrow>
          (if timeout_poll (Some rt) u \<and> quota_exhausted L body
           then \<lparr>run_observed = [(t, throttling_of L resp), (u, QuotaExceeded)],
                 run_ready = Some (u, Err QuotaExceeded)\<rparr>
           else \<lparr>run_observed = [(t, throttling_of L resp)], run_ready = Some (u, Err (throttling_of L resp))\<rparr>)
      | _ \<Rightarrow> \<lparr>run_observed = [(t, throttling_of L resp)], run_ready = Some (u, Err (throttling_of L resp))\<rparr>)"
    unfolding assms(2) classify_too_many_requests_def Let_def window_def read_def u_def u0_def
    by (rule refl)
  show thesis
  proof (cases "window = 0")
    case True
    with run show thesis
      by (intro that [of "[]" "u0 t" "throttling_of L resp"]) (auto simp: u0_def window_def)
  next
    case False
    show thesis
    proof (cases "\<exists>rt body. read = Some (rt, Ok body) \<and> timeout_poll (Some rt) u \<and> quota_exhausted L body")
      case True
      with run False u show thesis
        by (intro that [of "[(u, QuotaExceeded)]" u QuotaExceeded]) (auto simp: read_def window_def)
    next
      case no: False
      with run False have "run = \<lparr>run_observed = [(t, throttling_of L resp)],
          run_ready = Some (u, Err (throttling_of L resp))\<rparr>"
        by (auto split: option.splits sum.splits)
      with u show thesis
        by (intro that [of "[]" u "throttling_of L resp"]) (auto simp: window_def)
    qed
  qed
qed

section \<open>Properties\<close>

text \<open>
  C35. Upstream bodies are bounded: a body that is accepted is the whole body, fits \<open>max_bytes\<close>, and was
  not advertised as longer. A body whose chunks pass the bound is refused at the chunk that passes it,
  whatever would follow.
\<close>

theorem bodies_are_bounded:
  assumes "max_bytes < u64_max"
  shows "(read_bounded_response_body len max_bytes t evs = Some (t', Ok b) \<longrightarrow>
      b = body_bytes evs \<and> length b \<le> max_bytes \<and> (\<forall>n. len = Some n \<longrightarrow> n \<le> max_bytes))
    \<and> (max_bytes < length (concat chunks) \<longrightarrow>
       (\<exists>t'. read_bounded_response_body None max_bytes t (map (\<lambda>c. (0, BChunk c)) chunks @ rest)
              = Some (t', Err InvalidUpstreamResult)))"
proof -
  have "\<exists>t'. read_chunks max_bytes buf t (map (\<lambda>c. (0, BChunk c)) chunks @ rest)
      = Some (t', Err InvalidUpstreamResult)"
    if "max_bytes < length buf + length (concat chunks)" "length buf \<le> max_bytes" for buf chunks
    using that
  proof (induction chunks arbitrary: buf)
    case (Cons c cs)
    show ?case
    proof (cases "length buf + length c \<le> max_bytes")
      case True
      with Cons append_bounded_Ok [OF assms, of buf c "buf @ c"] show ?thesis by simp
    next
      case False
      then show ?thesis using assms by (simp add: append_bounded_def sat_add_def Let_def)
    qed
  qed simp
  from this [of "[]"] read_bounded_Ok [OF assms] show ?thesis
    by (auto simp: read_bounded_response_body_def check_advertised_content_length_def)
qed

theorem bodies_are_bounded_witness:
  "read_bounded_response_body (Some 2) 3 7 [(1, BChunk ''o''), (1, BChunk ''k''), (1, BEof)]
     = Some (10, Ok ''ok'')
   \<and> length ''ok'' \<le> 3
   \<and> (\<exists>t'. read_bounded_response_body None 3 7 (map (\<lambda>c. (0, BChunk c)) [''ab'', ''cd''] @ [])
            = Some (t', Err InvalidUpstreamResult))"
proof -
  have r: "read_bounded_response_body (Some 2) 3 7 [(1, BChunk ''o''), (1, BChunk ''k''), (1, BEof)]
     = Some (10, Ok ''ok'')"
    by (simp add: read_bounded_response_body_def check_advertised_content_length_def
        append_bounded_def sat_add_def Let_def)
  have "(3::nat) < u64_max" by simp
  from bodies_are_bounded [OF this, of "Some 2" 7 "[(1, BChunk ''o''), (1, BChunk ''k''), (1, BEof)]"
      10 "''ok''" "[''ab'', ''cd'']" "[]"] r
  show ?thesis by simp
qed

text \<open>
  C36. The payloads that become results are exactly the well-formed completions. For prices the catalog
  admits (finite, between zero and a million), a 2xx body yields a result if and only if it parses to a
  \<open>chat_completion\<close>; the result's fields are the payload's own; everything else is a protocol error,
  never a result with made-up content.
\<close>

theorem completions_are_validated:
  assumes "bounded_by (input_per_million p) 1000000" "bounded_by (output_per_million p) 1000000"
  shows "((\<exists>r. parse_successful_chat_completion from_slice body (Some p) = Ok r)
      \<longleftrightarrow> (\<exists>v content model finish m n. from_slice body = Some v
            \<and> chat_completion v content model finish m n))
    \<and> (\<forall>r. parse_successful_chat_completion from_slice body (Some p) = Ok r \<longrightarrow>
        er_role r = ''assistant'' \<and> bounded_by (er_total_cost r) (2 ^ 110)
        \<and> (\<exists>v. from_slice body = Some v \<and> chat_completion v (er_content r) (er_model_used r)
              (er_finish_reason r) (er_prompt_tokens r) (er_completion_tokens r)))"
proof -
  have tok: "0 \<le> m \<and> m \<le> i64_max \<and> 0 \<le> n \<and> n \<le> i64_max"
    if "chat_completion v content model finish m n" for v content model finish m n
    using that by (rule chat_completionE) (auto dest: number_as_i64_bound)
  have priced: "\<exists>c. estimate_successful_response_cost m n (Some p) = Ok c \<and> bounded_by c (2 ^ 110)"
    if "chat_completion v content model finish m n" for v content model finish m n
    using priced_cost [OF _ _ _ _ assms] tok [OF that] by blast
  have sound: "er_role r = ''assistant'' \<and> bounded_by (er_total_cost r) (2 ^ 110)
        \<and> (\<exists>v. from_slice body = Some v \<and> chat_completion v (er_content r) (er_model_used r)
              (er_finish_reason r) (er_prompt_tokens r) (er_completion_tokens r))"
    if "parse_successful_chat_completion from_slice body (Some p) = Ok r" for r
    using parse_sound [OF that] priced by fastforce
  have "\<exists>r. parse_successful_chat_completion from_slice body (Some p) = Ok r"
    if "from_slice body = Some v" "chat_completion v content model finish m n"
    for v content model finish m n
    using priced [OF that(2)] parse_complete [of from_slice body v, OF that] by blast
  with sound show ?thesis by blast
qed

theorem completions_are_validated_witness:
  "er_role demo_result = ''assistant'' \<and> bounded_by (er_total_cost demo_result) (2 ^ 110)"
proof -
  have "bounded_by (input_per_million (model_pricing_new (Fin 1) (Fin 2))) 1000000"
    "bounded_by (output_per_million (model_pricing_new (Fin 1) (Fin 2))) 1000000"
    by (simp_all add: model_pricing_new_def)
  from completions_are_validated [OF this, of demo_from_slice "''ok''"] demo_parse show ?thesis
    by blast
qed

text \<open>
  C37. The estimated cost of a response is a finite nonnegative number whenever the token counts are
  those of an \<open>i64\<close> and the prices are those a catalog admits; without a price there is an error, not a
  zero.
\<close>

theorem cost_is_finite:
  assumes "0 \<le> m" "m \<le> i64_max" "0 \<le> n" "n \<le> i64_max"
    and "bounded_by (input_per_million p) 1000000" "bounded_by (output_per_million p) 1000000"
  shows "(\<exists>x. estimate_successful_response_cost m n (Some p) = Ok (Fin x) \<and> 0 \<le> x)
    \<and> estimate_successful_response_cost m n None = Err MissingPricing"
proof
  show "\<exists>x. estimate_successful_response_cost m n (Some p) = Ok (Fin x) \<and> 0 \<le> x"
    using priced_cost [OF assms] by (auto elim!: bounded_byE)
qed (simp add: estimate_successful_response_cost_def)

theorem cost_is_finite_witness:
  "\<exists>x. estimate_successful_response_cost 120 30 (Some (model_pricing_new (Fin 1) (Fin 2)))
     = Ok (Fin x) \<and> 0 \<le> x"
  using cost_is_finite [of 120 30 "model_pricing_new (Fin 1) (Fin 2)"]
  by (simp add: model_pricing_new_def)

text \<open>
  C38. A 429 stays a 429. Once its headers have arrived the call is classified: whenever the attempt is
  cut off afterwards, the context holds the throttling or the quota error; the call itself ends with one
  of them; quota needs a complete body that says so; and reading the body takes at most half of what was
  left of the attempt (plus scheduling delay).
\<close>

theorem throttling_survives_the_timeout:
  assumes "pr_status resp = 429"
    and "run = answer_run L cfg target cutoff now (Some (d, Inr resp))" "now + d \<le> u"
  shows "(observed_at (run_observed run) u = Some (throttling_of L resp)
          \<or> observed_at (run_observed run) u = Some QuotaExceeded)
    \<and> (\<exists>t e. run_ready run = Some (t, Err e)
        \<and> t \<le> now + d + pr_window_lag resp + pr_poll_lag resp + (cutoff - (now + d)) div 2
        \<and> (e = throttling_of L resp
           \<or> e = QuotaExceeded \<and> (\<exists>rt body. read_bounded_response_body (pr_content_length resp)
               (oc_max_response_bytes cfg) (now + d) (pr_body resp) = Some (rt, Ok body)
               \<and> quota_exhausted L body)))"
proof -
  have run: "run = classify_too_many_requests L resp (oc_max_response_bytes cfg) cutoff (now + d)"
    using assms(1,2) by (simp add: answer_run_def Let_def)
  from classify_429_run [OF run] obtain rest t e where *:
    "run_observed run = (now + d, throttling_of L resp) # rest" "run_ready run = Some (t, Err e)"
    "t \<le> now + d + pr_window_lag resp
       + body_refinement_window cutoff (now + d + pr_window_lag resp) + pr_poll_lag resp"
    "e = throttling_of L resp
     \<or> e = QuotaExceeded \<and> (\<exists>rt body. read_bounded_response_body (pr_content_length resp)
         (oc_max_response_bytes cfg) (now + d) (pr_body resp) = Some (rt, Ok body)
         \<and> quota_exhausted L body)"
    "\<forall>(v, x) \<in> set rest. x = QuotaExceeded"
    by metis
  have "body_refinement_window cutoff (now + d + pr_window_lag resp) \<le> (cutoff - (now + d)) div 2"
    using div_le_mono [of "cutoff - (now + d + pr_window_lag resp)" "cutoff - (now + d)" 2]
    by (auto simp: body_refinement_window_def attempt_remaining_def Let_def min_le_iff_disj)
  moreover have "observed_at (run_observed run) u = Some (throttling_of L resp)
      \<or> observed_at (run_observed run) u = Some QuotaExceeded"
    using observed_at_first [OF *(1) assms(3)] *(1,5) by fastforce
  ultimately show ?thesis using *(2-4) by fastforce
qed

theorem throttling_survives_the_timeout_witness:
  "observed_at (run_observed (answer_run demo_libs demo_openai ''t1'' 100 5
      (Some (1, Inr (demo_response 429 ''quota''))))) 6
     \<in> {Some (throttling_of demo_libs (demo_response 429 ''quota'')), Some QuotaExceeded}"
proof -
  have "pr_status (demo_response 429 ''quota'') = 429" "(5::nat) + 1 \<le> 6"
    by (simp_all add: demo_response_def)
  from throttling_survives_the_timeout [OF this(1) refl this(2), of demo_libs demo_openai "''t1''" 100]
  show ?thesis by auto
qed

end
