(* ===== verification/Config_Limits.thy ===== *)
theory Config_Limits
  imports Gateway_Prelude
begin

text \<open>
  \<open>core/config/error.rs\<close>, \<open>core/config/env.rs\<close> and \<open>core/config/limits.rs\<close>: the sanitized
  configuration errors, the environment as a map from names to values, and the policy limits with
  their documented bounds, the catalog's values and the environment's overrides. The values of the
  catalog are the reader's: each an optional \<open>u64\<close>.
\<close>

section \<open>Errors\<close>

datatype config_category =
    MissingConfigFile
  | CatalogUnreadable
  | CatalogMalformedJson
  | CatalogUnsupportedVersion
  | CatalogUnknownField
  | CatalogDuplicateTarget
  | CatalogDuplicateRoute
  | CatalogMissingDefaultRoute
  | CatalogUnknownTargetReference
  | CatalogEmptyIdentifier
  | CatalogNestedChain
  | CatalogDuplicateChainTarget
  | CatalogFallbackLimit
  | CatalogUnsupportedVendor
  | CatalogIncompletePricing
  | CatalogInvalidPrice
  | CatalogInvalidType
  | InvalidLimit
  | MissingCredential
  | InvalidProviderUrl
  | HttpClientConstruction
  | InvalidBindAddress

fun category_as_str :: "config_category \<Rightarrow> string" where
  "category_as_str MissingConfigFile = ''missing_config_file''"
| "category_as_str CatalogUnreadable = ''catalog_unreadable''"
| "category_as_str CatalogMalformedJson = ''catalog_malformed_json''"
| "category_as_str CatalogUnsupportedVersion = ''catalog_unsupported_version''"
| "category_as_str CatalogUnknownField = ''catalog_unknown_field''"
| "category_as_str CatalogDuplicateTarget = ''catalog_duplicate_target''"
| "category_as_str CatalogDuplicateRoute = ''catalog_duplicate_route''"
| "category_as_str CatalogMissingDefaultRoute = ''catalog_missing_default_route''"
| "category_as_str CatalogUnknownTargetReference = ''catalog_unknown_target_reference''"
| "category_as_str CatalogEmptyIdentifier = ''catalog_empty_identifier''"
| "category_as_str CatalogNestedChain = ''catalog_nested_chain''"
| "category_as_str CatalogDuplicateChainTarget = ''catalog_duplicate_chain_target''"
| "category_as_str CatalogFallbackLimit = ''catalog_fallback_limit''"
| "category_as_str CatalogUnsupportedVendor = ''catalog_unsupported_vendor''"
| "category_as_str CatalogIncompletePricing = ''catalog_incomplete_pricing''"
| "category_as_str CatalogInvalidPrice = ''catalog_invalid_price''"
| "category_as_str CatalogInvalidType = ''catalog_invalid_type''"
| "category_as_str InvalidLimit = ''invalid_limit''"
| "category_as_str MissingCredential = ''missing_credential''"
| "category_as_str InvalidProviderUrl = ''invalid_provider_url''"
| "category_as_str HttpClientConstruction = ''http_client_construction''"
| "category_as_str InvalidBindAddress = ''invalid_bind_address''"

record config_error =
  ce_category :: config_category
  ce_message :: string

definition config_error_new :: "config_category \<Rightarrow> string \<Rightarrow> config_error" where
  "config_error_new c m = \<lparr>ce_category = c, ce_message = m\<rparr>"

definition config_error_display :: "config_error \<Rightarrow> string" where
  "config_error_display e = category_as_str (ce_category e) @ '': '' @ ce_message e"

definition missing_config_file :: config_error where
  "missing_config_file = config_error_new MissingConfigFile
     ''OPMUX_CONFIG_FILE must point to a non-secret JSON catalog''"

definition catalog_unreadable :: config_error where
  "catalog_unreadable = config_error_new CatalogUnreadable ''operator catalog file cannot be read''"

definition invalid_limit :: "string \<Rightarrow> config_error" where
  "invalid_limit name = config_error_new InvalidLimit (''invalid numeric limit for '' @ name)"

definition missing_credential :: config_error where
  "missing_credential = config_error_new MissingCredential
     ''OPENAI_API_KEY is required and must be nonempty''"

definition invalid_provider_url :: config_error where
  "invalid_provider_url = config_error_new InvalidProviderUrl
     ''OPENAI_BASE_URL must be an http or https URL without credentials, query, or fragment''"

definition http_client_construction :: config_error where
  "http_client_construction = config_error_new HttpClientConstruction
     ''failed to construct the bounded provider HTTP client''"

definition invalid_bind_address :: config_error where
  "invalid_bind_address = config_error_new InvalidBindAddress
     ''SERVER_HOST and SERVER_PORT do not form a valid bind address''"

section \<open>Bounds\<close>

type_synonym env_source = "string \<rightharpoonup> string"

record limit_bound =
  lb_name :: string
  lb_unit :: string
  lb_default :: nat
  lb_min :: nat
  lb_max :: nat

definition b_protected_request_deadline_ms :: limit_bound where
  "b_protected_request_deadline_ms = \<lparr>lb_name = ''protected_request_deadline_ms'', lb_unit = ''milliseconds'', lb_default = 30000, lb_min = 1, lb_max = 300000\<rparr>"

definition b_max_attempt_timeout_ms :: limit_bound where
  "b_max_attempt_timeout_ms = \<lparr>lb_name = ''max_attempt_timeout_ms'', lb_unit = ''milliseconds'', lb_default = 10000, lb_min = 1, lb_max = 120000\<rparr>"

definition b_retries_per_target :: limit_bound where
  "b_retries_per_target = \<lparr>lb_name = ''retries_per_target'', lb_unit = ''count'', lb_default = 1, lb_min = 0, lb_max = 8\<rparr>"

definition b_max_total_attempts :: limit_bound where
  "b_max_total_attempts = \<lparr>lb_name = ''max_total_attempts'', lb_unit = ''count'', lb_default = 3, lb_min = 1, lb_max = 16\<rparr>"

definition b_max_fallback_targets :: limit_bound where
  "b_max_fallback_targets = \<lparr>lb_name = ''max_fallback_targets'', lb_unit = ''count'', lb_default = 2, lb_min = 0, lb_max = 8\<rparr>"

definition b_backoff_cap_ms :: limit_bound where
  "b_backoff_cap_ms = \<lparr>lb_name = ''backoff_cap_ms'', lb_unit = ''milliseconds'', lb_default = 2000, lb_min = 1, lb_max = 60000\<rparr>"

definition b_circuit_failure_threshold :: limit_bound where
  "b_circuit_failure_threshold = \<lparr>lb_name = ''circuit_failure_threshold'', lb_unit = ''count'', lb_default = 3, lb_min = 1, lb_max = 100\<rparr>"

definition b_circuit_cooldown_ms :: limit_bound where
  "b_circuit_cooldown_ms = \<lparr>lb_name = ''circuit_cooldown_ms'', lb_unit = ''milliseconds'', lb_default = 30000, lb_min = 1, lb_max = 600000\<rparr>"

definition b_max_concurrent_generations :: limit_bound where
  "b_max_concurrent_generations = \<lparr>lb_name = ''max_concurrent_generations'', lb_unit = ''count'', lb_default = 32, lb_min = 1, lb_max = 1024\<rparr>"

definition b_max_request_body_bytes :: limit_bound where
  "b_max_request_body_bytes = \<lparr>lb_name = ''max_request_body_bytes'', lb_unit = ''bytes'', lb_default = 1048576, lb_min = 1, lb_max = 16777216\<rparr>"

definition b_max_metadata_bytes :: limit_bound where
  "b_max_metadata_bytes = \<lparr>lb_name = ''max_metadata_bytes'', lb_unit = ''bytes'', lb_default = 1000, lb_min = 1, lb_max = 1048576\<rparr>"

definition b_max_prompt_chars :: limit_bound where
  "b_max_prompt_chars = \<lparr>lb_name = ''max_prompt_chars'', lb_unit = ''characters'', lb_default = 4000, lb_min = 1, lb_max = 1000000\<rparr>"

definition b_max_upstream_response_bytes :: limit_bound where
  "b_max_upstream_response_bytes = \<lparr>lb_name = ''max_upstream_response_bytes'', lb_unit = ''bytes'', lb_default = 1048576, lb_min = 1, lb_max = 16777216\<rparr>"

definition b_max_output_tokens :: limit_bound where
  "b_max_output_tokens = \<lparr>lb_name = ''max_output_tokens'', lb_unit = ''tokens'', lb_default = 512, lb_min = 1, lb_max = 1000000\<rparr>"

definition b_shutdown_timeout_secs :: limit_bound where
  "b_shutdown_timeout_secs =
     \<lparr>lb_name = ''SERVER_SHUTDOWN_TIMEOUT'', lb_unit = ''seconds'', lb_default = 30, lb_min = 1, lb_max = 600\<rparr>"

lemmas bound_defs =
  b_protected_request_deadline_ms_def
  b_max_attempt_timeout_ms_def
  b_retries_per_target_def
  b_max_total_attempts_def
  b_max_fallback_targets_def
  b_backoff_cap_ms_def
  b_circuit_failure_threshold_def
  b_circuit_cooldown_ms_def
  b_max_concurrent_generations_def
  b_max_request_body_bytes_def
  b_max_metadata_bytes_def
  b_max_prompt_chars_def
  b_max_upstream_response_bytes_def
  b_max_output_tokens_def b_shutdown_timeout_secs_def

definition check_bound :: "limit_bound \<Rightarrow> nat \<Rightarrow> config_error + nat" where
  "check_bound b value =
     (if value < lb_min b \<or> lb_max b < value then Err (invalid_limit (lb_name b)) else Ok value)"

definition parse_u64 :: "string \<Rightarrow> string \<Rightarrow> config_error + nat" where
  "parse_u64 name raw =
     (let trimmed = str_trim raw in
      if trimmed = [] \<or> \<not> list_all is_ascii_digit trimmed then Err (invalid_limit name)
      else if decimal_value trimmed \<le> u64_max then Ok (decimal_value trimmed)
      else Err (invalid_limit name))"

text \<open>The first name that is set decides, also when its value does not parse.\<close>

fun env_u64 :: "env_source \<Rightarrow> string list \<Rightarrow> config_error + nat option" where
  "env_u64 env [] = Ok None"
| "env_u64 env (name # names) =
     (case env name of
        Some raw \<Rightarrow> and_then (parse_u64 name raw) (\<lambda>v. Ok (Some v))
      | None \<Rightarrow> env_u64 env names)"

definition to_u32 :: "nat \<Rightarrow> config_error + nat" where
  "to_u32 v = (if v \<le> u32_max then Ok v else Err (invalid_limit ''numeric_limit''))"

section \<open>Limits\<close>

record raw_limits =
  rl_protected_request_deadline_ms :: "nat option"
  rl_max_attempt_timeout_ms :: "nat option"
  rl_retries_per_target :: "nat option"
  rl_max_total_attempts :: "nat option"
  rl_max_fallback_targets :: "nat option"
  rl_backoff_cap_ms :: "nat option"
  rl_circuit_failure_threshold :: "nat option"
  rl_circuit_cooldown_ms :: "nat option"
  rl_max_concurrent_generations :: "nat option"
  rl_max_request_body_bytes :: "nat option"
  rl_max_metadata_bytes :: "nat option"
  rl_max_prompt_chars :: "nat option"
  rl_max_upstream_response_bytes :: "nat option"

definition raw_limits_default :: raw_limits where
  "raw_limits_default = \<lparr>rl_protected_request_deadline_ms = None, rl_max_attempt_timeout_ms = None, rl_retries_per_target = None, rl_max_total_attempts = None,
     rl_max_fallback_targets = None, rl_backoff_cap_ms = None, rl_circuit_failure_threshold = None,
     rl_circuit_cooldown_ms = None, rl_max_concurrent_generations = None, rl_max_request_body_bytes = None,
     rl_max_metadata_bytes = None, rl_max_prompt_chars = None, rl_max_upstream_response_bytes = None\<rparr>"

text \<open>Durations are nanoseconds.\<close>

record policy_limits =
  pl_protected_request_deadline :: nat
  pl_max_attempt_timeout :: nat
  pl_retries_per_target :: nat
  pl_max_total_attempts :: nat
  pl_max_fallback_targets :: nat
  pl_backoff_cap :: nat
  pl_circuit_failure_threshold :: nat
  pl_circuit_cooldown :: nat
  pl_max_concurrent_generations :: nat
  pl_max_request_body_bytes :: nat
  pl_max_metadata_bytes :: nat
  pl_max_prompt_chars :: nat
  pl_max_upstream_response_bytes :: nat

definition or_default :: "nat option \<Rightarrow> limit_bound \<Rightarrow> nat" where
  "or_default v b = (case v of Some x \<Rightarrow> x | None \<Rightarrow> lb_default b)"

text \<open>The two ways a checked value is stored.\<close>

definition checked :: "limit_bound \<Rightarrow> nat \<Rightarrow> config_error + nat" where
  "checked b v = check_bound b v"

definition checked_u32 :: "limit_bound \<Rightarrow> nat \<Rightarrow> config_error + nat" where
  "checked_u32 b v = and_then (check_bound b v) to_u32"

definition checked_millis :: "limit_bound \<Rightarrow> nat \<Rightarrow> config_error + nat" where
  "checked_millis b v = and_then (check_bound b v) (\<lambda>ms. Ok (from_millis ms))"

definition limits_from_raw :: "raw_limits option \<Rightarrow> config_error + policy_limits" where
  "limits_from_raw raw_opt =
     (let raw = (case raw_opt of Some r \<Rightarrow> r | None \<Rightarrow> raw_limits_default) in
      and_then (checked_millis b_protected_request_deadline_ms (or_default (rl_protected_request_deadline_ms raw) b_protected_request_deadline_ms))
        (\<lambda>v0.
      and_then (checked_millis b_max_attempt_timeout_ms (or_default (rl_max_attempt_timeout_ms raw) b_max_attempt_timeout_ms))
        (\<lambda>v1.
      and_then (checked_u32 b_retries_per_target (or_default (rl_retries_per_target raw) b_retries_per_target))
        (\<lambda>v2.
      and_then (checked_u32 b_max_total_attempts (or_default (rl_max_total_attempts raw) b_max_total_attempts))
        (\<lambda>v3.
      and_then (checked_u32 b_max_fallback_targets (or_default (rl_max_fallback_targets raw) b_max_fallback_targets))
        (\<lambda>v4.
      and_then (checked_millis b_backoff_cap_ms (or_default (rl_backoff_cap_ms raw) b_backoff_cap_ms))
        (\<lambda>v5.
      and_then (checked_u32 b_circuit_failure_threshold (or_default (rl_circuit_failure_threshold raw) b_circuit_failure_threshold))
        (\<lambda>v6.
      and_then (checked_millis b_circuit_cooldown_ms (or_default (rl_circuit_cooldown_ms raw) b_circuit_cooldown_ms))
        (\<lambda>v7.
      and_then (checked_u32 b_max_concurrent_generations (or_default (rl_max_concurrent_generations raw) b_max_concurrent_generations))
        (\<lambda>v8.
      and_then (checked b_max_request_body_bytes (or_default (rl_max_request_body_bytes raw) b_max_request_body_bytes))
        (\<lambda>v9.
      and_then (checked b_max_metadata_bytes (or_default (rl_max_metadata_bytes raw) b_max_metadata_bytes))
        (\<lambda>v10.
      and_then (checked b_max_prompt_chars (or_default (rl_max_prompt_chars raw) b_max_prompt_chars))
        (\<lambda>v11.
      and_then (checked b_max_upstream_response_bytes (or_default (rl_max_upstream_response_bytes raw) b_max_upstream_response_bytes))
        (\<lambda>v12.
      Ok \<lparr>pl_protected_request_deadline = v0,
          pl_max_attempt_timeout = v1,
          pl_retries_per_target = v2,
          pl_max_total_attempts = v3,
          pl_max_fallback_targets = v4,
          pl_backoff_cap = v5,
          pl_circuit_failure_threshold = v6,
          pl_circuit_cooldown = v7,
          pl_max_concurrent_generations = v8,
          pl_max_request_body_bytes = v9,
          pl_max_metadata_bytes = v10,
          pl_max_prompt_chars = v11,
          pl_max_upstream_response_bytes = v12\<rparr>))))))))))))))"

definition override_limit ::
    "env_source \<Rightarrow> string list \<Rightarrow> (nat \<Rightarrow> config_error + nat)
      \<Rightarrow> (nat \<Rightarrow> policy_limits \<Rightarrow> policy_limits) \<Rightarrow> policy_limits \<Rightarrow> config_error + policy_limits" where
  "override_limit env names convert put l =
     and_then (env_u64 env names) (\<lambda>v.
       case v of
         None \<Rightarrow> Ok l
       | Some x \<Rightarrow> and_then (convert x) (\<lambda>y. Ok (put y l)))"

definition apply_env_overrides :: "env_source \<Rightarrow> policy_limits \<Rightarrow> config_error + policy_limits" where
  "apply_env_overrides env l0 =
     and_then (override_limit env [''OPMUX_PROTECTED_REQUEST_DEADLINE_MS'', lb_name b_protected_request_deadline_ms]
       (checked_millis b_protected_request_deadline_ms) (\<lambda>x l. l\<lparr>pl_protected_request_deadline := x\<rparr>) l0) (\<lambda>l1.
     and_then (override_limit env [''OPMUX_MAX_ATTEMPT_TIMEOUT_MS'', lb_name b_max_attempt_timeout_ms, ''OPENAI_TIMEOUT_MS'', ''EXECUTOR_TIMEOUT_MS'']
       (checked_millis b_max_attempt_timeout_ms) (\<lambda>x l. l\<lparr>pl_max_attempt_timeout := x\<rparr>) l1) (\<lambda>l2.
     and_then (override_limit env [''OPMUX_RETRIES_PER_TARGET'', lb_name b_retries_per_target, ''EXECUTOR_MAX_RETRIES'']
       (checked_u32 b_retries_per_target) (\<lambda>x l. l\<lparr>pl_retries_per_target := x\<rparr>) l2) (\<lambda>l3.
     and_then (override_limit env [''OPMUX_MAX_TOTAL_ATTEMPTS'', lb_name b_max_total_attempts]
       (checked_u32 b_max_total_attempts) (\<lambda>x l. l\<lparr>pl_max_total_attempts := x\<rparr>) l3) (\<lambda>l4.
     and_then (override_limit env [''OPMUX_MAX_FALLBACK_TARGETS'', lb_name b_max_fallback_targets]
       (checked_u32 b_max_fallback_targets) (\<lambda>x l. l\<lparr>pl_max_fallback_targets := x\<rparr>) l4) (\<lambda>l5.
     and_then (override_limit env [''OPMUX_BACKOFF_CAP_MS'', lb_name b_backoff_cap_ms]
       (checked_millis b_backoff_cap_ms) (\<lambda>x l. l\<lparr>pl_backoff_cap := x\<rparr>) l5) (\<lambda>l6.
     and_then (override_limit env [''OPMUX_CIRCUIT_FAILURE_THRESHOLD'', lb_name b_circuit_failure_threshold]
       (checked_u32 b_circuit_failure_threshold) (\<lambda>x l. l\<lparr>pl_circuit_failure_threshold := x\<rparr>) l6) (\<lambda>l7.
     and_then (override_limit env [''OPMUX_CIRCUIT_COOLDOWN_MS'', lb_name b_circuit_cooldown_ms]
       (checked_millis b_circuit_cooldown_ms) (\<lambda>x l. l\<lparr>pl_circuit_cooldown := x\<rparr>) l7) (\<lambda>l8.
     and_then (override_limit env [''OPMUX_MAX_CONCURRENT_GENERATIONS'', lb_name b_max_concurrent_generations]
       (checked_u32 b_max_concurrent_generations) (\<lambda>x l. l\<lparr>pl_max_concurrent_generations := x\<rparr>) l8) (\<lambda>l9.
     and_then (override_limit env [''OPMUX_MAX_REQUEST_BODY_BYTES'', lb_name b_max_request_body_bytes]
       (checked b_max_request_body_bytes) (\<lambda>x l. l\<lparr>pl_max_request_body_bytes := x\<rparr>) l9) (\<lambda>l10.
     and_then (override_limit env [''OPMUX_MAX_METADATA_BYTES'', lb_name b_max_metadata_bytes]
       (checked b_max_metadata_bytes) (\<lambda>x l. l\<lparr>pl_max_metadata_bytes := x\<rparr>) l10) (\<lambda>l11.
     and_then (override_limit env [''OPMUX_MAX_PROMPT_CHARS'', lb_name b_max_prompt_chars]
       (checked b_max_prompt_chars) (\<lambda>x l. l\<lparr>pl_max_prompt_chars := x\<rparr>) l11) (\<lambda>l12.
     override_limit env [''OPMUX_MAX_UPSTREAM_RESPONSE_BYTES'', lb_name b_max_upstream_response_bytes]
       (checked b_max_upstream_response_bytes) (\<lambda>x l. l\<lparr>pl_max_upstream_response_bytes := x\<rparr>) l12))))))))))))"

definition limits_duration_ms :: "nat \<Rightarrow> nat" where
  "limits_duration_ms d = as_millis d mod 2 ^ 64"

text \<open>The source unwraps this value: an error would be a panic. \<open>documented_defaults_are\<close> excludes it.\<close>

definition documented_defaults :: "config_error + policy_limits" where
  "documented_defaults = limits_from_raw None"

section \<open>Lemmas\<close>

definition in_bound :: "limit_bound \<Rightarrow> nat \<Rightarrow> bool" where
  "in_bound b v \<longleftrightarrow> lb_min b \<le> v \<and> v \<le> lb_max b"

definition in_bound_ms :: "limit_bound \<Rightarrow> nat \<Rightarrow> bool" where
  "in_bound_ms b d \<longleftrightarrow> (\<exists>ms. d = from_millis ms \<and> in_bound b ms)"

lemma checked_Ok: "checked b v = Ok x \<longleftrightarrow> x = v \<and> in_bound b v"
  by (auto simp: checked_def check_bound_def in_bound_def)

lemma checked_u32_Ok: "checked_u32 b v = Ok x \<longleftrightarrow> x = v \<and> in_bound b v \<and> v \<le> u32_max"
  by (auto simp: checked_u32_def check_bound_def to_u32_def in_bound_def)

lemma checked_millis_Ok: "checked_millis b v = Ok x \<longleftrightarrow> x = from_millis v \<and> in_bound b v"
  by (auto simp: checked_millis_def check_bound_def in_bound_def)

lemmas checked_iffs = checked_Ok checked_u32_Ok checked_millis_Ok

text \<open>Every limit within its documented bounds.\<close>

definition limits_in_range :: "policy_limits \<Rightarrow> bool" where
  "limits_in_range l \<longleftrightarrow>
     in_bound_ms b_protected_request_deadline_ms (pl_protected_request_deadline l)
     \<and> in_bound_ms b_max_attempt_timeout_ms (pl_max_attempt_timeout l)
     \<and> in_bound b_retries_per_target (pl_retries_per_target l)
     \<and> in_bound b_max_total_attempts (pl_max_total_attempts l)
     \<and> in_bound b_max_fallback_targets (pl_max_fallback_targets l)
     \<and> in_bound_ms b_backoff_cap_ms (pl_backoff_cap l)
     \<and> in_bound b_circuit_failure_threshold (pl_circuit_failure_threshold l)
     \<and> in_bound_ms b_circuit_cooldown_ms (pl_circuit_cooldown l)
     \<and> in_bound b_max_concurrent_generations (pl_max_concurrent_generations l)
     \<and> in_bound b_max_request_body_bytes (pl_max_request_body_bytes l)
     \<and> in_bound b_max_metadata_bytes (pl_max_metadata_bytes l)
     \<and> in_bound b_max_prompt_chars (pl_max_prompt_chars l)
     \<and> in_bound b_max_upstream_response_bytes (pl_max_upstream_response_bytes l)"

lemma limits_from_raw_in_range:
  assumes "limits_from_raw raw = Ok l" shows "limits_in_range l"
  using assms
  by (auto simp: limits_from_raw_def Let_def and_then_Inr_iff checked_iffs limits_in_range_def
      in_bound_ms_def)

lemma override_cases:
  assumes "override_limit env names conv put l = Ok l'"
  shows "l' = l \<or> (\<exists>x y. conv x = Ok y \<and> l' = put y l)"
  using assms by (auto simp: override_limit_def and_then_Inr_iff split: option.splits)

lemma override_keeps:
  assumes "override_limit env names conv put l = Ok l'" "limits_in_range l"
    and "\<And>x y. conv x = Ok y \<Longrightarrow> limits_in_range (put y l)"
  shows "limits_in_range l'"
  using override_cases [OF assms(1)] assms(2,3) by auto

text \<open>One shape of step: a converted value that respects its bound replaces one field.\<close>

lemma override_step:
  assumes rest: "and_then (override_limit env names conv put l) k = Ok l'"
    and start: "limits_in_range l"
    and keep: "\<And>l x y. limits_in_range l \<Longrightarrow> conv x = Ok y \<Longrightarrow> limits_in_range (put y l)"
    and go: "\<And>l1. k l1 = Ok l' \<Longrightarrow> limits_in_range l1 \<Longrightarrow> P"
  shows P
proof -
  obtain l1 where "override_limit env names conv put l = Ok l1" "k l1 = Ok l'"
    using rest by (auto simp: and_then_Inr_iff)
  have "limits_in_range l1"
    by (rule override_keeps [OF \<open>override_limit env names conv put l = Ok l1\<close> start]) (rule keep [OF start])
  thus P using \<open>k l1 = Ok l'\<close> by (rule go [rotated])
qed

lemma limit_puts_in_range:
  assumes "limits_in_range l"
  shows
    "checked_millis b_protected_request_deadline_ms x = Ok y \<Longrightarrow> limits_in_range (l\<lparr>pl_protected_request_deadline := y\<rparr>)"
    "checked_millis b_max_attempt_timeout_ms x = Ok y \<Longrightarrow> limits_in_range (l\<lparr>pl_max_attempt_timeout := y\<rparr>)"
    "checked_u32 b_retries_per_target x = Ok y \<Longrightarrow> limits_in_range (l\<lparr>pl_retries_per_target := y\<rparr>)"
    "checked_u32 b_max_total_attempts x = Ok y \<Longrightarrow> limits_in_range (l\<lparr>pl_max_total_attempts := y\<rparr>)"
    "checked_u32 b_max_fallback_targets x = Ok y \<Longrightarrow> limits_in_range (l\<lparr>pl_max_fallback_targets := y\<rparr>)"
    "checked_millis b_backoff_cap_ms x = Ok y \<Longrightarrow> limits_in_range (l\<lparr>pl_backoff_cap := y\<rparr>)"
    "checked_u32 b_circuit_failure_threshold x = Ok y \<Longrightarrow> limits_in_range (l\<lparr>pl_circuit_failure_threshold := y\<rparr>)"
    "checked_millis b_circuit_cooldown_ms x = Ok y \<Longrightarrow> limits_in_range (l\<lparr>pl_circuit_cooldown := y\<rparr>)"
    "checked_u32 b_max_concurrent_generations x = Ok y \<Longrightarrow> limits_in_range (l\<lparr>pl_max_concurrent_generations := y\<rparr>)"
    "checked b_max_request_body_bytes x = Ok y \<Longrightarrow> limits_in_range (l\<lparr>pl_max_request_body_bytes := y\<rparr>)"
    "checked b_max_metadata_bytes x = Ok y \<Longrightarrow> limits_in_range (l\<lparr>pl_max_metadata_bytes := y\<rparr>)"
    "checked b_max_prompt_chars x = Ok y \<Longrightarrow> limits_in_range (l\<lparr>pl_max_prompt_chars := y\<rparr>)"
    "checked b_max_upstream_response_bytes x = Ok y \<Longrightarrow> limits_in_range (l\<lparr>pl_max_upstream_response_bytes := y\<rparr>)"
  using assms by (auto simp: limits_in_range_def checked_iffs in_bound_ms_def)

lemma overrides_in_range:
  assumes "apply_env_overrides env l = Ok l'" "limits_in_range l" shows "limits_in_range l'"
  using assms unfolding apply_env_overrides_def
  apply -
  apply (erule override_step, assumption, erule limit_puts_in_range, assumption)+
  apply (erule override_keeps, assumption, erule limit_puts_in_range, assumption)
  done

end
