(* ===== verification/Catalog.thy ===== *)
theory Catalog
  imports Config_Limits Json_Value "HOL-Library.AList" "HOL-Library.Multiset"
begin

text \<open>
  \<open>core/config/catalog.rs\<close>: the version-1 operator catalog. A \<open>HashMap\<close> is an association list with
  distinct keys; the order in which it is iterated is the argument \<open>ord\<close>, of which only
  \<open>iterates ord\<close> (every key once) is ever assumed. The derived deserializer is the argument
  \<open>from_str\<close>. It receives the three functions that the source installs with \<open>deserialize_with\<close>, and
  \<open>reader_laws\<close> states what the code relies on: such a field holds a value that function returned.
\<close>

section \<open>Types\<close>

datatype vendor_kind = Openai

fun vendor_as_str :: "vendor_kind \<Rightarrow> string" where
  "vendor_as_str Openai = ''openai''"

record target_pricing =
  tp_input_per_million :: f64
  tp_output_per_million :: f64

record target =
  tg_vendor :: vendor_kind
  tg_model :: string
  tg_max_output_tokens :: nat
  tg_pricing :: target_pricing

record route =
  ro_primary :: string
  ro_fallbacks :: "string list"

record catalog =
  cat_version :: nat
  cat_default_route :: string
  cat_targets :: "(string \<times> target) list"
  cat_routes :: "(string \<times> route) list"

record raw_pricing =
  rp_input_per_million :: f64
  rp_output_per_million :: f64

record raw_target =
  rt_vendor :: "string option"
  rt_model :: string
  rt_max_output_tokens :: nat
  rt_pricing :: raw_pricing

record raw_route =
  rr_primary :: string
  rr_fallbacks :: "string list"

record raw_catalog =
  rc_version :: nat
  rc_default_route :: string
  rc_targets :: "(string \<times> raw_target) list"
  rc_routes :: "(string \<times> raw_route) list"
  rc_limits :: "raw_limits option"

record parsed_catalog =
  pc_catalog :: catalog
  pc_raw_limits :: "raw_limits option"

section \<open>Reading the document\<close>

text \<open>A \<open>serde_json::Error\<close>: its message and the two predicates the code asks.\<close>

record serde_error =
  se_message :: string
  se_is_syntax :: bool
  se_is_eof :: bool

definition de_custom :: "string \<Rightarrow> serde_error" where
  "de_custom m = \<lparr>se_message = m, se_is_syntax = False, se_is_eof = False\<rparr>"

text \<open>
  \<open>visit_map\<close>: the entries as \<open>next_entry\<close> delivers them, each an error of the reader or a pair.
\<close>

fun visit_unique ::
    "string \<Rightarrow> (string \<times> 'a) list \<Rightarrow> (serde_error + string \<times> 'a) list
      \<Rightarrow> serde_error + (string \<times> 'a) list" where
  "visit_unique dup m [] = Ok m"
| "visit_unique dup m (Inl e # access) = Err e"
| "visit_unique dup m (Inr (key, v) # access) =
     (if map_of m key \<noteq> None then Err (de_custom dup)
      else visit_unique dup (AList.update key v m) access)"

definition deserialize_unique_map ::
    "string \<Rightarrow> (serde_error + string \<times> 'a) list \<Rightarrow> serde_error + (string \<times> 'a) list" where
  "deserialize_unique_map dup access = visit_unique dup [] access"

definition deserialize_unique_targets ::
    "(serde_error + string \<times> raw_target) list \<Rightarrow> serde_error + (string \<times> raw_target) list" where
  "deserialize_unique_targets = deserialize_unique_map ''duplicate target identifier''"

definition deserialize_unique_routes ::
    "(serde_error + string \<times> raw_route) list \<Rightarrow> serde_error + (string \<times> raw_route) list" where
  "deserialize_unique_routes = deserialize_unique_map ''duplicate route identifier''"

fun fallback_item :: "json \<Rightarrow> serde_error + string" where
  "fallback_item (JStr s) = Ok s"
| "fallback_item (JObj _) = Err (de_custom ''nested chain'')"
| "fallback_item (JArr _) = Err (de_custom ''nested chain'')"
| "fallback_item _ = Err (de_custom ''invalid type: fallback identifiers must be strings'')"

fun deserialize_fallbacks :: "json \<Rightarrow> serde_error + string list" where
  "deserialize_fallbacks (JArr items) = collect_results fallback_item items"
| "deserialize_fallbacks (JObj _) = Err (de_custom ''nested chain'')"
| "deserialize_fallbacks _ =
     Err (de_custom ''invalid type: fallbacks must be an array of target identifiers'')"

fun str_contains :: "string \<Rightarrow> string \<Rightarrow> bool" where
  "str_contains [] p = (p = [])"
| "str_contains (c # s) p = (take (length p) (c # s) = p \<or> str_contains s p)"

definition map_serde_error :: "serde_error \<Rightarrow> config_error" where
  "map_serde_error e =
     (let message = se_message e in
      if str_contains message ''duplicate target identifier''
      then config_error_new CatalogDuplicateTarget ''catalog defines duplicate target identifiers''
      else if str_contains message ''duplicate route identifier''
      then config_error_new CatalogDuplicateRoute ''catalog defines duplicate route identifiers''
      else if str_contains message ''nested chain''
      then config_error_new CatalogNestedChain ''route chains must be flat lists of target identifiers''
      else if str_contains message ''unknown field''
      then config_error_new CatalogUnknownField ''catalog contains an unknown field''
      else if str_contains message ''missing field `version`''
           \<or> str_contains message ''invalid type'' \<and> str_contains message ''version''
      then config_error_new CatalogUnsupportedVersion ''catalog version must be 1''
      else if str_contains message ''missing field `pricing`''
           \<or> str_contains message ''missing field `input_per_million`''
           \<or> str_contains message ''missing field `output_per_million`''
      then config_error_new CatalogIncompletePricing
             ''target pricing must include input_per_million and output_per_million''
      else if str_contains message ''number out of range''
      then config_error_new CatalogInvalidPrice
             ''prices must be finite, nonnegative, and within the documented bound''
      else if se_is_syntax e \<or> se_is_eof e
      then config_error_new CatalogMalformedJson ''catalog JSON is malformed''
      else if str_contains message ''invalid type'' \<or> str_contains message ''invalid value''
           \<or> str_contains message ''missing field''
      then config_error_new CatalogInvalidType ''catalog field has the wrong type''
      else config_error_new CatalogMalformedJson ''catalog JSON is malformed'')"

section \<open>Validation\<close>

definition require_identifier :: "string \<Rightarrow> string \<Rightarrow> config_error + string" where
  "require_identifier kind v =
     (if v = [] \<or> str_trim v \<noteq> v
      then Err (config_error_new CatalogEmptyIdentifier (kind @ '' identifier cannot be empty''))
      else Ok v)"

definition parse_vendor :: "string option \<Rightarrow> config_error + vendor_kind" where
  "parse_vendor raw =
     (case raw of
        None \<Rightarrow> Ok Openai
      | Some v \<Rightarrow>
          (if v = ''openai'' then Ok Openai
           else if str_trim v = []
           then Err (config_error_new CatalogUnsupportedVendor ''target vendor cannot be empty'')
           else Err (config_error_new CatalogUnsupportedVendor ''only the openai vendor is supported'')))"

abbreviation max_price_per_million :: rat where "max_price_per_million \<equiv> 1000000"

definition validate_price :: "f64 \<Rightarrow> config_error + f64" where
  "validate_price v =
     (if \<not> f64_is_finite v \<or> f64_less_const v 0 \<or> f64_greater_const v max_price_per_million
      then Err (config_error_new CatalogInvalidPrice
             ''prices must be finite, nonnegative, and within the documented bound'')
      else Ok v)"

definition validate_pricing :: "raw_pricing \<Rightarrow> config_error + target_pricing" where
  "validate_pricing raw =
     and_then (validate_price (rp_input_per_million raw)) (\<lambda>i.
     and_then (validate_price (rp_output_per_million raw)) (\<lambda>out.
       Ok \<lparr>tp_input_per_million = i, tp_output_per_million = out\<rparr>))"

definition max_output_tokens_of :: "nat \<Rightarrow> config_error + nat" where
  "max_output_tokens_of v =
     and_then (check_bound b_max_output_tokens v) (\<lambda>n.
       if n \<le> u32_max then Ok n else Err (invalid_limit (lb_name b_max_output_tokens)))"

definition unknown_target :: "string \<Rightarrow> config_error" where
  "unknown_target what =
     config_error_new CatalogUnknownTargetReference
       (''route '' @ what @ '' must reference a configured target'')"

fun validate_fallbacks ::
    "(string \<times> target) list \<Rightarrow> string list \<Rightarrow> string list \<Rightarrow> string list \<Rightarrow> config_error + string list"
  where
  "validate_fallbacks ts seen acc [] = Ok acc"
| "validate_fallbacks ts seen acc (f # fs) =
     and_then (require_identifier ''fallback'' f) (\<lambda>fallback.
       if map_of ts fallback = None then Err (unknown_target ''fallback'')
       else if fallback \<in> set seen
       then Err (config_error_new CatalogDuplicateChainTarget ''route chain cannot repeat a target'')
       else validate_fallbacks ts (seen @ [fallback]) (acc @ [fallback]) fs)"

definition validate_route :: "(string \<times> target) list \<Rightarrow> raw_route \<Rightarrow> config_error + route" where
  "validate_route ts r =
     and_then (require_identifier ''primary'' (rr_primary r)) (\<lambda>primary.
       if map_of ts primary = None then Err (unknown_target ''primary'')
       else and_then (validate_fallbacks ts [primary] [] (rr_fallbacks r)) (\<lambda>fs.
              Ok \<lparr>ro_primary = primary, ro_fallbacks = fs\<rparr>))"

definition parse_target :: "raw_target \<Rightarrow> config_error + target" where
  "parse_target t =
     and_then (parse_vendor (rt_vendor t)) (\<lambda>vendor.
     and_then (require_identifier ''model'' (rt_model t)) (\<lambda>model.
     and_then (max_output_tokens_of (rt_max_output_tokens t)) (\<lambda>n.
     and_then (validate_pricing (rt_pricing t)) (\<lambda>pricing.
       Ok \<lparr>tg_vendor = vendor, tg_model = model, tg_max_output_tokens = n, tg_pricing = pricing\<rparr>))))"

fun parse_targets ::
    "(string \<times> target) list \<Rightarrow> (string \<times> raw_target) list \<Rightarrow> config_error + (string \<times> target) list"
  where
  "parse_targets acc [] = Ok acc"
| "parse_targets acc ((i, t) # ts) =
     and_then (require_identifier ''target'' i) (\<lambda>i'.
     and_then (parse_target t) (\<lambda>t'. parse_targets (AList.update i' t' acc) ts))"

fun parse_routes ::
    "(string \<times> target) list \<Rightarrow> (string \<times> route) list \<Rightarrow> (string \<times> raw_route) list
      \<Rightarrow> config_error + (string \<times> route) list" where
  "parse_routes ts acc [] = Ok acc"
| "parse_routes ts acc ((i, r) # rs) =
     and_then (require_identifier ''route'' i) (\<lambda>i'.
     and_then (validate_route ts r) (\<lambda>r'. parse_routes ts (AList.update i' r' acc) rs))"

text \<open>The entries of a hash map in the order \<open>ord\<close> puts its keys.\<close>

definition hash_iter :: "(string list \<Rightarrow> string list) \<Rightarrow> (string \<times> 'a) list \<Rightarrow> (string \<times> 'a) list" where
  "hash_iter ord m = map (\<lambda>k. (k, the (map_of m k))) (ord (map fst m))"

definition build_catalog ::
    "(string list \<Rightarrow> string list) \<Rightarrow> raw_catalog \<Rightarrow> config_error + parsed_catalog" where
  "build_catalog ord raw =
     (if rc_version raw \<noteq> 1
      then Err (config_error_new CatalogUnsupportedVersion ''catalog version must be 1'')
      else
        and_then (parse_targets [] (hash_iter ord (rc_targets raw))) (\<lambda>ts.
        if ts = []
        then Err (config_error_new CatalogEmptyIdentifier ''catalog must define at least one target'')
        else
        and_then (parse_routes ts [] (hash_iter ord (rc_routes raw))) (\<lambda>rs.
        if rs = []
        then Err (config_error_new CatalogMissingDefaultRoute ''catalog must define at least one route'')
        else
        and_then (require_identifier ''default_route'' (rc_default_route raw)) (\<lambda>dflt.
        if map_of rs dflt = None
        then Err (config_error_new CatalogMissingDefaultRoute
               ''default_route must reference a configured route'')
        else Ok \<lparr>pc_catalog = \<lparr>cat_version = rc_version raw, cat_default_route = dflt,
                               cat_targets = ts, cat_routes = rs\<rparr>,
                 pc_raw_limits = rc_limits raw\<rparr>))))"

type_synonym catalog_reader =
  "((serde_error + string \<times> raw_target) list \<Rightarrow> serde_error + (string \<times> raw_target) list)
    \<Rightarrow> ((serde_error + string \<times> raw_route) list \<Rightarrow> serde_error + (string \<times> raw_route) list)
    \<Rightarrow> (json \<Rightarrow> serde_error + string list) \<Rightarrow> string \<Rightarrow> serde_error + raw_catalog"

definition parse_catalog ::
    "catalog_reader \<Rightarrow> (string list \<Rightarrow> string list) \<Rightarrow> string \<Rightarrow> config_error + parsed_catalog" where
  "parse_catalog from_str ord txt =
     and_then (map_err map_serde_error
       (from_str deserialize_unique_targets deserialize_unique_routes deserialize_fallbacks txt))
       (build_catalog ord)"

text \<open>What the code relies on of the two libraries.\<close>

definition iterates :: "(string list \<Rightarrow> string list) \<Rightarrow> bool" where
  "iterates ord \<longleftrightarrow> (\<forall>ks. mset (ord ks) = mset ks)"

definition reader_laws :: "catalog_reader \<Rightarrow> bool" where
  "reader_laws from_str \<longleftrightarrow>
     (\<forall>ut ur fb txt raw. from_str ut ur fb txt = Ok raw \<longrightarrow>
        (\<exists>a. ut a = Ok (rc_targets raw)) \<and> (\<exists>a. ur a = Ok (rc_routes raw)))"

section \<open>The declarative schema\<close>

definition ident :: "string \<Rightarrow> bool" where
  "ident s \<longleftrightarrow> s \<noteq> [] \<and> str_trim s = s"

definition raw_target_ok :: "raw_target \<Rightarrow> bool" where
  "raw_target_ok t \<longleftrightarrow>
     (rt_vendor t = None \<or> rt_vendor t = Some ''openai'') \<and> ident (rt_model t)
     \<and> in_bound b_max_output_tokens (rt_max_output_tokens t)
     \<and> bounded_by (rp_input_per_million (rt_pricing t)) max_price_per_million
     \<and> bounded_by (rp_output_per_million (rt_pricing t)) max_price_per_million"

definition raw_route_ok :: "string set \<Rightarrow> raw_route \<Rightarrow> bool" where
  "raw_route_ok known r \<longleftrightarrow>
     (let chain = rr_primary r # rr_fallbacks r
      in distinct chain \<and> list_all (\<lambda>i. ident i \<and> i \<in> known) chain)"

definition raw_catalog_ok :: "raw_catalog \<Rightarrow> bool" where
  "raw_catalog_ok raw \<longleftrightarrow>
     rc_version raw = 1 \<and> rc_targets raw \<noteq> []
     \<and> list_all (\<lambda>(i, t). ident i \<and> raw_target_ok t) (rc_targets raw)
     \<and> list_all (\<lambda>(i, r). ident i \<and> raw_route_ok (fst ` set (rc_targets raw)) r) (rc_routes raw)
     \<and> rc_default_route raw \<in> fst ` set (rc_routes raw)"

definition target_of_raw :: "raw_target \<Rightarrow> target" where
  "target_of_raw t =
     \<lparr>tg_vendor = Openai, tg_model = rt_model t, tg_max_output_tokens = rt_max_output_tokens t,
      tg_pricing = \<lparr>tp_input_per_million = rp_input_per_million (rt_pricing t),
                    tp_output_per_million = rp_output_per_million (rt_pricing t)\<rparr>\<rparr>"

definition route_of_raw :: "raw_route \<Rightarrow> route" where
  "route_of_raw r = \<lparr>ro_primary = rr_primary r, ro_fallbacks = rr_fallbacks r\<rparr>"

section \<open>Each check decides its part of the schema\<close>

lemma require_identifier_Ok: "require_identifier k v = Ok x \<longleftrightarrow> x = v \<and> ident v"
  by (auto simp: require_identifier_def ident_def)

lemma parse_vendor_Ok: "parse_vendor v = Ok x \<longleftrightarrow> v = None \<or> v = Some ''openai''"
  by (cases x) (auto simp: parse_vendor_def split: option.splits)

lemma validate_price_Ok: "validate_price v = Ok x \<longleftrightarrow> x = v \<and> bounded_by v max_price_per_million"
  by (cases v) (auto simp: validate_price_def bounded_by_def)

lemma max_output_tokens_of_Ok:
  "max_output_tokens_of v = Ok x \<longleftrightarrow> x = v \<and> in_bound b_max_output_tokens v"
  by (auto simp: max_output_tokens_of_def check_bound_def in_bound_def b_max_output_tokens_def)

lemma vendor_only: "(v :: vendor_kind) = Openai"
  by (cases v) simp

lemma parse_target_Ok: "parse_target t = Ok x \<longleftrightarrow> raw_target_ok t \<and> x = target_of_raw t"
  by (cases t) (auto simp: vendor_only parse_target_def and_then_Inr_iff parse_vendor_Ok require_identifier_Ok
      max_output_tokens_of_Ok validate_pricing_def validate_price_Ok raw_target_ok_def
      target_of_raw_def)

lemma validate_fallbacks_Ok:
  "validate_fallbacks ts seen acc fs = Ok x \<longleftrightarrow>
     x = acc @ fs \<and> distinct fs \<and> set seen \<inter> set fs = {}
     \<and> list_all (\<lambda>i. ident i \<and> map_of ts i \<noteq> None) fs"
  by (induction fs arbitrary: seen acc) (auto simp: and_then_Inr_iff require_identifier_Ok)

lemma validate_route_Ok:
  "validate_route ts r = Ok x \<longleftrightarrow> raw_route_ok (fst ` set ts) r \<and> x = route_of_raw r"
  by (auto simp: validate_route_def and_then_Inr_iff require_identifier_Ok validate_fallbacks_Ok
      raw_route_ok_def route_of_raw_def map_of_eq_None_iff list_all_iff)

lemma update_fresh: "k \<notin> fst ` set m \<Longrightarrow> AList.update k v m = m @ [(k, v)]"
  by (induction m) auto

lemma parse_targets_Ok:
  assumes "distinct (map fst (acc @ map (\<lambda>(i, t). (i, target_of_raw t)) es))"
  shows "parse_targets acc es = Ok x \<longleftrightarrow>
     list_all (\<lambda>(i, t). ident i \<and> raw_target_ok t) es
     \<and> x = acc @ map (\<lambda>(i, t). (i, target_of_raw t)) es"
  using assms
proof (induction es arbitrary: acc)
  case (Cons e es)
  obtain i t where e: "e = (i, t)" by (cases e)
  have "i \<notin> fst ` set acc" using Cons.prems e by auto
  note up = update_fresh [OF this]
  from Cons.prems e have "distinct (map fst ((acc @ [(i, target_of_raw t)])
      @ map (\<lambda>(i, t). (i, target_of_raw t)) es))"
    by simp
  note IH = Cons.IH [OF this]
  show ?case
    by (auto simp: e and_then_Inr_iff require_identifier_Ok parse_target_Ok up IH)
qed auto

lemma parse_routes_Ok:
  assumes "distinct (map fst (acc @ map (\<lambda>(i, r). (i, route_of_raw r)) es))"
  shows "parse_routes ts acc es = Ok x \<longleftrightarrow>
     list_all (\<lambda>(i, r). ident i \<and> raw_route_ok (fst ` set ts) r) es
     \<and> x = acc @ map (\<lambda>(i, r). (i, route_of_raw r)) es"
  using assms
proof (induction es arbitrary: acc)
  case (Cons e es)
  obtain i r where e: "e = (i, r)" by (cases e)
  have "i \<notin> fst ` set acc" using Cons.prems e by auto
  note up = update_fresh [OF this]
  from Cons.prems e have "distinct (map fst ((acc @ [(i, route_of_raw r)])
      @ map (\<lambda>(i, r). (i, route_of_raw r)) es))"
    by simp
  note IH = Cons.IH [OF this]
  show ?case
    by (auto simp: e and_then_Inr_iff require_identifier_Ok validate_route_Ok up IH)
qed auto

section \<open>Hash maps\<close>

lemma visit_unique_distinct:
  "visit_unique dup m a = Ok x \<Longrightarrow> distinct (map fst m) \<Longrightarrow> distinct (map fst x)"
proof (induction dup m a rule: visit_unique.induct)
  case (3 dup m key v access)
  then show ?case by (auto split: if_splits simp: distinct_update)
qed auto

lemma deserialize_unique_map_distinct:
  "deserialize_unique_map dup a = Ok x \<Longrightarrow> distinct (map fst x)"
  by (auto simp: deserialize_unique_map_def dest: visit_unique_distinct)

lemma iterates_set: "iterates ord \<Longrightarrow> set (ord ks) = set ks"
  by (metis iterates_def mset_eq_setD)

lemma iterates_distinct: "iterates ord \<Longrightarrow> distinct (ord ks) = distinct ks"
  by (metis iterates_def mset_eq_imp_distinct_iff)

lemma hash_iter_keys [simp]: "map fst (hash_iter ord m) = ord (map fst m)"
  by (simp add: hash_iter_def comp_def)

lemma hash_iter_set:
  assumes "iterates ord" "distinct (map fst m)"
  shows "set (hash_iter ord m) = set m"
proof
  show "set (hash_iter ord m) \<subseteq> set m"
  proof
    fix e assume "e \<in> set (hash_iter ord m)"
    then obtain k where k: "k \<in> set (map fst m)" and e: "e = (k, the (map_of m k))"
      by (auto simp: hash_iter_def iterates_set [OF assms(1)])
    from k obtain v where "map_of m k = Some v" by (auto simp: map_of_eq_Some_iff [OF assms(2)])
    then show "e \<in> set m" by (simp add: e map_of_SomeD)
  qed
  show "set m \<subseteq> set (hash_iter ord m)"
  proof
    fix e assume e: "e \<in> set m"
    obtain k v where kv: "e = (k, v)" by (cases e)
    then have "map_of m k = Some v" using e assms(2) by simp
    moreover have "k \<in> set (ord (map fst m))"
      using e kv by (force simp: iterates_set [OF assms(1)])
    ultimately show "e \<in> set (hash_iter ord m)" by (force simp: hash_iter_def kv)
  qed
qed

lemma hash_iter_map_of:
  assumes "iterates ord" "distinct (map fst m)"
  shows "map_of (hash_iter ord m) = map_of m"
  by (rule map_of_inject_set [THEN iffD2])
    (simp_all add: assms iterates_distinct hash_iter_set)

lemma hash_iter_all:
  assumes "iterates ord" "distinct (map fst m)"
  shows "list_all P (hash_iter ord m) \<longleftrightarrow> list_all P m"
  by (simp add: list_all_iff hash_iter_set [OF assms])

lemma map_of_map_snd: "map_of (map (\<lambda>(i, t). (i, f t)) m) = map_option f \<circ> map_of m"
  by (induction m) auto

section \<open>The whole catalog\<close>

definition catalog_of_raw :: "(string list \<Rightarrow> string list) \<Rightarrow> raw_catalog \<Rightarrow> parsed_catalog" where
  "catalog_of_raw ord raw =
     \<lparr>pc_catalog =
        \<lparr>cat_version = rc_version raw, cat_default_route = rc_default_route raw,
         cat_targets = map (\<lambda>(i, t). (i, target_of_raw t)) (hash_iter ord (rc_targets raw)),
         cat_routes = map (\<lambda>(i, r). (i, route_of_raw r)) (hash_iter ord (rc_routes raw))\<rparr>,
      pc_raw_limits = rc_limits raw\<rparr>"

text \<open>The two passes, as what they accept and what they build.\<close>

abbreviation built_targets :: "(string list \<Rightarrow> string list) \<Rightarrow> raw_catalog \<Rightarrow> (string \<times> target) list" where
  "built_targets ord raw \<equiv> map (\<lambda>(i, t). (i, target_of_raw t)) (hash_iter ord (rc_targets raw))"

abbreviation built_routes :: "(string list \<Rightarrow> string list) \<Rightarrow> raw_catalog \<Rightarrow> (string \<times> route) list" where
  "built_routes ord raw \<equiv> map (\<lambda>(i, r). (i, route_of_raw r)) (hash_iter ord (rc_routes raw))"

lemma built_parts:
  assumes ord: "iterates ord"
    and dt: "distinct (map fst (rc_targets raw))" and dr: "distinct (map fst (rc_routes raw))"
  shows "parse_targets [] (hash_iter ord (rc_targets raw)) = Ok x \<longleftrightarrow>
      list_all (\<lambda>(i, t). ident i \<and> raw_target_ok t) (rc_targets raw) \<and> x = built_targets ord raw"
    and "parse_routes (built_targets ord raw) [] (hash_iter ord (rc_routes raw)) = Ok y \<longleftrightarrow>
      list_all (\<lambda>(i, r). ident i \<and> raw_route_ok (fst ` set (rc_targets raw)) r) (rc_routes raw)
      \<and> y = built_routes ord raw"
    and "built_targets ord raw = [] \<longleftrightarrow> rc_targets raw = []"
    and "built_routes ord raw = [] \<longleftrightarrow> rc_routes raw = []"
    and "map_of (built_routes ord raw) k \<noteq> None \<longleftrightarrow> k \<in> fst ` set (rc_routes raw)"
proof -
  have fstm: "fst \<circ> (\<lambda>(i, t). (i, g t)) = fst" for g :: "'x \<Rightarrow> 'y" by auto
  show "parse_targets [] (hash_iter ord (rc_targets raw)) = Ok x \<longleftrightarrow>
      list_all (\<lambda>(i, t). ident i \<and> raw_target_ok t) (rc_targets raw) \<and> x = built_targets ord raw"
    by (subst parse_targets_Ok)
      (simp_all add: fstm iterates_distinct [OF ord] dt hash_iter_all [OF ord dt])
  have keys: "fst ` set (built_targets ord raw) = fst ` set (rc_targets raw)"
    by (simp add: image_image split_def hash_iter_set [OF ord dt])
  show "parse_routes (built_targets ord raw) [] (hash_iter ord (rc_routes raw)) = Ok y \<longleftrightarrow>
      list_all (\<lambda>(i, r). ident i \<and> raw_route_ok (fst ` set (rc_targets raw)) r) (rc_routes raw)
      \<and> y = built_routes ord raw"
    by (subst parse_routes_Ok)
      (simp_all add: fstm iterates_distinct [OF ord] dr hash_iter_all [OF ord dr] keys
        del: set_map)
  show "built_targets ord raw = [] \<longleftrightarrow> rc_targets raw = []" "built_routes ord raw = [] \<longleftrightarrow> rc_routes raw = []"
    using hash_iter_set [OF ord dt] hash_iter_set [OF ord dr] by auto
  show "map_of (built_routes ord raw) k \<noteq> None \<longleftrightarrow> k \<in> fst ` set (rc_routes raw)"
    by (simp add: map_of_map_snd hash_iter_map_of [OF ord dr] map_of_eq_None_iff)
qed

lemma build_catalog_OkD:
  assumes ord: "iterates ord"
    and dt: "distinct (map fst (rc_targets raw))" and dr: "distinct (map fst (rc_routes raw))"
    and ok: "build_catalog ord raw = Ok p"
  shows "raw_catalog_ok raw \<and> p = catalog_of_raw ord raw"
proof -
  note parts = built_parts [OF ord dt dr]
  from ok obtain x y where v: "rc_version raw = 1"
    and px: "parse_targets [] (hash_iter ord (rc_targets raw)) = Ok x" and x: "x \<noteq> []"
    and py: "parse_routes x [] (hash_iter ord (rc_routes raw)) = Ok y"
    and d: "map_of y (rc_default_route raw) \<noteq> None"
    and p: "p = \<lparr>pc_catalog = \<lparr>cat_version = rc_version raw,
                 cat_default_route = rc_default_route raw, cat_targets = x, cat_routes = y\<rparr>,
               pc_raw_limits = rc_limits raw\<rparr>"
    by (auto simp: build_catalog_def and_then_Inr_iff require_identifier_Ok split: if_splits)
  from px have xs: "x = built_targets ord raw"
    and tok: "list_all (\<lambda>(i, t). ident i \<and> raw_target_ok t) (rc_targets raw)"
    using parts(1) by blast+
  from py have ys: "y = built_routes ord raw"
    and rok: "list_all (\<lambda>(i, r). ident i \<and> raw_route_ok (fst ` set (rc_targets raw)) r) (rc_routes raw)"
    unfolding xs using parts(2) by blast+
  have "rc_targets raw \<noteq> []" using x parts(3) unfolding xs by blast
  moreover have "rc_default_route raw \<in> fst ` set (rc_routes raw)"
    using d parts(5) unfolding ys by blast
  ultimately show ?thesis
    unfolding p xs ys raw_catalog_ok_def catalog_of_raw_def using v tok rok by blast
qed

lemma build_catalog_of_raw:
  assumes ord: "iterates ord"
    and dt: "distinct (map fst (rc_targets raw))" and dr: "distinct (map fst (rc_routes raw))"
    and "raw_catalog_ok raw"
  shows "build_catalog ord raw = Ok (catalog_of_raw ord raw)"
proof -
  note parts = built_parts [OF ord dt dr]
  have ok: "rc_version raw = 1" "rc_targets raw \<noteq> []"
    "list_all (\<lambda>(i, t). ident i \<and> raw_target_ok t) (rc_targets raw)"
    "list_all (\<lambda>(i, r). ident i \<and> raw_route_ok (fst ` set (rc_targets raw)) r) (rc_routes raw)"
    "rc_default_route raw \<in> fst ` set (rc_routes raw)"
    using assms(4) by (simp_all add: raw_catalog_ok_def)
  have pt: "parse_targets [] (hash_iter ord (rc_targets raw)) = Ok (built_targets ord raw)" using parts(1) ok by blast
  have pr: "parse_routes (built_targets ord raw) [] (hash_iter ord (rc_routes raw)) = Ok (built_routes ord raw)"
    using parts(2) ok by blast
  have "rc_routes raw \<noteq> []" using ok(5) by auto
  then have ne: "built_targets ord raw \<noteq> []" "built_routes ord raw \<noteq> []" using parts(3,4) ok(2) by blast+
  have "ident (rc_default_route raw)" using ok(4,5) by (auto simp: list_all_iff)
  then have d: "require_identifier ''default_route'' (rc_default_route raw) = Ok (rc_default_route raw)"
    by (simp add: require_identifier_Ok)
  have look: "map_of (built_routes ord raw) (rc_default_route raw) \<noteq> None" using parts(5) ok(5) by blast
  show ?thesis
    unfolding build_catalog_def catalog_of_raw_def
    by (simp only: ok(1) pt pr d ne look and_then_simps if_False not_True_eq_False simp_thms)
qed

lemma build_catalog_Ok:
  assumes "iterates ord" "distinct (map fst (rc_targets raw))" "distinct (map fst (rc_routes raw))"
  shows "build_catalog ord raw = Ok p \<longleftrightarrow> raw_catalog_ok raw \<and> p = catalog_of_raw ord raw"
  using build_catalog_OkD [OF assms] build_catalog_of_raw [OF assms] by auto

text \<open>A validated catalog.\<close>

definition target_wf :: "target \<Rightarrow> bool" where
  "target_wf t \<longleftrightarrow>
     ident (tg_model t) \<and> in_bound b_max_output_tokens (tg_max_output_tokens t)
     \<and> bounded_by (tp_input_per_million (tg_pricing t)) max_price_per_million
     \<and> bounded_by (tp_output_per_million (tg_pricing t)) max_price_per_million"

definition route_wf :: "(string \<times> target) list \<Rightarrow> route \<Rightarrow> bool" where
  "route_wf ts r \<longleftrightarrow>
     (let chain = ro_primary r # ro_fallbacks r
      in distinct chain \<and> list_all (\<lambda>i. map_of ts i \<noteq> None) chain)"

definition catalog_wf :: "catalog \<Rightarrow> bool" where
  "catalog_wf c \<longleftrightarrow>
     cat_version c = 1
     \<and> distinct (map fst (cat_targets c)) \<and> distinct (map fst (cat_routes c))
     \<and> list_all (\<lambda>(i, t). ident i \<and> target_wf t) (cat_targets c)
     \<and> list_all (\<lambda>(i, r). ident i \<and> route_wf (cat_targets c) r) (cat_routes c)
     \<and> map_of (cat_routes c) (cat_default_route c) \<noteq> None"

lemma target_of_raw_wf: "raw_target_ok t \<Longrightarrow> target_wf (target_of_raw t)"
  by (simp add: raw_target_ok_def target_wf_def target_of_raw_def)

lemma route_of_raw_wf:
  "raw_route_ok (fst ` set ts) r \<Longrightarrow> route_wf ts (route_of_raw r)"
  by (auto simp: raw_route_ok_def route_wf_def route_of_raw_def Let_def list_all_iff map_of_eq_None_iff)

lemma map_of_map_conv: "map_of (map (\<lambda>(i, t). (i, f t)) m) k = map_option f (map_of m k)"
  by (simp add: map_of_map_snd)

lemma catalog_of_raw_wf:
  assumes ord: "iterates ord"
    and dt: "distinct (map fst (rc_targets raw))" and dr: "distinct (map fst (rc_routes raw))"
    and ok: "raw_catalog_ok raw"
  shows "catalog_wf (pc_catalog (catalog_of_raw ord raw))"
proof -
  let ?ts = "map (\<lambda>(i, t). (i, target_of_raw t)) (hash_iter ord (rc_targets raw))"
  have fstm: "fst \<circ> (\<lambda>(i, t). (i, g t)) = fst" for g :: "'x \<Rightarrow> 'y" by auto
  have keys: "fst ` set ?ts = fst ` set (rc_targets raw)"
    by (simp add: image_image split_def hash_iter_set [OF ord dt])
  have t: "list_all (\<lambda>(i, t). ident i \<and> target_wf t) ?ts"
    using ok by (auto simp: raw_catalog_ok_def list_all_iff hash_iter_set [OF ord dt] target_of_raw_wf)
  have r: "list_all (\<lambda>(i, r). ident i \<and> route_wf ?ts r)
      (map (\<lambda>(i, r). (i, route_of_raw r)) (hash_iter ord (rc_routes raw)))"
    using ok route_of_raw_wf [of ?ts, unfolded keys]
    by (auto simp: raw_catalog_ok_def list_all_iff hash_iter_set [OF ord dr])
  have d: "map_of (map (\<lambda>(i, r). (i, route_of_raw r)) (hash_iter ord (rc_routes raw)))
      (rc_default_route raw) \<noteq> None"
    using ok by (auto simp: raw_catalog_ok_def map_of_map_conv hash_iter_map_of [OF ord dr]
        map_of_eq_None_iff)
  show ?thesis
    using ok t r d
    by (simp add: catalog_wf_def catalog_of_raw_def fstm iterates_distinct [OF ord] dt dr
        raw_catalog_ok_def)
qed

lemma reader_distinct:
  assumes "reader_laws from_str"
    "from_str deserialize_unique_targets deserialize_unique_routes deserialize_fallbacks txt = Ok raw"
  shows "distinct (map fst (rc_targets raw))" "distinct (map fst (rc_routes raw))"
proof -
  from assms obtain a1 a2 where "deserialize_unique_targets a1 = Ok (rc_targets raw)"
    "deserialize_unique_routes a2 = Ok (rc_routes raw)"
    unfolding reader_laws_def by blast
  then show "distinct (map fst (rc_targets raw))" "distinct (map fst (rc_routes raw))"
    by (auto simp: deserialize_unique_targets_def deserialize_unique_routes_def
        dest: deserialize_unique_map_distinct)
qed

text \<open>What a successful \<open>parse_catalog\<close> read.\<close>

lemma parse_catalog_OkD:
  assumes "reader_laws from_str" "iterates ord" "parse_catalog from_str ord txt = Ok p"
  obtains raw where
    "from_str deserialize_unique_targets deserialize_unique_routes deserialize_fallbacks txt = Ok raw"
    "distinct (map fst (rc_targets raw))" "distinct (map fst (rc_routes raw))"
    "raw_catalog_ok raw" "p = catalog_of_raw ord raw"
proof -
  from assms(3) obtain raw where
    r: "from_str deserialize_unique_targets deserialize_unique_routes deserialize_fallbacks txt = Ok raw"
    and b: "build_catalog ord raw = Ok p"
    by (auto simp: parse_catalog_def and_then_Inr_iff)
  note d = reader_distinct [OF assms(1) r]
  show thesis
    using that r d b build_catalog_Ok [OF assms(2) d] by blast
qed

end
