(* ===== verification/Settings.thy ===== *)
theory Settings
  imports Catalog Executor
begin

text \<open>
  \<open>core/config/load.rs\<close>, \<open>provider.rs\<close>, \<open>process.rs\<close> (the operator settings), \<open>http_client.rs\<close> and
  \<open>ExecutorConfig::from_settings\<close>: from a catalog file and an environment to the settings and the
  executor's configuration. The file system, the URL and socket-address parsers and the HTTP client
  builder are the fields of \<open>config_libs\<close>. A secret is the string it wraps; its printed form
  and the log summary are in the theory \<open>Redaction\<close>.
\<close>

section \<open>Libraries\<close>

record url =
  u_scheme :: string
  u_username :: string
  u_password :: "string option"
  u_host_str :: "string option"
  u_query :: "string option"
  u_fragment :: "string option"
  u_as_str :: string

record 'addr config_libs =
  cl_read_to_string :: "string \<rightharpoonup> string"
  cl_reader :: catalog_reader
  cl_hash_order :: "string list \<Rightarrow> string list"
  cl_parse_url :: "string \<rightharpoonup> url"
  cl_parse_socket :: "string \<rightharpoonup> 'addr"
  cl_ip_is_loopback :: "string \<rightharpoonup> bool"
  cl_client_builds :: "nat \<Rightarrow> bool \<Rightarrow> bool"   \<comment> \<open>timeout, proxy disabled\<close>

definition config_libs_ok :: "'addr config_libs \<Rightarrow> bool" where
  "config_libs_ok L \<longleftrightarrow> reader_laws (cl_reader L) \<and> iterates (cl_hash_order L)"

section \<open>Provider\<close>

record provider_settings =
  ps_api_key :: string
  ps_base_url :: string

definition is_blank :: "string \<Rightarrow> bool" where
  "is_blank s \<longleftrightarrow> str_trim s = []"

definition trim_end_slashes :: "string \<Rightarrow> string" where
  "trim_end_slashes s = rev (dropWhile (\<lambda>c. c = CHR ''/'') (rev s))"

definition validate_provider_url :: "(string \<rightharpoonup> url) \<Rightarrow> string \<Rightarrow> config_error + url" where
  "validate_provider_url parse raw =
     (let trimmed = str_trim raw in
      if trimmed = [] then Err invalid_provider_url
      else
        (case parse trimmed of
           None \<Rightarrow> Err invalid_provider_url
         | Some u \<Rightarrow>
             (if u_scheme u \<noteq> ''http'' \<and> u_scheme u \<noteq> ''https'' then Err invalid_provider_url
              else if u_username u \<noteq> [] \<or> u_password u \<noteq> None then Err invalid_provider_url
              else if u_host_str u = None then Err invalid_provider_url
              else if u_query u \<noteq> None \<or> u_fragment u \<noteq> None then Err invalid_provider_url
              else Ok u)))"

definition default_base_url :: string where
  "default_base_url = ''https://api.openai.com/v1''"

definition provider_from_env :: "(string \<rightharpoonup> url) \<Rightarrow> env_source \<Rightarrow> config_error + provider_settings" where
  "provider_from_env parse env =
     (case env ''OPENAI_API_KEY'' of
        None \<Rightarrow> Err missing_credential
      | Some key \<Rightarrow>
          (if is_blank key then Err missing_credential
           else
             and_then (validate_provider_url parse
                 (case env ''OPENAI_BASE_URL'' of Some b \<Rightarrow> b | None \<Rightarrow> default_base_url)) (\<lambda>u.
               Ok \<lparr>ps_api_key = key, ps_base_url = trim_end_slashes (u_as_str u)\<rparr>)))"

section \<open>Process settings\<close>

record 'addr server_config =
  sc_bind_address :: 'addr
  sc_shutdown_timeout_secs :: nat

abbreviation u16_max :: nat where "u16_max \<equiv> 65535"

definition server_try_from_source ::
    "(string \<rightharpoonup> 'addr) \<Rightarrow> env_source \<Rightarrow> config_error + 'addr server_config" where
  "server_try_from_source parse env =
     (let host = (case env ''SERVER_HOST'' of Some h \<Rightarrow> h | None \<Rightarrow> ''0.0.0.0'') in
      if str_trim host = [] then Err invalid_bind_address
      else
        and_then (parse_u64 ''SERVER_PORT''
            (case env ''SERVER_PORT'' of Some p \<Rightarrow> p | None \<Rightarrow> ''3000'')) (\<lambda>port.
        if u16_max < port then Err invalid_bind_address
        else
          and_then (ok_or invalid_bind_address (parse (host @ '':'' @ show_nat port))) (\<lambda>addr.
          and_then (case env ''SERVER_SHUTDOWN_TIMEOUT'' of
                      Some raw \<Rightarrow> and_then (parse_u64 ''SERVER_SHUTDOWN_TIMEOUT'' raw)
                                    (check_bound b_shutdown_timeout_secs)
                    | None \<Rightarrow> Ok (lb_default b_shutdown_timeout_secs)) (\<lambda>secs.
            Ok \<lparr>sc_bind_address = addr, sc_shutdown_timeout_secs = secs\<rparr>))))"

record auth_config =
  ac_development_mode :: bool
  ac_dev_client_id :: string
  ac_slow_operation_threshold_ms :: nat

text \<open>\<open>str::parse::<bool>\<close> and \<open>str::parse::<u64>\<close>; the latter takes one leading plus sign.\<close>

definition parse_bool :: "string \<Rightarrow> bool option" where
  "parse_bool s = (if s = ''true'' then Some True else if s = ''false'' then Some False else None)"

definition parse_rust_u64 :: "string \<Rightarrow> nat option" where
  "parse_rust_u64 s =
     (let digits = (case s of c # cs \<Rightarrow> (if c = CHR ''+'' then cs else s) | [] \<Rightarrow> s) in
      if digits \<noteq> [] \<and> list_all is_ascii_digit digits \<and> decimal_value digits \<le> u64_max
      then Some (decimal_value digits) else None)"

definition auth_from_source :: "env_source \<Rightarrow> auth_config" where
  "auth_from_source env =
     \<lparr>ac_development_mode =
        (case parse_bool (case env ''AUTH_DEVELOPMENT_MODE'' of Some v \<Rightarrow> v | None \<Rightarrow> ''false'') of
           Some b \<Rightarrow> b | None \<Rightarrow> False),
      ac_dev_client_id = (case env ''AUTH_DEV_CLIENT_ID'' of Some v \<Rightarrow> v | None \<Rightarrow> ''dev-client-123''),
      ac_slow_operation_threshold_ms =
        (case Option.bind (env ''AUTH_SLOW_THRESHOLD_MS'') parse_rust_u64 of
           Some v \<Rightarrow> v | None \<Rightarrow> 10)\<rparr>"

section \<open>The provider's HTTP client\<close>

record http_client =
  hc_timeout :: nat
  hc_no_proxy :: bool

definition base_url_is_loopback :: "'addr config_libs \<Rightarrow> string \<Rightarrow> bool" where
  "base_url_is_loopback L base =
     (case cl_parse_url L base of
        None \<Rightarrow> False
      | Some u \<Rightarrow>
          (case u_host_str u of
             None \<Rightarrow> False
           | Some h \<Rightarrow>
               (if h = ''localhost'' \<or> h = ''127.0.0.1'' \<or> h = ''::1'' then True
                else (case cl_ip_is_loopback L h of Some b \<Rightarrow> b | None \<Rightarrow> False))))"

definition build_client :: "'addr config_libs \<Rightarrow> nat \<Rightarrow> bool \<Rightarrow> config_error + http_client" where
  "build_client L timeout disable_proxy =
     (if timeout = 0 then Err (invalid_limit ''max_attempt_timeout_ms'')
      else if cl_client_builds L timeout disable_proxy
      then Ok \<lparr>hc_timeout = timeout, hc_no_proxy = disable_proxy\<rparr>
      else Err http_client_construction)"

definition build_bounded_http_client_for_base_url ::
    "'addr config_libs \<Rightarrow> nat \<Rightarrow> string \<Rightarrow> config_error + http_client" where
  "build_bounded_http_client_for_base_url L timeout base =
     build_client L timeout (base_url_is_loopback L base)"

section \<open>Settings\<close>

record 'addr settings =
  st_server :: "'addr server_config"
  st_auth :: auth_config
  st_catalog :: catalog
  st_limits :: policy_limits
  st_provider :: provider_settings
  st_catalog_path :: string

definition build_provider_http_client :: "'addr config_libs \<Rightarrow> 'addr settings \<Rightarrow> config_error + http_client"
  where
  "build_provider_http_client L s =
     build_bounded_http_client_for_base_url L (pl_max_attempt_timeout (st_limits s))
       (ps_base_url (st_provider s))"

fun first_long_route :: "nat \<Rightarrow> (string \<times> route) list \<Rightarrow> string option" where
  "first_long_route n [] = None"
| "first_long_route n ((name, r) # rs) =
     (if n < length (ro_fallbacks r) then Some name else first_long_route n rs)"

definition apply_limit_to_routes ::
    "(string list \<Rightarrow> string list) \<Rightarrow> catalog \<Rightarrow> nat \<Rightarrow> config_error + catalog" where
  "apply_limit_to_routes ord c n =
     (case first_long_route n (hash_iter ord (cat_routes c)) of
        Some name \<Rightarrow> Err (config_error_new CatalogFallbackLimit
            (''route '' @ name @ '' fallback list exceeds max_fallback_targets''))
      | None \<Rightarrow> Ok c)"

definition from_catalog_path ::
    "'addr config_libs \<Rightarrow> string \<Rightarrow> env_source \<Rightarrow> config_error + 'addr settings" where
  "from_catalog_path L path env =
     and_then (ok_or catalog_unreadable (cl_read_to_string L path)) (\<lambda>txt.
     and_then (parse_catalog (cl_reader L) (cl_hash_order L) txt) (\<lambda>parsed.
     and_then (and_then (limits_from_raw (pc_raw_limits parsed)) (apply_env_overrides env)) (\<lambda>limits.
     and_then (apply_limit_to_routes (cl_hash_order L) (pc_catalog parsed)
                 (pl_max_fallback_targets limits)) (\<lambda>c.
     and_then (provider_from_env (cl_parse_url L) env) (\<lambda>provider.
     and_then (server_try_from_source (cl_parse_socket L) env) (\<lambda>server.
       let s = \<lparr>st_server = server, st_auth = auth_from_source env, st_catalog = c,
                st_limits = limits, st_provider = provider, st_catalog_path = path\<rparr>
       in and_then (build_provider_http_client L s) (\<lambda>_. Ok s)))))))"

definition load_with :: "'addr config_libs \<Rightarrow> env_source \<Rightarrow> config_error + 'addr settings" where
  "load_with L env =
     (case env ''OPMUX_CONFIG_FILE'' of
        Some value \<Rightarrow> (if str_trim value = [] then Err missing_config_file
                       else from_catalog_path L value env)
      | None \<Rightarrow> Err missing_config_file)"

section \<open>The executor's configuration\<close>

fun collect_models :: "string list \<Rightarrow> (string \<times> target) list \<Rightarrow> string list" where
  "collect_models acc [] = acc"
| "collect_models acc ((i, t) # ts) =
     collect_models (if tg_model t \<in> set acc then acc else acc @ [tg_model t]) ts"

fun collect_pricing :: "(string \<rightharpoonup> model_pricing) \<Rightarrow> (string \<times> target) list \<Rightarrow> string \<rightharpoonup> model_pricing"
  where
  "collect_pricing m [] = m"
| "collect_pricing m ((i, t) # ts) =
     collect_pricing (m(i \<mapsto> model_pricing_new (tp_input_per_million (tg_pricing t))
                                 (tp_output_per_million (tg_pricing t)))) ts"

definition executor_config_from_settings ::
    "(string list \<Rightarrow> string list) \<Rightarrow> 'addr settings \<Rightarrow> executor_config" where
  "executor_config_from_settings ord s =
     (let ts = hash_iter ord (cat_targets (st_catalog s)); l = st_limits s in
      \<lparr>xc_openai = Some
         \<lparr>oc_api_key = ps_api_key (st_provider s), oc_base_url = ps_base_url (st_provider s),
          oc_timeout_ms = limits_duration_ms (pl_max_attempt_timeout l),
          oc_supported_models = collect_models [] ts, oc_pricing = collect_pricing Map.empty ts,
          oc_max_response_bytes = pl_max_upstream_response_bytes l\<rparr>,
       xc_timeout_ms = limits_duration_ms (pl_max_attempt_timeout l),
       xc_max_retries = pl_retries_per_target l,
       xc_max_total_attempts = pl_max_total_attempts l,
       xc_backoff_cap_ms = limits_duration_ms (pl_backoff_cap l),
       xc_circuit_failure_threshold = pl_circuit_failure_threshold l,
       xc_circuit_cooldown_ms = limits_duration_ms (pl_circuit_cooldown l)\<rparr>)"

section \<open>Lemmas\<close>

definition settings_wf :: "'addr settings \<Rightarrow> bool" where
  "settings_wf s \<longleftrightarrow>
     catalog_wf (st_catalog s) \<and> limits_in_range (st_limits s)
     \<and> list_all (\<lambda>(_, r). length (ro_fallbacks r) \<le> pl_max_fallback_targets (st_limits s))
         (cat_routes (st_catalog s))
     \<and> \<not> is_blank (ps_api_key (st_provider s))
     \<and> in_bound b_shutdown_timeout_secs (sc_shutdown_timeout_secs (st_server s))"

lemma first_long_route_None:
  "first_long_route n rs = None \<longleftrightarrow> list_all (\<lambda>(_, r). length (ro_fallbacks r) \<le> n) rs"
  by (induction n rs rule: first_long_route.induct) auto

lemma apply_limit_to_routes_Ok:
  assumes "iterates ord" "catalog_wf c"
  shows "apply_limit_to_routes ord c n = Ok c' \<longleftrightarrow>
    c' = c \<and> list_all (\<lambda>(_, r). length (ro_fallbacks r) \<le> n) (cat_routes c)"
proof -
  have "distinct (map fst (cat_routes c))" using assms(2) by (simp add: catalog_wf_def)
  from first_long_route_None [of n "hash_iter ord (cat_routes c)", unfolded hash_iter_all [OF assms(1) this]]
  show ?thesis by (auto simp: apply_limit_to_routes_def split: option.splits)
qed

lemma provider_from_env_blank: "provider_from_env parse env = Ok p \<Longrightarrow> \<not> is_blank (ps_api_key p)"
  by (auto simp: provider_from_env_def and_then_Inr_iff split: option.splits if_splits)

lemma server_shutdown_in_bound:
  "server_try_from_source parse env = Ok sc \<Longrightarrow> in_bound b_shutdown_timeout_secs (sc_shutdown_timeout_secs sc)"
  by (auto simp: server_try_from_source_def and_then_Inr_iff Let_def check_bound_def in_bound_def
      b_shutdown_timeout_secs_def split: option.splits if_splits)

lemma pos_of_in_bound_ms: "in_bound_ms b d \<Longrightarrow> 1 \<le> lb_min b \<Longrightarrow> 0 < d"
  by (auto simp: in_bound_ms_def in_bound_def)

lemma collect_models_set: "set (collect_models acc ts) = set acc \<union> (tg_model \<circ> snd) ` set ts"
  by (induction acc ts rule: collect_models.induct) auto

lemma collect_models_distinct: "distinct acc \<Longrightarrow> distinct (collect_models acc ts)"
  by (induction acc ts rule: collect_models.induct) auto

definition pricing_of_target :: "target \<Rightarrow> model_pricing" where
  "pricing_of_target t = model_pricing_new (tp_input_per_million (tg_pricing t))
     (tp_output_per_million (tg_pricing t))"

lemma collect_pricing_eq:
  "distinct (map fst ts) \<Longrightarrow>
     collect_pricing m ts k = (case map_of ts k of Some t \<Rightarrow> Some (pricing_of_target t) | None \<Rightarrow> m k)"
proof (induction m ts rule: collect_pricing.induct)
  case (2 m i t ts)
  then have d: "map_of ts i = None" "distinct (map fst ts)" by (auto simp: map_of_eq_None_iff)
  have "collect_pricing m ((i, t) # ts) k
      = (case map_of ts k of Some t \<Rightarrow> Some (pricing_of_target t)
         | None \<Rightarrow> (m(i \<mapsto> pricing_of_target t)) k)"
    by (simp only: collect_pricing.simps 2(1) [OF d(2)] pricing_of_target_def)
  then show ?case using d(1) by (cases "k = i") (simp_all split: option.splits)
qed simp

lemma executor_config_pricing:
  assumes "iterates ord" "catalog_wf (st_catalog s)"
  shows "xc_openai (executor_config_from_settings ord s) = Some oc \<Longrightarrow>
     oc_pricing oc k = map_option pricing_of_target (map_of (cat_targets (st_catalog s)) k)"
proof -
  have d: "distinct (map fst (cat_targets (st_catalog s)))" using assms(2) by (simp add: catalog_wf_def)
  have "distinct (map fst (hash_iter ord (cat_targets (st_catalog s))))"
    using d by (simp add: iterates_distinct [OF assms(1)])
  from collect_pricing_eq [OF this]
  show "xc_openai (executor_config_from_settings ord s) = Some oc \<Longrightarrow> ?thesis"
    by (auto simp: executor_config_from_settings_def Let_def hash_iter_map_of [OF assms(1) d]
        split: option.splits)
qed

lemma executor_config_models:
  assumes "iterates ord" "catalog_wf (st_catalog s)"
    and "xc_openai (executor_config_from_settings ord s) = Some oc"
    and "map_of (cat_targets (st_catalog s)) i = Some t"
  shows "supports_model oc (tg_model t)"
proof -
  have d: "distinct (map fst (cat_targets (st_catalog s)))" using assms(2) by (simp add: catalog_wf_def)
  have "(i, t) \<in> set (cat_targets (st_catalog s))" using assms(4) by (rule map_of_SomeD)
  then show ?thesis
    using assms(3) by (force simp: executor_config_from_settings_def Let_def supports_model_def
        collect_models_set hash_iter_set [OF assms(1) d])
qed

end
