(* ===== verification/Ingress_Routing.thy ===== *)
theory Ingress_Routing
  imports Catalog Exec_Models
begin

text \<open>
  \<open>features/ingress/error.rs\<close> and \<open>features/ingress/routing.rs\<close>: the ingress errors with their HTTP
  mapping, and the selection of a route of the catalog as a flat plan.
\<close>

section \<open>Errors\<close>

datatype ingress_error =
    IngressInvalidRequest string
  | IngressAuthenticationRequired
  | IngressAuthorizationFailed
  | IngressRequestOrchestrationFailed
  | IngressPayloadTooLarge
  | IngressOverloaded
  | IngressDraining
  | IngressExecutionFailed executor_error

text \<open>\<open>None\<close> is the \<open>unreachable!\<close> branch.\<close>

fun ingress_http_mapping :: "ingress_error \<Rightarrow> (error_code \<times> string) option" where
  "ingress_http_mapping (IngressInvalidRequest message) = Some (InvalidRequest, message)"
| "ingress_http_mapping IngressAuthenticationRequired = Some (Unauthorized, ''Authentication failed'')"
| "ingress_http_mapping IngressAuthorizationFailed =
     Some (Forbidden, ''You do not have permission to perform this operation.'')"
| "ingress_http_mapping IngressRequestOrchestrationFailed =
     Some (InternalError, ''An internal error occurred'')"
| "ingress_http_mapping IngressPayloadTooLarge = Some (PayloadTooLarge, ''Request body is too large'')"
| "ingress_http_mapping IngressOverloaded = Some (Overloaded, ''The service is overloaded'')"
| "ingress_http_mapping IngressDraining = Some (Draining, ''The service is shutting down'')"
| "ingress_http_mapping (IngressExecutionFailed _) = None"

abbreviation local_overload_retry_after_secs :: nat where "local_overload_retry_after_secs \<equiv> 1"

definition ingress_error_response ::
    "request_context option \<Rightarrow> ingress_error \<Rightarrow> 'a http_response option" where
  "ingress_error_response ctx e =
     (case e of
        IngressExecutionFailed ee \<Rightarrow> Some (executor_error_response ctx ee)
      | IngressOverloaded \<Rightarrow>
          Some (error_response ctx Overloaded ''The service is overloaded''
                  (Some local_overload_retry_after_secs))
      | other \<Rightarrow>
          map_option (\<lambda>(code, message). error_response ctx code message None)
            (ingress_http_mapping other))"

text \<open>The panic is never reached.\<close>

lemma ingress_error_response_total: "ingress_error_response ctx e \<noteq> None"
  by (cases e) (simp_all add: ingress_error_response_def)

section \<open>Routing\<close>

record resolved_route =
  rr_route_id :: string
  rr_target_id :: string
  rr_max_output_tokens :: nat
  rr_plan :: route_plan

definition is_configured_route :: "catalog \<Rightarrow> string \<Rightarrow> bool" where
  "is_configured_route c name \<longleftrightarrow>
     name \<noteq> [] \<and> str_trim name = name \<and> map_of (cat_routes c) name \<noteq> None"

definition target_of :: "catalog \<Rightarrow> string \<Rightarrow> ingress_error + target" where
  "target_of c i = ok_or IngressRequestOrchestrationFailed (map_of (cat_targets c) i)"

definition plan_for_target :: "string \<Rightarrow> target \<Rightarrow> route_plan list \<Rightarrow> route_plan" where
  "plan_for_target i t fs =
     RoutePlan (vendor_as_str (tg_vendor t)) i (tg_model t) (tg_max_output_tokens t) fs"

definition resolve_route ::
    "catalog \<Rightarrow> string option \<Rightarrow> bool option \<Rightarrow> ingress_error + resolved_route" where
  "resolve_route c requested allow_fallback =
     and_then (case requested of
                 None \<Rightarrow> Ok (cat_default_route c)
               | Some name \<Rightarrow>
                   (if \<not> is_configured_route c name then Err (IngressInvalidRequest ''Unknown route'')
                    else Ok name)) (\<lambda>route_id.
     and_then (ok_or IngressRequestOrchestrationFailed (map_of (cat_routes c) route_id)) (\<lambda>r.
     and_then (target_of c (ro_primary r)) (\<lambda>primary.
     and_then (if allow_fallback \<noteq> Some False
               then collect_results (\<lambda>i. and_then (target_of c i) (\<lambda>t. Ok (plan_for_target i t [])))
                      (ro_fallbacks r)
               else Ok []) (\<lambda>fs.
       Ok \<lparr>rr_route_id = route_id, rr_target_id = ro_primary r,
           rr_max_output_tokens = tg_max_output_tokens primary,
           rr_plan = plan_for_target (ro_primary r) primary fs\<rparr>))))"

section \<open>Lemmas\<close>

text \<open>The hop of a target identifier.\<close>

definition hop_of :: "catalog \<Rightarrow> string \<Rightarrow> route_plan" where
  "hop_of c i = plan_for_target i (the (map_of (cat_targets c) i)) []"

lemma hop_of_id [simp]: "target_id (hop_of c i) = i"
  by (simp add: hop_of_def plan_for_target_def)

lemma collect_hops:
  assumes "list_all (\<lambda>i. map_of (cat_targets c) i \<noteq> None) is"
  shows "collect_results (\<lambda>i. and_then (target_of c i) (\<lambda>t. Ok (plan_for_target i t []))) is
       = Ok (map (hop_of c) is)"
  using assms
  by (induction "is") (auto simp: target_of_def hop_of_def split: option.splits)

text \<open>A selected route of a validated catalog.\<close>

definition chosen_route :: "catalog \<Rightarrow> string option \<Rightarrow> string option" where
  "chosen_route c requested =
     (case requested of
        None \<Rightarrow> Some (cat_default_route c)
      | Some name \<Rightarrow> (if map_of (cat_routes c) name = None then None else Some name))"

lemma catalog_wf_routes:
  assumes "catalog_wf c" "map_of (cat_routes c) i = Some r"
  shows "ident i" "route_wf (cat_targets c) r"
  using assms by (auto simp: catalog_wf_def list_all_iff dest!: map_of_SomeD)

lemma catalog_wf_targets:
  assumes "catalog_wf c" "map_of (cat_targets c) i = Some t"
  shows "ident i" "target_wf t"
  using assms by (auto simp: catalog_wf_def list_all_iff dest!: map_of_SomeD)

lemma configured_iff:
  assumes "catalog_wf c"
  shows "is_configured_route c name \<longleftrightarrow> map_of (cat_routes c) name \<noteq> None"
  using catalog_wf_routes(1) [OF assms, of name]
  by (auto simp: is_configured_route_def ident_def)

definition resolved :: "catalog \<Rightarrow> string \<Rightarrow> route \<Rightarrow> bool option \<Rightarrow> resolved_route" where
  "resolved c i r allow =
     (let t = the (map_of (cat_targets c) (ro_primary r)) in
      \<lparr>rr_route_id = i, rr_target_id = ro_primary r,
       rr_max_output_tokens = tg_max_output_tokens t,
       rr_plan = plan_for_target (ro_primary r) t
         (if allow = Some False then [] else map (hop_of c) (ro_fallbacks r))\<rparr>)"

lemma resolve_route_eq:
  assumes wf: "catalog_wf c"
  shows "resolve_route c requested allow =
    (case chosen_route c requested of
       None \<Rightarrow> Err (IngressInvalidRequest ''Unknown route'')
     | Some i \<Rightarrow> Ok (resolved c i (the (map_of (cat_routes c) i)) allow))"
proof -
  have main: "and_then (ok_or IngressRequestOrchestrationFailed (map_of (cat_routes c) i)) (\<lambda>r.
      and_then (target_of c (ro_primary r)) (\<lambda>primary.
      and_then (if allow \<noteq> Some False
                then collect_results (\<lambda>i. and_then (target_of c i) (\<lambda>t. Ok (plan_for_target i t [])))
                       (ro_fallbacks r)
                else Ok []) (\<lambda>fs.
        Ok \<lparr>rr_route_id = i, rr_target_id = ro_primary r,
            rr_max_output_tokens = tg_max_output_tokens primary,
            rr_plan = plan_for_target (ro_primary r) primary fs\<rparr>)))
      = Ok (resolved c i (the (map_of (cat_routes c) i)) allow)"
    if i: "map_of (cat_routes c) i \<noteq> None" for i
  proof -
    obtain r where r: "map_of (cat_routes c) i = Some r" using i by blast
    have rwf: "route_wf (cat_targets c) r" by (rule catalog_wf_routes(2) [OF wf r])
    then obtain t where t: "map_of (cat_targets c) (ro_primary r) = Some t"
      and fs: "list_all (\<lambda>i. map_of (cat_targets c) i \<noteq> None) (ro_fallbacks r)"
      by (auto simp: route_wf_def Let_def)
    show ?thesis
      by (simp add: r t target_of_def [of c "ro_primary r"] collect_hops [OF fs] resolved_def)
  qed
  have d: "map_of (cat_routes c) (cat_default_route c) \<noteq> None"
    using wf unfolding catalog_wf_def by blast
  show ?thesis
  proof (cases requested)
    case None
    with main [OF d] show ?thesis by (simp add: resolve_route_def chosen_route_def)
  next
    case (Some name)
    show ?thesis
    proof (cases "map_of (cat_routes c) name = None")
      case True
      with Some show ?thesis
        by (simp add: resolve_route_def chosen_route_def configured_iff [OF wf])
    next
      case False
      with Some main [OF False] show ?thesis
        by (simp add: resolve_route_def chosen_route_def configured_iff [OF wf])
    qed
  qed
qed

lemma chosen_route_Some:
  assumes "catalog_wf c" "chosen_route c requested = Some i"
  shows "map_of (cat_routes c) i \<noteq> None"
    "i = (case requested of Some name \<Rightarrow> name | None \<Rightarrow> cat_default_route c)"
  using assms unfolding chosen_route_def catalog_wf_def by (auto split: option.splits if_splits)

lemma resolve_route_OkD:
  assumes "catalog_wf c" "resolve_route c requested allow = Ok r"
  obtains i ro where "chosen_route c requested = Some i" "map_of (cat_routes c) i = Some ro"
    "r = resolved c i ro allow"
proof -
  obtain i where i: "chosen_route c requested = Some i"
    and r: "r = resolved c i (the (map_of (cat_routes c) i)) allow"
    using assms(2) by (auto simp: resolve_route_eq [OF assms(1)] split: option.splits)
  obtain ro where "map_of (cat_routes c) i = Some ro"
    using chosen_route_Some(1) [OF assms(1) i] by blast
  with that i r show thesis by simp
qed

text \<open>The hops of a resolved plan are those of the route's chain, in order.\<close>

lemma resolved_hops:
  "map target_id (rr_plan (resolved c i r allow) # fallback_plans (rr_plan (resolved c i r allow)))
     = ro_primary r # (if allow = Some False then [] else ro_fallbacks r)"
  by (simp add: resolved_def Let_def plan_for_target_def comp_def)

lemma resolved_hop_target:
  assumes wf: "catalog_wf c" and r: "map_of (cat_routes c) i = Some r"
    and h: "h \<in> set (rr_plan (resolved c i r allow) # fallback_plans (rr_plan (resolved c i r allow)))"
  shows "\<exists>t. map_of (cat_targets c) (target_id h) = Some t \<and> vendor_id h = ''openai''
      \<and> model_id h = tg_model t \<and> max_output_tokens h = tg_max_output_tokens t"
proof -
  have rwf: "route_wf (cat_targets c) r" by (rule catalog_wf_routes(2) [OF wf r])
  have v: "vendor_as_str v = ''openai''" for v by (cases v) simp
  have "\<exists>t. map_of (cat_targets c) j = Some t" if "j \<in> set (ro_primary r # ro_fallbacks r)" for j
    using rwf that by (auto simp: route_wf_def Let_def list_all_iff)
  then show ?thesis
    using h by (fastforce simp: resolved_def Let_def plan_for_target_def hop_of_def v
        split: if_splits)
qed

end
