(* ===== verification/Config_Properties.thy ===== *)
theory Config_Properties
  imports Settings Ingress_Routing
begin

text \<open>
  What the operator configuration guarantees: the catalog is accepted exactly when it satisfies the
  declarative schema, loaded settings are valid, every request's route resolves, and every hop of a
  resolved plan can be served by the executor built from the same settings. The witnesses run a small
  deployment whose reader knows one document.
\<close>

section \<open>A small configuration\<close>

definition demo_raw_target :: "string \<Rightarrow> raw_target" where
  "demo_raw_target model =
     \<lparr>rt_vendor = None, rt_model = model, rt_max_output_tokens = 100,
      rt_pricing = \<lparr>rp_input_per_million = Fin 1, rp_output_per_million = Fin 2\<rparr>\<rparr>"

definition demo_raw_route :: raw_route where
  "demo_raw_route = \<lparr>rr_primary = ''t1'', rr_fallbacks = [''t2'']\<rparr>"

text \<open>The reader hands the entries of its one document to the functions it is given.\<close>

definition demo_reader :: catalog_reader where
  "demo_reader ut ur fb txt =
     (if txt = ''doc''
      then and_then (ut [Inr (''t1'', demo_raw_target ''m1''), Inr (''t2'', demo_raw_target ''m2'')]) (\<lambda>ts.
           and_then (ur [Inr (''d'', demo_raw_route)]) (\<lambda>rs.
             Ok \<lparr>rc_version = 1, rc_default_route = ''d'', rc_targets = ts, rc_routes = rs,
                 rc_limits = None\<rparr>))
      else Err \<lparr>se_message = ''EOF while parsing a value'', se_is_syntax = False, se_is_eof = True\<rparr>)"

definition demo_url :: url where
  "demo_url = \<lparr>u_scheme = ''http'', u_username = [], u_password = None, u_host_str = Some ''localhost'',
     u_query = None, u_fragment = None, u_as_str = ''http://localhost/''\<rparr>"

definition demo_config_libs :: "string config_libs" where
  "demo_config_libs =
     \<lparr>cl_read_to_string = (\<lambda>p. if p = ''f'' then Some ''doc'' else None), cl_reader = demo_reader,
      cl_hash_order = rev, cl_parse_url = (\<lambda>s. Some demo_url), cl_parse_socket = Some,
      cl_ip_is_loopback = (\<lambda>_. None), cl_client_builds = (\<lambda>_ _. True)\<rparr>"

definition demo_env :: env_source where
  "demo_env = [''OPENAI_API_KEY'' \<mapsto> ''k'', ''OPENAI_BASE_URL'' \<mapsto> ''u'']"

definition demo_catalog :: catalog where
  "demo_catalog = pc_catalog (catalog_of_raw rev
     \<lparr>rc_version = 1, rc_default_route = ''d'',
      rc_targets = [(''t1'', demo_raw_target ''m1''), (''t2'', demo_raw_target ''m2'')],
      rc_routes = [(''d'', demo_raw_route)], rc_limits = None\<rparr>)"

lemma iterates_rev: "iterates rev"
  by (simp add: iterates_def)

lemma demo_reader_laws: "reader_laws demo_reader"
  by (auto simp: reader_laws_def demo_reader_def and_then_Inr_iff)

lemma demo_libs_laws: "config_libs_ok demo_config_libs"
  by (simp add: config_libs_ok_def demo_config_libs_def demo_reader_laws iterates_rev)

lemma trim_letter: "ws_prefix ws [c] = 0 \<Longrightarrow> trim_front ws [c] = [c]"
  by (subst trim_front.simps) simp

lemma trim_done: "ws_prefix ws s = 0 \<Longrightarrow> trim_front ws s = s"
  by (subst trim_front.simps) simp

lemma demo_trims:
  "str_trim ''t1'' = ''t1''" "str_trim ''t2'' = ''t2''" "str_trim ''m1'' = ''m1''"
  "str_trim ''m2'' = ''m2''" "str_trim ''d'' = ''d''" "str_trim ''u'' = ''u''" "str_trim ''k'' = ''k''"
  "str_trim ''f'' = ''f''" "str_trim ''0.0.0.0'' = ''0.0.0.0''" "str_trim ''3000'' = ''3000''"
  by (simp_all add: str_trim_def trim_start_def trim_end_def trim_done ws_prefix_def code_of_def
      white_space_bytes_def)

lemma demo_raw_ok:
  "raw_catalog_ok \<lparr>rc_version = 1, rc_default_route = ''d'',
      rc_targets = [(''t1'', demo_raw_target ''m1''), (''t2'', demo_raw_target ''m2'')],
      rc_routes = [(''d'', demo_raw_route)], rc_limits = None\<rparr>"
  by (simp add: raw_catalog_ok_def raw_target_ok_def raw_route_ok_def demo_raw_target_def
      demo_raw_route_def ident_def demo_trims in_bound_def b_max_output_tokens_def)

lemma demo_catalog_wf: "catalog_wf demo_catalog"
  unfolding demo_catalog_def
  by (rule catalog_of_raw_wf [OF iterates_rev _ _ demo_raw_ok]) simp_all

lemma demo_parse_catalog:
  "parse_catalog demo_reader rev ''doc'' = Ok (catalog_of_raw rev
     \<lparr>rc_version = 1, rc_default_route = ''d'',
      rc_targets = [(''t1'', demo_raw_target ''m1''), (''t2'', demo_raw_target ''m2'')],
      rc_routes = [(''d'', demo_raw_route)], rc_limits = None\<rparr>)"
proof -
  have "demo_reader deserialize_unique_targets deserialize_unique_routes deserialize_fallbacks ''doc''
      = Ok \<lparr>rc_version = 1, rc_default_route = ''d'',
          rc_targets = [(''t1'', demo_raw_target ''m1''), (''t2'', demo_raw_target ''m2'')],
          rc_routes = [(''d'', demo_raw_route)], rc_limits = None\<rparr>"
    by (simp add: demo_reader_def deserialize_unique_targets_def deserialize_unique_routes_def
        deserialize_unique_map_def)
  then show ?thesis
    using build_catalog_Ok [OF iterates_rev, of
        "\<lparr>rc_version = 1, rc_default_route = ''d'',
          rc_targets = [(''t1'', demo_raw_target ''m1''), (''t2'', demo_raw_target ''m2'')],
          rc_routes = [(''d'', demo_raw_route)], rc_limits = None\<rparr>"] demo_raw_ok
    by (simp add: parse_catalog_def)
qed

section \<open>Properties\<close>

text \<open>
  C20. A catalog document is accepted exactly when its reader succeeds and what it read satisfies the
  declarative schema (version 1, at least one target, trimmed nonempty identifiers, the openai vendor,
  output caps and prices within bounds, flat chains of known targets without repetition, a configured
  default route), whatever the order in which the hash maps are iterated; the catalog is then the
  one read, entry by entry.
\<close>

theorem catalog_accepted_iff_schema:
  assumes "reader_laws from_str" "iterates ord"
  shows "parse_catalog from_str ord txt = Ok p \<longleftrightarrow>
    (\<exists>raw. from_str deserialize_unique_targets deserialize_unique_routes deserialize_fallbacks txt = Ok raw
       \<and> raw_catalog_ok raw \<and> p = catalog_of_raw ord raw)"
proof
  assume "parse_catalog from_str ord txt = Ok p"
  with assms show "\<exists>raw. from_str deserialize_unique_targets deserialize_unique_routes
      deserialize_fallbacks txt = Ok raw \<and> raw_catalog_ok raw \<and> p = catalog_of_raw ord raw"
    by (blast elim: parse_catalog_OkD)
next
  assume "\<exists>raw. from_str deserialize_unique_targets deserialize_unique_routes
      deserialize_fallbacks txt = Ok raw \<and> raw_catalog_ok raw \<and> p = catalog_of_raw ord raw"
  then obtain raw where r: "from_str deserialize_unique_targets deserialize_unique_routes
      deserialize_fallbacks txt = Ok raw" and ok: "raw_catalog_ok raw" "p = catalog_of_raw ord raw"
    by blast
  note d = reader_distinct [OF assms(1) r]
  show "parse_catalog from_str ord txt = Ok p"
    using build_catalog_Ok [OF assms(2) d] ok by (simp add: parse_catalog_def r)
qed

theorem catalog_accepted_iff_schema_witness:
  "\<exists>raw. demo_reader deserialize_unique_targets deserialize_unique_routes deserialize_fallbacks ''doc''
       = Ok raw \<and> raw_catalog_ok raw \<and> raw_catalog_ok (raw\<lparr>rc_version := 1\<rparr>)"
proof -
  have "\<exists>raw. demo_reader deserialize_unique_targets deserialize_unique_routes deserialize_fallbacks
      ''doc'' = Ok raw \<and> raw_catalog_ok raw"
    using catalog_accepted_iff_schema [OF demo_reader_laws iterates_rev] demo_parse_catalog by blast
  then show ?thesis by (auto simp: raw_catalog_ok_def)
qed

text \<open>
  C23. Settings that load are valid: the catalog is well formed, every policy limit lies within its
  documented bounds after the environment's overrides, no route has more fallbacks than the effective
  limit, the credential is not blank, the shutdown grace is within bounds, and the provider's client
  was built with a positive timeout.
\<close>

theorem loaded_settings_are_valid:
  assumes L: "config_libs_ok L" and ld: "from_catalog_path L path env = Ok s"
  shows "settings_wf s \<and> 0 < pl_max_attempt_timeout (st_limits s)
    \<and> is_ok (build_provider_http_client L s)"
proof -
  obtain doc parsed raw_l limits c provider server cl where
    pc: "parse_catalog (cl_reader L) (cl_hash_order L) doc = Ok parsed"
    and l: "limits_from_raw (pc_raw_limits parsed) = Ok raw_l" "apply_env_overrides env raw_l = Ok limits"
    and c: "apply_limit_to_routes (cl_hash_order L) (pc_catalog parsed) (pl_max_fallback_targets limits) = Ok c"
    and p: "provider_from_env (cl_parse_url L) env = Ok provider"
    and sv: "server_try_from_source (cl_parse_socket L) env = Ok server"
    and s: "s = \<lparr>st_server = server, st_auth = auth_from_source env, st_catalog = c,
                st_limits = limits, st_provider = provider, st_catalog_path = path\<rparr>"
    and cl: "build_provider_http_client L s = Ok cl"
    using ld unfolding from_catalog_path_def and_then_Inr_iff Let_def by auto
  have laws: "reader_laws (cl_reader L)" "iterates (cl_hash_order L)"
    using L by (simp_all add: config_libs_ok_def)
  have wf: "catalog_wf (pc_catalog parsed)"
    by (rule parse_catalog_OkD [OF laws pc]) (use catalog_of_raw_wf [OF laws(2)] in blast)
  have "limits_in_range limits" by (rule overrides_in_range [OF l(2) limits_from_raw_in_range [OF l(1)]])
  moreover from this have "0 < pl_max_attempt_timeout limits"
    by (auto simp: limits_in_range_def b_max_attempt_timeout_ms_def intro!: pos_of_in_bound_ms)
  ultimately show ?thesis
    using wf c cl provider_from_env_blank [OF p] server_shutdown_in_bound [OF sv]
    by (simp add: s settings_wf_def apply_limit_to_routes_Ok [OF laws(2) wf])
qed

text \<open>The small deployment loads.\<close>

definition demo_limits :: policy_limits where
  "demo_limits = \<lparr>pl_protected_request_deadline = from_millis 30000,
     pl_max_attempt_timeout = from_millis 10000, pl_retries_per_target = 1,
     pl_max_total_attempts = 3, pl_max_fallback_targets = 2, pl_backoff_cap = from_millis 2000,
     pl_circuit_failure_threshold = 3, pl_circuit_cooldown = from_millis 30000,
     pl_max_concurrent_generations = 32, pl_max_request_body_bytes = 1048576,
     pl_max_metadata_bytes = 1000, pl_max_prompt_chars = 4000,
     pl_max_upstream_response_bytes = 1048576\<rparr>"

lemma documented_defaults_are: "documented_defaults = Ok demo_limits"
  by (simp add: documented_defaults_def limits_from_raw_def raw_limits_default_def Let_def
      or_default_def checked_def checked_u32_def checked_millis_def check_bound_def to_u32_def
      bound_defs demo_limits_def)

lemma demo_overrides: "apply_env_overrides demo_env demo_limits = Ok demo_limits"
  by (simp add: apply_env_overrides_def override_limit_def demo_env_def bound_defs)

definition demo_settings :: "string settings" where
  "demo_settings =
     \<lparr>st_server = \<lparr>sc_bind_address = ''0.0.0.0:3000'', sc_shutdown_timeout_secs = 30\<rparr>,
      st_auth = auth_from_source demo_env, st_catalog = demo_catalog, st_limits = demo_limits,
      st_provider = \<lparr>ps_api_key = ''k'', ps_base_url = ''http://localhost''\<rparr>, st_catalog_path = ''f''\<rparr>"

lemma demo_provider:
  "provider_from_env (cl_parse_url demo_config_libs) demo_env
     = Ok \<lparr>ps_api_key = ''k'', ps_base_url = ''http://localhost''\<rparr>"
  by (simp add: provider_from_env_def demo_env_def is_blank_def demo_trims validate_provider_url_def
      demo_config_libs_def demo_url_def trim_end_slashes_def)

lemma show_3000: "show_nat 3000 = ''3000''"
  by (simp add: show_nat.simps digit_char_def char_of_def bit_iff_odd)

lemma demo_server:
  "server_try_from_source (cl_parse_socket demo_config_libs) demo_env
     = Ok \<lparr>sc_bind_address = ''0.0.0.0:3000'', sc_shutdown_timeout_secs = 30\<rparr>"
  by (simp add: server_try_from_source_def demo_env_def parse_u64_def demo_trims is_ascii_digit_def
      decimal_value_def demo_config_libs_def b_shutdown_timeout_secs_def show_3000)

lemma demo_settings_load: "from_catalog_path demo_config_libs ''f'' demo_env = Ok demo_settings"
proof -
  have c: "apply_limit_to_routes rev demo_catalog (pl_max_fallback_targets demo_limits) = Ok demo_catalog"
    by (subst apply_limit_to_routes_Ok [OF iterates_rev demo_catalog_wf])
      (simp add: demo_catalog_def catalog_of_raw_def hash_iter_def route_of_raw_def
        demo_raw_route_def demo_limits_def)
  have l: "limits_from_raw None = Ok demo_limits"
    using documented_defaults_are by (simp add: documented_defaults_def)
  obtain p where p: "parse_catalog demo_reader rev ''doc'' = Ok p"
    and pc: "pc_catalog p = demo_catalog" "pc_raw_limits p = None"
    by (rule that [OF demo_parse_catalog]) (simp_all add: demo_catalog_def catalog_of_raw_def)
  have files: "cl_read_to_string demo_config_libs ''f'' = Some ''doc''"
    "cl_reader demo_config_libs = demo_reader" "cl_hash_order demo_config_libs = rev"
    by (simp_all add: demo_config_libs_def)
  have "build_provider_http_client demo_config_libs demo_settings
      = Ok \<lparr>hc_timeout = from_millis 10000, hc_no_proxy = True\<rparr>"
    by (simp add: build_provider_http_client_def build_bounded_http_client_for_base_url_def
        build_client_def demo_settings_def demo_limits_def base_url_is_loopback_def
        demo_config_libs_def demo_url_def)
  then show ?thesis
    unfolding from_catalog_path_def files ok_or_simps and_then_simps p pc l demo_overrides c
      demo_provider demo_server Let_def demo_settings_def
    by simp
qed

theorem loaded_settings_are_valid_witness:
  "settings_wf demo_settings \<and> 0 < pl_max_attempt_timeout (st_limits demo_settings)
    \<and> is_ok (build_provider_http_client demo_config_libs demo_settings)"
  by (rule loaded_settings_are_valid [OF demo_libs_laws demo_settings_load])

text \<open>
  C19. On a validated catalog, route selection has exactly two outcomes: an unknown route name is the
  client's error, and otherwise the plan is the flat chain of the route's targets, primary first, each
  once, with the fallbacks left out exactly on opt-out, and every hop carries the model and the output
  cap of its own target. The internal orchestration error cannot occur.
\<close>

theorem route_selection_is_total:
  assumes wf: "catalog_wf c"
  shows "(case resolve_route c requested allow of
       Inl e \<Rightarrow> e = IngressInvalidRequest ''Unknown route''
               \<and> (\<exists>name. requested = Some name \<and> map_of (cat_routes c) name = None)
     | Inr r \<Rightarrow>
         (\<exists>ro. map_of (cat_routes c) (rr_route_id r) = Some ro
            \<and> rr_route_id r = (case requested of Some name \<Rightarrow> name | None \<Rightarrow> cat_default_route c)
            \<and> map target_id (rr_plan r # fallback_plans (rr_plan r))
                = ro_primary ro # (if allow = Some False then [] else ro_fallbacks ro))
         \<and> rr_target_id r = target_id (rr_plan r)
         \<and> rr_max_output_tokens r = max_output_tokens (rr_plan r)
         \<and> distinct (map target_id (rr_plan r # fallback_plans (rr_plan r)))
         \<and> list_all (\<lambda>h. fallback_plans h = []) (fallback_plans (rr_plan r))
         \<and> list_all (\<lambda>h. \<exists>t. map_of (cat_targets c) (target_id h) = Some t
              \<and> vendor_id h = ''openai'' \<and> model_id h = tg_model t
              \<and> max_output_tokens h = tg_max_output_tokens t) (rr_plan r # fallback_plans (rr_plan r)))"
proof (cases "chosen_route c requested")
  case None
  then show ?thesis
    by (simp add: resolve_route_eq [OF wf])
      (use wf None in \<open>auto simp: chosen_route_def catalog_wf_def split: option.splits if_splits\<close>)
next
  case (Some i)
  note i = chosen_route_Some [OF wf Some]
  from i(1) obtain ro where ro: "map_of (cat_routes c) i = Some ro" by blast
  let ?r = "resolved c i ro allow"
  have chain: "distinct (ro_primary ro # ro_fallbacks ro)"
    using catalog_wf_routes(2) [OF wf ro] by (simp add: route_wf_def Let_def)
  have flat: "list_all (\<lambda>h. fallback_plans h = []) (fallback_plans (rr_plan ?r))"
    by (simp add: resolved_def Let_def plan_for_target_def hop_of_def list_all_iff)
  have hops: "list_all (\<lambda>h. \<exists>t. map_of (cat_targets c) (target_id h) = Some t
      \<and> vendor_id h = ''openai'' \<and> model_id h = tg_model t
      \<and> max_output_tokens h = tg_max_output_tokens t) (rr_plan ?r # fallback_plans (rr_plan ?r))"
    unfolding list_all_iff using resolved_hop_target [OF wf ro] by blast
  have ids: "rr_route_id ?r = i" "rr_target_id ?r = target_id (rr_plan ?r)"
    "rr_max_output_tokens ?r = max_output_tokens (rr_plan ?r)"
    by (simp_all add: resolved_def Let_def plan_for_target_def)
  have res: "resolve_route c requested allow = Ok ?r"
    by (simp add: resolve_route_eq [OF wf] Some ro)
  have d: "distinct (map target_id (rr_plan ?r # fallback_plans (rr_plan ?r)))"
    using chain unfolding resolved_hops by simp
  show ?thesis
    unfolding res sum.case ids(1)
    by (intro conjI exI [of _ ro] ro i(2) resolved_hops ids(2,3) d flat hops)
qed

theorem route_selection_is_total_witness:
  "\<exists>r. resolve_route demo_catalog None None = Ok r
     \<and> distinct (map target_id (rr_plan r # fallback_plans (rr_plan r)))"
  using route_selection_is_total [OF demo_catalog_wf, of None None]
  by (cases "resolve_route demo_catalog None None") (auto simp del: list.map)

text \<open>
  C39. Every hop of a plan resolved on loaded settings can be served by the executor built from the same
  settings: its vendor is registered, its model is supported, and its own configured prices are found
  for every token usage, so that a cost is always computed and is a finite nonnegative number. A
  request therefore never fails with an unsupported vendor or model, or with a missing price.
\<close>

theorem resolved_hops_can_be_served:
  assumes ord: "iterates ord" and wf: "settings_wf s"
    and r: "resolve_route (st_catalog s) requested allow = Ok r"
    and vs: "repository_from_config client_builds (xc_openai (executor_config_from_settings ord s)) = Ok vs"
    and h: "h \<in> set (rr_plan r # fallback_plans (rr_plan r))"
    and m: "0 \<le> m" "m \<le> i64_max" and n: "0 \<le> n" "n \<le> i64_max"
  shows "\<exists>oc t c. get_vendor vs (vendor_id h) = Ok oc \<and> supports_model oc (model_id h)
     \<and> map_of (cat_targets (st_catalog s)) (target_id h) = Some t
     \<and> oc_pricing oc (target_id h) = Some (pricing_of_target t)
     \<and> calculate_cost oc m n (target_id h) = Ok c \<and> f64_is_finite c \<and> f64_nonneg c"
proof -
  have cwf: "catalog_wf (st_catalog s)" using wf by (simp add: settings_wf_def)
  obtain t where t: "map_of (cat_targets (st_catalog s)) (target_id h) = Some t"
    and v: "vendor_id h = ''openai''" "model_id h = tg_model t"
    using resolve_route_OkD [OF cwf r] resolved_hop_target [OF cwf] h by metis
  obtain oc where oc: "xc_openai (executor_config_from_settings ord s) = Some oc"
    and g: "get_vendor vs ''openai'' = Ok oc"
    using vs by (auto simp: repository_from_config_def openai_vendor_new_def get_vendor_def
        and_then_Inr_iff split: option.splits if_splits)
  have p: "oc_pricing oc (target_id h) = Some (pricing_of_target t)"
    using executor_config_pricing [OF ord cwf oc] t by simp
  have "bounded_by (input_per_million (pricing_of_target t)) 1000000"
    "bounded_by (output_per_million (pricing_of_target t)) 1000000"
    using catalog_wf_targets(2) [OF cwf t]
    by (simp_all add: target_wf_def pricing_of_target_def model_pricing_new_def)
  from priced_cost [OF m n this] obtain c
    where "calculate_cost oc m n (target_id h) = Ok c" "bounded_by c (2 ^ 110)"
    by (auto simp: calculate_cost_def p)
  moreover from this have "f64_is_finite c \<and> f64_nonneg c"
    by (cases c) (simp_all add: bounded_by_def)
  ultimately show ?thesis
    using g executor_config_models [OF ord cwf oc t] t p v by auto
qed

lemma demo_executor: "\<exists>vs. repository_from_config (\<lambda>_. True)
    (xc_openai (executor_config_from_settings rev demo_settings)) = Ok vs"
  by (simp add: repository_from_config_def openai_vendor_new_def executor_config_from_settings_def
      Let_def demo_settings_def demo_trims)

lemma demo_settings_wf: "settings_wf demo_settings"
  using demo_catalog_wf limits_from_raw_in_range [of None demo_limits] documented_defaults_are
  by (simp add: settings_wf_def demo_settings_def documented_defaults_def is_blank_def demo_trims
      in_bound_def b_shutdown_timeout_secs_def)
    (simp add: demo_catalog_def catalog_of_raw_def hash_iter_def route_of_raw_def
        demo_raw_route_def demo_limits_def)

theorem resolved_hops_can_be_served_witness:
  "\<exists>vs r oc c. resolve_route demo_catalog None None = Ok r
     \<and> get_vendor vs (vendor_id (rr_plan r)) = Ok oc \<and> supports_model oc (model_id (rr_plan r))
     \<and> calculate_cost oc 10 20 (target_id (rr_plan r)) = Ok c \<and> f64_is_finite c"
proof -
  obtain vs where vs: "repository_from_config (\<lambda>_. True)
      (xc_openai (executor_config_from_settings rev demo_settings)) = Ok vs"
    using demo_executor by blast
  obtain r where r: "resolve_route (st_catalog demo_settings) None None = Ok r"
    using resolve_route_eq [OF demo_catalog_wf, of None None]
    by (simp add: demo_settings_def chosen_route_def)
  from resolved_hops_can_be_served [OF iterates_rev demo_settings_wf r vs, of "rr_plan r" 10 20]
  show ?thesis using r by (auto simp: demo_settings_def)
qed

end
