(* ===== verification/Admission.thy ===== *)
theory Admission
  imports Gateway_Prelude
begin

text \<open>
  \<open>core/admission.rs\<close> and the drain state of \<open>core/lifecycle.rs\<close>. The semaphore is the async
  runtime's: its operations are the fields of \<open>semaphore_ops\<close>, and \<open>semaphore_laws\<close> is its documented
  behaviour. A held permit is returned once, by its drop. \<open>mark_draining\<close> is two atomic actions, in
  the order of the code: the limiter is closed, then the flag is published; other tasks may act in
  between, which the step relation \<open>adm_step\<close> lets them do.
\<close>

section \<open>The limiter\<close>

datatype try_acquire_error = SemClosed | SemNoPermits

record 's semaphore_ops =
  so_new :: "nat \<Rightarrow> 's"
  so_try_acquire_owned :: "'s \<Rightarrow> try_acquire_error + 's"
  so_release :: "'s \<Rightarrow> 's"
  so_close :: "'s \<Rightarrow> 's"
  so_available :: "'s \<Rightarrow> nat"
  so_closed :: "'s \<Rightarrow> bool"

definition semaphore_laws :: "'s semaphore_ops \<Rightarrow> bool" where
  "semaphore_laws S \<longleftrightarrow>
     (\<forall>n. so_available S (so_new S n) = n \<and> \<not> so_closed S (so_new S n))
     \<and> (\<forall>s. so_try_acquire_owned S s = Inl SemClosed \<longleftrightarrow> so_closed S s)
     \<and> (\<forall>s. so_try_acquire_owned S s = Inl SemNoPermits \<longleftrightarrow> \<not> so_closed S s \<and> so_available S s = 0)
     \<and> (\<forall>s s'. so_try_acquire_owned S s = Inr s' \<longrightarrow>
          so_available S s = Suc (so_available S s') \<and> \<not> so_closed S s')
     \<and> (\<forall>s. so_available S (so_release S s) = Suc (so_available S s)
          \<and> so_closed S (so_release S s) = so_closed S s)
     \<and> (\<forall>s. so_available S (so_close S s) = so_available S s \<and> so_closed S (so_close S s))"

datatype admission_denied = AdmissionClosed | AdmissionNoPermits

definition limiter_new :: "'s semaphore_ops \<Rightarrow> nat \<Rightarrow> 's" where
  "limiter_new S max_concurrent_generations = so_new S max_concurrent_generations"

definition limiter_try_acquire :: "'s semaphore_ops \<Rightarrow> 's \<Rightarrow> admission_denied + 's" where
  "limiter_try_acquire S s =
     (case so_try_acquire_owned S s of
        Inr s' \<Rightarrow> Ok s'
      | Inl SemClosed \<Rightarrow> Err AdmissionClosed
      | Inl SemNoPermits \<Rightarrow> Err AdmissionNoPermits)"

definition limiter_close :: "'s semaphore_ops \<Rightarrow> 's \<Rightarrow> 's" where
  "limiter_close S s = so_close S s"

text \<open>Dropping a \<open>GenerationPermit\<close>.\<close>

definition permit_drop :: "'s semaphore_ops \<Rightarrow> 's \<Rightarrow> 's" where
  "permit_drop S s = so_release S s"

section \<open>Drain state\<close>

record 's shutdown_state =
  sh_draining :: bool      \<comment> \<open>the value of the watch channel\<close>
  sh_admission :: 's

definition with_admission :: "'s \<Rightarrow> 's shutdown_state" where
  "with_admission s = \<lparr>sh_draining = False, sh_admission = s\<rparr>"

definition shutdown_new :: "'s semaphore_ops \<Rightarrow> 's shutdown_state" where
  "shutdown_new S = with_admission (limiter_new S 0)"

definition mark_draining_close :: "'s semaphore_ops \<Rightarrow> 's shutdown_state \<Rightarrow> 's shutdown_state" where
  "mark_draining_close S st = st\<lparr>sh_admission := limiter_close S (sh_admission st)\<rparr>"

definition mark_draining_publish :: "'s shutdown_state \<Rightarrow> 's shutdown_state" where
  "mark_draining_publish st = st\<lparr>sh_draining := True\<rparr>"

definition mark_draining :: "'s semaphore_ops \<Rightarrow> 's shutdown_state \<Rightarrow> 's shutdown_state" where
  "mark_draining S st = mark_draining_publish (mark_draining_close S st)"

definition is_draining :: "'s shutdown_state \<Rightarrow> bool" where
  "is_draining st = sh_draining st"

section \<open>Tasks around the limiter\<close>

text \<open>
  The shared state, the number of permits that tasks hold, and the number of calls of
  \<open>mark_draining\<close> that have closed the limiter and not yet published the flag.
\<close>

record 's admission_system =
  as_state :: "'s shutdown_state"
  as_held :: nat
  as_marking :: nat

datatype adm_event =
    Acquired | Denied admission_denied | Released | Closing | Published | Observed bool

inductive adm_step ::
    "'s semaphore_ops \<Rightarrow> 's admission_system \<Rightarrow> adm_event \<Rightarrow> 's admission_system \<Rightarrow> bool"
  for S where
  acquire: "limiter_try_acquire S (sh_admission (as_state a)) = Ok s \<Longrightarrow>
     adm_step S a Acquired
       (a\<lparr>as_state := (as_state a)\<lparr>sh_admission := s\<rparr>, as_held := Suc (as_held a)\<rparr>)"
| deny: "limiter_try_acquire S (sh_admission (as_state a)) = Err d \<Longrightarrow> adm_step S a (Denied d) a"
| release: "as_held a = Suc n \<Longrightarrow>
     adm_step S a Released
       (a\<lparr>as_state := (as_state a)\<lparr>sh_admission := permit_drop S (sh_admission (as_state a))\<rparr>,
          as_held := n\<rparr>)"
| closing: "adm_step S a Closing
     (a\<lparr>as_state := mark_draining_close S (as_state a), as_marking := Suc (as_marking a)\<rparr>)"
| publish: "as_marking a = Suc n \<Longrightarrow>
     adm_step S a Published (a\<lparr>as_state := mark_draining_publish (as_state a), as_marking := n\<rparr>)"
| observe: "adm_step S a (Observed (is_draining (as_state a))) a"

inductive adm_run ::
    "'s semaphore_ops \<Rightarrow> 's admission_system \<Rightarrow> adm_event list \<Rightarrow> 's admission_system \<Rightarrow> bool"
  for S where
  run_nil: "adm_run S a [] a"
| run_step: "adm_step S a e b \<Longrightarrow> adm_run S b es c \<Longrightarrow> adm_run S a (e # es) c"

inductive_simps adm_run_simps [simp]: "adm_run S a [] c" "adm_run S a (e # es) c"
inductive_cases observeE: "adm_step S a (Observed d) b"
inductive_cases closingE: "adm_step S a Closing b"
inductive_cases denyE: "adm_step S a (Denied d) b"

definition adm_initial :: "'s semaphore_ops \<Rightarrow> nat \<Rightarrow> 's admission_system" where
  "adm_initial S n =
     \<lparr>as_state = with_admission (limiter_new S n), as_held = 0, as_marking = 0\<rparr>"

section \<open>Invariant\<close>

text \<open>Permits are conserved, and the flag or a pending publication implies that the limiter is closed.\<close>

definition adm_inv :: "'s semaphore_ops \<Rightarrow> nat \<Rightarrow> 's admission_system \<Rightarrow> bool" where
  "adm_inv S n a \<longleftrightarrow>
     as_held a + so_available S (sh_admission (as_state a)) = n
     \<and> (sh_draining (as_state a) \<or> 0 < as_marking a \<longrightarrow> so_closed S (sh_admission (as_state a)))"

lemma semaphore_lawsD:
  assumes "semaphore_laws S"
  shows "so_available S (so_new S n) = n" "\<not> so_closed S (so_new S n)"
    "so_try_acquire_owned S s = Inl SemClosed \<longleftrightarrow> so_closed S s"
    "so_try_acquire_owned S s = Inl SemNoPermits \<longleftrightarrow> \<not> so_closed S s \<and> so_available S s = 0"
    "so_try_acquire_owned S s = Inr s' \<Longrightarrow> so_available S s = Suc (so_available S s') \<and> \<not> so_closed S s'"
    "so_available S (so_release S s) = Suc (so_available S s)"
    "so_closed S (so_release S s) = so_closed S s"
    "so_available S (so_close S s) = so_available S s" "so_closed S (so_close S s)"
  using assms unfolding semaphore_laws_def by blast+

lemma limiter_try_acquire_cases:
  assumes "semaphore_laws S"
  shows "limiter_try_acquire S s = Err AdmissionClosed \<longleftrightarrow> so_closed S s"
    "limiter_try_acquire S s = Err AdmissionNoPermits \<longleftrightarrow> \<not> so_closed S s \<and> so_available S s = 0"
    "limiter_try_acquire S s = Ok s' \<Longrightarrow>
       \<not> so_closed S s \<and> so_available S s = Suc (so_available S s') \<and> \<not> so_closed S s'"
  using semaphore_lawsD(3-5) [OF assms, of s]
  by (auto simp: limiter_try_acquire_def split: sum.splits try_acquire_error.splits)

lemma adm_initial_inv: "semaphore_laws S \<Longrightarrow> adm_inv S n (adm_initial S n)"
  by (simp add: adm_inv_def adm_initial_def with_admission_def limiter_new_def semaphore_lawsD(1,2))

lemma adm_step_inv:
  assumes L: "semaphore_laws S" and i: "adm_inv S n a" and s: "adm_step S a e b"
  shows "adm_inv S n b"
  using s i
  by cases (auto simp: adm_inv_def permit_drop_def mark_draining_close_def mark_draining_publish_def
      limiter_close_def semaphore_lawsD(6-9) [OF L] dest!: limiter_try_acquire_cases(3) [OF L])

lemma adm_step_closed:
  assumes L: "semaphore_laws S" and s: "adm_step S a e b" and c: "so_closed S (sh_admission (as_state a))"
  shows "so_closed S (sh_admission (as_state b)) \<and> e \<noteq> Acquired \<and> e \<noteq> Denied AdmissionNoPermits"
  using s c
  by cases (auto simp: limiter_try_acquire_cases(2) [OF L] permit_drop_def mark_draining_close_def mark_draining_publish_def
      limiter_close_def semaphore_lawsD(6-9) [OF L] dest!: limiter_try_acquire_cases(3) [OF L])

lemma adm_run_inv:
  "adm_run S a es b \<Longrightarrow> semaphore_laws S \<Longrightarrow> adm_inv S n a \<Longrightarrow> adm_inv S n b"
  by (induction rule: adm_run.induct) (blast intro: adm_step_inv)+

lemma adm_run_closed:
  "adm_run S a es b \<Longrightarrow> semaphore_laws S \<Longrightarrow> so_closed S (sh_admission (as_state a)) \<Longrightarrow>
     Acquired \<notin> set es \<and> Denied AdmissionNoPermits \<notin> set es"
  by (induction rule: adm_run.induct) (auto dest: adm_step_closed)

lemma adm_run_append:
  "adm_run S a (es @ fs) c \<longleftrightarrow> (\<exists>b. adm_run S a es b \<and> adm_run S b fs c)"
  by (induction es arbitrary: a) auto

section \<open>Properties\<close>

text \<open>A counting semaphore, on which the witnesses run.\<close>

definition counting_semaphore :: "(nat \<times> bool) semaphore_ops" where
  "counting_semaphore =
     \<lparr>so_new = (\<lambda>n. (n, False)),
      so_try_acquire_owned = (\<lambda>(n, c). if c then Inl SemClosed else if n = 0 then Inl SemNoPermits
                                       else Inr (n - 1, False)),
      so_release = (\<lambda>(n, c). (Suc n, c)), so_close = (\<lambda>(n, c). (n, True)),
      so_available = fst, so_closed = snd\<rparr>"

lemma counting_semaphore_laws: "semaphore_laws counting_semaphore"
  by (auto simp: semaphore_laws_def counting_semaphore_def)

text \<open>
  C12. However the tasks interleave, the generations admitted and not yet finished never exceed the
  configured maximum, no permit is lost, and a request is refused as saturated only when every permit is
  held.
\<close>

theorem admission_is_bounded:
  assumes "semaphore_laws S" and run: "adm_run S (adm_initial S n) es b"
  shows "as_held b \<le> n \<and> as_held b + so_available S (sh_admission (as_state b)) = n
    \<and> (\<forall>c. adm_step S b (Denied AdmissionNoPermits) c \<longrightarrow> as_held b = n)"
proof -
  have "adm_inv S n b" by (rule adm_run_inv [OF run assms(1) adm_initial_inv [OF assms(1)]])
  then have e: "as_held b + so_available S (sh_admission (as_state b)) = n" by (simp add: adm_inv_def)
  then show ?thesis
    using limiter_try_acquire_cases(2) [OF assms(1)] by (auto elim!: denyE)
qed

theorem admission_is_bounded_witness:
  "\<exists>b. adm_run counting_semaphore (adm_initial counting_semaphore 1) [Acquired] b \<and> as_held b = 1
     \<and> as_held b + so_available counting_semaphore (sh_admission (as_state b)) = 1"
proof -
  have "\<exists>b. adm_run counting_semaphore (adm_initial counting_semaphore 1) [Acquired] b \<and> as_held b = 1"
    by (intro exI conjI, simp, rule adm_step.acquire)
      (simp_all add: adm_initial_def with_admission_def limiter_new_def limiter_try_acquire_def
        counting_semaphore_def)
  then show ?thesis using admission_is_bounded [OF counting_semaphore_laws] by blast
qed

text \<open>
  C13. Draining is final: once a drain has closed the limiter, and so once any task has seen the process
  draining, no generation is admitted again, whatever permits are released later; every later attempt is
  refused as closed.
\<close>

theorem draining_is_final:
  assumes L: "semaphore_laws S"
    and run: "adm_run S (adm_initial S n) (es @ e # fs) b"
    and e: "e = Closing \<or> e = Observed True"
  shows "Acquired \<notin> set fs \<and> Denied AdmissionNoPermits \<notin> set fs"
proof -
  obtain a1 a2 where r1: "adm_run S (adm_initial S n) es a1" and st: "adm_step S a1 e a2"
    and r2: "adm_run S a2 fs b"
    using run unfolding adm_run_append by auto
  have i1: "adm_inv S n a1" by (rule adm_run_inv [OF r1 L adm_initial_inv [OF L]])
  have "so_closed S (sh_admission (as_state a2))"
    using st e i1
    by (auto elim!: closingE observeE simp: mark_draining_close_def limiter_close_def is_draining_def
        adm_inv_def semaphore_lawsD(6-9) [OF L])
  from adm_run_closed [OF r2 L this] show ?thesis .
qed

theorem draining_is_final_witness:
  "\<exists>b. adm_run counting_semaphore (adm_initial counting_semaphore 1)
       ([] @ Closing # [Denied AdmissionClosed]) b
     \<and> Acquired \<notin> set [Denied AdmissionClosed]"
proof -
  have "\<exists>b. adm_run counting_semaphore (adm_initial counting_semaphore 1)
       ([] @ Closing # [Denied AdmissionClosed]) b"
    by (simp, intro exI conjI, rule adm_step.closing, rule adm_step.deny)
      (simp add: adm_initial_def with_admission_def limiter_new_def limiter_try_acquire_def
        counting_semaphore_def mark_draining_close_def limiter_close_def)
  then show ?thesis using draining_is_final [OF counting_semaphore_laws] by blast
qed

end
