(* ===== verification/Auth_Models.thy ===== *)
theory Auth_Models
  imports Gateway_Prelude
begin

text \<open>
  \<open>features/auth/persist/models.rs\<close>, \<open>features/auth/persist/error.rs\<close> and \<open>features/auth/models.rs\<close>: the
  persisted authentication data, the store's errors, and the authenticated context. A UUID is its
  canonical text, whose order is the order of the UUIDs; a UTC timestamp is a number of microseconds,
  the resolution of the column every timestamp of the code is bound to or read from; a digest is its
  bytes.
\<close>

type_synonym uuid = string
type_synonym timestamp = int
type_synonym key_digest = string

abbreviation key_digest_len :: nat where "key_digest_len \<equiv> 32"
abbreviation max_key_list_limit :: int where "max_key_list_limit \<equiv> 100"

section \<open>Store errors\<close>

text \<open>
  The driver's error as the code inspects it: a database error with its SQLSTATE and constraint, or
  another variant.
\<close>

datatype sqlx_error =
    SqlDatabase (sql_code: "string option") (sql_constraint: "string option")
  | SqlPoolTimedOut | SqlPoolClosed | SqlIo | SqlTls | SqlProtocol | SqlConfiguration | SqlDecode
  | SqlOther

datatype auth_store_error =
    AsUnavailable | AsDuplicateClient | AsDuplicateDigest | AsDuplicateDisplayId | AsUnknownClient
  | AsCheckViolation | AsPermissionDenied | AsInvalidLimit | AsInvalidDigestLength | AsConflict

fun from_sqlx :: "sqlx_error \<Rightarrow> auth_store_error" where
  "from_sqlx (SqlDatabase code cons) =
     (if code = Some ''23505''
      then (if cons = Some ''clients_pkey'' then AsDuplicateClient
            else if cons = Some ''api_keys_key_digest_key'' then AsDuplicateDigest
            else if cons = Some ''api_keys_display_id_key'' then AsDuplicateDisplayId
            else AsConflict)
      else if code = Some ''23503'' then AsUnknownClient
      else if code = Some ''23514'' \<or> code = Some ''23000'' \<or> code = Some ''P0001''
      then AsCheckViolation
      else if code = Some ''42501'' then AsPermissionDenied
      else AsUnavailable)"
| "from_sqlx SqlPoolTimedOut = AsUnavailable"
| "from_sqlx SqlPoolClosed = AsUnavailable"
| "from_sqlx SqlIo = AsUnavailable"
| "from_sqlx SqlTls = AsUnavailable"
| "from_sqlx SqlProtocol = AsUnavailable"
| "from_sqlx SqlConfiguration = AsUnavailable"
| "from_sqlx SqlDecode = AsUnavailable"
| "from_sqlx SqlOther = AsUnavailable"

section \<open>Persisted data\<close>

datatype api_key_kind = Management | Inference

fun kind_as_str :: "api_key_kind \<Rightarrow> string" where
  "kind_as_str Management = ''management''"
| "kind_as_str Inference = ''inference''"

definition kind_parse :: "string \<Rightarrow> sqlx_error + api_key_kind" where
  "kind_parse raw =
     (if raw = ''management'' then Ok Management
      else if raw = ''inference'' then Ok Inference else Err SqlDecode)"

definition digest_from_slice :: "string \<Rightarrow> auth_store_error + key_digest" where
  "digest_from_slice bytes =
     (if length bytes = key_digest_len then Ok bytes else Err AsInvalidDigestLength)"

record new_client =
  nc_id :: uuid
  nc_display_name :: string
  nc_created_at :: timestamp

record new_api_key =
  nk_id :: uuid
  nk_client_id :: uuid
  nk_digest :: key_digest
  nk_display_id :: string
  nk_name :: string
  nk_kind :: api_key_kind
  nk_created_at :: timestamp

record client_record =
  cr_id :: uuid
  cr_display_name :: string
  cr_created_at :: timestamp

record api_key_record =
  kr_id :: uuid
  kr_client_id :: uuid
  kr_digest :: key_digest
  kr_display_id :: string
  kr_name :: string
  kr_kind :: api_key_kind
  kr_created_at :: timestamp
  kr_last_used_at :: "timestamp option"
  kr_revoked_at :: "timestamp option"

definition is_revoked :: "api_key_record \<Rightarrow> bool" where
  "is_revoked r \<longleftrightarrow> kr_revoked_at r \<noteq> None"

datatype revoke_outcome = Revoked api_key_record | AlreadyRevoked api_key_record | RevokeNotFound

section \<open>Public data\<close>

record auth_context =
  au_client_id :: uuid
  au_key_id :: uuid
  au_kind :: api_key_kind

record api_key_metadata =
  md_client_id :: uuid
  md_key_id :: uuid
  md_display_id :: string
  md_name :: string
  md_kind :: string
  md_created_at :: timestamp
  md_last_used_at :: "timestamp option"
  md_revoked_at :: "timestamp option"

definition metadata_of_record :: "api_key_record \<Rightarrow> api_key_metadata" where
  "metadata_of_record r =
     \<lparr>md_client_id = kr_client_id r, md_key_id = kr_id r, md_display_id = kr_display_id r,
      md_name = kr_name r, md_kind = kind_as_str (kr_kind r), md_created_at = kr_created_at r,
      md_last_used_at = kr_last_used_at r, md_revoked_at = kr_revoked_at r\<rparr>"

record key_list_options =
  lo_limit :: int
  lo_offset :: int
  lo_kind :: "api_key_kind option"

definition key_list_options_default :: key_list_options where
  "key_list_options_default = \<lparr>lo_limit = max_key_list_limit, lo_offset = 0, lo_kind = None\<rparr>"

record key_inventory =
  ki_keys :: "api_key_metadata list"
  ki_has_more :: bool

section \<open>Facts\<close>

lemma kind_round_trip [simp]: "kind_parse (kind_as_str k) = Ok k"
  by (cases k) (simp_all add: kind_parse_def)

lemma kind_parse_Ok_iff: "kind_parse s = Ok k \<longleftrightarrow> s = kind_as_str k"
  by (cases k) (auto simp: kind_parse_def)

lemma kind_as_str_inj [simp]: "kind_as_str a = kind_as_str b \<longleftrightarrow> a = b"
  by (cases a; cases b) simp_all

lemma digest_from_slice_Ok_iff: "digest_from_slice b = Ok d \<longleftrightarrow> d = b \<and> length b = key_digest_len"
  by (auto simp: digest_from_slice_def)

lemma metadata_of_record_simps [simp]:
  "md_client_id (metadata_of_record r) = kr_client_id r" "md_key_id (metadata_of_record r) = kr_id r"
  "md_revoked_at (metadata_of_record r) = kr_revoked_at r"
  by (simp_all add: metadata_of_record_def)

end
