(* ===== verification/Ingress_Service.thy ===== *)
theory Ingress_Service
  imports Ingress_Routing Settings Admission Auth_Models
begin

text \<open>
  \<open>features/ingress/validate.rs\<close>, \<open>service.rs\<close>, \<open>repository.rs\<close> and \<open>handler.rs\<close>: validation of the body,
  the provider payload, execution, and the generation handler with its admission permit. The size of
  the serialized metadata comes from the JSON library's \<open>to_vec\<close>, an argument. While a request runs,
  other tasks use the limiter: what they did to it by the time the permit is dropped is the argument
  \<open>meanwhile\<close>.
\<close>

section \<open>Requests\<close>

record generation_parameters =
  gp_temperature :: "json_number option"
  gp_top_p :: "json_number option"
  gp_max_tokens :: "nat option"

definition generation_parameters_default :: generation_parameters where
  "generation_parameters_default =
     \<lparr>gp_temperature = None, gp_top_p = None, gp_max_tokens = None\<rparr>"

record ingress_request =
  iq_prompt :: string
  iq_metadata :: json
  iq_route :: "string option"
  iq_allow_fallback :: "bool option"
  iq_parameters :: generation_parameters

abbreviation min_temperature :: rat where "min_temperature \<equiv> 0"
abbreviation max_temperature :: rat where "max_temperature \<equiv> 2"
abbreviation min_top_p :: rat where "min_top_p \<equiv> 0"
abbreviation max_top_p :: rat where "max_top_p \<equiv> 1"

section \<open>Validation\<close>

definition parse_prompt :: "json \<Rightarrow> ingress_error + string" where
  "parse_prompt v = ok_or (IngressInvalidRequest ''prompt must be a string'') (as_str v)"

definition parse_string_control :: "json \<Rightarrow> string \<Rightarrow> ingress_error + string" where
  "parse_string_control v field =
     ok_or (IngressInvalidRequest (field @ '' must be a string'')) (as_str v)"

definition parse_bool_control :: "json \<Rightarrow> string \<Rightarrow> ingress_error + bool" where
  "parse_bool_control v field =
     ok_or (IngressInvalidRequest (field @ '' must be a boolean'')) (as_bool v)"

text \<open>\<open>{:.1}\<close> of the bounds, which are small whole numbers.\<close>

definition show_fixed1 :: "rat \<Rightarrow> string" where
  "show_fixed1 x = show_nat (nat \<lfloor>x\<rfloor>) @ ''.'' @ show_nat (nat (\<lfloor>10 * x\<rfloor> mod 10))"

definition parse_bounded_number ::
    "json \<Rightarrow> string \<Rightarrow> rat \<Rightarrow> rat \<Rightarrow> ingress_error + json_number" where
  "parse_bounded_number v field lo hi =
     (case v of
        JNum number \<Rightarrow>
          (case number_as_f64 number of
             None \<Rightarrow> Err (IngressInvalidRequest (field @ '' must be a number''))
           | Some parsed \<Rightarrow>
               (if \<not> f64_is_finite parsed \<or> f64_less_const parsed lo \<or> f64_greater_const parsed hi
                then Err (IngressInvalidRequest
                       (field @ '' must be between '' @ show_fixed1 lo @ '' and '' @ show_fixed1 hi))
                else Ok number))
      | _ \<Rightarrow> Err (IngressInvalidRequest (field @ '' must be a number'')))"

definition parse_max_tokens :: "json \<Rightarrow> ingress_error + nat" where
  "parse_max_tokens v =
     ok_or (IngressInvalidRequest ''max_tokens must be a positive integer'')
       (case (case v of JNum number \<Rightarrow> number_as_u64 number | _ \<Rightarrow> None) of
          None \<Rightarrow> None
        | Some n \<Rightarrow> (if n \<le> u32_max \<and> 0 < n then Some n else None))"

fun parse_parameter_fields ::
    "generation_parameters \<Rightarrow> (string \<times> json) list \<Rightarrow> ingress_error + generation_parameters" where
  "parse_parameter_fields p [] = Ok p"
| "parse_parameter_fields p ((key, v) # kvs) =
     (if key = ''temperature''
      then and_then (parse_bounded_number v ''temperature'' min_temperature max_temperature) (\<lambda>n.
             parse_parameter_fields (p\<lparr>gp_temperature := Some n\<rparr>) kvs)
      else if key = ''top_p''
      then and_then (parse_bounded_number v ''top_p'' min_top_p max_top_p) (\<lambda>n.
             parse_parameter_fields (p\<lparr>gp_top_p := Some n\<rparr>) kvs)
      else if key = ''max_tokens''
      then and_then (parse_max_tokens v) (\<lambda>n.
             parse_parameter_fields (p\<lparr>gp_max_tokens := Some n\<rparr>) kvs)
      else Err (IngressInvalidRequest ''unknown parameter''))"

definition parse_parameters :: "json \<Rightarrow> ingress_error + generation_parameters" where
  "parse_parameters v =
     and_then (ok_or (IngressInvalidRequest ''parameters must be an object'') (as_object v))
       (parse_parameter_fields generation_parameters_default)"

text \<open>The mutable locals of the field loop.\<close>

record ingress_fields =
  if_prompt :: "string option"
  if_metadata :: "json option"
  if_route :: "string option"
  if_allow_fallback :: "bool option"
  if_parameters :: generation_parameters

definition ingress_fields_empty :: ingress_fields where
  "ingress_fields_empty =
     \<lparr>if_prompt = None, if_metadata = None, if_route = None, if_allow_fallback = None,
      if_parameters = generation_parameters_default\<rparr>"

fun parse_fields :: "ingress_fields \<Rightarrow> (string \<times> json) list \<Rightarrow> ingress_error + ingress_fields" where
  "parse_fields f [] = Ok f"
| "parse_fields f ((key, v) # kvs) =
     (if key = ''prompt''
      then and_then (parse_prompt v) (\<lambda>x. parse_fields (f\<lparr>if_prompt := Some x\<rparr>) kvs)
      else if key = ''metadata'' then parse_fields (f\<lparr>if_metadata := Some v\<rparr>) kvs
      else if key = ''route''
      then and_then (parse_string_control v ''route'') (\<lambda>x. parse_fields (f\<lparr>if_route := Some x\<rparr>) kvs)
      else if key = ''allow_fallback''
      then and_then (parse_bool_control v ''allow_fallback'') (\<lambda>x.
             parse_fields (f\<lparr>if_allow_fallback := Some x\<rparr>) kvs)
      else if key = ''parameters''
      then and_then (parse_parameters v) (\<lambda>x. parse_fields (f\<lparr>if_parameters := x\<rparr>) kvs)
      else if key = ''stream'' then Err (IngressInvalidRequest ''stream is not supported'')
      else if key = ''rewrite'' then Err (IngressInvalidRequest ''rewrite is not supported'')
      else Err (IngressInvalidRequest ''unknown control''))"

definition validate_prompt_bounds :: "string \<Rightarrow> policy_limits \<Rightarrow> ingress_error + unit" where
  "validate_prompt_bounds prompt limits =
     (if str_trim prompt = [] then Err (IngressInvalidRequest ''Prompt cannot be empty'')
      else if pl_max_prompt_chars limits < char_count prompt
      then Err (IngressInvalidRequest (''Prompt exceeds maximum length of ''
                  @ show_nat (pl_max_prompt_chars limits) @ '' characters''))
      else if pl_max_prompt_chars limits < length prompt
      then Err (IngressInvalidRequest (''Prompt exceeds maximum size of ''
                  @ show_nat (pl_max_prompt_chars limits) @ '' bytes''))
      else Ok ())"

definition validate_metadata_size ::
    "(json \<Rightarrow> string option) \<Rightarrow> json \<Rightarrow> policy_limits \<Rightarrow> ingress_error + unit" where
  "validate_metadata_size to_vec metadata limits =
     (let size = (case to_vec metadata of Some bytes \<Rightarrow> length bytes | None \<Rightarrow> u64_max)
      in if pl_max_metadata_bytes limits < size
         then Err (IngressInvalidRequest (''Metadata exceeds maximum size of ''
                     @ show_nat (pl_max_metadata_bytes limits) @ '' bytes''))
         else Ok ())"

definition parse_ingress_request ::
    "(json \<Rightarrow> string option) \<Rightarrow> json \<Rightarrow> policy_limits \<Rightarrow> ingress_error + ingress_request" where
  "parse_ingress_request to_vec body limits =
     and_then (ok_or (IngressInvalidRequest ''request must be a JSON object'') (as_object body)) (\<lambda>kvs.
     and_then (parse_fields ingress_fields_empty kvs) (\<lambda>f.
     and_then (ok_or (IngressInvalidRequest ''prompt is required'') (if_prompt f)) (\<lambda>prompt.
     and_then (ok_or (IngressInvalidRequest ''metadata is required'') (if_metadata f)) (\<lambda>metadata.
     and_then (validate_prompt_bounds prompt limits) (\<lambda>_.
     and_then (validate_metadata_size to_vec metadata limits) (\<lambda>_.
       Ok \<lparr>iq_prompt = prompt, iq_metadata = metadata, iq_route = if_route f,
           iq_allow_fallback = if_allow_fallback f, iq_parameters = if_parameters f\<rparr>))))))"

section \<open>Processing\<close>

record ai_response =
  ar_content :: string
  ar_role :: string
  ar_finish_reason :: "string option"

record token_usage =
  tu_prompt_tokens :: int
  tu_completion_tokens :: int

record ingress_response =
  ir_response :: ai_response
  ir_model_used :: string
  ir_cost :: f64
  ir_processing_time_ms :: nat
  ir_usage :: token_usage

text \<open>\<open>payload[key] = value\<close> on an object.\<close>

fun json_set :: "string \<Rightarrow> json \<Rightarrow> json \<Rightarrow> json" where
  "json_set k v (JObj kvs) = JObj (AList.update k v kvs)"
| "json_set k v j = j"

definition build_payload :: "ingress_request \<Rightarrow> resolved_route \<Rightarrow> json" where
  "build_payload rq rr =
     (let ps = iq_parameters rq;
          max_tokens = (case gp_max_tokens ps of Some n \<Rightarrow> n | None \<Rightarrow> rr_max_output_tokens rr);
          payload = JObj [(''max_tokens'', JNum (PosInt max_tokens)),
            (''messages'', JArr [JObj [(''content'', JStr (iq_prompt rq)), (''role'', JStr ''user'')]])];
          payload1 = (case gp_temperature ps of
                        Some t \<Rightarrow> json_set ''temperature'' (JNum t) payload | None \<Rightarrow> payload)
      in case gp_top_p ps of
           Some t \<Rightarrow> json_set ''top_p'' (JNum t) payload1 | None \<Rightarrow> payload1)"

definition execute_llm_call ::
    "service \<Rightarrow> route_plan \<Rightarrow> json \<Rightarrow> request_deadline \<Rightarrow> world
      \<Rightarrow> (ingress_error + execution_result) \<times> world" where
  "execute_llm_call sv plan payload dl w =
     (case execute sv plan payload dl w of (r, w') \<Rightarrow> (map_err IngressExecutionFailed r, w'))"

definition ingress_response_of :: "execution_result \<Rightarrow> nat \<Rightarrow> ingress_response" where
  "ingress_response_of r ms =
     \<lparr>ir_response = \<lparr>ar_content = er_content r, ar_role = er_role r,
                     ar_finish_reason = Some (er_finish_reason r)\<rparr>,
      ir_model_used = er_model_used r, ir_cost = er_total_cost r, ir_processing_time_ms = ms,
      ir_usage = \<lparr>tu_prompt_tokens = er_prompt_tokens r,
                  tu_completion_tokens = er_completion_tokens r\<rparr>\<rparr>"

definition process_request ::
    "service \<Rightarrow> catalog \<Rightarrow> ingress_request \<Rightarrow> request_deadline \<Rightarrow> world
      \<Rightarrow> (ingress_error + ingress_response) \<times> world" where
  "process_request sv c rq dl w =
     (case read_clock w of (t, w1) \<Rightarrow>
      (if is_expired dl t then (Err (IngressExecutionFailed ExecDeadlineExceeded), w1)
       else
         (case read_clock w1 of (start, w2) \<Rightarrow>
          (case resolve_route c (iq_route rq) (iq_allow_fallback rq) of
             Inl e \<Rightarrow> (Err e, w2)
           | Inr rr \<Rightarrow>
               (if (case gp_max_tokens (iq_parameters rq) of
                      Some n \<Rightarrow> rr_max_output_tokens rr < n | None \<Rightarrow> False)
                then (Err (IngressInvalidRequest
                        ''max_tokens exceeds the selected target's max_output_tokens''), w2)
                else
                  (case execute_llm_call sv (rr_plan rr) (build_payload rq rr) dl w2 of
                     (Inl e, w3) \<Rightarrow> (Err e, w3)
                   | (Inr r, w3) \<Rightarrow>
                       (case read_clock w3 of (t2, w4) \<Rightarrow>
                          (Ok (ingress_response_of r (as_millis (t2 - start) mod 2 ^ 64)), w4))))))))"

section \<open>The handler\<close>

text \<open>The permit is dropped on every path out of the handler after its acquisition.\<close>

definition ingress_handler ::
    "'s semaphore_ops \<Rightarrow> (json \<Rightarrow> string option) \<Rightarrow> service \<Rightarrow> 'addr settings \<Rightarrow> ('s \<Rightarrow> 's)
      \<Rightarrow> auth_context \<Rightarrow> request_deadline \<Rightarrow> json \<Rightarrow> 's \<times> world
      \<Rightarrow> (ingress_error + ingress_response) \<times> 's \<times> world" where
  "ingress_handler S to_vec sv st meanwhile au dl body s_w =
     (case s_w of (s, w) \<Rightarrow>
      (if au_kind au \<noteq> Inference then (Err IngressAuthorizationFailed, s, w)
       else
         (case parse_ingress_request to_vec body (st_limits st) of
            Inl e \<Rightarrow> (Err e, s, w)
          | Inr rq \<Rightarrow>
              (case limiter_try_acquire S s of
                 Inl AdmissionClosed \<Rightarrow> (Err IngressDraining, s, w)
               | Inl AdmissionNoPermits \<Rightarrow>
                   (Err IngressOverloaded, s, emit record_overload_rejected w)
               | Inr s' \<Rightarrow>
                   (case process_request sv (st_catalog st) rq dl w of
                      (r, w') \<Rightarrow> (r, permit_drop S (meanwhile s'), w'))))))"

end
