(* ===== verification/Ingress_Lemmas.thy ===== *)
theory Ingress_Lemmas
  imports Ingress_Service
begin

text \<open>
  What an accepted request body is, field by field, and what the payload built from it means to the
  executor.
\<close>

section \<open>Accepted bodies\<close>

text \<open>A field that is absent keeps its value; a present one is converted.\<close>

definition field_read :: "('j \<Rightarrow> ingress_error + 'v) \<Rightarrow> 'j option \<Rightarrow> 'v \<Rightarrow> 'v \<Rightarrow> bool" where
  "field_read conv j old new \<longleftrightarrow> (case j of None \<Rightarrow> new = old | Some v \<Rightarrow> conv v = Ok new)"

lemma field_read_simps [simp]:
  "field_read conv None old new \<longleftrightarrow> new = old"
  "field_read conv (Some v) old new \<longleftrightarrow> conv v = Ok new"
  by (simp_all add: field_read_def)

definition some_of :: "'e + 'a \<Rightarrow> 'e + 'a option" where
  "some_of r = and_then r (\<lambda>x. Ok (Some x))"

lemma some_of_Ok: "some_of r = Ok y \<longleftrightarrow> (\<exists>x. r = Ok x \<and> y = Some x)"
  by (auto simp: some_of_def and_then_Inr_iff)

abbreviation parameter_keys :: "string set" where
  "parameter_keys \<equiv> {''temperature'', ''top_p'', ''max_tokens''}"

abbreviation control_keys :: "string set" where
  "control_keys \<equiv> {''prompt'', ''metadata'', ''route'', ''allow_fallback'', ''parameters''}"

lemma map_of_absent: "k \<notin> set (map fst kvs) \<Longrightarrow> map_of kvs k = None"
  by (simp add: map_of_eq_None_iff)

lemma parse_parameter_fields_Ok:
  "distinct (map fst kvs) \<Longrightarrow>
   parse_parameter_fields p kvs = Ok q \<longleftrightarrow>
     set (map fst kvs) \<subseteq> parameter_keys
     \<and> field_read (\<lambda>v. some_of (parse_bounded_number v ''temperature'' min_temperature max_temperature))
         (map_of kvs ''temperature'') (gp_temperature p) (gp_temperature q)
     \<and> field_read (\<lambda>v. some_of (parse_bounded_number v ''top_p'' min_top_p max_top_p))
         (map_of kvs ''top_p'') (gp_top_p p) (gp_top_p q)
     \<and> field_read (\<lambda>v. some_of (parse_max_tokens v))
         (map_of kvs ''max_tokens'') (gp_max_tokens p) (gp_max_tokens q)"
proof (induction kvs arbitrary: p)
  case Nil
  show ?case by auto
next
  case (Cons e kvs)
  obtain k v where e: "e = (k, v)" by (cases e)
  have d: "distinct (map fst kvs)" and n: "map_of kvs k = None"
    using Cons.prems by (auto simp: e intro: map_of_absent)
  consider "k = ''temperature''" | "k = ''top_p''" | "k = ''max_tokens''" | "k \<notin> {''temperature'', ''top_p'', ''max_tokens''}"
    unfolding insert_iff empty_iff by argo
  then show ?case
  proof cases
    case 1
    with n show ?thesis by (simp add: e and_then_Inr_iff Cons.IH [OF d] some_of_Ok) blast
  next
    case 2
    with n show ?thesis by (simp add: e and_then_Inr_iff Cons.IH [OF d] some_of_Ok) blast
  next
    case 3
    with n show ?thesis by (simp add: e and_then_Inr_iff Cons.IH [OF d] some_of_Ok) blast
  next
    case 4
    then show ?thesis by (simp add: e)
  qed
qed

lemma parse_fields_Ok:
  "distinct (map fst kvs) \<Longrightarrow>
   parse_fields f kvs = Ok g \<longleftrightarrow>
     set (map fst kvs) \<subseteq> control_keys
     \<and> field_read (\<lambda>v. some_of (parse_prompt v)) (map_of kvs ''prompt'') (if_prompt f) (if_prompt g)
     \<and> field_read (\<lambda>v. Ok (Some v)) (map_of kvs ''metadata'') (if_metadata f) (if_metadata g)
     \<and> field_read (\<lambda>v. some_of (parse_string_control v ''route''))
         (map_of kvs ''route'') (if_route f) (if_route g)
     \<and> field_read (\<lambda>v. some_of (parse_bool_control v ''allow_fallback''))
         (map_of kvs ''allow_fallback'') (if_allow_fallback f) (if_allow_fallback g)
     \<and> field_read parse_parameters (map_of kvs ''parameters'') (if_parameters f) (if_parameters g)"
proof (induction kvs arbitrary: f)
  case Nil
  show ?case by auto
next
  case (Cons e kvs)
  obtain k v where e: "e = (k, v)" by (cases e)
  have d: "distinct (map fst kvs)" and n: "map_of kvs k = None"
    using Cons.prems by (auto simp: e intro: map_of_absent)
  consider "k = ''prompt''" | "k = ''metadata''" | "k = ''route''" | "k = ''allow_fallback''" | "k = ''parameters''" | "k = ''stream''" | "k = ''rewrite''" | "k \<notin> {''prompt'', ''metadata'', ''route'', ''allow_fallback'', ''parameters'', ''stream'', ''rewrite''}"
    unfolding insert_iff empty_iff by argo
  then show ?case
  proof cases
    case 1
    with n show ?thesis by (simp add: e and_then_Inr_iff Cons.IH [OF d] some_of_Ok) blast
  next
    case 2
    with n show ?thesis by (simp add: e Cons.IH [OF d] eq_commute [of "Some v"])
  next
    case 3
    with n show ?thesis by (simp add: e and_then_Inr_iff Cons.IH [OF d] some_of_Ok) blast
  next
    case 4
    with n show ?thesis by (simp add: e and_then_Inr_iff Cons.IH [OF d] some_of_Ok) blast
  next
    case 5
    with n show ?thesis by (simp add: e and_then_Inr_iff Cons.IH [OF d] some_of_Ok) blast
  next
    case 6
    then show ?thesis by (simp add: e)
  next
    case 7
    then show ?thesis by (simp add: e)
  next
    case 8
    then show ?thesis by (simp add: e)
  qed
qed

section \<open>The schema of a body\<close>

definition number_between :: "rat \<Rightarrow> rat \<Rightarrow> json_number option \<Rightarrow> bool" where
  "number_between lo hi v =
     (case v of None \<Rightarrow> True
      | Some n \<Rightarrow> (case number_as_f64 n of Some (Fin x) \<Rightarrow> lo \<le> x \<and> x \<le> hi | _ \<Rightarrow> False))"

definition parameters_ok :: "(string \<times> json) list \<Rightarrow> generation_parameters \<Rightarrow> bool" where
  "parameters_ok kvs p \<longleftrightarrow>
     set (map fst kvs) \<subseteq> parameter_keys
     \<and> map_of kvs ''temperature'' = map_option JNum (gp_temperature p)
     \<and> number_between min_temperature max_temperature (gp_temperature p)
     \<and> map_of kvs ''top_p'' = map_option JNum (gp_top_p p)
     \<and> number_between min_top_p max_top_p (gp_top_p p)
     \<and> map_of kvs ''max_tokens'' = map_option (JNum \<circ> PosInt) (gp_max_tokens p)
     \<and> (case gp_max_tokens p of None \<Rightarrow> True | Some n \<Rightarrow> 0 < n \<and> n \<le> u32_max)"

definition body_ok ::
    "(json \<Rightarrow> string option) \<Rightarrow> policy_limits \<Rightarrow> (string \<times> json) list \<Rightarrow> ingress_request \<Rightarrow> bool" where
  "body_ok to_vec limits kvs rq \<longleftrightarrow>
     set (map fst kvs) \<subseteq> control_keys
     \<and> map_of kvs ''prompt'' = Some (JStr (iq_prompt rq))
     \<and> str_trim (iq_prompt rq) \<noteq> [] \<and> length (iq_prompt rq) \<le> pl_max_prompt_chars limits
     \<and> map_of kvs ''metadata'' = Some (iq_metadata rq)
     \<and> (case to_vec (iq_metadata rq) of None \<Rightarrow> False | Some b \<Rightarrow> length b \<le> pl_max_metadata_bytes limits)
     \<and> map_of kvs ''route'' = map_option JStr (iq_route rq)
     \<and> map_of kvs ''allow_fallback'' = map_option JBool (iq_allow_fallback rq)
     \<and> (case map_of kvs ''parameters'' of
          None \<Rightarrow> iq_parameters rq = generation_parameters_default
        | Some (JObj ps) \<Rightarrow> parameters_ok ps (iq_parameters rq)
        | _ \<Rightarrow> False)"

text \<open>Objects, as the JSON library builds them, have distinct keys.\<close>

definition keys_distinct :: "(string \<times> json) list \<Rightarrow> bool" where
  "keys_distinct kvs \<longleftrightarrow>
     distinct (map fst kvs)
     \<and> (case map_of kvs ''parameters'' of Some (JObj ps) \<Rightarrow> distinct (map fst ps) | _ \<Rightarrow> True)"

lemma parse_bounded_number_Ok:
  "parse_bounded_number v field lo hi = Ok n \<longleftrightarrow> v = JNum n \<and> number_between lo hi (Some n)"
proof (cases v)
  case (JNum m)
  obtain x where "number_as_f64 m = Some x" by (cases m) simp_all
  with JNum show ?thesis
    by (cases "m = n"; cases x) (auto simp: parse_bounded_number_def number_between_def)
qed (simp_all add: parse_bounded_number_def)

lemma field_read_number:
  "field_read (\<lambda>v. some_of (parse_bounded_number v field lo hi)) j None new \<longleftrightarrow>
     j = map_option JNum new \<and> number_between lo hi new"
  by (cases j; cases new)
    (auto simp: some_of_Ok parse_bounded_number_Ok, simp add: number_between_def)

lemma parse_max_tokens_Ok:
  "parse_max_tokens v = Ok n \<longleftrightarrow> v = JNum (PosInt n) \<and> 0 < n \<and> n \<le> u32_max"
  by (auto simp: parse_max_tokens_def ok_or_Inr_iff split: json.splits json_number.splits option.splits
      if_splits elim: number_as_u64.elims)

lemma field_read_max_tokens:
  "field_read (\<lambda>v. some_of (parse_max_tokens v)) j None new \<longleftrightarrow>
     j = map_option (JNum \<circ> PosInt) new
     \<and> (case new of None \<Rightarrow> True | Some n \<Rightarrow> 0 < n \<and> n \<le> u32_max)"
  by (cases j; cases new) (auto simp: some_of_Ok parse_max_tokens_Ok)

lemma parse_parameters_Ok:
  assumes "\<And>ps. v = JObj ps \<Longrightarrow> distinct (map fst ps)"
  shows "parse_parameters v = Ok p \<longleftrightarrow> (\<exists>ps. v = JObj ps \<and> parameters_ok ps p)"
proof (cases v)
  case (JObj ps)
  with assms have d: "distinct (map fst ps)" by blast
  show ?thesis
    by (simp add: JObj parse_parameters_def parse_parameter_fields_Ok [OF d] parameters_ok_def
        generation_parameters_default_def field_read_number field_read_max_tokens)
qed (simp_all add: parse_parameters_def)

lemma as_str_iff: "as_str v = Some s \<longleftrightarrow> v = JStr s" by (cases v) auto
lemma as_bool_iff: "as_bool v = Some s \<longleftrightarrow> v = JBool s" by (cases v) auto

lemma field_read_prompt:
  "field_read (\<lambda>v. some_of (parse_prompt v)) j None new \<longleftrightarrow> j = map_option JStr new"
  by (cases j; cases new) (auto simp: some_of_Ok parse_prompt_def ok_or_Inr_iff as_str_iff)

lemma field_read_string:
  "field_read (\<lambda>v. some_of (parse_string_control v field)) j None new \<longleftrightarrow> j = map_option JStr new"
  by (cases j; cases new) (auto simp: some_of_Ok parse_string_control_def ok_or_Inr_iff as_str_iff)

lemma field_read_bool:
  "field_read (\<lambda>v. some_of (parse_bool_control v field)) j None new \<longleftrightarrow> j = map_option JBool new"
  by (cases j; cases new) (auto simp: some_of_Ok parse_bool_control_def ok_or_Inr_iff as_bool_iff)

lemmas field_reads = field_read_prompt field_read_string field_read_bool

lemma field_read_json: "field_read (\<lambda>v. Ok (Some v)) j None new \<longleftrightarrow> j = new"
  by (cases j) auto

lemma validate_prompt_bounds_Ok:
  "validate_prompt_bounds p l = Ok u \<longleftrightarrow> str_trim p \<noteq> [] \<and> length p \<le> pl_max_prompt_chars l"
  using char_count_le_length [of p] by (auto simp: validate_prompt_bounds_def)

lemma validate_metadata_size_Ok:
  assumes "pl_max_metadata_bytes l < u64_max"
  shows "validate_metadata_size to_vec m l = Ok u \<longleftrightarrow>
    (case to_vec m of None \<Rightarrow> False | Some b \<Rightarrow> length b \<le> pl_max_metadata_bytes l)"
  using assms by (auto simp: validate_metadata_size_def Let_def split: option.splits)

lemma parse_ingress_request_Ok:
  assumes l: "pl_max_metadata_bytes limits < u64_max" and d: "keys_distinct kvs"
  shows "parse_ingress_request to_vec (JObj kvs) limits = Ok rq \<longleftrightarrow> body_ok to_vec limits kvs rq"
proof -
  have dk: "distinct (map fst kvs)" using d by (simp add: keys_distinct_def)
  have pp: "field_read parse_parameters (map_of kvs ''parameters'') generation_parameters_default p
      \<longleftrightarrow> (case map_of kvs ''parameters'' of None \<Rightarrow> p = generation_parameters_default
           | Some (JObj ps) \<Rightarrow> parameters_ok ps p | _ \<Rightarrow> False)" for p
  proof (cases "map_of kvs ''parameters''")
    case (Some v)
    have "\<And>ps. v = JObj ps \<Longrightarrow> distinct (map fst ps)" using d Some by (simp add: keys_distinct_def)
    note P = parse_parameters_Ok [OF this]
    show ?thesis by (cases v) (simp_all add: Some P)
  qed simp
  note F = parse_fields_Ok [OF dk, of ingress_fields_empty, unfolded ingress_fields_empty_def
      ingress_fields.simps, folded ingress_fields_empty_def, unfolded field_reads field_read_json pp]
  have ok: "parse_ingress_request to_vec (JObj kvs) limits = Ok rq \<longleftrightarrow>
      (\<exists>f. parse_fields ingress_fields_empty kvs = Ok f
         \<and> if_prompt f = Some (iq_prompt rq) \<and> if_metadata f = Some (iq_metadata rq)
         \<and> validate_prompt_bounds (iq_prompt rq) limits = Ok ()
         \<and> validate_metadata_size to_vec (iq_metadata rq) limits = Ok ()
         \<and> iq_route rq = if_route f \<and> iq_allow_fallback rq = if_allow_fallback f
         \<and> iq_parameters rq = if_parameters f)"
    by (cases rq) (auto simp: parse_ingress_request_def and_then_Inr_iff ok_or_Inr_iff)
  show ?thesis
  proof
    assume "parse_ingress_request to_vec (JObj kvs) limits = Ok rq"
    then obtain f where f: "parse_fields ingress_fields_empty kvs = Ok f"
      and pm: "if_prompt f = Some (iq_prompt rq)" "if_metadata f = Some (iq_metadata rq)"
      and v: "validate_prompt_bounds (iq_prompt rq) limits = Ok ()"
        "validate_metadata_size to_vec (iq_metadata rq) limits = Ok ()"
      and eqs: "if_route f = iq_route rq" "if_allow_fallback f = iq_allow_fallback rq"
        "if_parameters f = iq_parameters rq"
      unfolding ok by fastforce
    show "body_ok to_vec limits kvs rq"
      using f [unfolded F pm eqs] v
      unfolding body_ok_def validate_prompt_bounds_Ok validate_metadata_size_Ok [OF l] by simp
  next
    assume b: "body_ok to_vec limits kvs rq"
    let ?f = "\<lparr>if_prompt = Some (iq_prompt rq), if_metadata = Some (iq_metadata rq),
        if_route = iq_route rq, if_allow_fallback = iq_allow_fallback rq,
        if_parameters = iq_parameters rq\<rparr>"
    have "parse_fields ingress_fields_empty kvs = Ok ?f"
      using b unfolding F body_ok_def ingress_fields.simps by simp
    then show "parse_ingress_request to_vec (JObj kvs) limits = Ok rq"
      unfolding ok using b
      by (intro exI [of _ ?f]) (simp add: body_ok_def validate_prompt_bounds_Ok
          validate_metadata_size_Ok [OF l])
  qed
qed

section \<open>Rejected bodies\<close>

text \<open>Every rejection of a body is the client's error.\<close>

lemma bounded_number_Err:
  "parse_bounded_number v f lo hi = Err e \<Longrightarrow> \<exists>m. e = IngressInvalidRequest m"
  by (auto simp: parse_bounded_number_def split: json.splits option.splits if_splits)

lemma parameter_fields_Err:
  "parse_parameter_fields p kvs = Err e \<Longrightarrow> \<exists>m. e = IngressInvalidRequest m"
  by (induction p kvs rule: parse_parameter_fields.induct)
    (auto simp: and_then_Inl_iff parse_max_tokens_def ok_or_Inl_iff split: if_splits
      dest: bounded_number_Err)

lemma fields_Err: "parse_fields f kvs = Err e \<Longrightarrow> \<exists>m. e = IngressInvalidRequest m"
  by (induction f kvs rule: parse_fields.induct)
    (auto simp: and_then_Inl_iff parse_prompt_def parse_string_control_def parse_bool_control_def
      parse_parameters_def ok_or_Inl_iff split: if_splits dest: parameter_fields_Err)

lemma parse_ingress_request_Err:
  "parse_ingress_request to_vec body limits = Err e \<Longrightarrow> \<exists>m. e = IngressInvalidRequest m"
  by (auto simp: parse_ingress_request_def and_then_Inl_iff ok_or_Inl_iff validate_prompt_bounds_def
      validate_metadata_size_def Let_def split: if_splits dest: fields_Err)

end
