(* ===== verification/Ingress_Properties.thy ===== *)
theory Ingress_Properties
  imports Ingress_Lemmas Executor_Wire Config_Properties Demo_Deployment
begin

text \<open>
  The generation endpoint: which bodies are accepted, what a request puts on the wire, and what stands
  between a request and the provider.
\<close>

section \<open>The payload\<close>

definition requested_tokens :: "ingress_request \<Rightarrow> resolved_route \<Rightarrow> nat" where
  "requested_tokens rq rr =
     (case gp_max_tokens (iq_parameters rq) of Some n \<Rightarrow> n | None \<Rightarrow> rr_max_output_tokens rr)"

definition forwarded :: "ingress_request \<Rightarrow> nat \<Rightarrow> execution_params" where
  "forwarded rq n =
     \<lparr>ep_messages = [\<lparr>msg_role = ''user'', msg_content = iq_prompt rq\<rparr>],
      ep_temperature = Option.bind (gp_temperature (iq_parameters rq)) number_as_f64,
      ep_max_tokens = Some (int n),
      ep_top_p = Option.bind (gp_top_p (iq_parameters rq)) number_as_f64, ep_stream = False\<rparr>"

lemma extract_built_payload:
  assumes "requested_tokens rq rr \<le> u32_max"
  shows "extract_params (build_payload rq rr) = Ok (forwarded rq (requested_tokens rq rr))"
proof -
  have "number_as_i64 (PosInt (requested_tokens rq rr)) = Some (int (requested_tokens rq rr))"
    using assms by simp
  then show ?thesis
    by (cases "gp_temperature (iq_parameters rq)"; cases "gp_top_p (iq_parameters rq)")
      (simp_all add: build_payload_def Let_def extract_params_def messages_from_json_def
        requested_tokens_def [symmetric] forwarded_def del: number_as_i64.simps)
qed

section \<open>Properties\<close>

text \<open>
  C21. Under limits within their documented range, a request body is accepted exactly when it fits the
  documented schema: no control or parameter besides the known ones (so \<open>stream\<close> and \<open>rewrite\<close> are
  refused), a prompt that is not blank and within the limit in bytes, metadata within its serialized
  limit, a string route, a boolean fallback choice, and generation parameters of their types and within
  their ranges; and the request is then exactly what the body says.
\<close>

theorem body_accepted_iff_schema:
  assumes "limits_in_range limits" "keys_distinct kvs"
  shows "parse_ingress_request to_vec (JObj kvs) limits = Ok rq \<longleftrightarrow> body_ok to_vec limits kvs rq"
proof (rule parse_ingress_request_Ok [OF _ assms(2)])
  show "pl_max_metadata_bytes limits < u64_max"
    using assms(1) by (simp add: limits_in_range_def in_bound_def b_max_metadata_bytes_def)
qed

definition demo_request :: ingress_request where
  "demo_request = \<lparr>iq_prompt = ''hello'', iq_metadata = JObj [], iq_route = None,
     iq_allow_fallback = None, iq_parameters = generation_parameters_default\<lparr>gp_max_tokens := Some 50\<rparr>\<rparr>"

definition demo_body :: "(string \<times> json) list" where
  "demo_body = [(''metadata'', JObj []), (''parameters'', JObj [(''max_tokens'', JNum (PosInt 50))]),
     (''prompt'', JStr ''hello'')]"

lemma trim_hello: "str_trim ''hello'' = ''hello''"
  by (simp add: str_trim_def trim_start_def trim_end_def trim_done ws_prefix_def code_of_def
      white_space_bytes_def)

lemma demo_body_ok: "body_ok (\<lambda>_. Some ''{}'') demo_limits demo_body demo_request"
  by (simp add: body_ok_def demo_body_def demo_request_def trim_hello demo_limits_def parameters_ok_def
      generation_parameters_default_def number_between_def)

lemma demo_limits_in_range: "limits_in_range demo_limits"
  using demo_settings_wf by (simp add: settings_wf_def demo_settings_def)

lemma demo_body_parsed: "parse_ingress_request (\<lambda>_. Some ''{}'') (JObj demo_body) demo_limits = Ok demo_request"
  by (subst parse_ingress_request_Ok) (simp_all add: demo_body_ok, simp_all add: demo_limits_def keys_distinct_def demo_body_def)

theorem body_accepted_iff_schema_witness:
  "parse_ingress_request (\<lambda>_. Some ''{}'') (JObj demo_body) demo_limits = Ok demo_request"
proof -
  have "keys_distinct demo_body" by (simp add: keys_distinct_def demo_body_def)
  from body_accepted_iff_schema [OF demo_limits_in_range this] demo_body_ok show ?thesis by blast
qed

text \<open>Three facts of a request that reaches the wire: its route's cap fits the column, what it executed, what it carried.\<close>

lemma resolved_cap_fits:
  assumes wf: "catalog_wf c" and rr: "resolve_route c requested allow = Ok rr"
  shows "rr_max_output_tokens rr \<le> u32_max"
proof -
  obtain i ro where ro: "map_of (cat_routes c) i = Some ro" and r: "rr = resolved c i ro allow"
    by (rule resolve_route_OkD [OF wf rr])
  have "rr_max_output_tokens rr = max_output_tokens (rr_plan rr)"
    by (simp add: r resolved_def Let_def plan_for_target_def)
  moreover obtain tg where "map_of (cat_targets c) (target_id (rr_plan rr)) = Some tg"
    "max_output_tokens (rr_plan rr) = tg_max_output_tokens tg"
    using resolved_hop_target [OF wf ro, of "rr_plan rr" allow] r by auto
  moreover from this(1) have "target_wf tg" by (rule catalog_wf_targets(2) [OF wf])
  ultimately show ?thesis by (simp add: target_wf_def in_bound_def b_max_output_tokens_def)
qed

lemma sent_request_executed:
  assumes run: "process_request sv c rq dl w = (r, w')" and sent: "w_sent w' \<noteq> w_sent w"
  obtains rr er w2 w3 where "resolve_route c (iq_route rq) (iq_allow_fallback rq) = Ok rr"
    "requested_tokens rq rr \<le> rr_max_output_tokens rr"
    "execute sv (rr_plan rr) (build_payload rq rr) dl w2 = (er, w3)" "w_sent w2 = w_sent w" "w_sent w' = w_sent w3"
proof -
  obtain t w1 where 1: "read_clock w = (t, w1)" by force
  obtain t2 w2 where 2: "read_clock w1 = (t2, w2)" by force
  have "w_sent w1 = w_sent w" "w_sent w2 = w_sent w"
    using sent_read_clock [OF 1] sent_read_clock [OF 2] by simp_all
  with run sent that show thesis
    by (auto simp: process_request_def 1 2 execute_llm_call_def requested_tokens_def
        split: if_splits sum.splits prod.splits option.splits dest!: sent_read_clock)
qed

lemma carried_fields:
  assumes "carried sv (forwarded rq n) x"
  shows "cr_messages (wc_request x) = [\<lparr>msg_role = ''user'', msg_content = iq_prompt rq\<rparr>]
    \<and> cr_temperature (wc_request x) = Option.bind (gp_temperature (iq_parameters rq)) number_as_f64
    \<and> cr_top_p (wc_request x) = Option.bind (gp_top_p (iq_parameters rq)) number_as_f64
    \<and> cr_max_tokens (wc_request x) = Some (int n)
    \<and> (\<exists>vid cfg. sv_vendors sv vid = Some cfg
         \<and> cr_url (wc_request x) = oc_base_url cfg @ ''/chat/completions''
         \<and> cr_authorization (wc_request x) = ''Bearer '' @ oc_api_key cfg)"
proof -
  obtain vid cfg m where "sv_vendors sv vid = Some cfg" and "wc_request x = wire_request cfg m (forwarded rq n)"
    using assms unfolding carried_def by blast
  then show ?thesis by (auto simp: wire_request_def forwarded_def)
qed

text \<open>
  C8. What a request puts on the wire, over all its attempts, retries and fallbacks, is only this: the
  client's prompt, unchanged, as the single user message, its sampling parameters, and an output cap
  (the requested one, or the primary target's) that the primary's own cap allows; each call goes to
  a registered vendor's endpoint with that vendor's credential. The metadata and the controls never leave.
\<close>

theorem prompt_reaches_the_wire_unchanged:
  assumes wf: "catalog_wf c" and run: "process_request sv c rq dl w = (r, w')"
  shows "\<exists>cs. w_sent w' = w_sent w @ cs
    \<and> (\<forall>x \<in> set cs. cr_messages (wc_request x) = [\<lparr>msg_role = ''user'', msg_content = iq_prompt rq\<rparr>]
         \<and> cr_temperature (wc_request x) = Option.bind (gp_temperature (iq_parameters rq)) number_as_f64
         \<and> cr_top_p (wc_request x) = Option.bind (gp_top_p (iq_parameters rq)) number_as_f64
         \<and> (\<exists>rr. resolve_route c (iq_route rq) (iq_allow_fallback rq) = Ok rr
              \<and> cr_max_tokens (wc_request x) = Some (int (requested_tokens rq rr))
              \<and> requested_tokens rq rr \<le> rr_max_output_tokens rr)
         \<and> (\<exists>vid cfg. sv_vendors sv vid = Some cfg
              \<and> cr_url (wc_request x) = oc_base_url cfg @ ''/chat/completions''
              \<and> cr_authorization (wc_request x) = ''Bearer '' @ oc_api_key cfg))"
proof (cases "w_sent w' = w_sent w")
  case True
  then show ?thesis by (intro exI [of _ "[]"]) simp
next
  case sent: False
  obtain rr er w2 w3 where rr: "resolve_route c (iq_route rq) (iq_allow_fallback rq) = Ok rr"
    and cap: "requested_tokens rq rr \<le> rr_max_output_tokens rr"
    and ex: "execute sv (rr_plan rr) (build_payload rq rr) dl w2 = (er, w3)"
    and w: "w_sent w2 = w_sent w" "w_sent w' = w_sent w3"
    by (rule sent_request_executed [OF run sent])
  from cap resolved_cap_fits [OF wf rr] have "requested_tokens rq rr \<le> u32_max" by linarith
  from execute_carries [OF ex, unfolded extract_built_payload [OF this]]
  obtain cs where cs: "w_sent w' = w_sent w @ cs"
    "\<forall>x \<in> set cs. carried sv (forwarded rq (requested_tokens rq rr)) x"
    using sent w by (auto simp: carries_def)
  then show ?thesis using rr cap carried_fields by blast
qed

lemma demo_resolved: "resolve_route demo_catalog None None = Ok
    \<lparr>rr_route_id = ''d'', rr_target_id = ''t1'', rr_max_output_tokens = 100, rr_plan = demo_plan\<rparr>"
  unfolding resolve_route_eq [OF demo_catalog_wf]
  by (simp add: chosen_route_def resolved_def Let_def
      demo_catalog_def catalog_of_raw_def hash_iter_def route_of_raw_def demo_raw_route_def
      target_of_raw_def demo_raw_target_def plan_for_target_def hop_of_def demo_plan_def demo_fallback_def)

lemma demo_payload_built: "build_payload demo_request
    \<lparr>rr_route_id = ''d'', rr_target_id = ''t1'', rr_max_output_tokens = 100, rr_plan = demo_plan\<rparr>
    = demo_payload"
  by (simp add: build_payload_def demo_request_def generation_parameters_default_def demo_payload_def)

lemma demo_request_fields:
  "iq_route demo_request = None" "iq_allow_fallback demo_request = None"
  "gp_max_tokens (iq_parameters demo_request) = Some 50"
  by (simp_all add: demo_request_def)

lemma demo_execution: "\<exists>w' x. execute demo_service demo_plan demo_payload \<lparr>dl_instant = 1000000\<rparr>
      (demo_world [Some (1, Inr (demo_response 401 ''{}''))]) = (Err (AuthenticationFailed ''openai''), w')
    \<and> w_sent w' = [x]"
  using demo_extract by (simp add: exec_eval read_clock_def next_lag_def Let_def upt_rec)

lemma demo_processing:
  "\<exists>w' x. process_request demo_service demo_catalog demo_request \<lparr>dl_instant = 1000000\<rparr>
       (demo_world [Some (1, Inr (demo_response 401 ''{}''))])
       = (Err (IngressExecutionFailed (AuthenticationFailed ''openai'')), w') \<and> w_sent w' = [x]"
proof -
  let ?w = "demo_world [Some (1, Inr (demo_response 401 ''{}''))]"
  obtain w' x where ex: "execute demo_service demo_plan demo_payload \<lparr>dl_instant = 1000000\<rparr> ?w
      = (Err (AuthenticationFailed ''openai''), w')" and x: "w_sent w' = [x]"
    using demo_execution by blast
  have rc: "read_clock ?w = (5, ?w)" by (simp add: demo_world_def read_clock_def)
  have "process_request demo_service demo_catalog demo_request \<lparr>dl_instant = 1000000\<rparr> ?w
      = (Err (IngressExecutionFailed (AuthenticationFailed ''openai'')), w')"
    unfolding process_request_def rc prod.case demo_request_fields demo_resolved sum.case
      execute_llm_call_def resolved_route.simps demo_payload_built ex
    by (simp add: is_expired_def)
  with x show ?thesis by blast
qed

theorem prompt_reaches_the_wire_unchanged_witness:
  "\<exists>r w' x. process_request demo_service demo_catalog demo_request \<lparr>dl_instant = 1000000\<rparr>
        (demo_world [Some (1, Inr (demo_response 401 ''{}''))]) = (r, w')
     \<and> w_sent w' = [x]
     \<and> cr_messages (wc_request x) = [\<lparr>msg_role = ''user'', msg_content = ''hello''\<rparr>]
     \<and> cr_max_tokens (wc_request x) = Some 50"
proof -
  let ?w = "demo_world [Some (1, Inr (demo_response 401 ''{}''))]"
  obtain w' x where run: "process_request demo_service demo_catalog demo_request \<lparr>dl_instant = 1000000\<rparr> ?w
      = (Err (IngressExecutionFailed (AuthenticationFailed ''openai'')), w')" and x: "w_sent w' = [x]"
    using demo_processing by blast
  have "w_sent ?w = []" by (simp add: demo_world_def)
  with prompt_reaches_the_wire_unchanged [OF demo_catalog_wf run] x demo_resolved
  have "cr_messages (wc_request x) = [\<lparr>msg_role = ''user'', msg_content = iq_prompt demo_request\<rparr>]"
    "\<exists>rr. resolve_route demo_catalog None None = Ok rr
        \<and> cr_max_tokens (wc_request x) = Some (int (requested_tokens demo_request rr))"
    by (auto simp: demo_request_def)
  then show ?thesis using run x
    by (auto simp: requested_tokens_def demo_request_def)
qed

lemma resolve_route_errors:
  assumes "resolve_route c requested allow = Err e"
  shows "e = IngressInvalidRequest ''Unknown route'' \<or> e = IngressRequestOrchestrationFailed"
proof -
  have col: "e = IngressRequestOrchestrationFailed"
    if "collect_results (\<lambda>i. and_then (target_of c i) (\<lambda>t. Ok (plan_for_target i t []))) is = Err e"
    for "is"
    using that
    by (induction "is") (auto simp: target_of_def ok_or_def split: option.splits sum.splits)
  show ?thesis
    using assms col
    by (auto simp: resolve_route_def and_then_Inl_iff target_of_def ok_or_Inl_iff split: option.splits if_splits)
qed

lemma process_request_not_refused:
  assumes "process_request sv c rq dl w = (Err e, w')"
  shows "e \<noteq> IngressOverloaded \<and> e \<noteq> IngressDraining \<and> e \<noteq> IngressAuthorizationFailed"
  using assms
  by (auto simp: process_request_def execute_llm_call_def map_err_def
      split: prod.splits if_splits sum.splits option.splits dest!: resolve_route_errors)

text \<open>
  C22. One gate stands between a client and the provider: only an inference key with a valid body, while
  the limiter is open and has a free slot, reaches the provider. The permit taken is returned on
  every path, so the request leaves the limiter as it found it. A drain refuses with 503; saturation
  refuses with 429 and \<open>Retry-After: 1\<close>, exactly when every slot is held, and is counted once.
\<close>

theorem generation_is_gated:
  assumes L: "semaphore_laws S"
    and run: "ingress_handler S to_vec sv st (\<lambda>x. x) au dl body (s, w) = (r, s', w')"
  shows "so_available S s' = so_available S s \<and> so_closed S s' = so_closed S s
    \<and> (w_sent w' \<noteq> w_sent w \<longrightarrow>
         au_kind au = Inference \<and> is_ok (parse_ingress_request to_vec body (st_limits st))
         \<and> \<not> so_closed S s \<and> 0 < so_available S s)
    \<and> (r = Err IngressDraining \<longrightarrow> so_closed S s \<and> w' = w
         \<and> (\<exists>resp. ingress_error_response ctx IngressDraining = Some (resp :: 'b http_response)
              \<and> r_status resp = 503))
    \<and> (r = Err IngressOverloaded \<longrightarrow>
         \<not> so_closed S s \<and> so_available S s = 0 \<and> w' = emit [MOverloadRejected] w
         \<and> (\<exists>resp. ingress_error_response ctx IngressOverloaded = Some (resp :: 'b http_response)
              \<and> r_status resp = 429
              \<and> map_option decimal_value (r_headers resp retry_after_name) = Some 1))"
proof -
  have rs: "\<exists>resp. ingress_error_response ctx IngressDraining = Some (resp :: 'b http_response)
        \<and> r_status resp = 503"
    "\<exists>resp. ingress_error_response ctx IngressOverloaded = Some (resp :: 'b http_response)
        \<and> r_status resp = 429 \<and> map_option decimal_value (r_headers resp retry_after_name) = Some 1"
    using error_response_retry_after [of ctx Overloaded "''The service is overloaded''" "Some 1"]
    by (simp_all add: ingress_error_response_def)
  show ?thesis
  proof (cases "au_kind au = Inference \<and> is_ok (parse_ingress_request to_vec body (st_limits st))")
    case False
    then show ?thesis using run
      by (auto simp: ingress_handler_def is_ok_iff split: if_splits sum.splits dest!: parse_ingress_request_Err)
  next
    case True
    then obtain rq where rq: "parse_ingress_request to_vec body (st_limits st) = Ok rq"
      by (auto simp: is_ok_iff)
    show ?thesis
    proof (cases "limiter_try_acquire S s")
      case (Inl d)
      with run True rq rs limiter_try_acquire_cases(1,2) [OF L, of s] show ?thesis
        by (cases d) (auto simp: ingress_handler_def record_defs)
    next
      case (Inr s1)
      obtain pr pw where pr: "process_request sv (st_catalog st) rq dl w = (pr, pw)" by force
      have e: "r = pr" "s' = permit_drop S s1" "w' = pw"
        using run True rq Inr pr by (auto simp: ingress_handler_def)
      have "r \<noteq> Err IngressDraining" "r \<noteq> Err IngressOverloaded"
        using process_request_not_refused [of sv "st_catalog st" rq dl w] pr e(1) by auto
      with e limiter_try_acquire_cases(3) [OF L Inr] True rq show ?thesis
        by (simp add: permit_drop_def semaphore_lawsD(6,7) [OF L])
    qed
  qed
qed

theorem generation_is_gated_witness:
  "\<exists>r s' w'. ingress_handler counting_semaphore (\<lambda>_. Some ''{}'') demo_service demo_settings (\<lambda>x. x)
       \<lparr>au_client_id = ''c'', au_key_id = ''k'', au_kind = Inference\<rparr> \<lparr>dl_instant = 1000000\<rparr>
       (JObj demo_body) ((1, False), demo_world []) = (r, s', w')
     \<and> so_available counting_semaphore s' = 1 \<and> \<not> so_closed counting_semaphore s'"
proof -
  obtain r s' w' where h: "ingress_handler counting_semaphore (\<lambda>_. Some ''{}'') demo_service
       demo_settings (\<lambda>x. x) \<lparr>au_client_id = ''c'', au_key_id = ''k'', au_kind = Inference\<rparr>
       \<lparr>dl_instant = 1000000\<rparr> (JObj demo_body) ((1, False), demo_world []) = (r, s', w')"
    by (metis prod_cases3)
  from generation_is_gated [OF counting_semaphore_laws h] h show ?thesis
    by (auto simp: counting_semaphore_def)
qed

end
