(* ===== verification/Auth_Database.thy ===== *)
theory Auth_Database
  imports Auth_Models "HOL-Library.List_Lexorder" "HOL-Library.Char_ord" "HOL-Library.Product_Lexorder"
begin

text \<open>
  The tables of \<open>supabase/migrations/20260919194500_create_opmux_private_auth.sql\<close> and the SQL
  statements of \<open>features/auth/persist/postgres.rs\<close>, with the meaning SQL gives them: each statement is
  a function from a database to a driver error, or to its rows and the database after it. A row keeps
  the kind and the digest as the columns do, so that decoding a row can fail where the code's can.

  The checks of a row come before its unique indexes, these in the order of their creation, and the
  foreign key last. \<open>text\<close> columns reject the character NUL.
\<close>

section \<open>Rows\<close>

record client_row =
  cw_id :: uuid
  cw_display_name :: string
  cw_created_at :: timestamp

record key_row =
  kw_id :: uuid
  kw_client_id :: uuid
  kw_key_digest :: string
  kw_display_id :: string
  kw_name :: string
  kw_kind :: string
  kw_created_at :: timestamp
  kw_last_used_at :: "timestamp option"
  kw_revoked_at :: "timestamp option"

record database =
  db_clients :: "client_row list"
  db_keys :: "key_row list"

definition empty_database :: database where
  "empty_database = \<lparr>db_clients = [], db_keys = []\<rparr>"

section \<open>Constraints\<close>

definition check_violation :: "string \<Rightarrow> sqlx_error" where
  "check_violation name = SqlDatabase (Some ''23514'') (Some name)"

definition unique_violation :: "string \<Rightarrow> sqlx_error" where
  "unique_violation name = SqlDatabase (Some ''23505'') (Some name)"

definition untranslatable_character :: sqlx_error where
  "untranslatable_character = SqlDatabase (Some ''22021'') None"

definition text_ok :: "string \<Rightarrow> bool" where
  "text_ok s \<longleftrightarrow> CHR 0x00 \<notin> set s"

text \<open>\<open>[A-Za-z0-9_-]\<close>.\<close>

definition display_char :: "char \<Rightarrow> bool" where
  "display_char c =
     (let n = (of_char c :: nat) in
      (65 \<le> n \<and> n \<le> 90) \<or> (97 \<le> n \<and> n \<le> 122) \<or> (48 \<le> n \<and> n \<le> 57) \<or> c = CHR ''_'' \<or> c = CHR ''-'')"

definition check_client :: "client_row \<Rightarrow> sqlx_error option" where
  "check_client r =
     (if \<not> (1 \<le> char_count (cw_display_name r) \<and> char_count (cw_display_name r) \<le> 128)
      then Some (check_violation ''clients_display_name_len'') else None)"

definition check_key :: "key_row \<Rightarrow> sqlx_error option" where
  "check_key r =
     (if length (kw_key_digest r) \<noteq> 32 then Some (check_violation ''api_keys_digest_len'')
      else if kw_display_id r = [] \<or> \<not> list_all display_char (kw_display_id r)
      then Some (check_violation ''api_keys_display_id_format'')
      else if \<not> (8 \<le> char_count (kw_display_id r) \<and> char_count (kw_display_id r) \<le> 64)
      then Some (check_violation ''api_keys_display_id_len'')
      else if kw_kind r \<noteq> ''management'' \<and> kw_kind r \<noteq> ''inference''
      then Some (check_violation ''api_keys_kind_known'')
      else if (case kw_last_used_at r of Some t \<Rightarrow> t < kw_created_at r | None \<Rightarrow> False)
      then Some (check_violation ''api_keys_last_used_order'')
      else if \<not> (1 \<le> char_count (kw_name r) \<and> char_count (kw_name r) \<le> 128)
      then Some (check_violation ''api_keys_name_len'')
      else if (case kw_revoked_at r of Some t \<Rightarrow> t < kw_created_at r | None \<Rightarrow> False)
      then Some (check_violation ''api_keys_revoked_order'')
      else None)"

text \<open>The trigger \<open>reject_api_key_identity_mutation\<close>.\<close>

definition identity_trigger :: "key_row \<Rightarrow> key_row \<Rightarrow> sqlx_error option" where
  "identity_trigger old new =
     (if kw_id new \<noteq> kw_id old \<or> kw_client_id new \<noteq> kw_client_id old
         \<or> kw_key_digest new \<noteq> kw_key_digest old \<or> kw_kind new \<noteq> kw_kind old
         \<or> kw_display_id new \<noteq> kw_display_id old
      then Some (SqlDatabase (Some ''23000'') None) else None)"

section \<open>Statements\<close>

text \<open>\<open>INSERT INTO opmux_private.clients \<dots> RETURNING\<close>.\<close>

definition insert_client_stmt :: "new_client \<Rightarrow> database \<Rightarrow> sqlx_error + client_row \<times> database" where
  "insert_client_stmt c d =
     (let r = \<lparr>cw_id = nc_id c, cw_display_name = nc_display_name c, cw_created_at = nc_created_at c\<rparr>
      in if \<not> text_ok (nc_display_name c) then Err untranslatable_character
         else (case check_client r of
            Some e \<Rightarrow> Err e
          | None \<Rightarrow>
              (if nc_id c \<in> set (map cw_id (db_clients d)) then Err (unique_violation ''clients_pkey'')
               else Ok (r, d\<lparr>db_clients := db_clients d @ [r]\<rparr>))))"

definition row_of_new_key :: "new_api_key \<Rightarrow> key_row" where
  "row_of_new_key k =
     \<lparr>kw_id = nk_id k, kw_client_id = nk_client_id k, kw_key_digest = nk_digest k,
      kw_display_id = nk_display_id k, kw_name = nk_name k, kw_kind = kind_as_str (nk_kind k),
      kw_created_at = nk_created_at k, kw_last_used_at = None, kw_revoked_at = None\<rparr>"

text \<open>\<open>INSERT INTO opmux_private.api_keys \<dots> RETURNING\<close>.\<close>

definition insert_key_stmt :: "new_api_key \<Rightarrow> database \<Rightarrow> sqlx_error + key_row \<times> database" where
  "insert_key_stmt k d =
     (let r = row_of_new_key k in
      if \<not> text_ok (nk_display_id k) \<or> \<not> text_ok (nk_name k) then Err untranslatable_character
      else (case check_key r of
         Some e \<Rightarrow> Err e
       | None \<Rightarrow>
           (if nk_id k \<in> set (map kw_id (db_keys d)) then Err (unique_violation ''api_keys_pkey'')
            else if nk_digest k \<in> set (map kw_key_digest (db_keys d))
            then Err (unique_violation ''api_keys_key_digest_key'')
            else if nk_display_id k \<in> set (map kw_display_id (db_keys d))
            then Err (unique_violation ''api_keys_display_id_key'')
            else if nk_client_id k \<notin> set (map cw_id (db_clients d))
            then Err (SqlDatabase (Some ''23503'') (Some ''api_keys_client_fk''))
            else Ok (r, d\<lparr>db_keys := db_keys d @ [r]\<rparr>))))"

text \<open>\<open>UPDATE opmux_private.api_keys SET \<dots> WHERE \<dots> RETURNING\<close>: the trigger, then the checks.\<close>

fun update_rows ::
    "(key_row \<Rightarrow> bool) \<Rightarrow> (key_row \<Rightarrow> key_row) \<Rightarrow> key_row list \<Rightarrow> sqlx_error + key_row list \<times> key_row list"
  where
  "update_rows p f [] = Ok ([], [])"
| "update_rows p f (r # rs) =
     (if \<not> p r then and_then (update_rows p f rs) (\<lambda>(us, rs'). Ok (us, r # rs'))
      else (case identity_trigger r (f r) of
         Some e \<Rightarrow> Err e
       | None \<Rightarrow>
           (case check_key (f r) of
              Some e \<Rightarrow> Err e
            | None \<Rightarrow> and_then (update_rows p f rs) (\<lambda>(us, rs'). Ok (f r # us, f r # rs')))))"

definition update_keys_stmt ::
    "(key_row \<Rightarrow> bool) \<Rightarrow> (key_row \<Rightarrow> key_row) \<Rightarrow> database \<Rightarrow> sqlx_error + key_row list \<times> database" where
  "update_keys_stmt p f d =
     and_then (update_rows p f (db_keys d)) (\<lambda>(us, rs). Ok (us, d\<lparr>db_keys := rs\<rparr>))"

text \<open>\<open>SELECT \<dots> WHERE \<dots>\<close>, without an order.\<close>

definition select_keys_stmt :: "(key_row \<Rightarrow> bool) \<Rightarrow> database \<Rightarrow> sqlx_error + key_row list \<times> database" where
  "select_keys_stmt p d = Ok (filter p (db_keys d), d)"

text \<open>\<open>SELECT \<dots> WHERE \<dots> ORDER BY created_at DESC, id DESC LIMIT \<dots> OFFSET \<dots>\<close>.\<close>

definition select_page_stmt ::
    "(key_row \<Rightarrow> bool) \<Rightarrow> int \<Rightarrow> int \<Rightarrow> database \<Rightarrow> sqlx_error + key_row list \<times> database" where
  "select_page_stmt p limit offset d =
     Ok (take (nat limit) (drop (nat offset)
           (rev (sort_key (\<lambda>r. (kw_created_at r, kw_id r)) (filter p (db_keys d))))), d)"

text \<open>\<open>fetch_optional\<close> takes the first row.\<close>

definition first_row :: "'a list \<Rightarrow> 'a option" where
  "first_row rs = (case rs of [] \<Rightarrow> None | r # _ \<Rightarrow> Some r)"

section \<open>The invariant of the tables\<close>

definition key_row_ok :: "key_row \<Rightarrow> bool" where
  "key_row_ok r \<longleftrightarrow> check_key r = None"

definition db_ok :: "database \<Rightarrow> bool" where
  "db_ok d \<longleftrightarrow>
     distinct (map cw_id (db_clients d))
     \<and> distinct (map kw_id (db_keys d)) \<and> distinct (map kw_key_digest (db_keys d))
     \<and> distinct (map kw_display_id (db_keys d))
     \<and> (\<forall>r \<in> set (db_keys d). key_row_ok r \<and> kw_client_id r \<in> set (map cw_id (db_clients d)))"

lemma empty_database_ok: "db_ok empty_database"
  by (simp add: db_ok_def empty_database_def)

lemma insert_client_stmt_OkD:
  assumes "insert_client_stmt c d = Ok (r, d')"
  shows "r = \<lparr>cw_id = nc_id c, cw_display_name = nc_display_name c, cw_created_at = nc_created_at c\<rparr>"
    "nc_id c \<notin> set (map cw_id (db_clients d))" "d' = d\<lparr>db_clients := db_clients d @ [r]\<rparr>"
  using assms by (auto simp: insert_client_stmt_def Let_def split: if_splits option.splits)

lemma insert_client_stmt_ok: "insert_client_stmt c d = Ok (r, d') \<Longrightarrow> db_ok d \<Longrightarrow> db_ok d'"
  using insert_client_stmt_OkD [of c d r d'] by (auto simp: db_ok_def)

lemma insert_key_stmt_OkD:
  assumes "insert_key_stmt k d = Ok (r, d')"
  shows "r = row_of_new_key k" "d' = d\<lparr>db_keys := db_keys d @ [r]\<rparr>" "key_row_ok r"
    "nk_id k \<notin> set (map kw_id (db_keys d))" "nk_digest k \<notin> set (map kw_key_digest (db_keys d))"
    "nk_display_id k \<notin> set (map kw_display_id (db_keys d))"
    "nk_client_id k \<in> set (map cw_id (db_clients d))"
  using assms by (auto simp: insert_key_stmt_def Let_def key_row_ok_def split: if_splits option.splits)

lemma insert_key_stmt_ok: "insert_key_stmt k d = Ok (r, d') \<Longrightarrow> db_ok d \<Longrightarrow> db_ok d'"
  using insert_key_stmt_OkD [of k d r d'] by (auto simp: db_ok_def row_of_new_key_def)

lemma update_rows_OkD:
  "update_rows p f rs = Ok (us, rs') \<Longrightarrow>
     us = map f (filter p rs) \<and> rs' = map (\<lambda>r. if p r then f r else r) rs
     \<and> (\<forall>r \<in> set rs. p r \<longrightarrow> identity_trigger r (f r) = None \<and> key_row_ok (f r))"
  by (induction rs arbitrary: us rs') (auto simp: key_row_ok_def split: if_splits option.splits)

lemma update_rows_total:
  "(\<And>r. r \<in> set rs \<Longrightarrow> p r \<Longrightarrow> identity_trigger r (f r) = None \<and> key_row_ok (f r)) \<Longrightarrow>
     update_rows p f rs = Ok (map f (filter p rs), map (\<lambda>r. if p r then f r else r) rs)"
  by (induction rs) (auto simp: key_row_ok_def)

lemma update_keys_stmt_OkD:
  assumes "update_keys_stmt p f d = Ok (us, d')"
  shows "us = map f (filter p (db_keys d))"
    "d' = d\<lparr>db_keys := map (\<lambda>r. if p r then f r else r) (db_keys d)\<rparr>"
    "r \<in> set (db_keys d) \<Longrightarrow> p r \<Longrightarrow> identity_trigger r (f r) = None \<and> key_row_ok (f r)"
  using assms by (auto simp: update_keys_stmt_def and_then_Inr_iff dest!: update_rows_OkD)

lemma identity_trigger_None:
  "identity_trigger a b = None \<Longrightarrow>
     kw_id b = kw_id a \<and> kw_client_id b = kw_client_id a \<and> kw_key_digest b = kw_key_digest a
     \<and> kw_kind b = kw_kind a \<and> kw_display_id b = kw_display_id a"
  by (auto simp: identity_trigger_def split: if_splits)

lemma map_update_same:
  "(\<And>r. r \<in> set rs \<Longrightarrow> p r \<Longrightarrow> g (f r) = g r) \<Longrightarrow> map g (map (\<lambda>r. if p r then f r else r) rs) = map g rs"
  by (induction rs) auto

lemma update_keys_stmt_ok:
  assumes "update_keys_stmt p f d = Ok (us, d')" "db_ok d"
  shows "db_ok d'"
proof -
  note u = update_keys_stmt_OkD [OF assms(1)]
  have same: "g \<in> {kw_id, kw_key_digest, kw_display_id, kw_client_id} \<Longrightarrow>
      map g (db_keys d') = map g (db_keys d)" for g :: "key_row \<Rightarrow> string"
    unfolding u(2) using u(3) by (auto dest!: identity_trigger_None)
  have "key_row_ok r \<and> kw_client_id r \<in> set (map cw_id (db_clients d'))" if r: "r \<in> set (db_keys d')" for r
  proof -
    obtain x where x: "x \<in> set (db_keys d)" "r = (if p x then f x else x)"
      using r unfolding u(2) by auto
    then have "kw_client_id r = kw_client_id x \<and> (key_row_ok x \<longrightarrow> key_row_ok r)"
      using u(3) by (auto dest: identity_trigger_None)
    then show ?thesis using x(1) assms(2) unfolding u(2) db_ok_def by auto
  qed
  moreover have "db_clients d' = db_clients d" by (simp add: u(2))
  ultimately show ?thesis
    using assms(2) same [of kw_id] same [of kw_key_digest] same [of kw_display_id]
    unfolding db_ok_def by simp
qed

end
