(* ===== verification/Auth_Store.thy ===== *)
theory Auth_Store
  imports Auth_Database
begin

text \<open>
  \<open>features/auth/persist/store.rs\<close>: the trait \<open>AuthStore\<close> as a record of operations on a store's state,
  its contract as the locale \<open>auth_store\<close>, and \<open>features/auth/persist/unavailable.rs\<close>, a store that
  fulfils it by failing.

  The contract speaks of a directory: the tenants and the keys a store holds. An operation has an
  effect on the directory, given below as the function \<open>dir_\<dots>\<close>. An operation that returns a value has
  done exactly that; one that returns an error has done that or nothing, which the caller cannot tell.
\<close>

section \<open>Store computations\<close>

text \<open>The \<open>?\<close> operator between operations that change the state.\<close>

definition sbind ::
    "('s \<Rightarrow> ('e + 'a) \<times> 's) \<Rightarrow> ('a \<Rightarrow> 's \<Rightarrow> ('e + 'b) \<times> 's) \<Rightarrow> 's \<Rightarrow> ('e + 'b) \<times> 's" where
  "sbind m f s = (case m s of (Inl e, s') \<Rightarrow> (Inl e, s') | (Inr x, s') \<Rightarrow> f x s')"

definition smap_err :: "('e \<Rightarrow> 'f) \<Rightarrow> ('s \<Rightarrow> ('e + 'a) \<times> 's) \<Rightarrow> 's \<Rightarrow> ('f + 'a) \<times> 's" where
  "smap_err g m s = (case m s of (r, s') \<Rightarrow> (map_err g r, s'))"

lemma sbind_eq_iff:
  "sbind m f s = (r, t) \<longleftrightarrow>
     (\<exists>e. m s = (Inl e, t) \<and> r = Inl e) \<or> (\<exists>x u. m s = (Inr x, u) \<and> f x u = (r, t))"
  by (auto simp: sbind_def split: prod.splits sum.splits)

lemma smap_err_eq_iff:
  "smap_err g m s = (r, t) \<longleftrightarrow>
     (\<exists>e. m s = (Inl e, t) \<and> r = Inl (g e)) \<or> (\<exists>x. m s = (Inr x, t) \<and> r = Inr x)"
  by (auto simp: smap_err_def map_err_def split: prod.splits sum.splits)

section \<open>The trait\<close>

text \<open>
  \<open>as_authenticate_dropped d t n b\<close> is the state a dropped \<open>authenticate_digest\<close> leaves: \<open>n\<close> of its
  round trips had been answered, and the next one did (\<open>b\<close>) or did not reach the database.
\<close>

record 's auth_store_ops =
  as_provision_client_with_key ::
    "new_client \<Rightarrow> new_api_key \<Rightarrow> 's \<Rightarrow> (auth_store_error + client_record \<times> api_key_record) \<times> 's"
  as_insert_key :: "new_api_key \<Rightarrow> 's \<Rightarrow> (auth_store_error + api_key_record) \<times> 's"
  as_find_key_by_digest :: "key_digest \<Rightarrow> 's \<Rightarrow> (auth_store_error + api_key_record option) \<times> 's"
  as_authenticate_digest ::
    "key_digest \<Rightarrow> timestamp \<Rightarrow> 's \<Rightarrow> (auth_store_error + api_key_record option) \<times> 's"
  as_authenticate_dropped :: "key_digest \<Rightarrow> timestamp \<Rightarrow> nat \<Rightarrow> bool \<Rightarrow> 's \<Rightarrow> 's"
  as_touch_last_used :: "uuid \<Rightarrow> uuid \<Rightarrow> timestamp \<Rightarrow> 's \<Rightarrow> (auth_store_error + bool) \<times> 's"
  as_list_keys_for_client ::
    "uuid \<Rightarrow> int \<Rightarrow> int \<Rightarrow> api_key_kind option \<Rightarrow> 's \<Rightarrow> (auth_store_error + api_key_record list) \<times> 's"
  as_revoke_key :: "uuid \<Rightarrow> uuid \<Rightarrow> timestamp \<Rightarrow> 's \<Rightarrow> (auth_store_error + revoke_outcome) \<times> 's"
  as_probe_authentication_access :: "'s \<Rightarrow> (auth_store_error + unit) \<times> 's"

section \<open>The directory\<close>

record directory =
  dr_tenants :: "uuid set"
  dr_keys :: "api_key_record list"

definition client_of_new :: "new_client \<Rightarrow> client_record" where
  "client_of_new c =
     \<lparr>cr_id = nc_id c, cr_display_name = nc_display_name c, cr_created_at = nc_created_at c\<rparr>"

definition record_of_new :: "new_api_key \<Rightarrow> api_key_record" where
  "record_of_new k =
     \<lparr>kr_id = nk_id k, kr_client_id = nk_client_id k, kr_digest = nk_digest k,
      kr_display_id = nk_display_id k, kr_name = nk_name k, kr_kind = nk_kind k,
      kr_created_at = nk_created_at k, kr_last_used_at = None, kr_revoked_at = None\<rparr>"

definition fresh_key :: "new_api_key \<Rightarrow> directory \<Rightarrow> bool" where
  "fresh_key k D \<longleftrightarrow>
     nk_id k \<notin> kr_id ` set (dr_keys D) \<and> nk_digest k \<notin> kr_digest ` set (dr_keys D)
     \<and> nk_display_id k \<notin> kr_display_id ` set (dr_keys D)"

definition dir_ok :: "directory \<Rightarrow> bool" where
  "dir_ok D \<longleftrightarrow>
     distinct (map kr_id (dr_keys D)) \<and> distinct (map kr_digest (dr_keys D))
     \<and> distinct (map kr_display_id (dr_keys D))
     \<and> (\<forall>k \<in> set (dr_keys D). kr_client_id k \<in> dr_tenants D)"

definition dir_insert_key :: "new_api_key \<Rightarrow> directory \<Rightarrow> (api_key_record \<times> directory) option" where
  "dir_insert_key k D =
     (if nk_client_id k \<in> dr_tenants D \<and> fresh_key k D
      then Some (record_of_new k, D\<lparr>dr_keys := dr_keys D @ [record_of_new k]\<rparr>) else None)"

definition dir_provision ::
    "new_client \<Rightarrow> new_api_key \<Rightarrow> directory \<Rightarrow> ((client_record \<times> api_key_record) \<times> directory) option" where
  "dir_provision c k D =
     (if nk_client_id k = nc_id c \<and> nc_id c \<notin> dr_tenants D \<and> fresh_key k D
      then Some ((client_of_new c, record_of_new k),
                 \<lparr>dr_tenants = insert (nc_id c) (dr_tenants D),
                  dr_keys = dr_keys D @ [record_of_new k]\<rparr>)
      else None)"

definition dir_find :: "key_digest \<Rightarrow> directory \<Rightarrow> api_key_record option" where
  "dir_find dg D = List.find (\<lambda>k. kr_digest k = dg) (dr_keys D)"

definition touch :: "timestamp \<Rightarrow> api_key_record \<Rightarrow> api_key_record" where
  "touch t k =
     (if \<not> is_revoked k \<and> (case kr_last_used_at k of None \<Rightarrow> True | Some u \<Rightarrow> u < t)
      then k\<lparr>kr_last_used_at := Some t\<rparr> else k)"

definition touch_where :: "(api_key_record \<Rightarrow> bool) \<Rightarrow> timestamp \<Rightarrow> directory \<Rightarrow> directory" where
  "touch_where p t D = D\<lparr>dr_keys := map (\<lambda>k. if p k then touch t k else k) (dr_keys D)\<rparr>"

definition dir_authenticate ::
    "key_digest \<Rightarrow> timestamp \<Rightarrow> directory \<Rightarrow> api_key_record option \<times> directory" where
  "dir_authenticate dg t D =
     (map_option (touch t) (dir_find dg D), touch_where (\<lambda>k. kr_digest k = dg) t D)"

definition dir_touch :: "uuid \<Rightarrow> uuid \<Rightarrow> timestamp \<Rightarrow> directory \<Rightarrow> bool \<times> directory" where
  "dir_touch c i t D =
     (list_ex (\<lambda>k. kr_id k = i \<and> kr_client_id k = c \<and> touch t k \<noteq> k) (dr_keys D),
      touch_where (\<lambda>k. kr_id k = i \<and> kr_client_id k = c) t D)"

definition dir_inventory :: "uuid \<Rightarrow> api_key_kind option \<Rightarrow> directory \<Rightarrow> api_key_record list" where
  "dir_inventory c kd D =
     rev (sort_key (\<lambda>k. (kr_created_at k, kr_id k))
       (filter (\<lambda>k. kr_client_id k = c \<and> (case kd of None \<Rightarrow> True | Some x \<Rightarrow> kr_kind k = x)) (dr_keys D)))"

definition dir_list ::
    "uuid \<Rightarrow> int \<Rightarrow> int \<Rightarrow> api_key_kind option \<Rightarrow> directory \<Rightarrow> api_key_record list option" where
  "dir_list c limit offset kd D =
     (if 1 \<le> limit \<and> limit \<le> max_key_list_limit \<and> 0 \<le> offset
      then Some (take (nat limit) (drop (nat offset) (dir_inventory c kd D))) else None)"

definition revoke_at :: "timestamp \<Rightarrow> api_key_record \<Rightarrow> api_key_record" where
  "revoke_at t k = (if is_revoked k then k else k\<lparr>kr_revoked_at := Some t\<rparr>)"

definition dir_revoke :: "uuid \<Rightarrow> uuid \<Rightarrow> timestamp \<Rightarrow> directory \<Rightarrow> revoke_outcome \<times> directory" where
  "dir_revoke c i t D =
     ((case List.find (\<lambda>k. kr_id k = i \<and> kr_client_id k = c) (dr_keys D) of
         None \<Rightarrow> RevokeNotFound
       | Some k \<Rightarrow> (if is_revoked k then AlreadyRevoked k else Revoked (revoke_at t k))),
      D\<lparr>dr_keys := map (\<lambda>k. if kr_id k = i \<and> kr_client_id k = c then revoke_at t k else k) (dr_keys D)\<rparr>)"

text \<open>
  An operation that answers a value did what the directory's operation does; after an error it is
  unknown whether that or nothing happened.
\<close>

definition implements ::
    "(directory \<Rightarrow> ('a \<times> directory) option) \<Rightarrow> directory \<Rightarrow> auth_store_error + 'a \<Rightarrow> directory \<Rightarrow> bool" where
  "implements spec D r D' \<longleftrightarrow>
     (case r of
        Inr x \<Rightarrow> spec D = Some (x, D')
      | Inl e \<Rightarrow> D' = D \<or> (\<exists>x. spec D = Some (x, D')))"

lemma implements_simps [simp]:
  "implements spec D (Inr x) D' \<longleftrightarrow> spec D = Some (x, D')"
  "implements spec D (Inl e) D' \<longleftrightarrow> D' = D \<or> (\<exists>x. spec D = Some (x, D'))"
  by (simp_all add: implements_def)

locale auth_store =
  fixes ops :: "'s auth_store_ops" and view :: "'s \<Rightarrow> directory" and inv :: "'s \<Rightarrow> bool"
  assumes view_ok: "inv s \<Longrightarrow> dir_ok (view s)"
    and provision_law: "inv s \<Longrightarrow> as_provision_client_with_key ops c k s = (r1, s') \<Longrightarrow>
          inv s' \<and> implements (dir_provision c k) (view s) r1 (view s')"
    and insert_law: "inv s \<Longrightarrow> as_insert_key ops k s = (r2, s') \<Longrightarrow>
          inv s' \<and> implements (dir_insert_key k) (view s) r2 (view s')"
    and find_law: "inv s \<Longrightarrow> as_find_key_by_digest ops dg s = (r3, s') \<Longrightarrow>
          inv s' \<and> implements (\<lambda>D. Some (dir_find dg D, D)) (view s) r3 (view s')"
    and authenticate_law: "inv s \<Longrightarrow> as_authenticate_digest ops dg t s = (r3, s') \<Longrightarrow>
          inv s' \<and> implements (\<lambda>D. Some (dir_authenticate dg t D)) (view s) r3 (view s')"
    and dropped_law: "inv s \<Longrightarrow> as_authenticate_dropped ops dg t n b s = s' \<Longrightarrow>
          inv s' \<and> implements (\<lambda>D. Some (dir_authenticate dg t D)) (view s) (Inl AsUnavailable) (view s')"
    and touch_law: "inv s \<Longrightarrow> as_touch_last_used ops c' i t s = (r4, s') \<Longrightarrow>
          inv s' \<and> implements (\<lambda>D. Some (dir_touch c' i t D)) (view s) r4 (view s')"
    and list_law: "inv s \<Longrightarrow> as_list_keys_for_client ops c' lim off kd s = (r5, s') \<Longrightarrow>
          inv s' \<and> implements (\<lambda>D. map_option (\<lambda>ks. (ks, D)) (dir_list c' lim off kd D)) (view s) r5 (view s')"
    and revoke_law: "inv s \<Longrightarrow> as_revoke_key ops c' i t s = (r6, s') \<Longrightarrow>
          inv s' \<and> implements (\<lambda>D. Some (dir_revoke c' i t D)) (view s) r6 (view s')"
    and probe_law: "inv s \<Longrightarrow> as_probe_authentication_access ops s = (r7, s') \<Longrightarrow>
          inv s' \<and> implements (\<lambda>D. Some ((), D)) (view s) r7 (view s')"

section \<open>What every operation keeps\<close>

text \<open>
  Seen from a tenant: a key never disappears or changes owner, kind or digest, and a revocation is
  final with its time.
\<close>

definition key_persists :: "api_key_record \<Rightarrow> api_key_record \<Rightarrow> bool" where
  "key_persists k k' \<longleftrightarrow>
     kr_id k' = kr_id k \<and> kr_client_id k' = kr_client_id k \<and> kr_digest k' = kr_digest k
     \<and> kr_display_id k' = kr_display_id k \<and> kr_name k' = kr_name k \<and> kr_kind k' = kr_kind k
     \<and> kr_created_at k' = kr_created_at k
     \<and> (\<forall>t. kr_revoked_at k = Some t \<longrightarrow> k' = k)"

text \<open>Only the keys whose identifiers are in \<open>I\<close> may become revoked.\<close>

definition evolves :: "uuid set \<Rightarrow> directory \<Rightarrow> directory \<Rightarrow> bool" where
  "evolves I D D' \<longleftrightarrow>
     dr_tenants D \<subseteq> dr_tenants D'
     \<and> (\<forall>k \<in> set (dr_keys D). \<exists>k' \<in> set (dr_keys D'). key_persists k k'
          \<and> (kr_id k \<notin> I \<longrightarrow> is_revoked k' = is_revoked k))"

text \<open>The keys of the tenants other than \<open>c\<close>.\<close>

definition others :: "uuid \<Rightarrow> directory \<Rightarrow> api_key_record list" where
  "others c D = filter (\<lambda>k. kr_client_id k \<noteq> c) (dr_keys D)"

lemma key_persists_refl [simp]: "key_persists k k"
  by (simp add: key_persists_def)

lemma key_persists_trans: "key_persists a b \<Longrightarrow> key_persists b c \<Longrightarrow> key_persists a c"
  by (auto simp: key_persists_def)

lemma evolves_refl [simp]: "evolves I D D"
  unfolding evolves_def using key_persists_refl by blast

lemma key_persists_id: "key_persists k k' \<Longrightarrow> kr_id k' = kr_id k"
  by (simp add: key_persists_def)

lemma evolves_trans: "evolves I A B \<Longrightarrow> evolves J B C \<Longrightarrow> evolves (I \<union> J) A C"
proof -
  assume AB: "evolves I A B" and BC: "evolves J B C"
  have "\<exists>k'' \<in> set (dr_keys C). key_persists k k'' \<and> (kr_id k \<notin> I \<union> J \<longrightarrow> is_revoked k'' = is_revoked k)"
    if k: "k \<in> set (dr_keys A)" for k
  proof -
    obtain k' where k': "k' \<in> set (dr_keys B)" "key_persists k k'" "kr_id k \<notin> I \<longrightarrow> is_revoked k' = is_revoked k"
      using AB k unfolding evolves_def by blast
    obtain k'' where k'': "k'' \<in> set (dr_keys C)" "key_persists k' k''" "kr_id k' \<notin> J \<longrightarrow> is_revoked k'' = is_revoked k'"
      using BC k'(1) unfolding evolves_def by blast
    show ?thesis
      using k' k'' key_persists_id [OF k'(2)] key_persists_trans [OF k'(2) k''(2)] by auto
  qed
  with AB BC show "evolves (I \<union> J) A C" unfolding evolves_def by auto
qed

lemma key_persists_touch [simp]: "key_persists k (touch t k)"
  by (auto simp: key_persists_def touch_def is_revoked_def)

lemma key_persists_revoke [simp]: "key_persists k (revoke_at t k)"
  by (auto simp: key_persists_def revoke_at_def is_revoked_def)

lemma touch_keeps [simp]:
  "kr_id (touch t k) = kr_id k" "kr_client_id (touch t k) = kr_client_id k"
  "kr_digest (touch t k) = kr_digest k" "kr_kind (touch t k) = kr_kind k"
  "kr_revoked_at (touch t k) = kr_revoked_at k" "is_revoked (touch t k) = is_revoked k"
  "kr_display_id (touch t k) = kr_display_id k"
  by (simp_all add: touch_def is_revoked_def)

lemma revoke_at_keeps [simp]:
  "kr_id (revoke_at t k) = kr_id k" "kr_client_id (revoke_at t k) = kr_client_id k"
  "kr_digest (revoke_at t k) = kr_digest k" "kr_kind (revoke_at t k) = kr_kind k"
  "is_revoked (revoke_at t k)" "kr_display_id (revoke_at t k) = kr_display_id k"
  by (simp_all add: revoke_at_def is_revoked_def)

lemma evolves_map:
  "(\<And>k. key_persists k (f k)) \<Longrightarrow> (\<And>k. kr_id k \<notin> I \<Longrightarrow> is_revoked (f k) = is_revoked k) \<Longrightarrow>
     evolves I D (D\<lparr>dr_keys := map f (dr_keys D)\<rparr>)"
  by (auto simp: evolves_def)

lemma evolves_append:
  "evolves I D (D\<lparr>dr_keys := dr_keys D @ ks\<rparr>)"
  "evolves I D \<lparr>dr_tenants = insert c (dr_tenants D), dr_keys = dr_keys D @ ks\<rparr>"
  unfolding evolves_def using key_persists_refl by (simp_all, blast+)

lemma touch_where_evolves: "evolves {} D (touch_where p t D)"
  unfolding touch_where_def by (rule evolves_map) simp_all

lemma spec_evolves:
  "dir_provision c k D = Some (x1, D') \<Longrightarrow> evolves {} D D'"
  "dir_insert_key k D = Some (x2, D') \<Longrightarrow> evolves {} D D'"
  "dir_authenticate dg t D = (x3, D') \<Longrightarrow> evolves {} D D'"
  "dir_touch c' i t D = (x4, D') \<Longrightarrow> evolves {} D D'"
  "dir_revoke c' i t D = (x5, D') \<Longrightarrow> evolves {i} D D'"
proof -
  show "evolves {} D D'" if "dir_provision c k D = Some (x1, D')"
    using that evolves_append(2) by (simp add: dir_provision_def split: if_splits) metis
  show "evolves {} D D'" if "dir_insert_key k D = Some (x2, D')"
    using that evolves_append(1) by (simp add: dir_insert_key_def split: if_splits) metis
  show "evolves {} D D'" if "dir_authenticate dg t D = (x3, D')"
    using that touch_where_evolves by (auto simp: dir_authenticate_def)
  show "evolves {} D D'" if "dir_touch c' i t D = (x4, D')"
    using that touch_where_evolves by (auto simp: dir_touch_def)
  have "evolves {i} D (snd (dir_revoke c' i t D))"
    unfolding dir_revoke_def snd_conv by (rule evolves_map) simp_all
  then show "evolves {i} D D'" if "dir_revoke c' i t D = (x5, D')" using that by simp
qed

lemma filter_map_owner:
  "(\<And>k. kr_client_id (f k) = kr_client_id k) \<Longrightarrow> (\<And>k. kr_client_id k \<noteq> c \<Longrightarrow> f k = k) \<Longrightarrow>
     filter (\<lambda>k. kr_client_id k \<noteq> c) (map f ks) = filter (\<lambda>k. kr_client_id k \<noteq> c) ks"
  by (induction ks) auto

lemma spec_others:
  "dir_insert_key k D = Some (x2, D') \<Longrightarrow> others (nk_client_id k) D' = others (nk_client_id k) D"
  "dir_revoke c' i t D = (x5, D') \<Longrightarrow> others c' D' = others c' D"
  by (auto simp: dir_insert_key_def dir_revoke_def others_def record_of_new_def
      intro!: filter_map_owner split: if_splits)

lemma dir_find_SomeD: "dir_find dg D = Some k \<Longrightarrow> k \<in> set (dr_keys D) \<and> kr_digest k = dg"
  by (auto simp: dir_find_def find_Some_iff)

lemma dir_find_None_iff: "dir_find dg D = None \<longleftrightarrow> dg \<notin> kr_digest ` set (dr_keys D)"
  by (auto simp: dir_find_def find_None_iff)

lemma distinct_map_unique: "distinct (map f xs) \<Longrightarrow> x \<in> set xs \<Longrightarrow> y \<in> set xs \<Longrightarrow> f x = f y \<Longrightarrow> x = y"
  by (auto simp: distinct_map dest: inj_onD)

lemma dir_find_eq:
  "dir_ok D \<Longrightarrow> k \<in> set (dr_keys D) \<Longrightarrow> dir_find (kr_digest k) D = Some k"
  by (cases "dir_find (kr_digest k) D")
    (auto simp: dir_find_None_iff dir_ok_def dest!: dir_find_SomeD dest: distinct_map_unique)

section \<open>The store that is never available\<close>

definition unavailable_store :: "unit auth_store_ops" where
  "unavailable_store =
     \<lparr>as_provision_client_with_key = \<lambda>_ _ s. (Err AsUnavailable, s),
      as_insert_key = \<lambda>_ s. (Err AsUnavailable, s),
      as_find_key_by_digest = \<lambda>_ s. (Err AsUnavailable, s),
      as_authenticate_digest = \<lambda>_ _ s. (Err AsUnavailable, s),
      as_authenticate_dropped = \<lambda>_ _ _ _ s. s,
      as_touch_last_used = \<lambda>_ _ _ s. (Err AsUnavailable, s),
      as_list_keys_for_client = \<lambda>_ _ _ _ s. (Err AsUnavailable, s),
      as_revoke_key = \<lambda>_ _ _ s. (Err AsUnavailable, s),
      as_probe_authentication_access = \<lambda>s. (Err AsUnavailable, s)\<rparr>"

interpretation unav: auth_store unavailable_store "\<lambda>_. \<lparr>dr_tenants = {}, dr_keys = []\<rparr>" "\<lambda>_. True"
  by unfold_locales (auto simp: unavailable_store_def dir_ok_def)

end
