(* ===== verification/Auth_Service.thy ===== *)
theory Auth_Service
  imports Auth_Store Http_Error Deadline
begin

text \<open>
  \<open>features/auth/credentials.rs\<close>, \<open>provision.rs\<close>, \<open>service.rs\<close> and \<open>error.rs\<close>: generated credentials, the
  provisioning of tenants and keys, and the authentication service over any store. The digest and the
  URL-safe base64 codec are the fields of \<open>cred_libs\<close>. A call's clock readings, the identifiers
  \<open>Uuid::new_v4\<close> draws and the entropy source are its arguments. A secret is the string it
  wraps; its printed form is in the theory \<open>Redaction\<close>.
\<close>

section \<open>Credentials\<close>

record cred_libs =
  sha256 :: "string \<Rightarrow> string"
  b64_encode :: "string \<Rightarrow> string"
  b64_decode :: "string \<Rightarrow> string option"

text \<open>
  SHA-256 has 32 bytes; unpadded URL-safe base64 decodes what it encoded, uses the alphabet
  \<open>A-Za-z0-9_-\<close> and four characters for three bytes.
\<close>

definition cred_laws :: "cred_libs \<Rightarrow> bool" where
  "cred_laws C \<longleftrightarrow>
     (\<forall>s. length (sha256 C s) = 32)
     \<and> (\<forall>b. b64_decode C (b64_encode C b) = Some b \<and> list_all display_char (b64_encode C b)
            \<and> length (b64_encode C b) = (4 * length b + 2) div 3)"

text \<open>\<open>fill_bytes\<close>: what the \<open>n\<close>-th call fills a buffer of the given length with.\<close>

type_synonym secret_source = "nat \<Rightarrow> nat \<Rightarrow> string option"

definition fills :: "secret_source \<Rightarrow> bool" where
  "fills src \<longleftrightarrow> (\<forall>n len bytes. src n len = Some bytes \<longrightarrow> length bytes = len)"

abbreviation credential_prefix :: string where "credential_prefix \<equiv> ''opmx_v1_''"
abbreviation secret_payload_len :: nat where "secret_payload_len \<equiv> 32"
abbreviation display_id_random_len :: nat where "display_id_random_len \<equiv> 16"
abbreviation initial_management_key_name :: string where
  "initial_management_key_name \<equiv> ''initial-management''"

record generated_credential =
  gc_credential :: string
  gc_digest :: key_digest
  gc_display_id :: string

definition hash_credential :: "cred_libs \<Rightarrow> string \<Rightarrow> key_digest" where
  "hash_credential C credential = sha256 C credential"

definition strip_prefix :: "string \<Rightarrow> string \<Rightarrow> string option" where
  "strip_prefix p s = (if take (length p) s = p then Some (drop (length p) s) else None)"

definition parse_credential_payload :: "cred_libs \<Rightarrow> string \<Rightarrow> string option" where
  "parse_credential_payload C credential =
     Option.bind (strip_prefix credential_prefix credential) (\<lambda>rest.
     Option.bind (b64_decode C rest) (\<lambda>bytes.
       (if length bytes = secret_payload_len then Some bytes else None)))"

definition assemble_credential :: "cred_libs \<Rightarrow> string \<Rightarrow> string \<Rightarrow> generated_credential" where
  "assemble_credential C payload display_random =
     (let credential = credential_prefix @ b64_encode C payload
      in \<lparr>gc_credential = credential, gc_digest = hash_credential C credential,
          gc_display_id = ''opk_'' @ b64_encode C display_random\<rparr>)"

datatype entropy_error = EntropyUnavailable

definition generate_credential :: "cred_libs \<Rightarrow> secret_source \<Rightarrow> entropy_error + generated_credential" where
  "generate_credential C src =
     and_then (ok_or EntropyUnavailable (src 0 secret_payload_len)) (\<lambda>payload.
     and_then (ok_or EntropyUnavailable (src 1 display_id_random_len)) (\<lambda>display_random.
       Ok (assemble_credential C payload display_random)))"

section \<open>Provisioning\<close>

datatype provision_error =
    PvInvalidName | PvUnknownClient | PvEntropyUnavailable | PvStoreUnavailable | PvDuplicateClient
  | PvDuplicateDigest | PvDuplicateDisplayId | PvCheckViolation | PvPermissionDenied | PvConflict

fun provision_of_store :: "auth_store_error \<Rightarrow> provision_error" where
  "provision_of_store AsUnavailable = PvStoreUnavailable"
| "provision_of_store AsInvalidLimit = PvStoreUnavailable"
| "provision_of_store AsDuplicateClient = PvDuplicateClient"
| "provision_of_store AsDuplicateDigest = PvDuplicateDigest"
| "provision_of_store AsDuplicateDisplayId = PvDuplicateDisplayId"
| "provision_of_store AsUnknownClient = PvUnknownClient"
| "provision_of_store AsCheckViolation = PvCheckViolation"
| "provision_of_store AsPermissionDenied = PvPermissionDenied"
| "provision_of_store AsConflict = PvConflict"
| "provision_of_store AsInvalidDigestLength = PvConflict"

definition provision_of_entropy :: "entropy_error \<Rightarrow> provision_error" where
  "provision_of_entropy e = PvEntropyUnavailable"

record issued_key =
  ik_client_id :: uuid
  ik_key_id :: uuid
  ik_display_id :: string
  ik_name :: string
  ik_kind :: string
  ik_created_at :: timestamp
  ik_credential :: string

definition issued_of_record :: "api_key_record \<Rightarrow> string \<Rightarrow> issued_key" where
  "issued_of_record r credential =
     \<lparr>ik_client_id = kr_client_id r, ik_key_id = kr_id r, ik_display_id = kr_display_id r,
      ik_name = kr_name r, ik_kind = kind_as_str (kr_kind r), ik_created_at = kr_created_at r,
      ik_credential = credential\<rparr>"

record created_tenant =
  ct_display_name :: string
  ct_key :: issued_key

record key_identity =
  id_client_id :: uuid
  id_key_id :: uuid
  id_kind :: api_key_kind
  id_name :: string
  id_display_id :: string
  id_revoked :: bool

definition identity_of_record :: "api_key_record \<Rightarrow> key_identity" where
  "identity_of_record r =
     \<lparr>id_client_id = kr_client_id r, id_key_id = kr_id r, id_kind = kr_kind r, id_name = kr_name r,
      id_display_id = kr_display_id r, id_revoked = (kr_revoked_at r \<noteq> None)\<rparr>"

abbreviation min_name_chars :: nat where "min_name_chars \<equiv> 1"
abbreviation max_name_chars :: nat where "max_name_chars \<equiv> 128"

definition validate_name :: "string \<Rightarrow> provision_error + string" where
  "validate_name raw =
     (let name = str_trim raw; chars = char_count name in
      if \<not> (min_name_chars \<le> chars \<and> chars \<le> max_name_chars) then Err PvInvalidName else Ok name)"

definition create_tenant ::
    "'s auth_store_ops \<Rightarrow> cred_libs \<Rightarrow> secret_source \<Rightarrow> timestamp \<Rightarrow> uuid \<Rightarrow> uuid \<Rightarrow> string \<Rightarrow> 's
      \<Rightarrow> (provision_error + created_tenant) \<times> 's" where
  "create_tenant ops C src now client_uuid key_uuid display_name s =
     (case validate_name display_name of
        Inl e \<Rightarrow> (Err e, s)
      | Inr name \<Rightarrow>
          (case map_err provision_of_entropy (generate_credential C src) of
             Inl e \<Rightarrow> (Err e, s)
           | Inr generated \<Rightarrow>
               sbind (smap_err provision_of_store (as_provision_client_with_key ops
                   \<lparr>nc_id = client_uuid, nc_display_name = name, nc_created_at = now\<rparr>
                   \<lparr>nk_id = key_uuid, nk_client_id = client_uuid, nk_digest = gc_digest generated,
                    nk_display_id = gc_display_id generated, nk_name = initial_management_key_name,
                    nk_kind = Management, nk_created_at = now\<rparr>))
                 (\<lambda>(cr, kr) s. (Ok \<lparr>ct_display_name = cr_display_name cr,
                                   ct_key = issued_of_record kr (gc_credential generated)\<rparr>, s)) s))"

definition issue_key ::
    "'s auth_store_ops \<Rightarrow> cred_libs \<Rightarrow> secret_source \<Rightarrow> timestamp \<Rightarrow> uuid \<Rightarrow> uuid \<Rightarrow> api_key_kind
      \<Rightarrow> string \<Rightarrow> 's \<Rightarrow> (provision_error + issued_key) \<times> 's" where
  "issue_key ops C src now key_uuid client_id kind raw_name s =
     (case validate_name raw_name of
        Inl e \<Rightarrow> (Err e, s)
      | Inr name \<Rightarrow>
          (case map_err provision_of_entropy (generate_credential C src) of
             Inl e \<Rightarrow> (Err e, s)
           | Inr generated \<Rightarrow>
               sbind (smap_err provision_of_store (as_insert_key ops
                   \<lparr>nk_id = key_uuid, nk_client_id = client_id, nk_digest = gc_digest generated,
                    nk_display_id = gc_display_id generated, nk_name = name, nk_kind = kind,
                    nk_created_at = now\<rparr>))
                 (\<lambda>record s. (Ok (issued_of_record record (gc_credential generated)), s)) s))"

definition resolve_credential ::
    "'s auth_store_ops \<Rightarrow> cred_libs \<Rightarrow> string \<Rightarrow> 's \<Rightarrow> (provision_error + key_identity option) \<times> 's" where
  "resolve_credential ops C credential =
     sbind (smap_err provision_of_store (as_find_key_by_digest ops (hash_credential C credential)))
       (\<lambda>record s. (Ok (map_option identity_of_record record), s))"

section \<open>Errors\<close>

datatype authenticate_error = AeInvalidCredentials | AeStoreUnavailable | AeDeadlineExceeded

datatype auth_error =
    AuthInvalidCredentials | AuthCapabilityDenied | AuthInvalidInput string | AuthKeyNotFound
  | AuthStoreUnavailable | AuthDeadlineExceeded

fun auth_of_authenticate :: "authenticate_error \<Rightarrow> auth_error" where
  "auth_of_authenticate AeInvalidCredentials = AuthInvalidCredentials"
| "auth_of_authenticate AeStoreUnavailable = AuthStoreUnavailable"
| "auth_of_authenticate AeDeadlineExceeded = AuthDeadlineExceeded"

definition limit_message :: string where "limit_message = ''limit must be between 1 and 100''"

fun auth_of_store :: "auth_store_error \<Rightarrow> auth_error" where
  "auth_of_store AsInvalidLimit = AuthInvalidInput limit_message"
| "auth_of_store _ = AuthStoreUnavailable"

fun auth_of_provision :: "provision_error \<Rightarrow> auth_error" where
  "auth_of_provision PvInvalidName = AuthInvalidInput ''name must be 1 to 128 characters''"
| "auth_of_provision _ = AuthStoreUnavailable"

fun auth_http_mapping :: "auth_error \<Rightarrow> error_code \<times> string" where
  "auth_http_mapping AuthInvalidCredentials = (Unauthorized, ''Authentication failed'')"
| "auth_http_mapping AuthCapabilityDenied =
     (Forbidden, ''You do not have permission to perform this operation.'')"
| "auth_http_mapping (AuthInvalidInput message) = (InvalidRequest, message)"
| "auth_http_mapping AuthKeyNotFound = (NotFound, ''API key was not found'')"
| "auth_http_mapping AuthStoreUnavailable =
     (AuthDependencyUnavailable, ''Authentication dependency unavailable'')"
| "auth_http_mapping AuthDeadlineExceeded = (DeadlineExceeded, ''The request deadline was exceeded'')"

definition auth_error_response :: "request_context option \<Rightarrow> auth_error \<Rightarrow> 'a http_response" where
  "auth_error_response ctx e = (case auth_http_mapping e of (code, message) \<Rightarrow> error_response ctx code message None)"

section \<open>The service\<close>

definition require_management :: "auth_context \<Rightarrow> auth_error + unit" where
  "require_management actor = (if au_kind actor \<noteq> Management then Err AuthCapabilityDenied else Ok ())"

definition create_key ::
    "'s auth_store_ops \<Rightarrow> cred_libs \<Rightarrow> secret_source \<Rightarrow> timestamp \<Rightarrow> uuid \<Rightarrow> auth_context \<Rightarrow> string
      \<Rightarrow> api_key_kind \<Rightarrow> 's \<Rightarrow> (auth_error + issued_key) \<times> 's" where
  "create_key ops C src now key_uuid actor name kind s =
     (case require_management actor of
        Inl e \<Rightarrow> (Err e, s)
      | Inr _ \<Rightarrow>
          smap_err auth_of_provision (issue_key ops C src now key_uuid (au_client_id actor) kind name) s)"

text \<open>
  The page and the test whether more keys follow are two queries of the code; here both read one state,
  with no other call between them.
\<close>

definition list_keys ::
    "'s auth_store_ops \<Rightarrow> auth_context \<Rightarrow> key_list_options \<Rightarrow> 's \<Rightarrow> (auth_error + key_inventory) \<times> 's" where
  "list_keys ops actor options s =
     (case require_management actor of
        Inl e \<Rightarrow> (Err e, s)
      | Inr _ \<Rightarrow>
          (if \<not> (1 \<le> lo_limit options \<and> lo_limit options \<le> max_key_list_limit)
           then (Err (AuthInvalidInput limit_message), s)
           else if lo_offset options < 0
           then (Err (AuthInvalidInput ''offset must be greater than or equal to 0''), s)
           else
             sbind (smap_err auth_of_store (as_list_keys_for_client ops (au_client_id actor)
                 (lo_limit options) (lo_offset options) (lo_kind options))) (\<lambda>records.
             sbind (if int (length records) = lo_limit options
                    then (case checked_add_i64 (lo_offset options) (lo_limit options) of
                            Some next_offset \<Rightarrow>
                              sbind (smap_err auth_of_store (as_list_keys_for_client ops
                                  (au_client_id actor) 1 next_offset (lo_kind options)))
                                (\<lambda>peek s. (Ok (peek \<noteq> []), s))
                          | None \<Rightarrow> (\<lambda>s. (Ok False, s)))
                    else (\<lambda>s. (Ok False, s))) (\<lambda>has_more s.
               (Ok \<lparr>ki_keys = map metadata_of_record records, ki_has_more = has_more\<rparr>, s))) s))"

definition revoke_key ::
    "'s auth_store_ops \<Rightarrow> timestamp \<Rightarrow> auth_context \<Rightarrow> uuid \<Rightarrow> 's \<Rightarrow> (auth_error + unit) \<times> 's" where
  "revoke_key ops now actor key_id s =
     (case require_management actor of
        Inl e \<Rightarrow> (Err e, s)
      | Inr _ \<Rightarrow>
          sbind (smap_err auth_of_store (as_revoke_key ops (au_client_id actor) key_id now)) (\<lambda>outcome s.
            (case outcome of
               Revoked _ \<Rightarrow> (Ok (), s)
             | AlreadyRevoked _ \<Rightarrow> (Ok (), s)
             | RevokeNotFound \<Rightarrow> (Err AuthKeyNotFound, s))) s)"

definition service_probe_access :: "'s auth_store_ops \<Rightarrow> 's \<Rightarrow> (auth_store_error + unit) \<times> 's" where
  "service_probe_access ops = as_probe_authentication_access ops"

definition context_of_record :: "api_key_record \<Rightarrow> auth_context" where
  "context_of_record r = \<lparr>au_client_id = kr_client_id r, au_key_id = kr_id r, au_kind = kr_kind r\<rparr>"

definition authenticate ::
    "'s auth_store_ops \<Rightarrow> cred_libs \<Rightarrow> timestamp \<Rightarrow> string \<Rightarrow> 's \<Rightarrow> (authenticate_error + auth_context) \<times> 's" where
  "authenticate ops C now presented =
     sbind (smap_err (\<lambda>_. AeStoreUnavailable) (as_authenticate_digest ops (hash_credential C presented) now))
       (\<lambda>record s.
         (case record of
            None \<Rightarrow> (Err AeInvalidCredentials, s)
          | Some r \<Rightarrow> (if is_revoked r then (Err AeInvalidCredentials, s)
                       else (Ok (context_of_record r), s))))"

text \<open>
  How an authentication under a deadline is timed: the reading of the monotonic clock by
  \<open>is_expired\<close>, the instant the store's future would be ready, the scheduling lag, and the progress of
  a future that is dropped.
\<close>

record auth_timing =
  at_now :: nat
  at_ready :: "nat option"
  at_lag :: nat
  at_answered :: nat
  at_pending_applied :: bool

definition authenticate_with_deadline ::
    "'s auth_store_ops \<Rightarrow> cred_libs \<Rightarrow> timestamp \<Rightarrow> auth_timing \<Rightarrow> string \<Rightarrow> request_deadline \<Rightarrow> 's
      \<Rightarrow> (authenticate_error + auth_context) \<times> 's" where
  "authenticate_with_deadline ops C now tm presented dl s =
     (if is_expired dl (at_now tm) then (Err AeDeadlineExceeded, s)
      else if timeout_poll (at_ready tm) (poll_at (at_ready tm) (as_instant dl) (at_now tm) (at_lag tm))
      then authenticate ops C now presented s
      else (Err AeDeadlineExceeded,
            as_authenticate_dropped ops (hash_credential C presented) now (at_answered tm)
              (at_pending_applied tm) s))"

section \<open>Facts\<close>

lemma generate_credential_Ok:
  "generate_credential C src = Ok g \<longleftrightarrow>
     (\<exists>p q. src 0 secret_payload_len = Some p \<and> src 1 display_id_random_len = Some q
        \<and> g = assemble_credential C p q)"
  by (auto simp: generate_credential_def and_then_Inr_iff ok_or_Inr_iff)

lemma gc_digest_is_hash: "generate_credential C src = Ok g \<Longrightarrow> gc_digest g = hash_credential C (gc_credential g)"
  by (auto simp: generate_credential_Ok assemble_credential_def Let_def)

lemma strip_prefix_append [simp]: "strip_prefix p (p @ s) = Some s"
  by (simp add: strip_prefix_def)

lemma parse_generated:
  assumes "cred_laws C" "fills src" "generate_credential C src = Ok g"
  shows "parse_credential_payload C (gc_credential g) = src 0 secret_payload_len"
  using assms by (auto simp: generate_credential_Ok assemble_credential_def parse_credential_payload_def
      cred_laws_def fills_def Let_def simp del: append.simps)

lemma require_management_Ok [simp]: "require_management a = Ok u \<longleftrightarrow> au_kind a = Management"
  by (simp add: require_management_def)

lemma context_of_record_simps [simp]:
  "au_client_id (context_of_record r) = kr_client_id r" "au_key_id (context_of_record r) = kr_id r"
  "au_kind (context_of_record r) = kr_kind r"
  by (simp_all add: context_of_record_def)

end
