(* ===== verification/Auth_Postgres.thy ===== *)
theory Auth_Postgres
  imports Auth_Store
begin

text \<open>
  \<open>features/auth/persist/postgres.rs\<close>: the store over the tables of \<open>Auth_Database\<close>. A round trip to
  the server (an acquired connection, \<open>BEGIN\<close>, a statement, \<open>COMMIT\<close>, \<open>ROLLBACK\<close>) takes the next of
  the scripted replies: it is answered, or it is lost before or after the server acted on it; when the
  script has ended every round trip is answered. A transaction works on a copy of the tables, which its
  commit publishes; transactions that touch the same rows are serialised by the row locks they take, so
  each is one step, and \<open>FOR UPDATE\<close> itself needs no counterpart.
\<close>

section \<open>The connection\<close>

datatype reply = Answered | LostBefore sqlx_error | LostAfter sqlx_error

record pg_store =
  pg_db :: database
  pg_replies :: "reply list"

definition next_reply :: "pg_store \<Rightarrow> reply \<times> pg_store" where
  "next_reply s =
     (case pg_replies s of [] \<Rightarrow> (Answered, s) | r # rs \<Rightarrow> (r, s\<lparr>pg_replies := rs\<rparr>))"

text \<open>A round trip without an effect on the tables: \<open>acquire\<close>, \<open>ROLLBACK\<close>.\<close>

definition pg_acquire :: "pg_store \<Rightarrow> (auth_store_error + unit) \<times> pg_store" where
  "pg_acquire s =
     (case next_reply s of
        (Answered, s') \<Rightarrow> (Ok (), s')
      | (LostBefore e, s') \<Rightarrow> (Err (from_sqlx e), s')
      | (LostAfter e, s') \<Rightarrow> (Err (from_sqlx e), s'))"

text \<open>\<open>begin\<close>: the transaction's working copy.\<close>

definition pg_begin :: "pg_store \<Rightarrow> (auth_store_error + database) \<times> pg_store" where
  "pg_begin s = sbind pg_acquire (\<lambda>_ s'. (Ok (pg_db s'), s')) s"

definition pg_commit :: "database \<Rightarrow> pg_store \<Rightarrow> (auth_store_error + unit) \<times> pg_store" where
  "pg_commit d s =
     (case next_reply s of
        (Answered, s') \<Rightarrow> (Ok (), s'\<lparr>pg_db := d\<rparr>)
      | (LostBefore e, s') \<Rightarrow> (Err (from_sqlx e), s')
      | (LostAfter e, s') \<Rightarrow> (Err (from_sqlx e), s'\<lparr>pg_db := d\<rparr>))"

text \<open>\<open>rollback_err\<close>: the outcome of the rollback is ignored.\<close>

definition rollback_err :: "(auth_store_error + 'a) \<times> pg_store \<Rightarrow> (auth_store_error + 'a) \<times> pg_store" where
  "rollback_err r =
     (case r of (Inl e, s) \<Rightarrow> (Err e, snd (pg_acquire s)) | (Inr x, s) \<Rightarrow> (Ok x, s))"

text \<open>A statement inside a transaction, on its working copy.\<close>

definition pg_in_tx ::
    "(database \<Rightarrow> sqlx_error + 'a \<times> database) \<Rightarrow> database \<Rightarrow> pg_store
      \<Rightarrow> (auth_store_error + 'a \<times> database) \<times> pg_store" where
  "pg_in_tx stmt d s = sbind pg_acquire (\<lambda>_ s'. (map_err from_sqlx (stmt d), s')) s"

text \<open>A statement on the pool, its own transaction.\<close>

definition pg_autocommit ::
    "(database \<Rightarrow> sqlx_error + 'a \<times> database) \<Rightarrow> pg_store \<Rightarrow> (auth_store_error + 'a) \<times> pg_store" where
  "pg_autocommit stmt s =
     (case next_reply s of
        (LostBefore e, s') \<Rightarrow> (Err (from_sqlx e), s')
      | (q, s') \<Rightarrow>
          (case stmt (pg_db s') of
             Inl e \<Rightarrow> (Err (from_sqlx e), s')
           | Inr (x, d) \<Rightarrow>
               ((case q of LostAfter e \<Rightarrow> Err (from_sqlx e) | _ \<Rightarrow> Ok x), s'\<lparr>pg_db := d\<rparr>)))"

section \<open>Rows\<close>

definition client_from_row :: "client_row \<Rightarrow> auth_store_error + client_record" where
  "client_from_row r =
     Ok \<lparr>cr_id = cw_id r, cr_display_name = cw_display_name r, cr_created_at = cw_created_at r\<rparr>"

definition api_key_from_row :: "key_row \<Rightarrow> auth_store_error + api_key_record" where
  "api_key_from_row r =
     and_then (digest_from_slice (kw_key_digest r)) (\<lambda>digest.
     and_then (map_err from_sqlx (kind_parse (kw_kind r))) (\<lambda>kind.
       Ok \<lparr>kr_id = kw_id r, kr_client_id = kw_client_id r, kr_digest = digest,
           kr_display_id = kw_display_id r, kr_name = kw_name r, kr_kind = kind,
           kr_created_at = kw_created_at r, kr_last_used_at = kw_last_used_at r,
           kr_revoked_at = kw_revoked_at r\<rparr>))"

section \<open>Operations\<close>

definition insert_client_in ::
    "new_client \<Rightarrow> database \<Rightarrow> pg_store \<Rightarrow> (auth_store_error + client_record \<times> database) \<times> pg_store" where
  "insert_client_in c d =
     sbind (pg_in_tx (insert_client_stmt c) d) (\<lambda>(row, d') s.
       (and_then (client_from_row row) (\<lambda>r. Ok (r, d')), s))"

definition insert_key_in ::
    "new_api_key \<Rightarrow> database \<Rightarrow> pg_store \<Rightarrow> (auth_store_error + api_key_record \<times> database) \<times> pg_store" where
  "insert_key_in k d =
     sbind (pg_in_tx (insert_key_stmt k) d) (\<lambda>(row, d') s.
       (and_then (api_key_from_row row) (\<lambda>r. Ok (r, d')), s))"

definition pg_provision_client_with_key ::
    "new_client \<Rightarrow> new_api_key \<Rightarrow> pg_store
      \<Rightarrow> (auth_store_error + client_record \<times> api_key_record) \<times> pg_store" where
  "pg_provision_client_with_key c k s =
     (if nk_client_id k \<noteq> nc_id c then (Err AsUnknownClient, s)
      else sbind pg_begin (\<lambda>d.
           sbind (\<lambda>s. rollback_err (insert_client_in c d s)) (\<lambda>(cr, d1).
           sbind (\<lambda>s. rollback_err (insert_key_in k d1 s)) (\<lambda>(kr, d2).
           sbind (pg_commit d2) (\<lambda>_ s. (Ok (cr, kr), s))))) s)"

definition pg_insert_key :: "new_api_key \<Rightarrow> pg_store \<Rightarrow> (auth_store_error + api_key_record) \<times> pg_store" where
  "pg_insert_key k =
     sbind pg_begin (\<lambda>d.
     sbind (\<lambda>s. rollback_err (insert_key_in k d s)) (\<lambda>(kr, d').
     sbind (pg_commit d') (\<lambda>_ s. (Ok kr, s))))"

definition decode_optional :: "key_row option \<Rightarrow> auth_store_error + api_key_record option" where
  "decode_optional row =
     (case row of None \<Rightarrow> Ok None | Some r \<Rightarrow> and_then (api_key_from_row r) (\<lambda>k. Ok (Some k)))"

definition pg_find_key_by_digest ::
    "key_digest \<Rightarrow> pg_store \<Rightarrow> (auth_store_error + api_key_record option) \<times> pg_store" where
  "pg_find_key_by_digest dg =
     sbind (pg_autocommit (select_keys_stmt (\<lambda>r. kw_key_digest r = dg))) (\<lambda>rows s.
       (decode_optional (first_row rows), s))"

definition not_newer :: "timestamp option \<Rightarrow> timestamp \<Rightarrow> bool" where
  "not_newer used t = (case used of None \<Rightarrow> True | Some u \<Rightarrow> u < t)"

text \<open>The update of \<open>last_used_at\<close>, with the row's identity and tenant.\<close>

definition touch_stmt :: "uuid \<Rightarrow> uuid \<Rightarrow> timestamp \<Rightarrow> database \<Rightarrow> sqlx_error + key_row list \<times> database" where
  "touch_stmt c i t =
     update_keys_stmt
       (\<lambda>r. kw_id r = i \<and> kw_client_id r = c \<and> kw_revoked_at r = None \<and> not_newer (kw_last_used_at r) t)
       (\<lambda>r. r\<lparr>kw_last_used_at := Some t\<rparr>)"

text \<open>The second half of the transaction, from the row that was found.\<close>

definition authenticate_row ::
    "key_row \<Rightarrow> timestamp \<Rightarrow> database \<Rightarrow> pg_store \<Rightarrow> (auth_store_error + api_key_record option) \<times> pg_store" where
  "authenticate_row row t d =
     sbind (\<lambda>s. rollback_err (api_key_from_row row, s)) (\<lambda>record.
       (if is_revoked record then sbind (pg_commit d) (\<lambda>_ s. (Ok (Some record), s))
        else sbind (\<lambda>s. rollback_err
                    (pg_in_tx (touch_stmt (kr_client_id record) (kr_id record) t) d s)) (\<lambda>(updated, d').
               let record' = (case first_row updated of
                                Some u \<Rightarrow> record\<lparr>kr_last_used_at := kw_last_used_at u\<rparr>
                              | None \<Rightarrow> record)
               in sbind (pg_commit d') (\<lambda>_ s. (Ok (Some record'), s)))))"

definition authenticate_digest_on ::
    "key_digest \<Rightarrow> timestamp \<Rightarrow> pg_store \<Rightarrow> (auth_store_error + api_key_record option) \<times> pg_store" where
  "authenticate_digest_on dg t =
     sbind pg_begin (\<lambda>d.
     sbind (\<lambda>s. rollback_err (pg_in_tx (select_keys_stmt (\<lambda>r. kw_key_digest r = dg)) d s)) (\<lambda>(rows, d1).
       (case first_row rows of
          None \<Rightarrow> sbind (pg_commit d1) (\<lambda>_ s. (Ok None, s))
        | Some row \<Rightarrow> authenticate_row row t d1)))"

definition pg_authenticate_digest ::
    "key_digest \<Rightarrow> timestamp \<Rightarrow> pg_store \<Rightarrow> (auth_store_error + api_key_record option) \<times> pg_store" where
  "pg_authenticate_digest dg t = sbind pg_acquire (\<lambda>_. authenticate_digest_on dg t)"

text \<open>
  A dropped future: \<open>n\<close> round trips were answered as scripted, the next one reached the server or not,
  and nothing was sent after it.
\<close>

definition cut_replies :: "nat \<Rightarrow> bool \<Rightarrow> reply list \<Rightarrow> reply list" where
  "cut_replies n b rs =
     take n rs @ replicate (n - length rs) Answered @ [if b then LostAfter SqlIo else LostBefore SqlIo]"

definition pg_authenticate_dropped ::
    "key_digest \<Rightarrow> timestamp \<Rightarrow> nat \<Rightarrow> bool \<Rightarrow> pg_store \<Rightarrow> pg_store" where
  "pg_authenticate_dropped dg t n b s =
     (snd (pg_authenticate_digest dg t (s\<lparr>pg_replies := cut_replies n b (pg_replies s)\<rparr>)))
       \<lparr>pg_replies := drop (Suc n) (pg_replies s)\<rparr>"

definition pg_touch_last_used ::
    "uuid \<Rightarrow> uuid \<Rightarrow> timestamp \<Rightarrow> pg_store \<Rightarrow> (auth_store_error + bool) \<times> pg_store" where
  "pg_touch_last_used c i t =
     sbind (pg_autocommit (touch_stmt c i t)) (\<lambda>rows s. (Ok (length rows = 1), s))"

definition pg_list_keys_for_client ::
    "uuid \<Rightarrow> int \<Rightarrow> int \<Rightarrow> api_key_kind option \<Rightarrow> pg_store
      \<Rightarrow> (auth_store_error + api_key_record list) \<times> pg_store" where
  "pg_list_keys_for_client c limit offset kd s =
     (if \<not> (1 \<le> limit \<and> limit \<le> max_key_list_limit) \<or> offset < 0 then (Err AsInvalidLimit, s)
      else sbind (pg_autocommit (select_page_stmt
             (\<lambda>r. kw_client_id r = c \<and>
                (map_option kind_as_str kd = None \<or> Some (kw_kind r) = map_option kind_as_str kd))
             limit offset))
           (\<lambda>rows s. (collect_results api_key_from_row rows, s)) s)"

text \<open>The update of a revocation.\<close>

definition revoke_stmt :: "uuid \<Rightarrow> uuid \<Rightarrow> timestamp \<Rightarrow> database \<Rightarrow> sqlx_error + key_row list \<times> database" where
  "revoke_stmt c i t =
     update_keys_stmt (\<lambda>r. kw_id r = i \<and> kw_client_id r = c \<and> kw_revoked_at r = None)
       (\<lambda>r. r\<lparr>kw_revoked_at := Some t\<rparr>)"

text \<open>
  The rest of the transaction, after its update. The select that follows an update without a row reads the
  same tables as the update: under READ COMMITTED it could also see a row that another transaction committed
  in between, which needs a caller that names the identifier of a key not yet issued to it.
\<close>

definition revoke_finish ::
    "uuid \<Rightarrow> uuid \<Rightarrow> key_row list \<Rightarrow> database \<Rightarrow> pg_store \<Rightarrow> (auth_store_error + revoke_outcome) \<times> pg_store" where
  "revoke_finish c i updated d =
     (case first_row updated of
        Some row \<Rightarrow>
          sbind (\<lambda>s. rollback_err (api_key_from_row row, s)) (\<lambda>record.
          sbind (pg_commit d) (\<lambda>_ s. (Ok (Revoked record), s)))
      | None \<Rightarrow>
          sbind (\<lambda>s. rollback_err (pg_in_tx
                  (select_keys_stmt (\<lambda>r. kw_id r = i \<and> kw_client_id r = c)) d s)) (\<lambda>(rows, d').
          sbind (pg_commit d') (\<lambda>_ s.
            (case first_row rows of
               Some row \<Rightarrow> (and_then (api_key_from_row row) (\<lambda>record. Ok (AlreadyRevoked record)), s)
             | None \<Rightarrow> (Ok RevokeNotFound, s)))))"

definition pg_revoke_key ::
    "uuid \<Rightarrow> uuid \<Rightarrow> timestamp \<Rightarrow> pg_store \<Rightarrow> (auth_store_error + revoke_outcome) \<times> pg_store" where
  "pg_revoke_key c i t =
     sbind pg_begin (\<lambda>d.
     sbind (\<lambda>s. rollback_err (pg_in_tx (revoke_stmt c i t) d s)) (\<lambda>(updated, d').
       revoke_finish c i updated d'))"

text \<open>\<open>can_update\<close> is what the server says of the role's privilege on \<open>last_used_at\<close>.\<close>

definition pg_probe_authentication_access ::
    "bool \<Rightarrow> pg_store \<Rightarrow> (auth_store_error + unit) \<times> pg_store" where
  "pg_probe_authentication_access can_update =
     sbind pg_acquire (\<lambda>_. sbind pg_acquire (\<lambda>_. sbind pg_acquire (\<lambda>_ s.
       (if can_update then Ok () else Err AsPermissionDenied, s))))"

definition pg_ops :: "bool \<Rightarrow> pg_store auth_store_ops" where
  "pg_ops can_update =
     \<lparr>as_provision_client_with_key = pg_provision_client_with_key, as_insert_key = pg_insert_key,
      as_find_key_by_digest = pg_find_key_by_digest, as_authenticate_digest = pg_authenticate_digest,
      as_authenticate_dropped = pg_authenticate_dropped, as_touch_last_used = pg_touch_last_used,
      as_list_keys_for_client = pg_list_keys_for_client, as_revoke_key = pg_revoke_key,
      as_probe_authentication_access = pg_probe_authentication_access can_update\<rparr>"

section \<open>What a round trip does to the tables\<close>

lemma next_reply_db [simp]: "pg_db (snd (next_reply s)) = pg_db s"
  by (simp add: next_reply_def split: list.split)

lemma next_reply_dbD: "next_reply s = (q, s') \<Longrightarrow> pg_db s' = pg_db s"
  by (metis next_reply_db snd_conv)

lemma pg_acquireD: "pg_acquire s = (r, s') \<Longrightarrow> pg_db s' = pg_db s"
  by (auto simp: pg_acquire_def split: prod.splits reply.splits dest!: next_reply_dbD)

lemma pg_acquire_db [simp]: "pg_db (snd (pg_acquire s)) = pg_db s"
  by (metis pg_acquireD surjective_pairing)

lemma pg_beginD:
  "pg_begin s = (r, s') \<Longrightarrow> pg_db s' = pg_db s \<and> (\<forall>d. r = Inr d \<longrightarrow> d = pg_db s)"
  by (auto simp: pg_begin_def sbind_eq_iff dest!: pg_acquireD)

lemma pg_in_txD:
  "pg_in_tx stmt d s = (r, s') \<Longrightarrow> pg_db s' = pg_db s \<and> (\<forall>x. r = Inr x \<longrightarrow> stmt d = Inr x)"
  by (auto simp: pg_in_tx_def sbind_eq_iff dest!: pg_acquireD)

lemma rollback_errD:
  "rollback_err (q, s) = (r, s') \<Longrightarrow> r = q \<and> pg_db s' = pg_db s"
  by (cases q) (auto simp: rollback_err_def)

lemma pg_commitD:
  "pg_commit d s = (r, s') \<Longrightarrow>
     (r = Inr () \<and> pg_db s' = d) \<or> (\<exists>e. r = Inl e) \<and> (pg_db s' = pg_db s \<or> pg_db s' = d)"
  by (auto simp: pg_commit_def split: prod.splits reply.splits dest!: next_reply_dbD)

lemma pg_autocommitD:
  "pg_autocommit stmt s = (r, s') \<Longrightarrow>
     (\<exists>x d. stmt (pg_db s) = Inr (x, d) \<and> pg_db s' = d \<and> (r = Inr x \<or> (\<exists>e. r = Inl e)))
     \<or> (\<exists>e. r = Inl e) \<and> pg_db s' = pg_db s"
  by (auto simp: pg_autocommit_def split: prod.splits reply.splits sum.splits dest!: next_reply_dbD)

lemmas round_tripD = pg_acquireD pg_beginD pg_in_txD rollback_errD pg_commitD pg_autocommitD

text \<open>A statement under \<open>rollback_err\<close>, and with its row decoded.\<close>

lemma tx_stmtD:
  assumes "rollback_err (pg_in_tx stmt d s) = (r, s')"
  shows "pg_db s' = pg_db s \<and> (\<forall>x. r = Inr x \<longrightarrow> stmt d = Inr x)"
proof -
  obtain q u where "pg_in_tx stmt d s = (q, u)" by (cases "pg_in_tx stmt d s")
  with assms show ?thesis by (auto dest!: rollback_errD pg_in_txD)
qed

section \<open>The directory behind the tables\<close>

definition row_record :: "key_row \<Rightarrow> api_key_record" where
  "row_record r =
     \<lparr>kr_id = kw_id r, kr_client_id = kw_client_id r, kr_digest = kw_key_digest r,
      kr_display_id = kw_display_id r, kr_name = kw_name r,
      kr_kind = (if kw_kind r = ''management'' then Management else Inference),
      kr_created_at = kw_created_at r, kr_last_used_at = kw_last_used_at r,
      kr_revoked_at = kw_revoked_at r\<rparr>"

definition db_view :: "database \<Rightarrow> directory" where
  "db_view d = \<lparr>dr_tenants = cw_id ` set (db_clients d), dr_keys = map row_record (db_keys d)\<rparr>"

definition pg_view :: "pg_store \<Rightarrow> directory" where "pg_view s = db_view (pg_db s)"
definition pg_inv :: "pg_store \<Rightarrow> bool" where "pg_inv s \<longleftrightarrow> db_ok (pg_db s)"

lemma row_record_simps [simp]:
  "kr_id (row_record r) = kw_id r" "kr_client_id (row_record r) = kw_client_id r"
  "kr_digest (row_record r) = kw_key_digest r" "kr_display_id (row_record r) = kw_display_id r"
  "kr_created_at (row_record r) = kw_created_at r" "kr_last_used_at (row_record r) = kw_last_used_at r"
  "kr_revoked_at (row_record r) = kw_revoked_at r" "kr_name (row_record r) = kw_name r"
  by (simp_all add: row_record_def)

lemma key_row_okD:
  assumes "key_row_ok r"
  shows "length (kw_key_digest r) = 32" "kw_kind r = ''management'' \<or> kw_kind r = ''inference''"
  using assms by (auto simp: key_row_ok_def check_key_def split: if_splits)

lemma kind_of_row:
  "key_row_ok r \<Longrightarrow> kind_parse (kw_kind r) = Ok (kr_kind (row_record r))"
  using key_row_okD(2) [of r] by (auto simp: kind_parse_def row_record_def)

text \<open>Every stored row decodes.\<close>

lemma api_key_from_row_ok: "key_row_ok r \<Longrightarrow> api_key_from_row r = Ok (row_record r)"
  using kind_of_row [of r] key_row_okD(1) [of r]
  by (simp add: api_key_from_row_def digest_from_slice_def row_record_def)

lemma row_kind_iff: "key_row_ok r \<Longrightarrow> kw_kind r = kind_as_str k \<longleftrightarrow> kr_kind (row_record r) = k"
  using kind_of_row [of r] by (metis Inr_inject kind_parse_Ok_iff)

lemma row_of_new_key_record [simp]: "row_record (row_of_new_key k) = record_of_new k"
  by (cases "nk_kind k") (simp_all add: row_record_def row_of_new_key_def record_of_new_def)

lemma db_view_simps [simp]:
  "dr_tenants (db_view d) = cw_id ` set (db_clients d)"
  "dr_keys (db_view d) = map row_record (db_keys d)"
  by (simp_all add: db_view_def)

lemma db_ok_rows: "db_ok d \<Longrightarrow> r \<in> set (db_keys d) \<Longrightarrow> key_row_ok r"
  by (simp add: db_ok_def)

lemma db_view_ok: "db_ok d \<Longrightarrow> dir_ok (db_view d)"
  by (auto simp: db_ok_def dir_ok_def comp_def)

section \<open>Statements on the directory\<close>

lemma insert_key_stmt_dir:
  assumes "insert_key_stmt k d = Ok (r, d')"
  shows "dir_insert_key k (db_view d) = Some (record_of_new k, db_view d')"
    "api_key_from_row r = Ok (record_of_new k)"
  using insert_key_stmt_OkD [OF assms] api_key_from_row_ok [of r]
  by (auto simp: dir_insert_key_def fresh_key_def db_view_def)

lemma insert_pair_dir:
  assumes c: "insert_client_stmt c d = Ok (r1, d1)" and k: "insert_key_stmt k d1 = Ok (r2, d2)"
    and own: "nk_client_id k = nc_id c"
  shows "dir_provision c k (db_view d) = Some ((client_of_new c, record_of_new k), db_view d2)"
    "client_from_row r1 = Ok (client_of_new c)"
  using insert_client_stmt_OkD [OF c] insert_key_stmt_OkD [OF k] own
  by (auto simp: dir_provision_def fresh_key_def db_view_def client_from_row_def client_of_new_def)

lemma insert_pair:
  "insert_client_stmt c d = Ok (r1, d1) \<Longrightarrow> insert_key_stmt k d1 = Ok (r2, d2) \<Longrightarrow>
   nk_client_id k = nc_id c \<Longrightarrow> client_from_row r1 = Ok cr \<Longrightarrow> db_ok d \<Longrightarrow>
   db_ok d2 \<and> dir_provision c k (db_view d) = Some ((cr, record_of_new k), db_view d2)"
  by (metis Inr_inject insert_client_stmt_ok insert_key_stmt_ok insert_pair_dir)

lemma update_keys_stmt_dir:
  assumes u: "update_keys_stmt p f d = Ok (us, d')"
    and g: "\<And>r. r \<in> set (db_keys d) \<Longrightarrow> row_record (if p r then f r else r) = g (row_record r)"
  shows "db_view d' = (db_view d)\<lparr>dr_keys := map g (dr_keys (db_view d))\<rparr>"
  using g unfolding update_keys_stmt_OkD(2) [OF u] by (simp add: db_view_def)

lemma touch_stmt_dir:
  assumes "touch_stmt c i t d = Ok (us, d')"
  shows "db_view d' = touch_where (\<lambda>k. kr_id k = i \<and> kr_client_id k = c) t (db_view d)"
  unfolding touch_where_def using assms unfolding touch_stmt_def
  by (rule update_keys_stmt_dir)
    (simp add: touch_def is_revoked_def not_newer_def row_record_def split: option.splits)

lemma update_same_ok: "update_keys_stmt p f d = Ok (us, d') \<Longrightarrow> db_ok d \<Longrightarrow> db_ok d'"
  by (rule update_keys_stmt_ok)

lemma touch_stmt_ok: "touch_stmt c i t d = Ok (us, d') \<Longrightarrow> db_ok d \<Longrightarrow> db_ok d'"
  unfolding touch_stmt_def by (rule update_keys_stmt_ok)

lemma first_row_filter: "first_row (filter p rs) = List.find p rs"
  by (induction rs) (auto simp: first_row_def)

lemma find_map_record:
  "(\<And>r. r \<in> set rs \<Longrightarrow> p r \<longleftrightarrow> q (row_record r)) \<Longrightarrow>
     List.find q (map row_record rs) = map_option row_record (List.find p rs)"
  by (induction rs) auto

lemma find_digest_view:
  "dir_find dg (db_view d) = map_option row_record (List.find (\<lambda>r. kw_key_digest r = dg) (db_keys d))"
  unfolding dir_find_def by (simp add: find_map_record [of _ "\<lambda>r. kw_key_digest r = dg"])

lemma find_in_set: "List.find p xs = Some x \<Longrightarrow> x \<in> set xs \<and> p x"
  by (auto simp: find_Some_iff)

lemma decode_optional_find:
  "db_ok d \<Longrightarrow> decode_optional (List.find p (db_keys d)) = Ok (map_option row_record (List.find p (db_keys d)))"
  by (cases "List.find p (db_keys d)")
    (auto simp: decode_optional_def api_key_from_row_ok dest!: find_in_set dest: db_ok_rows)

section \<open>The contract\<close>

lemma pg_acquire_only:
  "sbind pg_acquire f s = (r, s') \<Longrightarrow>
     (\<exists>e. r = Inl e \<and> pg_db s' = pg_db s) \<or> (\<exists>u. f () u = (r, s') \<and> pg_db u = pg_db s)"
  by (auto simp: sbind_eq_iff dest!: pg_acquireD)

lemma insert_key_inD:
  assumes "rollback_err (insert_key_in k d s) = (r, s')"
  shows "pg_db s' = pg_db s \<and>
     (\<forall>kr d'. r = Inr (kr, d') \<longrightarrow> kr = record_of_new k \<and> (\<exists>row. insert_key_stmt k d = Ok (row, d')
        \<and> dir_insert_key k (db_view d) = Some (record_of_new k, db_view d') \<and> (db_ok d \<longrightarrow> db_ok d')))"
proof -
  obtain q u where q: "insert_key_in k d s = (q, u)" by (cases "insert_key_in k d s")
  from rollback_errD [OF assms [unfolded q]] have "r = q" "pg_db s' = pg_db u" by auto
  with q show ?thesis
    by (auto simp: insert_key_in_def sbind_eq_iff and_then_Inr_iff insert_key_stmt_dir dest!: pg_in_txD
        intro: insert_key_stmt_ok)
qed

lemma insert_client_inD:
  assumes "rollback_err (insert_client_in c d s) = (r, s')"
  shows "pg_db s' = pg_db s \<and>
     (\<forall>cr d'. r = Inr (cr, d') \<longrightarrow>
        (\<exists>row. insert_client_stmt c d = Ok (row, d') \<and> client_from_row row = Ok cr))"
proof -
  obtain q u where q: "insert_client_in c d s = (q, u)" by (cases "insert_client_in c d s")
  from rollback_errD [OF assms [unfolded q]] have "r = q" "pg_db s' = pg_db u" by auto
  with q show ?thesis
    by (auto simp: insert_client_in_def sbind_eq_iff and_then_Inr_iff dest!: pg_in_txD)
qed

lemma pg_insert_key_law:
  assumes "pg_inv s" "pg_insert_key k s = (r, s')"
  shows "pg_inv s' \<and> implements (dir_insert_key k) (pg_view s) r (pg_view s')"
  using assms unfolding pg_insert_key_def pg_inv_def pg_view_def
  by (auto simp: sbind_eq_iff dest!: pg_beginD insert_key_inD pg_commitD)

lemma pg_provision_law:
  assumes inv: "pg_inv s" and run: "pg_provision_client_with_key c k s = (r, s')"
  shows "pg_inv s' \<and> implements (dir_provision c k) (pg_view s) r (pg_view s')"
proof -
  have "(\<exists>e. r = Inl e) \<and> pg_db s' = pg_db s
     \<or> (\<exists>r1 d1 r2 d2 cr. insert_client_stmt c (pg_db s) = Ok (r1, d1) \<and> insert_key_stmt k d1 = Ok (r2, d2)
          \<and> nk_client_id k = nc_id c \<and> client_from_row r1 = Ok cr
          \<and> (r = Inr (cr, record_of_new k) \<and> pg_db s' = d2
             \<or> (\<exists>e. r = Inl e) \<and> (pg_db s' = pg_db s \<or> pg_db s' = d2)))"
    using run unfolding pg_provision_client_with_key_def
    by (auto simp: sbind_eq_iff dest!: pg_beginD insert_key_inD insert_client_inD pg_commitD split: if_splits)
  then show ?thesis
    using inv unfolding pg_inv_def pg_view_def by (auto dest!: insert_pair)
qed

lemma pg_find_law:
  assumes "pg_inv s" "pg_find_key_by_digest dg s = (r, s')"
  shows "pg_inv s' \<and> implements (\<lambda>D. Some (dir_find dg D, D)) (pg_view s) r (pg_view s')"
  using assms unfolding pg_find_key_by_digest_def pg_inv_def pg_view_def
  by (auto simp: sbind_eq_iff select_keys_stmt_def first_row_filter decode_optional_find find_digest_view
      dest!: pg_autocommitD)

text \<open>A key is found by its identifier and tenant exactly as by its digest.\<close>

lemma touch_where_cong:
  "(\<And>k. k \<in> set (dr_keys D) \<Longrightarrow> p k \<and> touch t k \<noteq> k \<longleftrightarrow> q k \<and> touch t k \<noteq> k) \<Longrightarrow>
     touch_where p t D = touch_where q t D"
  unfolding touch_where_def
  by (rule arg_cong [where f = "\<lambda>ks. D\<lparr>dr_keys := ks\<rparr>"], rule map_cong [OF refl]) metis

lemma touch_where_none: "(\<And>k. k \<in> set (dr_keys D) \<Longrightarrow> p k \<Longrightarrow> touch t k = k) \<Longrightarrow> touch_where p t D = D"
  unfolding touch_where_def by (cases D) (auto intro!: map_idI)

lemma same_key:
  assumes "dir_ok D" "k \<in> set (dr_keys D)" "x \<in> set (dr_keys D)"
  shows "kr_id x = kr_id k \<longleftrightarrow> x = k" "kr_digest x = kr_digest k \<longleftrightarrow> x = k"
  using assms by (auto simp: dir_ok_def dest: distinct_map_unique)

lemma touch_where_same:
  assumes "dir_ok D" "k \<in> set (dr_keys D)"
  shows "touch_where (\<lambda>x. kr_id x = kr_id k \<and> kr_client_id x = kr_client_id k) t D =
         touch_where (\<lambda>x. kr_digest x = kr_digest k) t D"
  using same_key [OF assms] by (intro touch_where_cong) auto

lemma touch_row:
  "touch t (row_record r) =
     (if kw_revoked_at r = None \<and> not_newer (kw_last_used_at r) t
      then row_record (r\<lparr>kw_last_used_at := Some t\<rparr>) else row_record r)"
  by (simp add: touch_def is_revoked_def not_newer_def row_record_def split: option.splits)

lemma touch_changes:
  "touch t (row_record r) \<noteq> row_record r \<longleftrightarrow> kw_revoked_at r = None \<and> not_newer (kw_last_used_at r) t"
  by (auto simp: touch_def is_revoked_def not_newer_def row_record_def split: option.splits)

lemma one_of_filter:
  "distinct (map f xs) \<Longrightarrow> length (filter (\<lambda>x. f x = a \<and> q x) xs) = 1 \<longleftrightarrow> (\<exists>x \<in> set xs. f x = a \<and> q x)"
proof (induction xs)
  case (Cons x xs)
  have "filter (\<lambda>y. f y = a \<and> q y) xs = []" if "f x = a"
    using Cons.prems that by (auto simp: filter_empty_conv image_iff)
  with Cons show ?case by (auto simp: image_iff)
qed simp

lemma find_filter_map: "first_row (map f (filter p xs)) = map_option f (List.find p xs)"
  by (induction xs) (auto simp: first_row_def)

lemma find_by_id:
  "distinct (map f xs) \<Longrightarrow> x \<in> set xs \<Longrightarrow> List.find (\<lambda>y. f y = f x \<and> q y) xs = (if q x then Some x else None)"
  by (induction xs) (auto simp: find_None_iff image_iff)

lemma touch_stmt_us:
  assumes "touch_stmt c i t d = Ok (us, d')"
  shows "us = map (\<lambda>r. r\<lparr>kw_last_used_at := Some t\<rparr>)
      (filter (\<lambda>r. kw_id r = i \<and> kw_client_id r = c \<and> kw_revoked_at r = None \<and> not_newer (kw_last_used_at r) t)
        (db_keys d))"
  using update_keys_stmt_OkD(1) [OF assms [unfolded touch_stmt_def]] .

lemma touch_stmt_result:
  assumes u: "touch_stmt c i t d = Ok (us, d')" and ok: "db_ok d"
  shows "dir_touch c i t (db_view d) = (length us = 1, db_view d')"
proof -
  have "length us = 1 \<longleftrightarrow> (\<exists>r \<in> set (db_keys d). kw_id r = i \<and> kw_client_id r = c \<and> kw_revoked_at r = None
      \<and> not_newer (kw_last_used_at r) t)"
    unfolding touch_stmt_us [OF u] length_map using ok by (subst one_of_filter) (auto simp: db_ok_def)
  then show ?thesis
    unfolding dir_touch_def touch_stmt_dir [OF u, symmetric]
    by (simp add: list_ex_iff touch_changes)
qed

lemma pg_touch_law:
  assumes "pg_inv s" "pg_touch_last_used c i t s = (r, s')"
  shows "pg_inv s' \<and> implements (\<lambda>D. Some (dir_touch c i t D)) (pg_view s) r (pg_view s')"
  using assms unfolding pg_touch_last_used_def pg_inv_def pg_view_def
  by (auto simp: sbind_eq_iff touch_stmt_result dest!: pg_autocommitD intro: touch_stmt_ok)

text \<open>The transaction of an authentication, as one function of the tables.\<close>

lemma authenticate_rowD:
  assumes "authenticate_row row t d s = (r, s')" "pg_db s = d" "api_key_from_row row = Ok k"
  shows "(\<exists>e. r = Inl e) \<and> pg_db s' = d
    \<or> is_revoked k \<and> r = Inr (Some k) \<and> pg_db s' = d
    \<or> \<not> is_revoked k \<and> (\<exists>us. touch_stmt (kr_client_id k) (kr_id k) t d = Ok (us, pg_db s')
        \<and> ((\<exists>e. r = Inl e) \<or> r = Inr (Some (case first_row us of
                       Some u \<Rightarrow> k\<lparr>kr_last_used_at := kw_last_used_at u\<rparr> | None \<Rightarrow> k))))"
  using assms unfolding authenticate_row_def
  by (cases "is_revoked k") (auto simp: sbind_eq_iff Let_def dest!: tx_stmtD pg_commitD rollback_errD)

lemma authenticate_digest_onD:
  assumes "authenticate_digest_on dg t s = (r, s')"
  shows "(\<exists>e. r = Inl e) \<and> pg_db s' = pg_db s
    \<or> List.find (\<lambda>r. kw_key_digest r = dg) (db_keys (pg_db s)) = None \<and> r = Inr None \<and> pg_db s' = pg_db s
    \<or> (\<exists>row u. List.find (\<lambda>r. kw_key_digest r = dg) (db_keys (pg_db s)) = Some row
        \<and> authenticate_row row t (pg_db s) u = (r, s') \<and> pg_db u = pg_db s)"
  using assms unfolding authenticate_digest_on_def
  by (cases "List.find (\<lambda>r. kw_key_digest r = dg) (db_keys (pg_db s))";
      (auto simp: sbind_eq_iff select_keys_stmt_def first_row_filter dest!: pg_beginD tx_stmtD pg_commitD))

text \<open>The returned row is the one the commit leaves.\<close>

lemma touched_record:
  assumes ok: "db_ok d" and row: "row \<in> set (db_keys d)" and live: "\<not> is_revoked (row_record row)"
    and u: "touch_stmt (kw_client_id row) (kw_id row) t d = Ok (us, d')"
  shows "(case first_row us of Some x \<Rightarrow> (row_record row)\<lparr>kr_last_used_at := kw_last_used_at x\<rparr>
            | None \<Rightarrow> row_record row) = touch t (row_record row)"
    "db_view d' = touch_where (\<lambda>x. kr_digest x = kw_key_digest row) t (db_view d)"
proof -
  have "distinct (map kw_id (db_keys d))" using ok by (simp add: db_ok_def)
  from find_by_id [OF this row, of "\<lambda>r. kw_client_id r = kw_client_id row \<and> kw_revoked_at r = None
      \<and> not_newer (kw_last_used_at r) t"]
  have "first_row us = (if not_newer (kw_last_used_at row) t then Some (row\<lparr>kw_last_used_at := Some t\<rparr>) else None)"
    using live unfolding touch_stmt_us [OF u] find_filter_map by (simp add: is_revoked_def)
  then show "(case first_row us of Some x \<Rightarrow> (row_record row)\<lparr>kr_last_used_at := kw_last_used_at x\<rparr>
            | None \<Rightarrow> row_record row) = touch t (row_record row)"
    using live by (simp add: touch_def is_revoked_def not_newer_def split: option.splits)
  have "row_record row \<in> set (dr_keys (db_view d))" using row by simp
  from touch_where_same [OF db_view_ok [OF ok] this, of t]
  show "db_view d' = touch_where (\<lambda>x. kr_digest x = kw_key_digest row) t (db_view d)"
    using touch_stmt_dir [OF u] by simp
qed

lemma authenticate_on_law:
  assumes ok: "db_ok (pg_db s)" and run: "authenticate_digest_on dg t s = (r, s')"
  shows "db_ok (pg_db s') \<and>
    implements (\<lambda>D. Some (dir_authenticate dg t D)) (db_view (pg_db s)) r (db_view (pg_db s'))"
  using authenticate_digest_onD [OF run]
proof (elim disjE exE conjE)
  assume "List.find (\<lambda>r. kw_key_digest r = dg) (db_keys (pg_db s)) = None" "r = Inr None" "pg_db s' = pg_db s"
  moreover from this(1) have "touch_where (\<lambda>k. kr_digest k = dg) t (db_view (pg_db s)) = db_view (pg_db s)"
    by (intro touch_where_none) (auto simp: find_None_iff)
  ultimately show ?thesis using ok by (simp add: dir_authenticate_def find_digest_view)
next
  fix row u
  assume f: "List.find (\<lambda>r. kw_key_digest r = dg) (db_keys (pg_db s)) = Some row"
    and a: "authenticate_row row t (pg_db s) u = (r, s')" and u: "pg_db u = pg_db s"
  have row: "row \<in> set (db_keys (pg_db s))" "kw_key_digest row = dg" using find_in_set [OF f] by auto
  have dec: "api_key_from_row row = Ok (row_record row)"
    by (rule api_key_from_row_ok [OF db_ok_rows [OF ok row(1)]])
  have dir: "dir_find dg (db_view (pg_db s)) = Some (row_record row)" by (simp add: find_digest_view f)
  show ?thesis
    using authenticate_rowD [OF a u dec]
  proof (elim disjE exE conjE)
    assume rv: "is_revoked (row_record row)" and r: "r = Inr (Some (row_record row))" "pg_db s' = pg_db s"
    have "touch_where (\<lambda>k. kr_digest k = dg) t (db_view (pg_db s)) = db_view (pg_db s)"
      using rv row by (intro touch_where_none)
        (metis (no_types, lifting) db_view_ok db_view_simps(2) dir dir_find_eq ok option.inject touch_def)
    then show ?thesis using ok r rv by (simp add: dir_authenticate_def dir touch_def)
  qed (use ok touched_record [OF ok row(1)] row(2) touch_stmt_ok in
      \<open>auto simp: dir_authenticate_def dir\<close>)
qed (use ok in auto)

lemma pg_authenticate_law:
  assumes inv: "pg_inv s" and run: "pg_authenticate_digest dg t s = (r, s')"
  shows "pg_inv s' \<and> implements (\<lambda>D. Some (dir_authenticate dg t D)) (pg_view s) r (pg_view s')"
  using pg_acquire_only [OF run [unfolded pg_authenticate_digest_def]]
proof (elim disjE exE conjE)
  fix u assume "authenticate_digest_on dg t u = (r, s')" "pg_db u = pg_db s"
  then show ?thesis
    using authenticate_on_law [of u dg t r s'] inv by (simp add: pg_inv_def pg_view_def)
qed (use inv in \<open>simp add: pg_inv_def pg_view_def\<close>)

lemma implements_unknown:
  "implements spec D r D' \<Longrightarrow> implements spec D (Inl e) D'"
  by (cases r) auto

lemma pg_dropped_law:
  assumes inv: "pg_inv s" and s': "pg_authenticate_dropped dg t n b s = s'"
  shows "pg_inv s' \<and> implements (\<lambda>D. Some (dir_authenticate dg t D)) (pg_view s) (Inl AsUnavailable) (pg_view s')"
proof -
  define u where "u = s\<lparr>pg_replies := cut_replies n b (pg_replies s)\<rparr>"
  obtain r v where v: "pg_authenticate_digest dg t u = (r, v)" by (cases "pg_authenticate_digest dg t u")
  have u: "pg_inv u" "pg_view u = pg_view s" using inv by (simp_all add: u_def pg_inv_def pg_view_def)
  have "pg_db s' = pg_db v" using s' v by (auto simp: pg_authenticate_dropped_def u_def)
  then have "pg_inv s' = pg_inv v" "pg_view s' = pg_view v" by (simp_all add: pg_inv_def pg_view_def)
  with pg_authenticate_law [OF u(1) v] u(2) show ?thesis using implements_unknown by metis
qed

lemma sort_key_map_record:
  "sort_key f (map g xs) = map g (sort_key (\<lambda>x. f (g x)) xs)"
proof (induction xs)
  case (Cons x xs)
  have "insort_key f (g x) (map g ys) = map g (insort_key (\<lambda>x. f (g x)) x ys)" for ys
    by (induction ys) auto
  with Cons show ?case by simp
qed simp

lemma filter_map_record:
  "(\<And>r. r \<in> set rs \<Longrightarrow> p r \<longleftrightarrow> q (row_record r)) \<Longrightarrow>
     filter q (map row_record rs) = map row_record (filter p rs)"
  by (induction rs) auto

lemma collect_rows:
  "(\<And>r. r \<in> set rs \<Longrightarrow> key_row_ok r) \<Longrightarrow> collect_results api_key_from_row rs = Ok (map row_record rs)"
  by (induction rs) (simp_all add: api_key_from_row_ok)

lemma page_dir:
  assumes ok: "db_ok d" and run: "select_page_stmt (\<lambda>r. kw_client_id r = c \<and>
      (map_option kind_as_str kd = None \<or> Some (kw_kind r) = map_option kind_as_str kd)) limit off d = Ok (rows, d')"
    and lim: "1 \<le> limit" "limit \<le> max_key_list_limit" "0 \<le> off"
  shows "d' = d" "dir_list c limit off kd (db_view d) = Some (map row_record rows)"
    "collect_results api_key_from_row rows = Ok (map row_record rows)"
proof -
  let ?p = "\<lambda>r. kw_client_id r = c \<and>
      (map_option kind_as_str kd = None \<or> Some (kw_kind r) = map_option kind_as_str kd)"
  have rows: "rows = take (nat limit) (drop (nat off)
      (rev (sort_key (\<lambda>r. (kw_created_at r, kw_id r)) (filter ?p (db_keys d)))))" and "d' = d"
    using run by (auto simp: select_page_stmt_def)
  show "d' = d" by fact
  have "filter (\<lambda>k. kr_client_id k = c \<and> (case kd of None \<Rightarrow> True | Some x \<Rightarrow> kr_kind k = x)) (map row_record (db_keys d))
      = map row_record (filter ?p (db_keys d))"
    by (rule filter_map_record) (auto simp: row_kind_iff [OF db_ok_rows [OF ok]] split: option.split)
  then show "dir_list c limit off kd (db_view d) = Some (map row_record rows)"
    using lim by (simp add: dir_list_def dir_inventory_def sort_key_map_record rows
        take_map drop_map rev_map)
  have "set rows \<subseteq> set (db_keys d)"
    unfolding rows using set_take_subset set_drop_subset by (fastforce dest!: in_set_takeD in_set_dropD)
  then show "collect_results api_key_from_row rows = Ok (map row_record rows)"
    by (intro collect_rows) (auto intro: db_ok_rows [OF ok])
qed

lemma pg_list_law:
  assumes inv: "pg_inv s" and run: "pg_list_keys_for_client c limit off kd s = (r, s')"
  shows "pg_inv s' \<and> implements (\<lambda>D. map_option (\<lambda>ks. (ks, D)) (dir_list c limit off kd D)) (pg_view s) r (pg_view s')"
proof (cases "1 \<le> limit \<and> limit \<le> max_key_list_limit \<and> 0 \<le> off")
  case True
  with run page_dir [OF inv [unfolded pg_inv_def], of c kd limit off] inv show ?thesis
    unfolding pg_list_keys_for_client_def pg_inv_def pg_view_def
    by (auto simp: sbind_eq_iff dest!: pg_autocommitD)
next
  case False
  with run inv show ?thesis by (auto simp: pg_list_keys_for_client_def split: if_splits)
qed

lemma pg_probe_law:
  assumes "pg_inv s" "pg_probe_authentication_access b s = (r, s')"
  shows "pg_inv s' \<and> implements (\<lambda>D. Some ((), D)) (pg_view s) r (pg_view s')"
  using assms unfolding pg_probe_authentication_access_def pg_inv_def pg_view_def
  by (cases r) (auto simp: sbind_eq_iff dest!: pg_acquireD)

text \<open>A revocation.\<close>

lemma revoke_stmt_dir:
  assumes u: "revoke_stmt c i t d = Ok (us, d')"
  shows "db_view d' = snd (dir_revoke c i t (db_view d))"
    "first_row us = map_option (\<lambda>r. r\<lparr>kw_revoked_at := Some t\<rparr>)
       (List.find (\<lambda>r. kw_id r = i \<and> kw_client_id r = c \<and> kw_revoked_at r = None) (db_keys d))"
    "r \<in> set (db_keys d) \<Longrightarrow> kw_id r = i \<Longrightarrow> kw_client_id r = c \<Longrightarrow> kw_revoked_at r = None \<Longrightarrow>
       key_row_ok (r\<lparr>kw_revoked_at := Some t\<rparr>)"
    "db_ok d \<Longrightarrow> db_ok d'"
proof -
  note u' = u [unfolded revoke_stmt_def]
  show "db_view d' = snd (dir_revoke c i t (db_view d))"
    unfolding dir_revoke_def snd_conv
    by (rule update_keys_stmt_dir [OF u'])
      (auto simp: revoke_at_def is_revoked_def row_record_def)
  show "first_row us = map_option (\<lambda>r. r\<lparr>kw_revoked_at := Some t\<rparr>)
       (List.find (\<lambda>r. kw_id r = i \<and> kw_client_id r = c \<and> kw_revoked_at r = None) (db_keys d))"
    unfolding update_keys_stmt_OkD(1) [OF u'] by (rule find_filter_map)
  show "r \<in> set (db_keys d) \<Longrightarrow> kw_id r = i \<Longrightarrow> kw_client_id r = c \<Longrightarrow> kw_revoked_at r = None \<Longrightarrow>
       key_row_ok (r\<lparr>kw_revoked_at := Some t\<rparr>)"
    using update_keys_stmt_OkD(3) [OF u'] by auto
  show "db_ok d \<Longrightarrow> db_ok d'" by (rule update_keys_stmt_ok [OF u'])
qed

lemma find_pair_view:
  "List.find (\<lambda>k. kr_id k = i \<and> kr_client_id k = c) (dr_keys (db_view d))
     = map_option row_record (List.find (\<lambda>r. kw_id r = i \<and> kw_client_id r = c) (db_keys d))"
  by (simp add: find_map_record [of _ "\<lambda>r. kw_id r = i \<and> kw_client_id r = c"])

lemma find_live:
  assumes ok: "db_ok d"
  shows "List.find (\<lambda>r. kw_id r = i \<and> kw_client_id r = c \<and> kw_revoked_at r = None) (db_keys d) =
    (case List.find (\<lambda>r. kw_id r = i \<and> kw_client_id r = c) (db_keys d) of
       Some r \<Rightarrow> (if kw_revoked_at r = None then Some r else None) | None \<Rightarrow> None)"
proof (cases "List.find (\<lambda>r. kw_id r = i \<and> kw_client_id r = c) (db_keys d)")
  case (Some r)
  have "distinct (map kw_id (db_keys d))" using ok by (simp add: db_ok_def)
  from find_by_id [OF this, of r "\<lambda>x. kw_client_id x = c \<and> kw_revoked_at x = None"] find_in_set [OF Some]
  show ?thesis using Some by auto
next
  case None
  then have "List.find (\<lambda>r. kw_id r = i \<and> kw_client_id r = c \<and> kw_revoked_at r = None) (db_keys d) = None"
    by (auto simp: find_None_iff)
  with None show ?thesis by simp
qed

lemma revoke_dir_cases:
  assumes ok: "db_ok d" and u: "revoke_stmt c i t d = Ok (us, d')"
  shows "List.find (\<lambda>r. kw_id r = i \<and> kw_client_id r = c) (db_keys d) = None \<Longrightarrow>
      first_row us = None \<and> d' = d \<and> dir_revoke c i t (db_view d) = (RevokeNotFound, db_view d)"
    "List.find (\<lambda>r. kw_id r = i \<and> kw_client_id r = c) (db_keys d) = Some r \<Longrightarrow> kw_revoked_at r \<noteq> None \<Longrightarrow>
      first_row us = None \<and> d' = d \<and> api_key_from_row r = Ok (row_record r)
      \<and> dir_revoke c i t (db_view d) = (AlreadyRevoked (row_record r), db_view d)"
    "List.find (\<lambda>r. kw_id r = i \<and> kw_client_id r = c) (db_keys d) = Some r \<Longrightarrow> kw_revoked_at r = None \<Longrightarrow>
      first_row us = Some (r\<lparr>kw_revoked_at := Some t\<rparr>)
      \<and> api_key_from_row (r\<lparr>kw_revoked_at := Some t\<rparr>) = Ok (row_record (r\<lparr>kw_revoked_at := Some t\<rparr>))
      \<and> dir_revoke c i t (db_view d) = (Revoked (row_record (r\<lparr>kw_revoked_at := Some t\<rparr>)), db_view d')"
proof -
  let ?live = "List.find (\<lambda>r. kw_id r = i \<and> kw_client_id r = c \<and> kw_revoked_at r = None) (db_keys d)"
  have same: "d' = d" if "?live = None"
    using that unfolding update_keys_stmt_OkD(2) [OF u [unfolded revoke_stmt_def]]
    by (cases d) (auto simp: find_None_iff intro!: map_idI)
  have dir: "dir_revoke c i t (db_view d) = (fst (dir_revoke c i t (db_view d)), db_view d')"
    using revoke_stmt_dir(1) [OF u] by simp
  note fst = dir_revoke_def find_pair_view [unfolded db_view_simps]
  { assume f: "List.find (\<lambda>r. kw_id r = i \<and> kw_client_id r = c) (db_keys d) = None"
    then have "?live = None" using find_live [OF ok, of i c] by simp
    with f dir same revoke_stmt_dir(2) [OF u]
    show "first_row us = None \<and> d' = d \<and> dir_revoke c i t (db_view d) = (RevokeNotFound, db_view d)"
      by (simp add: fst) }
  { assume f: "List.find (\<lambda>r. kw_id r = i \<and> kw_client_id r = c) (db_keys d) = Some r" and "kw_revoked_at r \<noteq> None"
    then have "?live = None" using find_live [OF ok, of i c] by simp
    with f dir same revoke_stmt_dir(2) [OF u] \<open>kw_revoked_at r \<noteq> None\<close> find_in_set [OF f]
    show "first_row us = None \<and> d' = d \<and> api_key_from_row r = Ok (row_record r)
      \<and> dir_revoke c i t (db_view d) = (AlreadyRevoked (row_record r), db_view d)"
      by (simp add: fst is_revoked_def api_key_from_row_ok db_ok_rows [OF ok]) }
  { assume f: "List.find (\<lambda>r. kw_id r = i \<and> kw_client_id r = c) (db_keys d) = Some r" and l: "kw_revoked_at r = None"
    then have "?live = Some r" using find_live [OF ok, of i c] by simp
    moreover have "key_row_ok (r\<lparr>kw_revoked_at := Some t\<rparr>)"
      using revoke_stmt_dir(3) [OF u, of r] find_in_set [OF f] l by simp
    ultimately show "first_row us = Some (r\<lparr>kw_revoked_at := Some t\<rparr>)
      \<and> api_key_from_row (r\<lparr>kw_revoked_at := Some t\<rparr>) = Ok (row_record (r\<lparr>kw_revoked_at := Some t\<rparr>))
      \<and> dir_revoke c i t (db_view d) = (Revoked (row_record (r\<lparr>kw_revoked_at := Some t\<rparr>)), db_view d')"
      using f dir revoke_stmt_dir(2) [OF u] l
      by (simp add: fst is_revoked_def api_key_from_row_ok revoke_at_def)
        (simp add: row_record_def) }
qed

lemma revoke_finish_none:
  assumes "revoke_finish c i us d s = (r, s')" "first_row us = None"
  shows "(\<exists>e. r = Inl e) \<and> (pg_db s' = pg_db s \<or> pg_db s' = d)
    \<or> pg_db s' = d \<and>
        (case List.find (\<lambda>r. kw_id r = i \<and> kw_client_id r = c) (db_keys d) of
           Some row \<Rightarrow> r = and_then (api_key_from_row row) (\<lambda>k. Ok (AlreadyRevoked k))
         | None \<Rightarrow> r = Inr RevokeNotFound)"
  using assms unfolding revoke_finish_def
  by (cases "List.find (\<lambda>r. kw_id r = i \<and> kw_client_id r = c) (db_keys d)")
    (auto simp: sbind_eq_iff select_keys_stmt_def first_row_filter dest!: tx_stmtD pg_commitD)

lemma revoke_finish_some:
  assumes "revoke_finish c i us d s = (r, s')" "first_row us = Some row" "api_key_from_row row = Ok k"
  shows "(\<exists>e. r = Inl e) \<and> (pg_db s' = pg_db s \<or> pg_db s' = d) \<or> r = Inr (Revoked k) \<and> pg_db s' = d"
  using assms unfolding revoke_finish_def
  by (auto simp: sbind_eq_iff dest!: pg_commitD rollback_errD)

lemma pg_revoke_law:
  assumes inv: "pg_inv s" and run: "pg_revoke_key c i t s = (r, s')"
  shows "pg_inv s' \<and> implements (\<lambda>D. Some (dir_revoke c i t D)) (pg_view s) r (pg_view s')"
proof -
  have ok: "db_ok (pg_db s)" using inv by (simp add: pg_inv_def)
  have "(\<exists>e. r = Inl e) \<and> pg_db s' = pg_db s
    \<or> (\<exists>us d' u. revoke_stmt c i t (pg_db s) = Ok (us, d') \<and> pg_db u = pg_db s
          \<and> revoke_finish c i us d' u = (r, s'))"
    using run unfolding pg_revoke_key_def by (auto simp: sbind_eq_iff dest!: pg_beginD tx_stmtD)
  then show ?thesis
  proof (elim disjE exE conjE)
    fix us d' u
    assume u: "revoke_stmt c i t (pg_db s) = Ok (us, d')" and db: "pg_db u = pg_db s"
      and fin: "revoke_finish c i us d' u = (r, s')"
    note ok' = revoke_stmt_dir(4) [OF u ok]
    note cs = revoke_dir_cases [OF ok u]
    show ?thesis
    proof (cases "List.find (\<lambda>r. kw_id r = i \<and> kw_client_id r = c) (db_keys (pg_db s))")
      case None
      then show ?thesis using cs(1) revoke_finish_none [OF fin] ok db
        by (auto simp: pg_inv_def pg_view_def)
    next
      case (Some row)
      show ?thesis
      proof (cases "kw_revoked_at row = None")
        case True
        note c3 = cs(3) [OF Some True]
        show ?thesis
          using revoke_finish_some [OF fin c3 [THEN conjunct1] c3 [THEN conjunct2, THEN conjunct1]] c3 ok ok' db
          by (auto simp: pg_inv_def pg_view_def)
      next
        case False
        with cs(2) [OF Some] revoke_finish_none [OF fin] ok db Some show ?thesis
          by (auto simp: pg_inv_def pg_view_def)
      qed
    qed
  qed (use inv in \<open>auto simp: pg_inv_def pg_view_def\<close>)
qed

lemma pg_view_ok: "pg_inv s \<Longrightarrow> dir_ok (pg_view s)"
  by (simp add: pg_inv_def pg_view_def db_view_ok)

interpretation pg: auth_store "pg_ops b" pg_view pg_inv for b
  by (unfold_locales; (unfold pg_ops_def auth_store_ops.select_convs)?)
    (erule pg_view_ok | erule (1) pg_provision_law | erule (1) pg_insert_key_law | erule (1) pg_find_law
      | erule (1) pg_authenticate_law | erule (1) pg_dropped_law | erule (1) pg_touch_law
      | erule (1) pg_list_law | erule (1) pg_revoke_law | erule (1) pg_probe_law)+

end
