(* ===== verification/Auth_System.thy ===== *)
theory Auth_System
  imports Auth_Service Auth_Postgres
begin

text \<open>
  The histories of a credential store: any number of replicas and operators call the authentication
  service, one operation after the other, with any arguments, clock readings and identifiers. What every
  operation does to the directory of keys is proved once, in the locale of the store's contract.
\<close>

section \<open>Histories\<close>

datatype auth_event =
    EvCreateTenant "provision_error + created_tenant"
  | EvIssueKey uuid "provision_error + issued_key"
  | EvResolve "provision_error + key_identity option"
  | EvCreateKey auth_context "auth_error + issued_key"
  | EvListKeys auth_context key_list_options "auth_error + key_inventory"
  | EvRevokeKey auth_context uuid "auth_error + unit"
  | EvAuthenticate string "authenticate_error + auth_context"
  | EvProbe "auth_store_error + unit"

inductive auth_step ::
    "'s auth_store_ops \<Rightarrow> cred_libs \<Rightarrow> 's \<Rightarrow> auth_event \<Rightarrow> 's \<Rightarrow> bool"
  for ops C where
  step_tenant: "create_tenant ops C src now u v name s = (r, s') \<Longrightarrow>
     auth_step ops C s (EvCreateTenant r) s'"
| step_issue: "issue_key ops C src now v c kind name s = (r, s') \<Longrightarrow>
     auth_step ops C s (EvIssueKey c r) s'"
| step_resolve: "resolve_credential ops C presented s = (r, s') \<Longrightarrow>
     auth_step ops C s (EvResolve r) s'"
| step_create: "create_key ops C src now v actor name kind s = (r, s') \<Longrightarrow>
     auth_step ops C s (EvCreateKey actor r) s'"
| step_list: "list_keys ops actor options s = (r, s') \<Longrightarrow>
     auth_step ops C s (EvListKeys actor options r) s'"
| step_revoke: "revoke_key ops now actor i s = (r, s') \<Longrightarrow>
     auth_step ops C s (EvRevokeKey actor i r) s'"
| step_authenticate: "authenticate ops C now presented s = (r, s') \<Longrightarrow>
     auth_step ops C s (EvAuthenticate presented r) s'"
| step_authenticate_dl: "authenticate_with_deadline ops C now tm presented dl s = (r, s') \<Longrightarrow>
     auth_step ops C s (EvAuthenticate presented r) s'"
| step_probe: "service_probe_access ops s = (r, s') \<Longrightarrow> auth_step ops C s (EvProbe r) s'"

inductive auth_run ::
    "'s auth_store_ops \<Rightarrow> cred_libs \<Rightarrow> 's \<Rightarrow> auth_event list \<Rightarrow> 's \<Rightarrow> bool"
  for ops C where
  run_nil: "auth_run ops C s [] s"
| run_step: "auth_step ops C s e t \<Longrightarrow> auth_run ops C t es u \<Longrightarrow> auth_run ops C s (e # es) u"

inductive_simps auth_run_simps [simp]: "auth_run ops C s [] u" "auth_run ops C s (e # es) u"
inductive_cases step_revokeE: "auth_step ops C s (EvRevokeKey actor i r) s'"
inductive_cases step_listE: "auth_step ops C s (EvListKeys actor options r) s'"
inductive_cases step_createE: "auth_step ops C s (EvCreateKey actor r) s'"
inductive_cases step_tenantE: "auth_step ops C s (EvCreateTenant r) s'"
inductive_cases step_authenticateE: "auth_step ops C s (EvAuthenticate presented r) s'"

text \<open>The keys an event may revoke.\<close>

fun targets :: "auth_event \<Rightarrow> uuid set" where
  "targets (EvRevokeKey _ i _) = {i}"
| "targets _ = {}"

lemma auth_run_append:
  "auth_run ops C s (es @ fs) u \<longleftrightarrow> (\<exists>t. auth_run ops C s es t \<and> auth_run ops C t fs u)"
  by (induction es arbitrary: s) auto

section \<open>Every operation, over any store that keeps the contract\<close>

context auth_store
begin

lemmas op_laws = provision_law [rotated] insert_law [rotated] find_law [rotated]
  authenticate_law [rotated] list_law [rotated] revoke_law [rotated] probe_law [rotated]

lemma implements_evolves:
  assumes "implements spec (view s) r (view s')" "\<And>x D'. spec (view s) = Some (x, D') \<Longrightarrow> evolves {} (view s) D'"
  shows "evolves {} (view s) (view s')"
  using assms by (cases r) auto

text \<open>The keys that creation and issuance insert.\<close>

lemma create_tenantD:
  assumes "create_tenant ops C src now u v name s = (r, s')"
  shows "(\<exists>e. r = Inl e) \<and> s' = s
    \<or> (\<exists>g nm q. generate_credential C src = Ok g
        \<and> as_provision_client_with_key ops
             \<lparr>nc_id = u, nc_display_name = nm, nc_created_at = now\<rparr>
             \<lparr>nk_id = v, nk_client_id = u, nk_digest = gc_digest g, nk_display_id = gc_display_id g,
              nk_name = initial_management_key_name, nk_kind = Management, nk_created_at = now\<rparr> s = (q, s')
        \<and> ((\<exists>e. q = Inl e \<and> r = Inl (provision_of_store e))
          \<or> (\<exists>cr kr. q = Inr (cr, kr) \<and> r = Inr \<lparr>ct_display_name = cr_display_name cr,
                                     ct_key = issued_of_record kr (gc_credential g)\<rparr>)))"
  using assms unfolding create_tenant_def
  by (cases "generate_credential C src"; (auto simp: sbind_eq_iff smap_err_eq_iff split: sum.splits; blast))

lemma create_tenant_step:
  assumes "inv s" "create_tenant ops C src now u v name s = (r, s')"
  shows "inv s' \<and> evolves {} (view s) (view s')"
  using create_tenantD [OF assms(2)] assms(1)
  by (auto dest!: op_laws intro: implements_evolves [OF _ spec_evolves(1)])

lemma create_tenant_Ok:
  assumes inv: "inv s" and run: "create_tenant ops C src now u v name s = (Ok ct, s')"
  shows "\<exists>g k. generate_credential C src = Ok g \<and> k \<in> set (dr_keys (view s')) \<and> \<not> is_revoked k
     \<and> kr_digest k = hash_credential C (gc_credential g) \<and> ik_credential (ct_key ct) = gc_credential g
     \<and> kr_kind k = Management \<and> kr_created_at k = now \<and> kr_id k = ik_key_id (ct_key ct)
     \<and> kr_client_id k = ik_client_id (ct_key ct)"
  using create_tenantD [OF run]
proof (elim disjE exE conjE)
  fix g nm q cr kr
  assume g: "generate_credential C src = Ok g" and q: "q = Inr (cr, kr)"
    and r: "Inr ct = Inr \<lparr>ct_display_name = cr_display_name cr,
                         ct_key = issued_of_record kr (gc_credential g)\<rparr>"
    and st: "as_provision_client_with_key ops
             \<lparr>nc_id = u, nc_display_name = nm, nc_created_at = now\<rparr>
             \<lparr>nk_id = v, nk_client_id = u, nk_digest = gc_digest g, nk_display_id = gc_display_id g,
              nk_name = initial_management_key_name, nk_kind = Management, nk_created_at = now\<rparr> s = (q, s')"
  from provision_law [OF inv st] q
  have "kr \<in> set (dr_keys (view s'))" "kr_id kr = v" "kr_client_id kr = u" "kr_digest kr = gc_digest g"
    "kr_kind kr = Management" "kr_created_at kr = now" "\<not> is_revoked kr"
    by (auto simp: dir_provision_def record_of_new_def is_revoked_def split: if_splits dest!: sym [of _ "view s'"])
  with g r gc_digest_is_hash [OF g] show ?thesis by (auto simp: issued_of_record_def)
qed auto

lemma issue_keyD:
  assumes "issue_key ops C src now v c kind name s = (r, s')"
  shows "(\<exists>e. r = Inl e) \<and> s' = s
    \<or> (\<exists>g nm q. generate_credential C src = Ok g
        \<and> as_insert_key ops
             \<lparr>nk_id = v, nk_client_id = c, nk_digest = gc_digest g, nk_display_id = gc_display_id g,
              nk_name = nm, nk_kind = kind, nk_created_at = now\<rparr> s = (q, s')
        \<and> ((\<exists>e. q = Inl e \<and> r = Inl (provision_of_store e))
          \<or> (\<exists>kr. q = Inr kr \<and> r = Inr (issued_of_record kr (gc_credential g)))))"
  using assms unfolding issue_key_def
  by (cases "generate_credential C src"; (auto simp: sbind_eq_iff smap_err_eq_iff split: sum.splits; blast))

lemma issue_key_step:
  assumes "inv s" "issue_key ops C src now v c kind name s = (r, s')"
  shows "inv s' \<and> evolves {} (view s) (view s') \<and> others c (view s') = others c (view s)"
proof -
  have "inv s' \<and> (view s' = view s \<or> (\<exists>k x. nk_client_id k = c \<and> dir_insert_key k (view s) = Some (x, view s')))"
    using issue_keyD [OF assms(2)] assms(1) by (fastforce dest!: op_laws)
  then show ?thesis using spec_evolves(2) spec_others(1) by auto
qed

lemma resolve_step:
  assumes "inv s" "resolve_credential ops C presented s = (r, s')"
  shows "inv s' \<and> view s' = view s"
  using assms unfolding resolve_credential_def
  by (auto simp: sbind_eq_iff smap_err_eq_iff dest!: op_laws)

lemma create_key_step:
  assumes "inv s" "create_key ops C src now v actor name kind s = (r, s')"
  shows "inv s' \<and> evolves {} (view s) (view s')
     \<and> others (au_client_id actor) (view s') = others (au_client_id actor) (view s)
     \<and> (au_kind actor \<noteq> Management \<longrightarrow> r = Err AuthCapabilityDenied \<and> s' = s)"
  using assms issue_key_step unfolding create_key_def require_management_def
  by (auto simp: smap_err_eq_iff split: if_splits)

lemma list_store_step:
  assumes "as_list_keys_for_client ops c l off kd s = (r, s')" "inv s"
  shows "inv s' \<and> view s' = view s \<and> (\<forall>ks. r = Inr ks \<longrightarrow> dir_list c l off kd (view s) = Some ks)"
  using list_law [OF assms(2,1)] by (cases r) auto

lemma list_keys_step:
  assumes "inv s" "list_keys ops actor options s = (r, s')"
  shows "inv s' \<and> view s' = view s \<and> (au_kind actor \<noteq> Management \<longrightarrow> r = Err AuthCapabilityDenied \<and> s' = s)"
  using assms unfolding list_keys_def require_management_def
  by (auto simp: sbind_eq_iff smap_err_eq_iff dest!: list_store_step split: if_splits option.splits)

text \<open>A successful listing is the page, and \<open>has_more\<close> is whether keys follow it.\<close>

lemma list_keys_Ok:
  assumes "inv s" "list_keys ops actor options s = (Ok ki, s')"
  shows "\<exists>ks. dir_list (au_client_id actor) (lo_limit options) (lo_offset options) (lo_kind options) (view s) = Some ks
     \<and> ki_keys ki = map metadata_of_record ks
     \<and> (ki_has_more ki \<longleftrightarrow> int (length ks) = lo_limit options \<and>
          (\<exists>nxt p. checked_add_i64 (lo_offset options) (lo_limit options) = Some nxt
             \<and> dir_list (au_client_id actor) 1 nxt (lo_kind options) (view s) = Some p \<and> p \<noteq> []))"
  using assms unfolding list_keys_def require_management_def
  by (auto simp: sbind_eq_iff smap_err_eq_iff dest!: list_store_step split: if_splits option.splits)

lemma revoke_outcome_if:
  "(case x of Revoked _ \<Rightarrow> a | AlreadyRevoked _ \<Rightarrow> a | RevokeNotFound \<Rightarrow> b) = (if x = RevokeNotFound then b else a)"
  by (cases x) auto

lemma revoke_keyD:
  assumes "revoke_key ops now actor i s = (r, s')"
  shows "au_kind actor \<noteq> Management \<and> r = Err AuthCapabilityDenied \<and> s' = s
    \<or> au_kind actor = Management \<and> (\<exists>q. as_revoke_key ops (au_client_id actor) i now s = (q, s')
        \<and> (r = Inr () \<longrightarrow> (\<exists>x. q = Inr x \<and> x \<noteq> RevokeNotFound)))"
  using assms unfolding revoke_key_def require_management_def
  by (auto simp: sbind_eq_iff smap_err_eq_iff revoke_outcome_if split: if_splits)

lemma revoke_key_step:
  assumes "inv s" "revoke_key ops now actor i s = (r, s')"
  shows "inv s' \<and> evolves {i} (view s) (view s')
     \<and> others (au_client_id actor) (view s') = others (au_client_id actor) (view s)
     \<and> (au_kind actor \<noteq> Management \<longrightarrow> r = Err AuthCapabilityDenied \<and> s' = s)"
  using revoke_keyD [OF assms(2)]
proof (elim disjE exE conjE)
  fix q assume k: "au_kind actor = Management" and "as_revoke_key ops (au_client_id actor) i now s = (q, s')"
  with revoke_law [OF assms(1)] have "inv s'"
    "view s' = view s \<or> (\<exists>x. dir_revoke (au_client_id actor) i now (view s) = (x, view s'))"
    by (cases q; fastforce)+
  with k show ?thesis using spec_evolves(5) spec_others(2) by auto
qed (use assms(1) in auto)

lemma revoke_key_Ok:
  assumes "inv s" "revoke_key ops now actor i s = (Ok (), s')"
  shows "\<exists>k \<in> set (dr_keys (view s')). kr_id k = i \<and> kr_client_id k = au_client_id actor \<and> is_revoked k"
proof -
  obtain x where "dir_revoke (au_client_id actor) i now (view s) = (x, view s')" "x \<noteq> RevokeNotFound"
    using revoke_keyD [OF assms(2)] assms(1) by (auto dest!: op_laws)
  then obtain k where f: "List.find (\<lambda>k. kr_id k = i \<and> kr_client_id k = au_client_id actor) (dr_keys (view s)) = Some k"
    and v: "dr_keys (view s') = map (\<lambda>k. if kr_id k = i \<and> kr_client_id k = au_client_id actor
        then revoke_at now k else k) (dr_keys (view s))"
    unfolding dir_revoke_def by (auto split: option.splits dest!: sym [of _ "view s'"])
  have "revoke_at now k \<in> set (dr_keys (view s'))" using find_in_set [OF f] unfolding v by auto
  with find_in_set [OF f] show ?thesis by (intro bexI [of _ "revoke_at now k"]) auto
qed

lemma authenticate_step:
  assumes "inv s" "authenticate ops C now presented s = (r, s')"
  shows "inv s' \<and> evolves {} (view s) (view s')"
  using assms unfolding authenticate_def
  by (auto simp: sbind_eq_iff smap_err_eq_iff dest!: op_laws
      intro: implements_evolves [OF _ spec_evolves(3)] split: option.splits if_splits)

text \<open>Who is authenticated owns an active key whose digest is that of the presented credential.\<close>

lemma authenticate_Ok:
  assumes "inv s" "authenticate ops C now presented s = (Ok au, s')"
  shows "\<exists>k \<in> set (dr_keys (view s')). kr_digest k = hash_credential C presented \<and> \<not> is_revoked k
     \<and> au = context_of_record k"
proof -
  obtain q t where q: "as_authenticate_digest ops (hash_credential C presented) now s = (q, t)"
    by (cases "as_authenticate_digest ops (hash_credential C presented) now s")
  then obtain x where x: "q = Inr (Some x)" "\<not> is_revoked x" "au = context_of_record x" "t = s'"
    using assms(2) unfolding authenticate_def
    by (cases q; (auto simp: sbind_def smap_err_def split: option.splits if_splits))
  then obtain k where k: "dir_find (hash_credential C presented) (view s) = Some k" "\<not> is_revoked k"
      "au = context_of_record (touch now k)"
    and v: "view s' = touch_where (\<lambda>k. kr_digest k = hash_credential C presented) now (view s)"
    using authenticate_law [OF assms(1) q] by (auto simp: dir_authenticate_def)
  have "k \<in> set (dr_keys (view s))" "kr_digest k = hash_credential C presented"
    using dir_find_SomeD [OF k(1)] by auto
  then have "touch now k \<in> set (dr_keys (view s'))" unfolding v touch_where_def by auto
  with k dir_find_SomeD [OF k(1)] show ?thesis by (intro bexI [of _ "touch now k"]) auto
qed

lemma dropped_step:
  assumes "inv s" "as_authenticate_dropped ops dg t n b s = s'"
  shows "inv s' \<and> evolves {} (view s) (view s')"
  using dropped_law [OF assms] spec_evolves(3) by auto

lemma authenticate_dlD:
  assumes "authenticate_with_deadline ops C now tm presented dl s = (r, s')"
  shows "s' = s \<and> r = Err AeDeadlineExceeded
    \<or> authenticate ops C now presented s = (r, s')
    \<or> r = Err AeDeadlineExceeded \<and> as_authenticate_dropped ops (hash_credential C presented) now
          (at_answered tm) (at_pending_applied tm) s = s'"
  using assms unfolding authenticate_with_deadline_def by (auto split: if_splits)

lemma authenticate_dl_step:
  assumes "inv s" "authenticate_with_deadline ops C now tm presented dl s = (r, s')"
  shows "inv s' \<and> evolves {} (view s) (view s')"
  using authenticate_dlD [OF assms(2)] assms(1)
  by (elim disjE conjE) (simp, rule authenticate_step, assumption+, rule dropped_step, assumption+)

lemma authenticate_dl_Ok:
  "authenticate_with_deadline ops C now tm presented dl s = (Ok au, s') \<Longrightarrow>
     authenticate ops C now presented s = (Ok au, s')"
  unfolding authenticate_with_deadline_def by (auto split: if_splits)

lemma probe_step:
  "service_probe_access ops s = (r, s') \<Longrightarrow> inv s \<Longrightarrow> inv s' \<and> view s' = view s"
  unfolding service_probe_access_def by (cases r) (auto dest!: op_laws)

lemma auth_step_evolves:
  assumes "inv s" "auth_step ops C s e s'"
  shows "inv s' \<and> evolves (targets e) (view s) (view s')"
  using assms(2,1)
proof cases
  case step_probe then show ?thesis using probe_step assms(1) by simp
next
  case step_resolve then show ?thesis using resolve_step assms(1) by simp
next
  case step_list then show ?thesis using list_keys_step assms(1) by simp
next
  case step_tenant then show ?thesis using create_tenant_step [OF assms(1)] by fastforce
next
  case step_issue then show ?thesis using issue_key_step [OF assms(1)] by fastforce
next
  case step_create then show ?thesis using create_key_step [OF assms(1)] by fastforce
next
  case step_revoke then show ?thesis using revoke_key_step [OF assms(1)] by fastforce
next
  case step_authenticate then show ?thesis using authenticate_step [OF assms(1)] by fastforce
next
  case step_authenticate_dl then show ?thesis using authenticate_dl_step [OF assms(1)] by fastforce
qed

lemma auth_run_evolves:
  "auth_run ops C s es s' \<Longrightarrow> inv s \<Longrightarrow> inv s' \<and> evolves (\<Union>(targets ` set es)) (view s) (view s')"
proof (induction rule: auth_run.induct)
  case (run_step s e t es u)
  then have "inv t" "evolves (targets e) (view s) (view t)" using auth_step_evolves by blast+
  with run_step show ?case by (simp add: evolves_trans)
qed simp

end

end
