(* ===== verification/Auth_Healthy.thy ===== *)
theory Auth_Healthy
  imports Auth_System
begin

text \<open>
  The store while every round trip is answered: what an authentication, a revocation and an insertion
  then return, the rejections by the tables' constraints included. The last section has the concrete
  libraries and the concrete store the witnesses use.
\<close>

section \<open>Answered round trips\<close>

lemma healthy_trips:
  assumes "pg_replies s = []"
  shows "pg_acquire s = (Ok (), s)" "pg_begin s = (Ok (pg_db s), s)"
    "pg_commit d s = (Ok (), s\<lparr>pg_db := d\<rparr>)"
    "pg_in_tx stmt d s = (map_err from_sqlx (stmt d), s)"
    "rollback_err (q, s) = (q, s)"
  using assms by (cases q; simp add: pg_acquire_def next_reply_def pg_begin_def sbind_def pg_commit_def
      pg_in_tx_def rollback_err_def)+

lemma sbind_Inr: "m s = (Inr x, t) \<Longrightarrow> sbind m f s = f x t"
  by (simp add: sbind_def)

lemma sbind_Inl: "m s = (Inl e, t) \<Longrightarrow> sbind m f s = (Inl e, t)"
  by (simp add: sbind_def)

text \<open>The statements on a stored row.\<close>

lemma identity_kept [simp]:
  "identity_trigger r (r\<lparr>kw_last_used_at := x\<rparr>) = None" "identity_trigger r (r\<lparr>kw_revoked_at := x\<rparr>) = None"
  by (simp_all add: identity_trigger_def)

lemma key_row_ok_touch:
  "key_row_ok r \<Longrightarrow> kw_created_at r \<le> t \<Longrightarrow> key_row_ok (r\<lparr>kw_last_used_at := Some t\<rparr>)"
  by (auto simp: key_row_ok_def check_key_def split: if_splits option.splits)

lemma touch_stmt_total:
  assumes "db_ok d" "\<And>r. r \<in> set (db_keys d) \<Longrightarrow> kw_id r = i \<Longrightarrow> kw_client_id r = c \<Longrightarrow> kw_created_at r \<le> t"
  shows "\<exists>us d'. touch_stmt c i t d = Ok (us, d')"
proof -
  have "\<exists>p. update_rows
       (\<lambda>r. kw_id r = i \<and> kw_client_id r = c \<and> kw_revoked_at r = None \<and> not_newer (kw_last_used_at r) t)
       (\<lambda>r. r\<lparr>kw_last_used_at := Some t\<rparr>) (db_keys d) = Ok p"
    using assms db_ok_rows [OF assms(1)] by (subst update_rows_total) (auto intro!: key_row_ok_touch)
  then show ?thesis by (auto simp: touch_stmt_def update_keys_stmt_def)
qed

lemma row_of_key:
  assumes "pg_inv s" "k \<in> set (dr_keys (pg_view s))"
  obtains row where "row \<in> set (db_keys (pg_db s))" "k = row_record row"
    "List.find (\<lambda>r. kw_key_digest r = kr_digest k) (db_keys (pg_db s)) = Some row"
proof -
  have ok: "db_ok (pg_db s)" using assms(1) by (simp add: pg_inv_def)
  obtain row where row: "row \<in> set (db_keys (pg_db s))" "k = row_record row"
    using assms(2) by (auto simp: pg_view_def)
  have "distinct (map kw_key_digest (db_keys (pg_db s)))" using ok by (simp add: db_ok_def)
  from find_by_id [OF this row(1), of "\<lambda>_. True"] row(2)
  show ?thesis using that row by simp
qed

text \<open>An active key authenticates, unless the clock is behind the key's creation.\<close>

lemma healthy_authenticate:
  assumes inv: "pg_inv s" and up: "pg_replies s = []"
    and k: "k \<in> set (dr_keys (pg_view s))" "kr_digest k = hash_credential C presented" "\<not> is_revoked k"
    and t: "kr_created_at k \<le> t"
  shows "fst (authenticate (pg_ops b) C t presented s) = Ok (context_of_record k)"
proof -
  obtain row where row: "row \<in> set (db_keys (pg_db s))" "k = row_record row"
    and f: "List.find (\<lambda>r. kw_key_digest r = kr_digest k) (db_keys (pg_db s)) = Some row"
    using row_of_key [OF inv k(1)] .
  have ok: "db_ok (pg_db s)" using inv by (simp add: pg_inv_def)
  have ids: "distinct (map kw_id (db_keys (pg_db s)))" using ok by (simp add: db_ok_def)
  obtain us d' where u: "touch_stmt (kr_client_id k) (kr_id k) t (pg_db s) = Ok (us, d')"
    using touch_stmt_total [OF ok, of "kr_id k" "kr_client_id k" t] row t
    by (metis distinct_map_unique ids row_record_simps(1,5))
  have dec: "api_key_from_row row = Ok k"
    using api_key_from_row_ok [OF db_ok_rows [OF ok row(1)]] row(2) by simp
  have "\<exists>k' s'. authenticate_row row t (pg_db s) s = (Ok (Some k'), s') \<and> context_of_record k' = context_of_record k
      \<and> \<not> is_revoked k'"
    using up u dec k(3) unfolding authenticate_row_def
    by (auto simp: sbind_def healthy_trips Let_def context_of_record_def is_revoked_def split: option.splits)
  then obtain k' s' where a: "authenticate_row row t (pg_db s) s = (Ok (Some k'), s')"
    "context_of_record k' = context_of_record k" "\<not> is_revoked k'" by blast
  have "pg_authenticate_digest (hash_credential C presented) t s = (Ok (Some k'), s')"
    using a(1) f k(2) up unfolding pg_authenticate_digest_def authenticate_digest_on_def
    by (simp add: sbind_def healthy_trips select_keys_stmt_def first_row_filter)
  then show ?thesis using a(2,3) by (simp add: authenticate_def pg_ops_def sbind_def smap_err_def)
qed

section \<open>Rejections by the tables\<close>

lemma update_rows_violation:
  assumes "distinct (map kw_id rs)" "r \<in> set rs" "p r" "\<And>x. x \<in> set rs \<Longrightarrow> p x \<Longrightarrow> x = r"
    "identity_trigger r (f r) = None" "check_key (f r) = Some e"
  shows "update_rows p f rs = Err e"
  using assms(1,2,4)
proof (induction rs)
  case (Cons x rs)
  show ?case
  proof (cases "x = r")
    case True
    with assms(3,5,6) show ?thesis by simp
  next
    case False
    with Cons.prems have "\<not> p x" "r \<in> set rs" by auto
    with Cons show ?thesis by simp
  qed
qed simp

text \<open>
  The check \<open>api_keys_revoked_order\<close> compares the revoking replica's clock with the creating one's: a
  clock behind the key's creation makes the revocation fail as an outage, and the key stays active.
\<close>

lemma revocation_behind_creation_fails:
  assumes inv: "pg_inv s" and up: "pg_replies s = []"
    and k: "k \<in> set (dr_keys (pg_view s))" "\<not> is_revoked k"
    and actor: "au_kind actor = Management" "au_client_id actor = kr_client_id k"
    and t: "t < kr_created_at k"
  shows "revoke_key (pg_ops b) t actor (kr_id k) s = (Err AuthStoreUnavailable, s)"
proof -
  obtain row where row: "row \<in> set (db_keys (pg_db s))" "k = row_record row"
    using row_of_key [OF inv k(1)] .
  have ok: "db_ok (pg_db s)" using inv by (simp add: pg_inv_def)
  have ids: "distinct (map kw_id (db_keys (pg_db s)))" using ok by (simp add: db_ok_def)
  have "check_key row = None" using db_ok_rows [OF ok row(1)] by (simp add: key_row_ok_def)
  then have "check_key (row\<lparr>kw_revoked_at := Some t\<rparr>) = Some (check_violation ''api_keys_revoked_order'')"
    using t row(2) by (auto simp: check_key_def split: if_splits option.splits)
  then have "update_rows (\<lambda>r. kw_id r = kr_id k \<and> kw_client_id r = kr_client_id k \<and> kw_revoked_at r = None)
      (\<lambda>r. r\<lparr>kw_revoked_at := Some t\<rparr>) (db_keys (pg_db s)) = Err (check_violation ''api_keys_revoked_order'')"
    using row k(2) ids
    by (intro update_rows_violation) (auto simp: is_revoked_def dest: distinct_map_unique)
  then have "pg_revoke_key (kr_client_id k) (kr_id k) t s = (Err AsCheckViolation, s)"
    using up by (simp add: pg_revoke_key_def sbind_def healthy_trips revoke_stmt_def update_keys_stmt_def
        check_violation_def)
  then show ?thesis
    using actor by (simp add: revoke_key_def require_management_def pg_ops_def sbind_def smap_err_def)
qed

text \<open>
  A name with the character NUL passes \<open>validate_name\<close>, is refused by the column and reported as an
  outage of the store.
\<close>

lemma nul_name_is_reported_as_outage:
  assumes up: "pg_replies s = []" and g: "generate_credential C src = Ok g"
    and name: "validate_name raw = Ok name" "CHR 0x00 \<in> set name" and actor: "au_kind actor = Management"
  shows "create_key (pg_ops b) C src now v actor raw kind s = (Err AuthStoreUnavailable, s)"
  using assms by (simp add: create_key_def require_management_def issue_key_def pg_ops_def sbind_def smap_err_def
      pg_insert_key_def insert_key_in_def healthy_trips insert_key_stmt_def Let_def text_ok_def
      untranslatable_character_def)

section \<open>A concrete store\<close>

text \<open>A codec and a digest that keep the laws.\<close>

fun demo_decode :: "string \<Rightarrow> string option" where
  "demo_decode [] = Some []"
| "demo_decode [c] = None"
| "demo_decode (a # b # cs) =
     map_option (\<lambda>r. char_of (16 * (of_char a - 97) + (of_char b - 97) :: nat) # r) (demo_decode cs)"

definition demo_encode :: "string \<Rightarrow> string" where
  "demo_encode s = concat (map (\<lambda>c. [char_of (97 + of_char c div 16 :: nat), char_of (97 + of_char c mod 16 :: nat)]) s)"

definition demo_cred :: cred_libs where
  "demo_cred = \<lparr>sha256 = \<lambda>s. take 32 (s @ replicate 32 CHR ''0''), b64_encode = demo_encode, b64_decode = demo_decode\<rparr>"

definition demo_source :: secret_source where
  "demo_source n len = Some (replicate len (if n = 0 then CHR ''s'' else CHR ''d''))"

definition demo_store :: pg_store where
  "demo_store = \<lparr>pg_db = empty_database, pg_replies = []\<rparr>"

lemma demo_store_ok: "pg_inv demo_store"
  by (simp add: pg_inv_def demo_store_def empty_database_ok)

text \<open>The tenant it issues, and the tables afterwards.\<close>

definition demo_tenant :: created_tenant where
  "demo_tenant =
     \<lparr>ct_display_name = ''Acme'',
      ct_key = \<lparr>ik_client_id = ''c'', ik_key_id = ''k'',
                ik_display_id = ''opk_gegegegegegegegegegegegegegegege'',
                ik_name = initial_management_key_name, ik_kind = ''management'', ik_created_at = 10,
                ik_credential =
                  ''opmx_v1_hdhdhdhdhdhdhdhdhdhdhdhdhdhdhdhdhdhdhdhdhdhdhdhdhdhdhdhdhdhdhdhd''\<rparr>\<rparr>"

definition demo_row :: key_row where
  "demo_row =
     \<lparr>kw_id = ''k'', kw_client_id = ''c'', kw_key_digest = ''opmx_v1_hdhdhdhdhdhdhdhdhdhdhdhd'',
      kw_display_id = ''opk_gegegegegegegegegegegegegegegege'', kw_name = initial_management_key_name,
      kw_kind = ''management'', kw_created_at = 10, kw_last_used_at = None, kw_revoked_at = None\<rparr>"

definition demo_after :: pg_store where
  "demo_after =
     \<lparr>pg_db = \<lparr>db_clients = [\<lparr>cw_id = ''c'', cw_display_name = ''Acme'', cw_created_at = 10\<rparr>],
               db_keys = [demo_row]\<rparr>, pg_replies = []\<rparr>"

definition demo_actor :: auth_context where
  "demo_actor = \<lparr>au_client_id = ''c'', au_key_id = ''k'', au_kind = Management\<rparr>"

lemma demo_generated:
  "generate_credential demo_cred demo_source =
     Ok \<lparr>gc_credential = ik_credential (ct_key demo_tenant), gc_digest = kw_key_digest demo_row,
         gc_display_id = kw_display_id demo_row\<rparr>"
  by (simp add: generate_credential_def demo_source_def demo_cred_def assemble_credential_def hash_credential_def
      demo_encode_def demo_tenant_def demo_row_def, code_simp)

lemma demo_name: "validate_name ''Acme'' = Ok ''Acme''"
  by code_simp

lemmas statement_defs = insert_client_stmt_def insert_key_stmt_def Let_def text_ok_def check_client_def
  check_key_def row_of_new_key_def char_count_def is_continuation_def display_char_def

lemmas row_defs = client_from_row_def api_key_from_row_def digest_from_slice_def kind_parse_def

lemma demo_creation:
  "create_tenant (pg_ops True) demo_cred demo_source 10 ''c'' ''k'' ''Acme'' demo_store = (Ok demo_tenant, demo_after)"
  unfolding create_tenant_def demo_name demo_generated
  by (simp add: sbind_def smap_err_def pg_ops_def pg_provision_client_with_key_def healthy_trips demo_store_def
      insert_client_in_def insert_key_in_def statement_defs row_defs empty_database_def issued_of_record_def
      demo_after_def demo_tenant_def demo_row_def)

lemma demo_after_ok: "pg_inv demo_after"
  using pg.create_tenant_step [OF demo_store_ok demo_creation] by simp

text \<open>The same store with a second, inference key.\<close>

definition demo_row2 :: key_row where
  "demo_row2 =
     \<lparr>kw_id = ''j'', kw_client_id = ''c'', kw_key_digest = ''xxxxxxxxxxxxxxxxxxxxxxxxxxxxxxxx'',
      kw_display_id = ''opk_second'', kw_name = ''second'', kw_kind = ''inference'', kw_created_at = 11,
      kw_last_used_at = None, kw_revoked_at = None\<rparr>"

definition demo_two :: "key_row \<Rightarrow> pg_store" where
  "demo_two r = \<lparr>pg_db = (pg_db demo_after)\<lparr>db_keys := [r, demo_row2]\<rparr>, pg_replies = []\<rparr>"

lemma demo_two_ok: "pg_inv (demo_two demo_row)" "pg_inv (demo_two (demo_row\<lparr>kw_revoked_at := Some 20\<rparr>))"
  by (simp_all add: pg_inv_def demo_two_def demo_after_def db_ok_def key_row_ok_def demo_row_def demo_row2_def
      statement_defs)

lemma demo_revocation:
  "revoke_key (pg_ops True) 20 demo_actor ''k'' (demo_two demo_row) =
     (Ok (), demo_two (demo_row\<lparr>kw_revoked_at := Some 20\<rparr>))"
  by (simp add: revoke_key_def require_management_def demo_actor_def sbind_def smap_err_def pg_ops_def
      pg_revoke_key_def healthy_trips demo_two_def demo_after_def demo_row_def demo_row2_def revoke_stmt_def
      update_keys_stmt_def identity_trigger_def statement_defs row_defs revoke_finish_def first_row_def)

lemma demo_second_key:
  "\<exists>s'. authenticate (pg_ops True) demo_cred 20 ''xxxxxxxxxxxxxxxxxxxxxxxxxxxxxxxx''
       (demo_two (demo_row\<lparr>kw_revoked_at := Some 20\<rparr>)) = (Ok (context_of_record (row_record demo_row2)), s')"
proof -
  have "fst (authenticate (pg_ops True) demo_cred 20 ''xxxxxxxxxxxxxxxxxxxxxxxxxxxxxxxx''
       (demo_two (demo_row\<lparr>kw_revoked_at := Some 20\<rparr>))) = Ok (context_of_record (row_record demo_row2))"
    by (rule healthy_authenticate [OF demo_two_ok(2)])
      (simp_all add: demo_two_def pg_view_def demo_row2_def hash_credential_def demo_cred_def is_revoked_def)
  then show ?thesis by (metis prod.collapse)
qed

end
