(* ===== verification/Auth_Properties.thy ===== *)
theory Auth_Properties
  imports Auth_Healthy "HOL-Library.Multiset"
begin

text \<open>
  What the credential store and the authentication service promise, over every history of calls, every
  timing, and every loss of a round trip to the database.
\<close>

section \<open>Helpers over histories\<close>

context auth_store
begin

text \<open>A revoked key authenticates nobody, now or later.\<close>

lemma revoked_blocks:
  assumes "inv s" and k: "k \<in> set (dr_keys (view s))" "is_revoked k" and st: "auth_step ops C s e s'"
  shows "(\<forall>p au. e = EvAuthenticate p (Ok au) \<longrightarrow> au_key_id au \<noteq> kr_id k)
     \<and> (\<exists>k' \<in> set (dr_keys (view s')). is_revoked k' \<and> kr_id k' = kr_id k)"
proof -
  have s': "inv s'" "evolves (targets e) (view s) (view s')" using auth_step_evolves [OF assms(1) st] by auto
  then obtain k' where k': "k' \<in> set (dr_keys (view s'))" "key_persists k k'" using k unfolding evolves_def by blast
  have rv: "is_revoked k'" "kr_id k' = kr_id k" using k' k(2) by (auto simp: key_persists_def is_revoked_def)
  have False if e: "e = EvAuthenticate p (Ok au)" and id: "au_key_id au = kr_id k" for p au
  proof -
    have "\<exists>now. authenticate ops C now p s = (Ok au, s')"
      using st unfolding e by (auto elim!: step_authenticateE dest: authenticate_dl_Ok)
    then obtain x where x: "x \<in> set (dr_keys (view s'))" "\<not> is_revoked x" "au = context_of_record x"
      using authenticate_Ok [OF assms(1)] by blast
    have "x = k'"
      using view_ok [OF s'(1)] x k'(1) rv(2) id unfolding dir_ok_def by (auto dest: distinct_map_unique)
    with x(2) rv(1) show False by simp
  qed
  with k'(1) rv show ?thesis by blast
qed

lemma revoked_blocks_run:
  "auth_run ops C s es s' \<Longrightarrow> inv s \<Longrightarrow> k \<in> set (dr_keys (view s)) \<Longrightarrow> is_revoked k \<Longrightarrow>
     EvAuthenticate p (Ok au) \<in> set es \<Longrightarrow> au_key_id au \<noteq> kr_id k"
proof (induction arbitrary: k rule: auth_run.induct)
  case (run_step s e t es u)
  note b = revoked_blocks [OF run_step.prems(1-3) run_step.hyps(1)]
  obtain k' where k': "k' \<in> set (dr_keys (view t))" "is_revoked k'" "kr_id k' = kr_id k" using b by blast
  have "inv t" using auth_step_evolves [OF run_step.prems(1) run_step.hyps(1)] by blast
  from run_step.IH [OF this k'(1,2)] b run_step.prems(4) k'(3) show ?case by auto
qed simp

text \<open>A key that no event of a history aims at stays as active as it was.\<close>

lemma untouched_key:
  assumes "auth_run ops C s es s'" "inv s" "k \<in> set (dr_keys (view s))" "\<And>e. e \<in> set es \<Longrightarrow> kr_id k \<notin> targets e"
  shows "inv s' \<and> (\<exists>k' \<in> set (dr_keys (view s')). key_persists k k' \<and> is_revoked k' = is_revoked k)"
proof -
  have "kr_id k \<notin> \<Union>(targets ` set es)" using assms(4) by auto
  with auth_run_evolves [OF assms(1,2)] assms(3) show ?thesis unfolding evolves_def by blast
qed

end

section \<open>Properties\<close>

text \<open>
  C10. The credential a tenant's creation returns authenticates: at any later time, after any history in
  which nobody tried to revoke that key, a store that answers returns exactly the tenant, the key and the
  management kind the creation reported, provided the clock is not behind the creation.
\<close>

theorem issued_credential_authenticates:
  assumes inv: "pg_inv s"
    and made: "create_tenant (pg_ops b) C src now u v name s = (Ok ct, s1)"
    and later: "auth_run (pg_ops b) C s1 es s2"
    and kept: "\<And>actor r. EvRevokeKey actor (ik_key_id (ct_key ct)) r \<notin> set es"
    and up: "pg_replies s2 = []" and clock: "now \<le> t"
  shows "fst (authenticate (pg_ops b) C t (ik_credential (ct_key ct)) s2) =
    Ok \<lparr>au_client_id = ik_client_id (ct_key ct), au_key_id = ik_key_id (ct_key ct), au_kind = Management\<rparr>"
proof -
  obtain g k where k: "k \<in> set (dr_keys (pg_view s1))" "\<not> is_revoked k"
      "kr_digest k = hash_credential C (ik_credential (ct_key ct))" "kr_kind k = Management"
      "kr_created_at k = now" "kr_id k = ik_key_id (ct_key ct)" "kr_client_id k = ik_client_id (ct_key ct)"
    using pg.create_tenant_Ok [OF inv made] by metis
  have "kr_id k \<notin> targets e" if "e \<in> set es" for e
    using kept that k(6) by (cases e) auto
  from pg.untouched_key [OF later _ k(1) this] pg.create_tenant_step [OF inv made]
  obtain k' where i2: "pg_inv s2" and k': "k' \<in> set (dr_keys (pg_view s2))" "key_persists k k'" "\<not> is_revoked k'"
    using k(2) by blast
  have "fst (authenticate (pg_ops b) C t (ik_credential (ct_key ct)) s2) = Ok (context_of_record k')"
    by (rule healthy_authenticate [OF i2 up k'(1)]) (use k k' clock in \<open>auto simp: key_persists_def\<close>)
  then show ?thesis using k k'(2) by (simp add: context_of_record_def key_persists_def)
qed

theorem issued_credential_authenticates_witness:
  "fst (authenticate (pg_ops True) demo_cred 15 (ik_credential (ct_key demo_tenant)) demo_after) = Ok demo_actor"
  using issued_credential_authenticates [OF demo_store_ok demo_creation run_nil, of 15]
  by (simp add: demo_actor_def demo_tenant_def demo_after_def)

text \<open>
  C3. A revocation is final: once the revocation of a key has been acknowledged, no authentication ever
  returns that key again, whatever the interleaving of calls, replicas and lost replies.
\<close>

theorem revocation_is_final:
  assumes inv: "pg_inv s"
    and run: "auth_run (pg_ops b) C s (es @ EvRevokeKey actor i (Ok ()) # fs) s'"
    and later: "EvAuthenticate presented (Ok au) \<in> set fs"
  shows "au_key_id au \<noteq> i"
proof -
  obtain a1 a2 where r1: "auth_run (pg_ops b) C s es a1"
    and st: "auth_step (pg_ops b) C a1 (EvRevokeKey actor i (Ok ())) a2" and r2: "auth_run (pg_ops b) C a2 fs s'"
    using run unfolding auth_run_append by auto
  have i1: "pg_inv a1" using pg.auth_run_evolves [OF r1 inv] by blast
  have i2: "pg_inv a2" using pg.auth_step_evolves [OF i1 st] by blast
  obtain now where rk: "revoke_key (pg_ops b) now actor i a1 = (Ok (), a2)" using st by (auto elim: step_revokeE)
  obtain k where k: "k \<in> set (dr_keys (pg_view a2))" "kr_id k = i" "is_revoked k"
    using pg.revoke_key_Ok [OF i1 rk] by (elim bexE conjE)
  from pg.revoked_blocks_run [OF r2 i2 k(1,3) later] k(2) show ?thesis by simp
qed

theorem revocation_is_final_witness:
  "\<exists>au s'. auth_run (pg_ops True) demo_cred (demo_two demo_row)
       ([] @ EvRevokeKey demo_actor ''k'' (Ok ()) # [EvAuthenticate ''xxxxxxxxxxxxxxxxxxxxxxxxxxxxxxxx'' (Ok au)]) s'
     \<and> au_key_id au \<noteq> ''k''"
proof -
  obtain s' where "authenticate (pg_ops True) demo_cred 20 ''xxxxxxxxxxxxxxxxxxxxxxxxxxxxxxxx''
       (demo_two (demo_row\<lparr>kw_revoked_at := Some 20\<rparr>)) = (Ok (context_of_record (row_record demo_row2)), s')"
    using demo_second_key by blast
  then have "auth_run (pg_ops True) demo_cred (demo_two demo_row)
       ([] @ EvRevokeKey demo_actor ''k'' (Ok ())
          # [EvAuthenticate ''xxxxxxxxxxxxxxxxxxxxxxxxxxxxxxxx'' (Ok (context_of_record (row_record demo_row2)))]) s'"
    by (auto intro: auth_step.step_revoke [OF demo_revocation] auth_step.step_authenticate)
  with revocation_is_final [OF demo_two_ok(1) this] show ?thesis by (metis list.set_intros(1))
qed

definition acts_for :: "auth_event \<Rightarrow> auth_context \<Rightarrow> bool" where
  "acts_for e actor \<longleftrightarrow>
     (\<exists>r. e = EvCreateKey actor r) \<or> (\<exists>opt r. e = EvListKeys actor opt r) \<or> (\<exists>i r. e = EvRevokeKey actor i r)"

definition refused :: "auth_event \<Rightarrow> bool" where
  "refused e \<longleftrightarrow>
     (\<exists>a. e = EvCreateKey a (Err AuthCapabilityDenied)) \<or> (\<exists>a opt. e = EvListKeys a opt (Err AuthCapabilityDenied))
     \<or> (\<exists>a i. e = EvRevokeKey a i (Err AuthCapabilityDenied))"

lemma dir_list_owner:
  "dir_list c l off kd D = Some ks \<Longrightarrow> k \<in> set ks \<Longrightarrow> kr_client_id k = c \<and> k \<in> set (dr_keys D)"
  by (auto simp: dir_list_def dir_inventory_def split: if_splits dest!: in_set_takeD in_set_dropD)

text \<open>
  C9. Tenants are isolated: issuing, listing and revoking act for the tenant of the authenticated key
  only. No call changes a key of another tenant, a listing shows keys of that tenant only, and without a
  management key every call is refused and changes nothing.
\<close>

theorem tenants_are_isolated:
  assumes inv: "pg_inv s" and st: "auth_step (pg_ops b) C s e s'" and actor: "acts_for e actor"
  shows "others (au_client_id actor) (pg_view s') = others (au_client_id actor) (pg_view s)
    \<and> (\<forall>opt ki. e = EvListKeys actor opt (Ok ki) \<longrightarrow> (\<forall>m \<in> set (ki_keys ki). md_client_id m = au_client_id actor))
    \<and> (au_kind actor \<noteq> Management \<longrightarrow> refused e \<and> s' = s)"
proof -
  consider (create) r where "e = EvCreateKey actor r" | (list) opt r where "e = EvListKeys actor opt r"
    | (revoke) i r where "e = EvRevokeKey actor i r" using actor unfolding acts_for_def by blast
  then show ?thesis
  proof cases
    case create
    with st obtain src now v name kind where "create_key (pg_ops b) C src now v actor name kind s = (r, s')"
      by (auto elim: step_createE)
    from pg.create_key_step [OF inv this] create show ?thesis by (auto simp: refused_def)
  next
    case list
    with st have run: "list_keys (pg_ops b) actor opt s = (r, s')" by (auto elim: step_listE)
    have "md_client_id m = au_client_id actor" if "r = Ok ki" "m \<in> set (ki_keys ki)" for ki m
      using pg.list_keys_Ok [OF inv run [unfolded that(1)]] that(2) dir_list_owner by fastforce
    with pg.list_keys_step [OF inv run] list show ?thesis by (auto simp: refused_def)
  next
    case revoke
    with st obtain now where "revoke_key (pg_ops b) now actor i s = (r, s')" by (auto elim: step_revokeE)
    from pg.revoke_key_step [OF inv this] revoke show ?thesis by (auto simp: refused_def)
  qed
qed

theorem tenants_are_isolated_witness:
  "others ''c'' (pg_view (demo_two (demo_row\<lparr>kw_revoked_at := Some 20\<rparr>))) = others ''c'' (pg_view (demo_two demo_row))"
  using tenants_are_isolated [OF demo_two_ok(1) auth_step.step_revoke [OF demo_revocation, of demo_cred],
      of demo_actor]
  by (simp add: acts_for_def demo_actor_def)

text \<open>
  C18. Whatever is called, in any order, and whichever round trips are lost, the tables that grow from the
  empty ones keep unique key identifiers, digests and display identifiers, keys of existing tenants, and
  rows that every check accepts; so every row the gateway reads decodes.
\<close>

theorem reachable_tables_are_well_formed:
  assumes "auth_run (pg_ops b) C \<lparr>pg_db = empty_database, pg_replies = rs\<rparr> es s"
  shows "db_ok (pg_db s) \<and> list_all (\<lambda>r. api_key_from_row r = Ok (row_record r)) (db_keys (pg_db s))"
proof -
  have "pg_inv \<lparr>pg_db = empty_database, pg_replies = rs\<rparr>" by (simp add: pg_inv_def empty_database_ok)
  with pg.auth_run_evolves [OF assms] have "db_ok (pg_db s)" by (simp add: pg_inv_def)
  then show ?thesis by (auto simp: list_all_iff intro: api_key_from_row_ok db_ok_rows)
qed

theorem reachable_tables_are_well_formed_witness:
  "db_ok (pg_db demo_after) \<and> db_keys (pg_db demo_after) = [demo_row]"
proof -
  have "auth_run (pg_ops True) demo_cred \<lparr>pg_db = empty_database, pg_replies = []\<rparr>
      [EvCreateTenant (Ok demo_tenant)] demo_after"
    using auth_step.step_tenant [OF demo_creation] by (simp add: demo_store_def)
  from reachable_tables_are_well_formed [OF this] show ?thesis by (simp add: demo_after_def)
qed

section \<open>Refinement of the directory\<close>

datatype store_call =
    CallProvision new_client new_api_key | CallInsert new_api_key | CallFind key_digest
  | CallAuthenticate key_digest timestamp | CallTouch uuid uuid timestamp
  | CallList uuid int int "api_key_kind option" | CallRevoke uuid uuid timestamp

datatype store_answer =
    AnsTenant client_record api_key_record | AnsKey api_key_record | AnsFound "api_key_record option"
  | AnsTouched bool | AnsKeys "api_key_record list" | AnsRevoked revoke_outcome

definition answer :: "('a \<Rightarrow> store_answer) \<Rightarrow> ('e + 'a) \<times> 's \<Rightarrow> ('e + store_answer) \<times> 's" where
  "answer f p = (case p of (Inl e, s) \<Rightarrow> (Inl e, s) | (Inr x, s) \<Rightarrow> (Inr (f x), s))"

fun store_exec :: "'s auth_store_ops \<Rightarrow> store_call \<Rightarrow> 's \<Rightarrow> (auth_store_error + store_answer) \<times> 's" where
  "store_exec ops (CallProvision c k) s = answer (\<lambda>(a, b). AnsTenant a b) (as_provision_client_with_key ops c k s)"
| "store_exec ops (CallInsert k) s = answer AnsKey (as_insert_key ops k s)"
| "store_exec ops (CallFind dg) s = answer AnsFound (as_find_key_by_digest ops dg s)"
| "store_exec ops (CallAuthenticate dg t) s = answer AnsFound (as_authenticate_digest ops dg t s)"
| "store_exec ops (CallTouch c i t) s = answer AnsTouched (as_touch_last_used ops c i t s)"
| "store_exec ops (CallList c l off kd) s = answer AnsKeys (as_list_keys_for_client ops c l off kd s)"
| "store_exec ops (CallRevoke c i t) s = answer AnsRevoked (as_revoke_key ops c i t s)"

text \<open>The specification: the same calls on the directory, \<open>None\<close> where a call must be refused.\<close>

fun dir_exec :: "store_call \<Rightarrow> directory \<Rightarrow> (store_answer \<times> directory) option" where
  "dir_exec (CallProvision c k) D = map_option (\<lambda>((a, b), D'). (AnsTenant a b, D')) (dir_provision c k D)"
| "dir_exec (CallInsert k) D = map_option (map_prod AnsKey id) (dir_insert_key k D)"
| "dir_exec (CallFind dg) D = Some (AnsFound (dir_find dg D), D)"
| "dir_exec (CallAuthenticate dg t) D = Some (map_prod AnsFound id (dir_authenticate dg t D))"
| "dir_exec (CallTouch c i t) D = Some (map_prod AnsTouched id (dir_touch c i t D))"
| "dir_exec (CallList c l off kd) D = map_option (\<lambda>ks. (AnsKeys ks, D)) (dir_list c l off kd D)"
| "dir_exec (CallRevoke c i t) D = Some (map_prod AnsRevoked id (dir_revoke c i t D))"

lemma answer_cases:
  assumes "answer f p = (r, s')"
  obtains q where "p = (q, s')" "r = (case q of Inl e \<Rightarrow> Inl e | Inr x \<Rightarrow> Inr (f x))"
  using assms by (cases p) (auto simp: answer_def split: sum.splits)

lemma implements_answer:
  assumes "implements spec D q D'" "\<And>x E. spec D = Some (x, E) \<Longrightarrow> spec' D = Some (f x, E)"
  shows "implements spec' D (case q of Inl e \<Rightarrow> Inl e | Inr x \<Rightarrow> Inr (f x)) D'"
  using assms by (cases q) auto

context auth_store
begin

lemma exec_law:
  assumes inv: "inv s" and run: "store_exec ops call s = (r, s')"
  shows "inv s' \<and> implements (dir_exec call) (view s) r (view s')"
proof (cases call)
  case (CallProvision c k)
  with run obtain q where q: "as_provision_client_with_key ops c k s = (q, s')"
    "r = (case q of Inl e \<Rightarrow> Inl e | Inr x \<Rightarrow> Inr (case x of (a, b) \<Rightarrow> AnsTenant a b))"
    by (auto elim: answer_cases)
  from provision_law [OF inv q(1)] show ?thesis unfolding q(2) CallProvision
    by (auto intro!: implements_answer)
next
  case (CallInsert k)
  with run obtain q where q: "as_insert_key ops k s = (q, s')"
    "r = (case q of Inl e \<Rightarrow> Inl e | Inr x \<Rightarrow> Inr (AnsKey x))" by (auto elim: answer_cases)
  from insert_law [OF inv q(1)] show ?thesis unfolding q(2) CallInsert by (auto intro!: implements_answer)
next
  case (CallFind dg)
  with run obtain q where q: "as_find_key_by_digest ops dg s = (q, s')"
    "r = (case q of Inl e \<Rightarrow> Inl e | Inr x \<Rightarrow> Inr (AnsFound x))" by (auto elim: answer_cases)
  from find_law [OF inv q(1)] show ?thesis unfolding q(2) CallFind by (auto intro!: implements_answer)
next
  case (CallAuthenticate dg t)
  with run obtain q where q: "as_authenticate_digest ops dg t s = (q, s')"
    "r = (case q of Inl e \<Rightarrow> Inl e | Inr x \<Rightarrow> Inr (AnsFound x))" by (auto elim: answer_cases)
  from authenticate_law [OF inv q(1)] show ?thesis unfolding q(2) CallAuthenticate by (auto intro!: implements_answer)
next
  case (CallTouch c i t)
  with run obtain q where q: "as_touch_last_used ops c i t s = (q, s')"
    "r = (case q of Inl e \<Rightarrow> Inl e | Inr x \<Rightarrow> Inr (AnsTouched x))" by (auto elim: answer_cases)
  from touch_law [OF inv q(1)] show ?thesis unfolding q(2) CallTouch by (auto intro!: implements_answer)
next
  case (CallList c l off kd)
  with run obtain q where q: "as_list_keys_for_client ops c l off kd s = (q, s')"
    "r = (case q of Inl e \<Rightarrow> Inl e | Inr x \<Rightarrow> Inr (AnsKeys x))" by (auto elim: answer_cases)
  from list_law [OF inv q(1)] show ?thesis unfolding q(2) CallList by (auto intro!: implements_answer)
next
  case (CallRevoke c i t)
  with run obtain q where q: "as_revoke_key ops c i t s = (q, s')"
    "r = (case q of Inl e \<Rightarrow> Inl e | Inr x \<Rightarrow> Inr (AnsRevoked x))" by (auto elim: answer_cases)
  from revoke_law [OF inv q(1)] show ?thesis unfolding q(2) CallRevoke by (auto intro!: implements_answer)
qed

end

text \<open>
  C5. Whatever round trips to the database are lost, every operation of the store refines the same
  operation on a plain directory of tenants and keys: a returned value is the directory's answer and the
  tables afterwards show exactly its effect; after an error they show that effect or none, never a part
  of it (a tenant without its first key, a use or a revocation of another key).
\<close>

theorem store_refines_directory:
  assumes "pg_inv s" "store_exec (pg_ops b) call s = (r, s')"
  shows "pg_inv s' \<and> implements (dir_exec call) (pg_view s) r (pg_view s')"
  by (rule pg.exec_law [OF assms])

theorem store_refines_directory_witness:
  "\<exists>r s'. store_exec (pg_ops True) (CallRevoke ''c'' ''k'' 20) (demo_two demo_row) = (r, s')
     \<and> implements (dir_exec (CallRevoke ''c'' ''k'' 20)) (pg_view (demo_two demo_row)) r (pg_view s')"
  using store_refines_directory [OF demo_two_ok(1), of True "CallRevoke ''c'' ''k'' 20"]
  by (metis prod.exhaust)

section \<open>Paging\<close>

text \<open>The inventory of a tenant: its keys of the kind asked for, the newest first.\<close>

lemma dir_inventory_spec:
  "mset (dir_inventory c kd D) =
     mset (filter (\<lambda>k. kr_client_id k = c \<and> (case kd of None \<Rightarrow> True | Some x \<Rightarrow> kr_kind k = x)) (dr_keys D))"
  "sorted_wrt (\<lambda>a b. (kr_created_at b, kr_id b) \<le> (kr_created_at a, kr_id a)) (dir_inventory c kd D)"
proof -
  show "mset (dir_inventory c kd D) =
     mset (filter (\<lambda>k. kr_client_id k = c \<and> (case kd of None \<Rightarrow> True | Some x \<Rightarrow> kr_kind k = x)) (dr_keys D))"
    by (simp add: dir_inventory_def)
  have sk: "sorted_wrt (\<lambda>x y. (kr_created_at x, kr_id x) \<le> (kr_created_at y, kr_id y))
      (sort_key (\<lambda>k. (kr_created_at k, kr_id k)) xs)" for xs
    using sorted_sort_key [of "\<lambda>k. (kr_created_at k, kr_id k)" xs] by (simp only: sorted_wrt_map)
  show "sorted_wrt (\<lambda>a b. (kr_created_at b, kr_id b) \<le> (kr_created_at a, kr_id a)) (dir_inventory c kd D)"
    unfolding dir_inventory_def sorted_wrt_rev by (rule sk)
qed

lemma page_nonempty:
  "0 \<le> n \<Longrightarrow> take (nat 1) (drop (nat n) xs) \<noteq> [] \<longleftrightarrow> n < int (length xs)"
  by (auto simp: Suc_le_eq)

text \<open>
  C40. A successful listing is exactly the requested page of the tenant's keys of that kind, newest first,
  and \<open>has_more\<close> says whether keys follow the page; so a client that continues at \<open>offset + limit\<close>
  while it holds sees every key once.
\<close>

theorem listing_is_the_page:
  assumes inv: "pg_inv s" and run: "list_keys (pg_ops b) actor opt s = (Ok ki, s')"
    and size: "int (length (dir_inventory (au_client_id actor) (lo_kind opt) (pg_view s))) \<le> i64_max"
  shows "let keys = dir_inventory (au_client_id actor) (lo_kind opt) (pg_view s) in
     ki_keys ki = map metadata_of_record (take (nat (lo_limit opt)) (drop (nat (lo_offset opt)) keys))
     \<and> (ki_has_more ki \<longleftrightarrow> lo_offset opt + lo_limit opt < int (length keys))
     \<and> sorted_wrt (\<lambda>x y. (kr_created_at y, kr_id y) \<le> (kr_created_at x, kr_id x)) keys
     \<and> mset keys = mset (filter (\<lambda>k. kr_client_id k = au_client_id actor
          \<and> (case lo_kind opt of None \<Rightarrow> True | Some x \<Rightarrow> kr_kind k = x)) (dr_keys (pg_view s)))"
proof -
  let ?keys = "dir_inventory (au_client_id actor) (lo_kind opt) (pg_view s)"
  obtain ks where ks: "dir_list (au_client_id actor) (lo_limit opt) (lo_offset opt) (lo_kind opt) (pg_view s) = Some ks"
    and ki: "ki_keys ki = map metadata_of_record ks"
    and more: "ki_has_more ki \<longleftrightarrow> int (length ks) = lo_limit opt \<and>
          (\<exists>nxt p. checked_add_i64 (lo_offset opt) (lo_limit opt) = Some nxt
             \<and> dir_list (au_client_id actor) 1 nxt (lo_kind opt) (pg_view s) = Some p \<and> p \<noteq> [])"
    using pg.list_keys_Ok [OF inv run] by blast
  have k: "ks = take (nat (lo_limit opt)) (drop (nat (lo_offset opt)) ?keys)"
    and lim: "1 \<le> lo_limit opt" "lo_limit opt \<le> max_key_list_limit" "0 \<le> lo_offset opt"
    using ks by (auto simp: dir_list_def split: if_splits)
  have "ki_has_more ki \<longleftrightarrow> lo_offset opt + lo_limit opt < int (length ?keys)"
  proof (cases "lo_offset opt + lo_limit opt \<le> i64_max")
    case True
    then have "ki_has_more ki \<longleftrightarrow> int (length ks) = lo_limit opt \<and> lo_offset opt + lo_limit opt < int (length ?keys)"
      using lim page_nonempty [of "lo_offset opt + lo_limit opt" ?keys] unfolding more
      by (auto simp: checked_add_i64_def dir_list_def)
    moreover have "int (length ks) = lo_limit opt" if "lo_offset opt + lo_limit opt < int (length ?keys)"
      using that lim unfolding k by (simp add: min_def)
    ultimately show ?thesis by blast
  next
    case False
    then show ?thesis using more size by (auto simp: checked_add_i64_def)
  qed
  with ki k dir_inventory_spec show ?thesis by (simp add: Let_def)
qed

text \<open>The first page of the store with two keys.\<close>

definition demo_page :: key_list_options where
  "demo_page = \<lparr>lo_limit = 1, lo_offset = 0, lo_kind = None\<rparr>"

lemma demo_listing:
  "list_keys (pg_ops True) demo_actor demo_page (demo_two demo_row) =
     (Ok \<lparr>ki_keys = [metadata_of_record (row_record demo_row2)], ki_has_more = True\<rparr>, demo_two demo_row)"
  by (simp add: list_keys_def require_management_def demo_actor_def demo_page_def sbind_def smap_err_def pg_ops_def
      pg_list_keys_for_client_def pg_autocommit_def next_reply_def select_page_stmt_def demo_two_def demo_after_def
      demo_row_def demo_row2_def row_defs row_record_def checked_add_i64_def)

theorem listing_is_the_page_witness:
  "let keys = dir_inventory ''c'' None (pg_view (demo_two demo_row)) in
     [metadata_of_record (row_record demo_row2)] = map metadata_of_record (take 1 keys) \<and> 0 + 1 < int (length keys)"
proof -
  have "int (length (dir_inventory (au_client_id demo_actor) (lo_kind demo_page) (pg_view (demo_two demo_row)))) \<le> i64_max"
    by (simp add: dir_inventory_def demo_page_def demo_two_def demo_after_def pg_view_def demo_actor_def)
  from listing_is_the_page [OF demo_two_ok(1) demo_listing this] show ?thesis
    by (simp add: Let_def demo_page_def demo_actor_def)
qed

end
