(* ===== verification/Auth_Handler.thy ===== *)
theory Auth_Handler
  imports Auth_Service Json_Value
begin

text \<open>
  \<open>features/auth/handler.rs\<close>: the requests of key management, parsed and carried out for the
  authenticated tenant. The object of a JSON body is its list of members, the keys of which are unique.
\<close>

section \<open>Creating a key\<close>

definition parse_create_key_request :: "json \<Rightarrow> auth_error + string \<times> api_key_kind" where
  "parse_create_key_request body =
     and_then (ok_or (AuthInvalidInput ''request body must be a JSON object'') (as_object body)) (\<lambda>object.
       if map_of object ''client_id'' \<noteq> None \<or> map_of object ''tenant_id'' \<noteq> None
       then Err (AuthInvalidInput ''key ownership cannot be set in the request'')
       else if list_ex (\<lambda>key. key \<noteq> ''name'' \<and> key \<noteq> ''kind'') (map fst object)
       then Err (AuthInvalidInput ''unknown field is not allowed'')
       else
         and_then (ok_or (AuthInvalidInput ''name is required'')
                     (Option.bind (map_of object ''name'') as_str)) (\<lambda>name.
         and_then (case Option.bind (map_of object ''kind'') as_str of
                     Some k \<Rightarrow> (if k = ''management'' then Ok Management
                                else if k = ''inference'' then Ok Inference
                                else Err (AuthInvalidInput ''kind must be management or inference''))
                   | None \<Rightarrow> Err (AuthInvalidInput ''kind must be management or inference'')) (\<lambda>kind.
           Ok (name, kind))))"

section \<open>The inventory query\<close>

text \<open>\<open>str::split\<close> and \<open>str::split_once\<close> at a character.\<close>

fun split_at :: "char \<Rightarrow> string \<Rightarrow> string list" where
  "split_at c [] = [[]]"
| "split_at c (x # xs) =
     (if x = c then [] # split_at c xs
      else (case split_at c xs of p # ps \<Rightarrow> (x # p) # ps | [] \<Rightarrow> [[x]]))"

fun split_once :: "char \<Rightarrow> string \<Rightarrow> (string \<times> string) option" where
  "split_once c [] = None"
| "split_once c (x # xs) =
     (if x = c then Some ([], xs) else map_option (\<lambda>(a, b). (x # a, b)) (split_once c xs))"

text \<open>\<open>str::parse::<i64>\<close>: an optional sign and at least one digit, in range.\<close>

definition parse_i64 :: "string \<Rightarrow> int option" where
  "parse_i64 raw =
     (let (neg, digits) = (case raw of
            c # cs \<Rightarrow> (if c = CHR ''-'' then (True, cs) else if c = CHR ''+'' then (False, cs) else (False, raw))
          | [] \<Rightarrow> (False, []));
          v = (if neg then - int (decimal_value digits) else int (decimal_value digits))
      in if digits = [] \<or> \<not> list_all is_ascii_digit digits then None
         else if i64_min \<le> v \<and> v \<le> i64_max then Some v else None)"

definition parse_i64_query :: "string \<Rightarrow> string \<Rightarrow> auth_error + int" where
  "parse_i64_query raw field = ok_or (AuthInvalidInput (field @ '' must be an integer'')) (parse_i64 raw)"

definition parse_kind_query :: "string \<Rightarrow> auth_error + api_key_kind" where
  "parse_kind_query raw =
     (if raw = ''management'' then Ok Management else if raw = ''inference'' then Ok Inference
      else Err (AuthInvalidInput ''kind must be management or inference''))"

definition apply_query_pair :: "string \<Rightarrow> string \<Rightarrow> key_list_options \<Rightarrow> auth_error + key_list_options" where
  "apply_query_pair key value options =
     (if key = ''client_id'' \<or> key = ''tenant_id''
      then Err (AuthInvalidInput ''key ownership cannot be set in the query'')
      else if key = ''limit''
      then and_then (parse_i64_query value ''limit'') (\<lambda>limit.
             if \<not> (1 \<le> limit \<and> limit \<le> max_key_list_limit) then Err (AuthInvalidInput limit_message)
             else Ok (options\<lparr>lo_limit := limit\<rparr>))
      else if key = ''offset''
      then and_then (parse_i64_query value ''offset'') (\<lambda>offset.
             if offset < 0 then Err (AuthInvalidInput ''offset must be greater than or equal to 0'')
             else Ok (options\<lparr>lo_offset := offset\<rparr>))
      else if key = ''kind''
      then and_then (parse_kind_query value) (\<lambda>kind. Ok (options\<lparr>lo_kind := Some kind\<rparr>))
      else Err (AuthInvalidInput ''unknown query parameter is not allowed''))"

text \<open>The loop, with the set of keys seen.\<close>

fun parse_query_pairs ::
    "string set \<Rightarrow> key_list_options \<Rightarrow> string list \<Rightarrow> auth_error + key_list_options" where
  "parse_query_pairs seen options [] = Ok options"
| "parse_query_pairs seen options (pair # pairs) =
     (if pair = [] then parse_query_pairs seen options pairs
      else
        (case (case split_once CHR ''='' pair of Some kv \<Rightarrow> kv | None \<Rightarrow> (pair, [])) of
           (key, value) \<Rightarrow>
             (if key \<in> seen then Err (AuthInvalidInput ''duplicate query parameter is not allowed'')
              else and_then (apply_query_pair key value options) (\<lambda>options'.
                     parse_query_pairs (insert key seen) options' pairs))))"

definition parse_list_keys_query :: "string option \<Rightarrow> auth_error + key_list_options" where
  "parse_list_keys_query raw =
     (case raw of
        None \<Rightarrow> Ok key_list_options_default
      | Some q \<Rightarrow>
          (if q = [] then Ok key_list_options_default
           else parse_query_pairs {} key_list_options_default (split_at CHR ''&'' q)))"

section \<open>The handlers\<close>

datatype auth_json = IssuedJson issued_key | InventoryJson key_inventory | NoContent

definition created_key_response :: "issued_key \<Rightarrow> auth_json http_response" where
  "created_key_response issued =
     \<lparr>r_status = 201, r_headers = [''cache-control'' \<mapsto> ''no-store''], r_body = Inr (IssuedJson issued)\<rparr>"

definition create_api_key ::
    "'s auth_store_ops \<Rightarrow> cred_libs \<Rightarrow> secret_source \<Rightarrow> timestamp \<Rightarrow> uuid \<Rightarrow> auth_context \<Rightarrow> json \<Rightarrow> 's
      \<Rightarrow> (auth_error + auth_json http_response) \<times> 's" where
  "create_api_key ops C src now key_uuid auth body s =
     (case require_management auth of
        Inl e \<Rightarrow> (Err e, s)
      | Inr _ \<Rightarrow>
          (case parse_create_key_request body of
             Inl e \<Rightarrow> (Err e, s)
           | Inr (name, kind) \<Rightarrow>
               sbind (create_key ops C src now key_uuid auth name kind)
                 (\<lambda>issued s. (Ok (created_key_response issued), s)) s))"

definition list_api_keys ::
    "'s auth_store_ops \<Rightarrow> auth_context \<Rightarrow> string option \<Rightarrow> 's \<Rightarrow> (auth_error + auth_json http_response) \<times> 's" where
  "list_api_keys ops auth query s =
     (case require_management auth of
        Inl e \<Rightarrow> (Err e, s)
      | Inr _ \<Rightarrow>
          (case parse_list_keys_query query of
             Inl e \<Rightarrow> (Err e, s)
           | Inr options \<Rightarrow>
               sbind (list_keys ops auth options) (\<lambda>inventory s.
                 (Ok \<lparr>r_status = 200, r_headers = Map.empty, r_body = Inr (InventoryJson inventory)\<rparr>, s)) s))"

definition revoke_api_key ::
    "'s auth_store_ops \<Rightarrow> timestamp \<Rightarrow> auth_context \<Rightarrow> uuid \<Rightarrow> 's
      \<Rightarrow> (auth_error + auth_json http_response) \<times> 's" where
  "revoke_api_key ops now auth key_id s =
     (case require_management auth of
        Inl e \<Rightarrow> (Err e, s)
      | Inr _ \<Rightarrow>
          sbind (revoke_key ops now auth key_id) (\<lambda>_ s.
            (Ok \<lparr>r_status = 204, r_headers = Map.empty, r_body = Inr NoContent\<rparr>, s)) s)"

section \<open>What the query parser accepts\<close>

text \<open>
  The reference: the nonempty pairs have different keys among \<open>limit\<close>, \<open>offset\<close> and \<open>kind\<close>, and each value
  is one the key admits.
\<close>

definition query_pairs :: "string \<Rightarrow> (string \<times> string) list" where
  "query_pairs q =
     map (\<lambda>p. case split_once CHR ''='' p of Some kv \<Rightarrow> kv | None \<Rightarrow> (p, []))
       (filter (\<lambda>p. p \<noteq> []) (split_at CHR ''&'' q))"

definition pair_ok :: "string \<times> string \<Rightarrow> bool" where
  "pair_ok kv \<longleftrightarrow>
     (fst kv = ''limit'' \<and> (\<exists>n. parse_i64 (snd kv) = Some n \<and> 1 \<le> n \<and> n \<le> max_key_list_limit))
     \<or> (fst kv = ''offset'' \<and> (\<exists>n. parse_i64 (snd kv) = Some n \<and> 0 \<le> n))
     \<or> (fst kv = ''kind'' \<and> (snd kv = ''management'' \<or> snd kv = ''inference''))"

lemma apply_query_pair_Ok_iff:
  "(\<exists>options'. apply_query_pair k v options = Ok options') \<longleftrightarrow> pair_ok (k, v)"
proof -
  have l: "(\<exists>o'. and_then (parse_i64_query v f) (\<lambda>n. if \<not> P n then Err (E n) else Ok (g n)) = Ok o')
      \<longleftrightarrow> (\<exists>n. parse_i64 v = Some n \<and> P n)" for f P E and g :: "int \<Rightarrow> key_list_options"
    by (cases "parse_i64 v") (simp_all add: parse_i64_query_def)
  have k: "(\<exists>o'. and_then (parse_kind_query v) (\<lambda>n. Ok (g n)) = Ok o') \<longleftrightarrow> v = ''management'' \<or> v = ''inference''"
    for g :: "api_key_kind \<Rightarrow> key_list_options"
    by (simp add: parse_kind_query_def)
  have l2: "(\<exists>o'. and_then (parse_i64_query v ''offset'') (\<lambda>n. if n < 0 then Err e else Ok (g n)) = Ok o')
      \<longleftrightarrow> (\<exists>n. parse_i64 v = Some n \<and> 0 \<le> n)" for e and g :: "int \<Rightarrow> key_list_options"
    by (cases "parse_i64 v") (auto simp: parse_i64_query_def)
  show ?thesis
    unfolding apply_query_pair_def pair_ok_def fst_conv snd_conv
    using l [of "''limit''" "\<lambda>n. 1 \<le> n \<and> n \<le> max_key_list_limit"] l2 k by simp
qed

lemma parse_query_pairs_Ok_iff:
  "(\<exists>options'. parse_query_pairs seen options ps = Ok options') \<longleftrightarrow>
     (let kvs = map (\<lambda>p. case split_once CHR ''='' p of Some kv \<Rightarrow> kv | None \<Rightarrow> (p, [])) (filter (\<lambda>p. p \<noteq> []) ps)
      in distinct (map fst kvs) \<and> set (map fst kvs) \<inter> seen = {} \<and> list_all pair_ok kvs)"
proof (induction ps arbitrary: seen options)
  case (Cons p ps)
  show ?case
  proof (cases "p = []")
    case False
    obtain k v where kv: "(case split_once CHR ''='' p of Some kv \<Rightarrow> kv | None \<Rightarrow> (p, [])) = (k, v)" by force
    have "(\<exists>options'. parse_query_pairs seen options (p # ps) = Ok options') \<longleftrightarrow>
        k \<notin> seen \<and> pair_ok (k, v) \<and> (\<exists>o1 options'. apply_query_pair k v options = Ok o1
           \<and> parse_query_pairs (insert k seen) o1 ps = Ok options')"
      using False kv apply_query_pair_Ok_iff [of k v options] by (auto simp: and_then_Inr_iff)
    also have "\<dots> \<longleftrightarrow> k \<notin> seen \<and> pair_ok (k, v) \<and> (\<exists>o1. apply_query_pair k v options = Ok o1
           \<and> (\<exists>options'. parse_query_pairs (insert k seen) o1 ps = Ok options'))" by blast
    finally show ?thesis
      unfolding Cons.IH using False kv apply_query_pair_Ok_iff [of k v options] by (auto simp: Let_def)
  qed (use Cons in simp)
qed (simp add: Let_def)

end
