(* ===== verification/Http_Stack.thy ===== *)
theory Http_Stack
  imports Auth_Handler Ingress_Service
begin

text \<open>
  \<open>middleware/auth.rs\<close>, \<open>middleware/deadline.rs\<close>, \<open>core/extract.rs\<close> and the router of \<open>app.rs\<close>: the layers a
  request passes and the endpoint it reaches. Header names are in lower case, in the order received. The
  HTTP library's extractors are the fields of \<open>http_libs\<close>; \<open>http_laws\<close> is what \<open>DefaultBodyLimit\<close> documents.
  Log lines, spans and the HTTP metrics layer are not modelled.
\<close>

section \<open>Requests\<close>

record http_request =
  hr_method :: string
  hr_path :: string
  hr_query :: "string option"
  hr_headers :: "(string \<times> string) list"
  hr_body :: string

datatype json_rejection =
    MissingJsonContentType | JsonSyntaxError | JsonDataError | BytesRejection nat | OtherJsonRejection

datatype path_rejection = FailedToDeserializePathParams | MissingPathParams | OtherPathRejection

record http_libs =
  hl_to_str :: "string \<Rightarrow> string option"                             \<comment> \<open>\<open>HeaderValue::to_str\<close>\<close>
  hl_json :: "nat \<Rightarrow> http_request \<Rightarrow> json_rejection + json"           \<comment> \<open>\<open>Json::from_request\<close> under a body limit\<close>
  hl_path_uuid :: "string \<Rightarrow> path_rejection + uuid"                   \<comment> \<open>\<open>Path<Uuid>\<close>\<close>
  hl_to_vec :: "json \<Rightarrow> string option"

definition http_laws :: "http_libs \<Rightarrow> bool" where
  "http_laws H \<longleftrightarrow> (\<forall>limit r v. hl_json H limit r = Inr v \<longrightarrow> length (hr_body r) \<le> limit)"

definition get_all :: "string \<Rightarrow> (string \<times> string) list \<Rightarrow> string list" where
  "get_all name hs = map snd (filter (\<lambda>h. fst h = name) hs)"

section \<open>Extraction\<close>

definition advertised_content_length_exceeds :: "http_libs \<Rightarrow> (string \<times> string) list \<Rightarrow> nat \<Rightarrow> bool" where
  "advertised_content_length_exceeds H hs limit =
     (case Option.bind (first_row (get_all ''content-length'' hs)) (\<lambda>v.
           Option.bind (hl_to_str H v) parse_rust_u64) of
        Some len \<Rightarrow> limit < len | None \<Rightarrow> False)"

definition payload_too_large :: http_error where
  "payload_too_large = http_error_new PayloadTooLarge ''Request body is too large''"

definition map_json_rejection :: "json_rejection \<Rightarrow> http_error" where
  "map_json_rejection rejection =
     (case rejection of
        MissingJsonContentType \<Rightarrow>
          http_error_new UnsupportedMediaType ''Content-Type must be application/json''
      | BytesRejection status \<Rightarrow>
          (if status = 413 then payload_too_large
           else http_error_new InvalidJson ''Request body is not valid JSON'')
      | _ \<Rightarrow> http_error_new InvalidJson ''Request body is not valid JSON'')"

definition map_path_rejection :: "path_rejection \<Rightarrow> http_error" where
  "map_path_rejection rejection = http_error_new InvalidPath ''Request path is not valid''"

text \<open>\<open>limit\<close> is the extension \<open>RequestBodyLimit\<close>, and \<open>default_limit\<close> the one of \<open>DefaultBodyLimit\<close>.\<close>

definition api_json :: "http_libs \<Rightarrow> nat option \<Rightarrow> nat \<Rightarrow> http_request \<Rightarrow> http_error + json" where
  "api_json H limit default_limit req =
     (if (case limit of Some l \<Rightarrow> advertised_content_length_exceeds H (hr_headers req) l | None \<Rightarrow> False)
      then Err payload_too_large
      else map_err map_json_rejection (hl_json H default_limit req))"

definition api_path :: "http_libs \<Rightarrow> string \<Rightarrow> http_error + uuid" where
  "api_path H raw = map_err map_path_rejection (hl_path_uuid H raw)"

section \<open>Authentication\<close>

datatype presented_key = KeyMissing | KeyInvalid | KeyValue string

definition presented_api_key :: "http_libs \<Rightarrow> (string \<times> string) list \<Rightarrow> presented_key" where
  "presented_api_key H hs =
     (case get_all ''x-api-key'' hs of
        [] \<Rightarrow> KeyMissing
      | [value] \<Rightarrow>
          (case hl_to_str H value of
             None \<Rightarrow> KeyInvalid
           | Some t \<Rightarrow>
               (if t = [] \<or> str_trim t \<noteq> t \<or> str_trim t = [] \<or> CHR '','' \<in> set t then KeyInvalid
                else KeyValue t))
      | _ # _ # _ \<Rightarrow> KeyInvalid)"

text \<open>The context \<open>authenticate_request\<close> inserts into the request's extensions, or its error.\<close>

definition authenticate_request ::
    "http_libs \<Rightarrow> 's auth_store_ops \<Rightarrow> cred_libs \<Rightarrow> timestamp \<Rightarrow> auth_timing \<Rightarrow> request_deadline option
      \<Rightarrow> http_request \<Rightarrow> 's \<Rightarrow> (auth_error + auth_context) \<times> 's" where
  "authenticate_request H ops C now tm deadline req s =
     (case presented_api_key H (hr_headers req) of
        KeyMissing \<Rightarrow> (Err AuthInvalidCredentials, s)
      | KeyInvalid \<Rightarrow> (Err AuthInvalidCredentials, s)
      | KeyValue presented \<Rightarrow>
          smap_err auth_of_authenticate
            (case deadline of
               Some dl \<Rightarrow> authenticate_with_deadline ops C now tm presented dl
             | None \<Rightarrow> authenticate ops C now presented) s)"

section \<open>The deadline\<close>

text \<open>
  The rest of the stack as a future: when it is ready, what it then returns with the state it leaves, and
  the state it leaves when it is dropped before.
\<close>

record ('a, 'g) inner_future =
  fu_ready :: "nat option"
  fu_result :: "'a \<times> 'g"
  fu_dropped :: 'g

text \<open>\<open>on_exceeded\<close> records the metric.\<close>

definition deadline_middleware ::
    "request_context option \<Rightarrow> nat \<Rightarrow> nat \<Rightarrow> nat \<Rightarrow> ('g \<Rightarrow> 'g)
      \<Rightarrow> (request_deadline \<Rightarrow> ('a http_response, 'g) inner_future) \<Rightarrow> 'a http_response \<times> 'g" where
  "deadline_middleware ctx timeout now lag on_exceeded next_run =
     (let dl = deadline_from_timeout now timeout; f = next_run dl
      in if timeout_poll (fu_ready f) (poll_at (fu_ready f) (as_instant dl) now lag) then fu_result f
         else (error_response ctx DeadlineExceeded ''The request deadline was exceeded'' None,
               on_exceeded (fu_dropped f)))"

section \<open>The router\<close>

datatype endpoint =
    GenerateEndpoint | KeysEndpoint | KeyEndpoint string | RootEndpoint | HealthEndpoint | ReadyEndpoint
  | MetricsEndpoint

definition match_endpoint :: "string option \<Rightarrow> string \<Rightarrow> endpoint option" where
  "match_endpoint metrics_path path =
     (if path = ''/api/v1/route'' then Some GenerateEndpoint
      else if path = ''/api/v1/auth/keys'' then Some KeysEndpoint
      else if path = ''/'' then Some RootEndpoint
      else if path = ''/health'' then Some HealthEndpoint
      else if path = ''/ready'' then Some ReadyEndpoint
      else if metrics_path = Some path then Some MetricsEndpoint
      else (case strip_prefix ''/api/v1/auth/keys/'' path of
              Some i \<Rightarrow> (if i \<noteq> [] \<and> CHR ''/'' \<notin> set i then Some (KeyEndpoint i) else None)
            | None \<Rightarrow> None))"

text \<open>The label of the HTTP metrics.\<close>

definition is_auth_key_resource_path :: "string \<Rightarrow> bool" where
  "is_auth_key_resource_path path =
     (case strip_prefix ''/api/v1/auth/keys/'' path of
        Some i \<Rightarrow> i \<noteq> [] \<and> CHR ''/'' \<notin> set i | None \<Rightarrow> False)"

definition bounded_http_endpoint :: "string \<Rightarrow> string" where
  "bounded_http_endpoint path =
     (if path \<in> {''/'', ''/health'', ''/ready'', ''/metrics'', ''/api/v1/route'', ''/api/v1/auth/keys''} then path
      else if is_auth_key_resource_path path then ''/api/v1/auth/keys/{id}''
      else ''unmatched'')"

section \<open>The protected endpoints\<close>

datatype api_body =
    GenerationBody ingress_response | AuthBody auth_json | EmptyBody

definition map_body :: "('a \<Rightarrow> 'b) \<Rightarrow> 'a http_response \<Rightarrow> 'b http_response" where
  "map_body f r = \<lparr>r_status = r_status r, r_headers = r_headers r, r_body = map_sum id f (r_body r)\<rparr>"

text \<open>What the handlers share.\<close>

record ('s, 'p) gateway_state =
  gs_store :: 's
  gs_limiter :: 'p
  gs_world :: world

text \<open>The injected services, and what one request's run meets besides the state.\<close>

record ('s, 'p, 'addr) gateway_app =
  ga_libs :: http_libs
  ga_store :: "'s auth_store_ops"
  ga_cred :: cred_libs
  ga_source :: secret_source
  ga_semaphore :: "'p semaphore_ops"
  ga_service :: service
  ga_settings :: "'addr settings"

record 'p request_run =
  rn_ctx :: "request_context option"
  rn_auth_utc :: timestamp
  rn_auth_timing :: auth_timing
  rn_utc :: timestamp
  rn_uuid :: uuid
  rn_meanwhile :: "'p \<Rightarrow> 'p"

definition max_request_body_limit :: "('s, 'p, 'addr) gateway_app \<Rightarrow> nat" where
  "max_request_body_limit A = pl_max_request_body_bytes (st_limits (ga_settings A))"

definition method_not_allowed :: "api_body http_response" where
  "method_not_allowed = \<lparr>r_status = 405, r_headers = Map.empty, r_body = Inr EmptyBody\<rparr>"

definition generate_endpoint ::
    "('s, 'p, 'addr) gateway_app \<Rightarrow> 'p request_run \<Rightarrow> http_request \<Rightarrow> request_deadline \<Rightarrow> auth_context
      \<Rightarrow> ('s, 'p) gateway_state \<Rightarrow> api_body http_response \<times> ('s, 'p) gateway_state" where
  "generate_endpoint A rn req dl au g =
     (case api_json (ga_libs A) (Some (max_request_body_limit A)) (max_request_body_limit A) req of
        Inl e \<Rightarrow> (http_error_into_response (rn_ctx rn) e, g)
      | Inr body \<Rightarrow>
          (case ingress_handler (ga_semaphore A) (hl_to_vec (ga_libs A)) (ga_service A) (ga_settings A)
                  (rn_meanwhile rn) au dl body (gs_limiter g, gs_world g) of
             (r, p, w) \<Rightarrow>
               ((case r of
                   Inl e \<Rightarrow> the (ingress_error_response (rn_ctx rn) e)
                 | Inr x \<Rightarrow> \<lparr>r_status = 200, r_headers = Map.empty, r_body = Inr (GenerationBody x)\<rparr>),
                g\<lparr>gs_limiter := p, gs_world := w\<rparr>)))"

definition auth_endpoint ::
    "request_context option \<Rightarrow> ('s \<Rightarrow> (auth_error + auth_json http_response) \<times> 's)
      \<Rightarrow> ('s, 'p) gateway_state \<Rightarrow> api_body http_response \<times> ('s, 'p) gateway_state" where
  "auth_endpoint ctx op g =
     (case op (gs_store g) of
        (r, s) \<Rightarrow> ((case r of Inl e \<Rightarrow> auth_error_response ctx e | Inr x \<Rightarrow> map_body AuthBody x),
                   g\<lparr>gs_store := s\<rparr>))"

definition protected_endpoint ::
    "('s, 'p, 'addr) gateway_app \<Rightarrow> 'p request_run \<Rightarrow> endpoint \<Rightarrow> http_request \<Rightarrow> request_deadline \<Rightarrow> auth_context
      \<Rightarrow> ('s, 'p) gateway_state \<Rightarrow> api_body http_response \<times> ('s, 'p) gateway_state" where
  "protected_endpoint A rn ep req dl au g =
     (case ep of
        GenerateEndpoint \<Rightarrow>
          (if hr_method req = ''POST'' then generate_endpoint A rn req dl au g else (method_not_allowed, g))
      | KeysEndpoint \<Rightarrow>
          (if hr_method req = ''POST''
           then (case api_json (ga_libs A) (Some (max_request_body_limit A)) (max_request_body_limit A) req of
                   Inl e \<Rightarrow> (http_error_into_response (rn_ctx rn) e, g)
                 | Inr body \<Rightarrow> auth_endpoint (rn_ctx rn)
                     (create_api_key (ga_store A) (ga_cred A) (ga_source A) (rn_utc rn) (rn_uuid rn) au body) g)
           else if hr_method req = ''GET'' \<or> hr_method req = ''HEAD''
           then auth_endpoint (rn_ctx rn) (list_api_keys (ga_store A) au (hr_query req)) g
           else (method_not_allowed, g))
      | KeyEndpoint raw \<Rightarrow>
          (if hr_method req = ''DELETE''
           then (case api_path (ga_libs A) raw of
                   Inl e \<Rightarrow> (http_error_into_response (rn_ctx rn) e, g)
                 | Inr key_id \<Rightarrow> auth_endpoint (rn_ctx rn) (revoke_api_key (ga_store A) (rn_utc rn) au key_id) g)
           else (method_not_allowed, g))
      | _ \<Rightarrow> (method_not_allowed, g))"

text \<open>Authentication in front of the endpoint, on the shared store.\<close>

definition auth_middleware ::
    "('s, 'p, 'addr) gateway_app \<Rightarrow> 'p request_run \<Rightarrow> request_deadline option \<Rightarrow> http_request
      \<Rightarrow> (auth_context \<Rightarrow> ('s, 'p) gateway_state \<Rightarrow> api_body http_response \<times> ('s, 'p) gateway_state)
      \<Rightarrow> ('s, 'p) gateway_state \<Rightarrow> api_body http_response \<times> ('s, 'p) gateway_state" where
  "auth_middleware A rn deadline req next_run g =
     (case authenticate_request (ga_libs A) (ga_store A) (ga_cred A) (rn_auth_utc rn) (rn_auth_timing rn)
             deadline req (gs_store g) of
        (Inl e, s) \<Rightarrow> (auth_error_response (rn_ctx rn) e, g\<lparr>gs_store := s\<rparr>)
      | (Inr au, s) \<Rightarrow> next_run au (g\<lparr>gs_store := s\<rparr>))"

text \<open>The layers of a protected route: the deadline around authentication around the endpoint.\<close>

definition protected_service ::
    "('s, 'p, 'addr) gateway_app \<Rightarrow> 'p request_run \<Rightarrow> endpoint \<Rightarrow> http_request \<Rightarrow> nat \<Rightarrow> nat \<Rightarrow> nat option
      \<Rightarrow> ('s, 'p) gateway_state \<Rightarrow> ('s, 'p) gateway_state \<Rightarrow> api_body http_response \<times> ('s, 'p) gateway_state" where
  "protected_service A rn ep req now lag ready dropped g =
     deadline_middleware (rn_ctx rn) (pl_protected_request_deadline (st_limits (ga_settings A))) now lag
       (\<lambda>g. g\<lparr>gs_world := emit record_deadline_exceeded (gs_world g)\<rparr>)
       (\<lambda>dl. \<lparr>fu_ready = ready, fu_result = auth_middleware A rn (Some dl) req (protected_endpoint A rn ep req dl) g, fu_dropped = dropped\<rparr>)"

section \<open>Facts\<close>

lemma presented_api_key_Value:
  "presented_api_key H hs = KeyValue t \<Longrightarrow>
     (\<exists>v. get_all ''x-api-key'' hs = [v] \<and> hl_to_str H v = Some t) \<and> t \<noteq> [] \<and> str_trim t = t \<and> CHR '','' \<notin> set t"
  by (auto simp: presented_api_key_def split: list.splits option.splits if_splits)

text \<open>Exactly one endpoint per path, and the metric's label is one of eight.\<close>

lemma bounded_http_endpoint_finite:
  "bounded_http_endpoint path \<in> {''/'', ''/health'', ''/ready'', ''/metrics'', ''/api/v1/route'',
     ''/api/v1/auth/keys'', ''/api/v1/auth/keys/{id}'', ''unmatched''}"
  by (auto simp: bounded_http_endpoint_def)

lemma api_json_bounded:
  "http_laws H \<Longrightarrow> api_json H l d req = Ok v \<Longrightarrow> length (hr_body req) \<le> d"
  by (auto simp: api_json_def http_laws_def split: if_splits)

lemma auth_endpoint_world [simp]:
  "gs_world (snd (auth_endpoint ctx op g)) = gs_world g" "gs_limiter (snd (auth_endpoint ctx op g)) = gs_limiter g"
  by (auto simp: auth_endpoint_def split: prod.splits)

lemma protected_endpoint_world:
  assumes "protected_endpoint A rn ep req dl au g = (resp, g')" "gs_world g' \<noteq> gs_world g"
  shows "ep = GenerateEndpoint \<and> hr_method req = ''POST'' \<and> generate_endpoint A rn req dl au g = (resp, g')"
proof (cases ep)
  case (KeysEndpoint)
  then show ?thesis using assms by (auto simp: protected_endpoint_def split: if_splits sum.splits
    dest: arg_cong [where f = "\<lambda>p. gs_world (snd p)"])
next
  case (KeyEndpoint x)
  then show ?thesis using assms by (auto simp: protected_endpoint_def split: if_splits sum.splits
    dest: arg_cong [where f = "\<lambda>p. gs_world (snd p)"])
qed (use assms in \<open>auto simp: protected_endpoint_def split: if_splits\<close>)

end
