(* ===== verification/Http_Properties.thy ===== *)
theory Http_Properties
  imports Http_Stack Auth_Properties Ingress_Properties
begin

text \<open>
  What the layers in front of the handlers guarantee together: no provider traffic without an active
  inference key, an authentication that fails closed, and an answer by the deadline.
\<close>

section \<open>Helpers\<close>

lemma ingress_handler_sent:
  assumes "ingress_handler S to_vec sv st mw au dl body (p, w) = (r, p', w')" "w_sent w' \<noteq> w_sent w"
  shows "au_kind au = Inference \<and> is_ok (limiter_try_acquire S p)"
  using assms by (auto simp: ingress_handler_def record_defs is_ok_iff split: if_splits sum.splits admission_denied.splits)

lemma generate_endpoint_sent:
  assumes run: "generate_endpoint A rn req dl au g = (resp, g')" and sent: "w_sent (gs_world g') \<noteq> w_sent (gs_world g)"
    and H: "http_laws (ga_libs A)" and S: "semaphore_laws (ga_semaphore A)"
  shows "au_kind au = Inference \<and> length (hr_body req) \<le> max_request_body_limit A \<and> gs_store g' = gs_store g
    \<and> \<not> so_closed (ga_semaphore A) (gs_limiter g) \<and> 0 < so_available (ga_semaphore A) (gs_limiter g)"
proof (cases "api_json (ga_libs A) (Some (max_request_body_limit A)) (max_request_body_limit A) req")
  case (Inl e)
  with run sent show ?thesis by (auto simp: generate_endpoint_def)
next
  case (Inr body)
  obtain r p w where h: "ingress_handler (ga_semaphore A) (hl_to_vec (ga_libs A)) (ga_service A) (ga_settings A)
      (rn_meanwhile rn) au dl body (gs_limiter g, gs_world g) = (r, p, w)" by (metis prod_cases3)
  with run Inr have g': "g' = g\<lparr>gs_limiter := p, gs_world := w\<rparr>" by (auto simp: generate_endpoint_def)
  from ingress_handler_sent [OF h] sent g' api_json_bounded [OF H Inr]
    limiter_try_acquire_cases(3) [OF S] show ?thesis by (auto simp: is_ok_iff)
qed

lemma authenticate_with_deadline_Ok:
  "authenticate_with_deadline ops C now tm t dl s = (Ok au, s') \<Longrightarrow> authenticate ops C now t s = (Ok au, s')"
  by (auto simp: authenticate_with_deadline_def split: if_splits)

lemma authenticate_with_deadline_Err:
  "authenticate_with_deadline ops C now tm t dl s = (Err e, s') \<Longrightarrow>
     e = AeDeadlineExceeded \<or> authenticate ops C now t s = (Err e, s')"
  by (auto simp: authenticate_with_deadline_def split: if_splits)

lemma authenticate_no_deadline: "authenticate ops C now t s \<noteq> (Err AeDeadlineExceeded, s')"
  by (auto simp: authenticate_def sbind_eq_iff smap_err_eq_iff split: option.splits if_splits)

lemma authenticate_request_Ok:
  assumes "authenticate_request H ops C now tm dl req s = (Ok au, s')"
  obtains t where "presented_api_key H (hr_headers req) = KeyValue t" "authenticate ops C now t s = (Ok au, s')"
  using assms unfolding authenticate_request_def
  by (auto simp: smap_err_eq_iff split: presented_key.splits option.splits dest: authenticate_with_deadline_Ok)

lemma authenticate_request_Err:
  assumes "authenticate_request H ops C now tm dl req s = (Err e, s')"
  shows "e = AuthInvalidCredentials \<and> presented_api_key H (hr_headers req) \<in> {KeyMissing, KeyInvalid} \<and> s' = s
    \<or> (\<exists>t. presented_api_key H (hr_headers req) = KeyValue t
          \<and> (e = AuthInvalidCredentials \<and> authenticate ops C now t s = (Err AeInvalidCredentials, s')
            \<or> e = AuthStoreUnavailable \<and> authenticate ops C now t s = (Err AeStoreUnavailable, s')
            \<or> e = AuthDeadlineExceeded \<and> dl \<noteq> None))"
proof (cases "presented_api_key H (hr_headers req)")
  case (KeyValue t)
  obtain a where a: "e = auth_of_authenticate a"
    "authenticate ops C now t s = (Err a, s') \<or> a = AeDeadlineExceeded \<and> dl \<noteq> None"
    using assms KeyValue unfolding authenticate_request_def
    by (auto simp: smap_err_eq_iff split: option.splits dest!: authenticate_with_deadline_Err)
  with KeyValue authenticate_no_deadline [of ops C now t s s'] show ?thesis by (cases a) auto
qed (use assms in \<open>auto simp: authenticate_request_def\<close>)

context auth_store
begin

text \<open>A refusal means that no active key has the presented credential's digest.\<close>

lemma authenticate_refused:
  assumes "inv s" "authenticate ops C now t s = (Err AeInvalidCredentials, s')"
  shows "\<forall>k \<in> set (dr_keys (view s)). kr_digest k = hash_credential C t \<longrightarrow> is_revoked k"
proof -
  obtain q u where q: "as_authenticate_digest ops (hash_credential C t) now s = (q, u)" by force
  then have "case q of Inl e \<Rightarrow> False | Inr x \<Rightarrow> (\<forall>k. x = Some k \<longrightarrow> is_revoked k)"
    using assms(2) by (cases q) (auto simp: authenticate_def sbind_def smap_err_def split: option.splits if_splits)
  then obtain x where x: "q = Inr x" "\<And>k. x = Some k \<Longrightarrow> is_revoked k" by (cases q) auto
  have f: "x = map_option (touch now) (dir_find (hash_credential C t) (view s))"
    using authenticate_law [OF assms(1) q] x(1) by (auto simp: dir_authenticate_def)
  show ?thesis
  proof (intro ballI impI)
    fix k assume k: "k \<in> set (dr_keys (view s))" "kr_digest k = hash_credential C t"
    then have "dir_find (hash_credential C t) (view s) = Some k"
      using dir_find_eq [OF view_ok [OF assms(1)] k(1)] by simp
    with f x(2) [of "touch now k"] show "is_revoked k" by simp
  qed
qed

end

text \<open>A store that answers fails only on a clock that is behind the key's creation.\<close>

lemma answered_authenticate:
  assumes inv: "pg_inv s" and up: "pg_replies s = []"
    and clock: "\<And>k. k \<in> set (dr_keys (pg_view s)) \<Longrightarrow> kr_digest k = hash_credential C t \<Longrightarrow> kr_created_at k \<le> now"
  shows "fst (authenticate (pg_ops b) C now t s) \<in> {Err AeInvalidCredentials} \<union> range Ok"
proof (cases "\<exists>k \<in> set (dr_keys (pg_view s)). kr_digest k = hash_credential C t \<and> \<not> is_revoked k")
  case True
  then show ?thesis using healthy_authenticate [OF inv up] clock by blast
next
  case False
  have "\<exists>x. fst (pg_authenticate_digest (hash_credential C t) now s) = Ok x \<and> (\<forall>k. x = Some k \<longrightarrow> is_revoked k)"
  proof (cases "List.find (\<lambda>r. kw_key_digest r = hash_credential C t) (db_keys (pg_db s))")
    case None
    then show ?thesis using up
      by (simp add: pg_authenticate_digest_def authenticate_digest_on_def sbind_def healthy_trips
          select_keys_stmt_def first_row_filter)
  next
    case (Some row)
    then have row: "row \<in> set (db_keys (pg_db s))" "kw_key_digest row = hash_credential C t"
      by (auto dest: find_in_set)
    have "is_revoked (row_record row)" using False row by (auto simp: pg_view_def)
    moreover have "api_key_from_row row = Ok (row_record row)"
      using api_key_from_row_ok db_ok_rows row(1) inv by (simp add: pg_inv_def)
    ultimately show ?thesis using up Some
      by (simp add: pg_authenticate_digest_def authenticate_digest_on_def authenticate_row_def sbind_def healthy_trips
          select_keys_stmt_def first_row_filter)
  qed
  then show ?thesis
    by (auto simp: authenticate_def sbind_def smap_err_def pg_ops_def split: option.splits prod.splits)
qed

section \<open>Properties\<close>

text \<open>
  C1. No provider traffic without an active inference key: a protected request puts something on the
  wire to the provider only if it is a POST of the generation endpoint whose single X-API-Key header is
  the credential of an unrevoked inference key in the database, with a body within the limit, and while
  the generation limiter is open and has a free slot. Whatever the endpoint, the timing of the
  authentication, the store's failures and the rest of the request.
\<close>

theorem provider_traffic_needs_an_active_inference_key:
  assumes store: "ga_store A = pg_ops b" and H: "http_laws (ga_libs A)" and S: "semaphore_laws (ga_semaphore A)"
    and inv: "pg_inv (gs_store g)"
    and run: "auth_middleware A rn dl req (protected_endpoint A rn ep req dl') g = (resp, g')"
    and sent: "w_sent (gs_world g') \<noteq> w_sent (gs_world g)"
  shows "ep = GenerateEndpoint \<and> hr_method req = ''POST'' \<and> length (hr_body req) \<le> max_request_body_limit A
    \<and> \<not> so_closed (ga_semaphore A) (gs_limiter g) \<and> 0 < so_available (ga_semaphore A) (gs_limiter g)
    \<and> (\<exists>v t k. get_all ''x-api-key'' (hr_headers req) = [v] \<and> hl_to_str (ga_libs A) v = Some t
         \<and> k \<in> set (dr_keys (pg_view (gs_store g'))) \<and> kr_digest k = hash_credential (ga_cred A) t
         \<and> \<not> is_revoked k \<and> kr_kind k = Inference)"
proof -
  obtain r s where a: "authenticate_request (ga_libs A) (pg_ops b) (ga_cred A) (rn_auth_utc rn) (rn_auth_timing rn)
      dl req (gs_store g) = (r, s)" by force
  from run sent a store obtain au where r: "r = Ok au"
    and p: "protected_endpoint A rn ep req dl' au (g\<lparr>gs_store := s\<rparr>) = (resp, g')"
    by (cases r) (auto simp: auth_middleware_def)
  obtain t where t: "presented_api_key (ga_libs A) (hr_headers req) = KeyValue t"
    and au: "authenticate (pg_ops b) (ga_cred A) (rn_auth_utc rn) t (gs_store g) = (Ok au, s)"
    using authenticate_request_Ok [OF a [unfolded r]] .
  obtain v where v: "get_all ''x-api-key'' (hr_headers req) = [v]" "hl_to_str (ga_libs A) v = Some t"
    using presented_api_key_Value [OF t] by blast
  obtain k where k: "k \<in> set (dr_keys (pg_view s))" "kr_digest k = hash_credential (ga_cred A) t"
      "\<not> is_revoked k" "au = context_of_record k"
    using pg.authenticate_Ok [OF inv au] by blast
  have w: "gs_world g' \<noteq> gs_world (g\<lparr>gs_store := s\<rparr>)" "w_sent (gs_world g') \<noteq> w_sent (gs_world (g\<lparr>gs_store := s\<rparr>))"
    using sent by auto
  from protected_endpoint_world [OF p w(1)] have ep: "ep = GenerateEndpoint" "hr_method req = ''POST''"
    and ge: "generate_endpoint A rn req dl' au (g\<lparr>gs_store := s\<rparr>) = (resp, g')" by auto
  from generate_endpoint_sent [OF ge w(2) H S] ep v k show ?thesis by auto
qed

text \<open>One request through the concrete deployment.\<close>

definition demo_http :: http_libs where
  "demo_http = \<lparr>hl_to_str = Some,
     hl_json = (\<lambda>l r. if length (hr_body r) \<le> l then Inr (JObj demo_body) else Inl (BytesRejection 413)),
     hl_path_uuid = Inr, hl_to_vec = (\<lambda>_. Some ''{}'')\<rparr>"

definition demo_app :: "(pg_store, nat \<times> bool, string) gateway_app" where
  "demo_app = \<lparr>ga_libs = demo_http, ga_store = pg_ops True, ga_cred = demo_cred, ga_source = demo_source,
     ga_semaphore = counting_semaphore, ga_service = demo_service, ga_settings = demo_settings\<rparr>"

definition demo_run :: "(nat \<times> bool) request_run" where
  "demo_run = \<lparr>rn_ctx = None, rn_auth_utc = 20,
     rn_auth_timing = \<lparr>at_now = 0, at_ready = Some 1, at_lag = 0, at_answered = 0, at_pending_applied = False\<rparr>,
     rn_utc = 20, rn_uuid = ''n'', rn_meanwhile = (\<lambda>p. p)\<rparr>"

definition demo_post :: http_request where
  "demo_post = \<lparr>hr_method = ''POST'', hr_path = ''/api/v1/route'', hr_query = None,
     hr_headers = [(''x-api-key'', ''xxxxxxxxxxxxxxxxxxxxxxxxxxxxxxxx'')], hr_body = ''{}''\<rparr>"

definition demo_state :: "(pg_store, nat \<times> bool) gateway_state" where
  "demo_state = \<lparr>gs_store = demo_two (demo_row\<lparr>kw_revoked_at := Some 20\<rparr>), gs_limiter = (1, False),
     gs_world = demo_world [Some (1, Inr (demo_response 401 ''{}''))]\<rparr>"

lemma demo_http_laws: "http_laws demo_http"
  by (simp add: http_laws_def demo_http_def)

lemma demo_presented: "presented_api_key demo_http (hr_headers demo_post) = KeyValue ''xxxxxxxxxxxxxxxxxxxxxxxxxxxxxxxx''"
  by (simp add: presented_api_key_def get_all_def demo_http_def demo_post_def str_trim_def trim_start_def
      trim_end_def trim_done ws_prefix_def code_of_def white_space_bytes_def)

lemma demo_authenticated:
  "\<exists>s. authenticate_request demo_http (pg_ops True) demo_cred 20 (rn_auth_timing demo_run)
       (Some \<lparr>dl_instant = 1000000\<rparr>) demo_post (gs_store demo_state)
       = (Ok (context_of_record (row_record demo_row2)), s)"
proof -
  obtain s where "authenticate (pg_ops True) demo_cred 20 ''xxxxxxxxxxxxxxxxxxxxxxxxxxxxxxxx'' (gs_store demo_state)
      = (Ok (context_of_record (row_record demo_row2)), s)"
    using demo_second_key by (auto simp: demo_state_def)
  then have "authenticate_with_deadline (pg_ops True) demo_cred 20 (rn_auth_timing demo_run)
      ''xxxxxxxxxxxxxxxxxxxxxxxxxxxxxxxx'' \<lparr>dl_instant = 1000000\<rparr> (gs_store demo_state)
      = (Ok (context_of_record (row_record demo_row2)), s)"
    by (simp add: authenticate_with_deadline_def is_expired_def timeout_poll_def poll_at_def as_instant_def demo_run_def)
  then show ?thesis by (simp add: authenticate_request_def demo_presented smap_err_def)
qed

lemma demo_request_run:
  "\<exists>resp g' x. auth_middleware demo_app demo_run (Some \<lparr>dl_instant = 1000000\<rparr>) demo_post
       (protected_endpoint demo_app demo_run GenerateEndpoint demo_post \<lparr>dl_instant = 1000000\<rparr>) demo_state
       = (resp, g') \<and> w_sent (gs_world g') = [x]"
proof -
  have k: "au_kind (context_of_record (row_record demo_row2)) = Inference"
    by (simp add: context_of_record_def row_record_def demo_row2_def)
  obtain w' x where p: "process_request demo_service demo_catalog demo_request \<lparr>dl_instant = 1000000\<rparr>
      (gs_world demo_state) = (Err (IngressExecutionFailed (AuthenticationFailed ''openai'')), w')"
    "w_sent w' = [x]"
    using demo_processing by (auto simp: demo_state_def)
  have j: "api_json demo_http (Some l) l demo_post = Ok (JObj demo_body)" if "2 \<le> l" for l
    using that by (simp add: api_json_def advertised_content_length_exceeds_def get_all_def first_row_def
        demo_http_def demo_post_def)
  have "ingress_handler counting_semaphore (hl_to_vec demo_http) demo_service demo_settings (\<lambda>p. p)
      (context_of_record (row_record demo_row2)) \<lparr>dl_instant = 1000000\<rparr> (JObj demo_body)
      ((1, False), gs_world demo_state)
      = (Err (IngressExecutionFailed (AuthenticationFailed ''openai'')), (1, False), w')"
    using p(1) demo_body_parsed k
    by (simp add: ingress_handler_def demo_settings_def demo_http_def limiter_try_acquire_def permit_drop_def
        counting_semaphore_def)
  then have ge: "\<exists>resp. generate_endpoint demo_app demo_run demo_post \<lparr>dl_instant = 1000000\<rparr>
      (context_of_record (row_record demo_row2)) (demo_state\<lparr>gs_store := s\<rparr>)
      = (resp, demo_state\<lparr>gs_store := s, gs_limiter := (1, False), gs_world := w'\<rparr>)" for s
    by (simp add: generate_endpoint_def demo_app_def max_request_body_limit_def demo_settings_def demo_limits_def
        demo_run_def j) (simp add: demo_state_def)
  obtain s where s: "authenticate_request demo_http (pg_ops True) demo_cred 20 (rn_auth_timing demo_run)
       (Some \<lparr>dl_instant = 1000000\<rparr>) demo_post (gs_store demo_state)
       = (Ok (context_of_record (row_record demo_row2)), s)" using demo_authenticated by blast
  obtain resp where "generate_endpoint demo_app demo_run demo_post \<lparr>dl_instant = 1000000\<rparr>
      (context_of_record (row_record demo_row2)) (demo_state\<lparr>gs_store := s\<rparr>)
      = (resp, demo_state\<lparr>gs_store := s, gs_limiter := (1, False), gs_world := w'\<rparr>)" using ge by blast
  moreover have "hr_method demo_post = ''POST''" "ga_libs demo_app = demo_http" "ga_store demo_app = pg_ops True"
    "ga_cred demo_app = demo_cred" "rn_auth_utc demo_run = 20"
    by (simp_all add: demo_post_def demo_app_def demo_run_def)
  ultimately show ?thesis using s p(2) by (simp add: auth_middleware_def protected_endpoint_def)
qed

theorem provider_traffic_needs_an_active_inference_key_witness:
  "\<exists>resp g' x k. auth_middleware demo_app demo_run (Some \<lparr>dl_instant = 1000000\<rparr>) demo_post
       (protected_endpoint demo_app demo_run GenerateEndpoint demo_post \<lparr>dl_instant = 1000000\<rparr>) demo_state
       = (resp, g') \<and> w_sent (gs_world g') = [x] \<and> k \<in> set (dr_keys (pg_view (gs_store g')))
     \<and> kr_kind k = Inference \<and> \<not> is_revoked k"
proof -
  obtain resp g' x where run: "auth_middleware demo_app demo_run (Some \<lparr>dl_instant = 1000000\<rparr>) demo_post
       (protected_endpoint demo_app demo_run GenerateEndpoint demo_post \<lparr>dl_instant = 1000000\<rparr>) demo_state
       = (resp, g')" and x: "w_sent (gs_world g') = [x]"
    using demo_request_run by blast
  have "ga_store demo_app = pg_ops True" "http_laws (ga_libs demo_app)" "semaphore_laws (ga_semaphore demo_app)"
    "pg_inv (gs_store demo_state)" "w_sent (gs_world g') \<noteq> w_sent (gs_world demo_state)"
    using x demo_two_ok by (simp_all add: demo_app_def demo_http_laws counting_semaphore_laws demo_state_def demo_world_def)
  from provider_traffic_needs_an_active_inference_key [OF this(1-4) run this(5)] run x show ?thesis by blast
qed

text \<open>
  C7. Authentication decides, and fails closed. A request is handed on only with the context of an
  unrevoked key whose digest is that of the one well-formed credential presented. Otherwise the endpoint
  does not run, whatever it is, and the answer is 401, 503 or 504: 401 exactly when no well-formed single
  credential was presented or no active key has its digest, in words that do not tell which; 503 only if
  a round trip to the database failed or the clock is behind the key's creation; 504 only under a
  deadline.
\<close>

theorem authentication_fails_closed:
  assumes store: "ga_store A = pg_ops b" and inv: "pg_inv (gs_store g)"
    and run: "authenticate_request (ga_libs A) (pg_ops b) (ga_cred A) (rn_auth_utc rn) (rn_auth_timing rn)
       dl req (gs_store g) = (r, s)"
  shows "(case r of
      Ok au \<Rightarrow> auth_middleware A rn dl req nxt g = nxt au (g\<lparr>gs_store := s\<rparr>)
        \<and> (\<exists>t k. presented_api_key (ga_libs A) (hr_headers req) = KeyValue t \<and> k \<in> set (dr_keys (pg_view s))
             \<and> kr_digest k = hash_credential (ga_cred A) t \<and> \<not> is_revoked k \<and> au = context_of_record k)
    | Err e \<Rightarrow> auth_middleware A rn dl req nxt g = (auth_error_response (rn_ctx rn) e, g\<lparr>gs_store := s\<rparr>)
        \<and> (e = AuthInvalidCredentials \<and> r_status (fst (auth_middleware A rn dl req nxt g)) = 401
              \<and> (case presented_api_key (ga_libs A) (hr_headers req) of
                   KeyValue t \<Rightarrow> list_all (\<lambda>k. kr_digest k = hash_credential (ga_cred A) t \<longrightarrow> is_revoked k)
                                  (dr_keys (pg_view (gs_store g)))
                 | _ \<Rightarrow> s = gs_store g)
           \<or> e = AuthStoreUnavailable \<and> r_status (fst (auth_middleware A rn dl req nxt g)) = 503
              \<and> (pg_replies (gs_store g) = [] \<longrightarrow>
                   (\<exists>t k. presented_api_key (ga_libs A) (hr_headers req) = KeyValue t
                      \<and> k \<in> set (dr_keys (pg_view (gs_store g)))
                      \<and> kr_digest k = hash_credential (ga_cred A) t \<and> rn_auth_utc rn < kr_created_at k))
           \<or> e = AuthDeadlineExceeded \<and> r_status (fst (auth_middleware A rn dl req nxt g)) = 504 \<and> dl \<noteq> None))"
proof (cases r)
  case (Inr au)
  obtain t where t: "presented_api_key (ga_libs A) (hr_headers req) = KeyValue t"
    and au: "authenticate (pg_ops b) (ga_cred A) (rn_auth_utc rn) t (gs_store g) = (Ok au, s)"
    using authenticate_request_Ok [OF run [unfolded Inr]] .
  from pg.authenticate_Ok [OF inv au] t Inr store run show ?thesis
    by (auto simp: auth_middleware_def)
next
  case (Inl e)
  have mw: "auth_middleware A rn dl req nxt g = (auth_error_response (rn_ctx rn) e, g\<lparr>gs_store := s\<rparr>)"
    using run Inl store by (simp add: auth_middleware_def)
  show ?thesis
    using authenticate_request_Err [OF run [unfolded Inl]]
  proof (elim disjE exE conjE)
    fix t assume t: "presented_api_key (ga_libs A) (hr_headers req) = KeyValue t"
    show ?thesis if e: "e = AuthInvalidCredentials"
      and a: "authenticate (pg_ops b) (ga_cred A) (rn_auth_utc rn) t (gs_store g) = (Err AeInvalidCredentials, s)"
      using pg.authenticate_refused [OF inv a] by (simp add: Inl mw e t auth_error_response_def list_all_iff)
    show ?thesis if e: "e = AuthStoreUnavailable"
      and a: "authenticate (pg_ops b) (ga_cred A) (rn_auth_utc rn) t (gs_store g) = (Err AeStoreUnavailable, s)"
    proof -
      have "\<exists>k \<in> set (dr_keys (pg_view (gs_store g))). kr_digest k = hash_credential (ga_cred A) t
          \<and> rn_auth_utc rn < kr_created_at k" if up: "pg_replies (gs_store g) = []"
        using answered_authenticate [OF inv up, of "ga_cred A" t "rn_auth_utc rn" b] a by (force simp: not_less)
      then show ?thesis by (auto simp: Inl mw e t auth_error_response_def)
    qed
    show ?thesis if "e = AuthDeadlineExceeded" "dl \<noteq> None" using that by (simp add: Inl mw auth_error_response_def)
  qed (auto simp: Inl mw auth_error_response_def)
qed

theorem authentication_fails_closed_witness:
  "r_status (fst (auth_middleware demo_app demo_run None (demo_post\<lparr>hr_headers := []\<rparr>)
      (\<lambda>au g. (method_not_allowed, g)) demo_state)) = 401"
proof -
  have p: "presented_api_key demo_http [] = KeyMissing" by (simp add: presented_api_key_def get_all_def)
  have a: "ga_store demo_app = pg_ops True" "pg_inv (gs_store demo_state)" "ga_libs demo_app = demo_http"
    using demo_two_ok by (simp_all add: demo_app_def demo_state_def)
  have "authenticate_request (ga_libs demo_app) (pg_ops True) (ga_cred demo_app) (rn_auth_utc demo_run)
      (rn_auth_timing demo_run) None (demo_post\<lparr>hr_headers := []\<rparr>) (gs_store demo_state)
      = (Err AuthInvalidCredentials, gs_store demo_state)"
    using p by (simp add: authenticate_request_def a(3))
  from authentication_fails_closed [OF a(1,2) this, of "\<lambda>au g. (method_not_allowed, g)"]
  show ?thesis by (simp add: auth_error_response_def)
qed

text \<open>
  C15. Every protected request is answered in time: under settings within their limits, the answer comes no
  later than the configured deadline, itself at most five minutes after the request's arrival, plus the lag
  of the scheduler. It is the answer of the layers inside, which were given that same deadline, whenever
  they were ready by then; otherwise it is 504 with the code \<open>DEADLINE_EXCEEDED\<close>, never sent before the
  deadline, and the metric counts it once.
\<close>

theorem protected_requests_are_answered_in_time:
  assumes wf: "settings_wf (ga_settings A)"
    and run: "protected_service A rn ep req now lag ready dropped g = (resp, g')"
    and D: "D = pl_protected_request_deadline (st_limits (ga_settings A))"
    and t: "t = poll_at ready (now + D) now lag"
  shows "t \<le> now + D + lag \<and> D \<le> from_millis 300000 \<and>
    (if \<exists>r. ready = Some r \<and> r \<le> t
     then (resp, g') = auth_middleware A rn (Some \<lparr>dl_instant = now + D\<rparr>) req
                         (protected_endpoint A rn ep req \<lparr>dl_instant = now + D\<rparr>) g
     else now + D \<le> t \<and> r_status resp = 504
       \<and> (\<exists>b. r_body resp = Inl b \<and> eb_code b = ''DEADLINE_EXCEEDED'')
       \<and> gs_world g' = emit [MDeadlineExceeded] (gs_world dropped) \<and> gs_store g' = gs_store dropped)"
proof -
  have e: "timeout_poll ready t \<longleftrightarrow> (\<exists>r. ready = Some r \<and> r \<le> t)"
    by (cases ready) (auto simp: timeout_poll_def)
  have "in_bound_ms b_protected_request_deadline_ms D"
    using wf by (simp add: settings_wf_def limits_in_range_def D)
  then have d: "D \<le> from_millis 300000"
    by (auto simp: in_bound_ms_def in_bound_def b_protected_request_deadline_ms_def from_millis_def)
  have le: "t \<le> now + D + lag" using t by (auto simp: poll_at_def split: option.splits)
  have r: "(resp, g') = (if timeout_poll ready t
      then auth_middleware A rn (Some \<lparr>dl_instant = now + D\<rparr>) req
                         (protected_endpoint A rn ep req \<lparr>dl_instant = now + D\<rparr>) g
      else (error_response (rn_ctx rn) DeadlineExceeded ''The request deadline was exceeded'' None,
            dropped\<lparr>gs_world := emit record_deadline_exceeded (gs_world dropped)\<rparr>))"
    using run [symmetric]
    by (simp add: protected_service_def deadline_middleware_def deadline_from_timeout_def as_instant_def Let_def t D)
  show ?thesis
  proof (cases "timeout_poll ready t")
    case True
    with r le d show ?thesis unfolding e [symmetric] by simp
  next
    case False
    with elapsed_not_early [of ready "now + D" now lag] t have "now + D \<le> t" by simp
    with False r le d show ?thesis unfolding e [symmetric] by (simp add: record_defs)
  qed
qed

theorem protected_requests_are_answered_in_time_witness:
  "r_status (fst (protected_service demo_app demo_run GenerateEndpoint demo_post 5 7 None demo_state demo_state)) = 504"
proof -
  obtain resp g' where run: "protected_service demo_app demo_run GenerateEndpoint demo_post 5 7 None demo_state
      demo_state = (resp, g')" by force
  have "settings_wf (ga_settings demo_app)" using demo_settings_wf by (simp add: demo_app_def)
  from protected_requests_are_answered_in_time [OF this run refl refl] run show ?thesis by simp
qed

end
