(* ===== verification/Health.thy ===== *)
theory Health
  imports Http_Stack
begin

text \<open>
  \<open>features/health/\<close> (error, repository, service and handler) and the health checks of
  \<open>features/executor/service.rs\<close>: liveness, the two cached probes, the inspection of the default route
  and readiness.

  A check is a function of what it meets: the clock readings it makes, the answers its probes get and
  when, the value each success cache had when it was read, the drain flag at its two snapshots and the
  circuits at the moment of the inspection. What it does is its response and the instants it writes to
  the caches, so every interleaving with other checks, requests and the drain is some choice of these
  arguments. The constructor \<open>HealthService::new\<close> reads the clock for the uptime.
\<close>

section \<open>Health checks of the vendors\<close>

text \<open>
  One spawned task: the exchange it meets, its scheduling lag, and, when the task itself fails, the
  text of the join error.
\<close>

record vendor_task =
  vt_now :: nat
  vt_exchange :: exchange
  vt_lag :: nat
  vt_join_error :: "string option"

definition check_vendor_health ::
    "service \<Rightarrow> string \<Rightarrow> nat \<Rightarrow> vendor_task \<Rightarrow> executor_error + unit" where
  "check_vendor_health sv vendor_name timeout_secs task =
     and_then (get_vendor (sv_vendors sv) vendor_name) (\<lambda>vendor.
       snd (vendor_health_check (sv_libs sv) vendor timeout_secs (vt_now task) (vt_lag task)
              (vt_exchange task)))"

text \<open>The awaited handle of a task.\<close>

definition joined_result :: "libs \<Rightarrow> openai_config \<Rightarrow> nat \<Rightarrow> vendor_task \<Rightarrow> executor_error + unit" where
  "joined_result L vendor timeout_secs task =
     (case vt_join_error task of
        Some join_error \<Rightarrow> Err (NetworkError (''Health check task failed: '' @ join_error))
      | None \<Rightarrow> snd (vendor_health_check L vendor timeout_secs (vt_now task) (vt_lag task) (vt_exchange task)))"

fun spawn_checks ::
    "service \<Rightarrow> nat \<Rightarrow> (string \<Rightarrow> vendor_task) \<Rightarrow> string list \<Rightarrow> executor_error + (executor_error + unit) list" where
  "spawn_checks sv timeout_secs task [] = Ok []"
| "spawn_checks sv timeout_secs task (n # ns) =
     and_then (get_vendor (sv_vendors sv) n) (\<lambda>vendor.
     and_then (spawn_checks sv timeout_secs task ns) (\<lambda>rs.
       Ok (joined_result (sv_libs sv) vendor timeout_secs (task n) # rs)))"

definition any_healthy :: "(executor_error + unit) list \<Rightarrow> executor_error + unit" where
  "any_healthy results =
     (if 0 < length (filter is_ok results) then Ok ()
      else (case List.find (\<lambda>r. \<not> is_ok r) results of
              Some (Inl e) \<Rightarrow> Err e
            | _ \<Rightarrow> Err NoVendorsConfigured))"

text \<open>\<open>names\<close> is what \<open>list_vendor_names\<close> returns: the keys of the registry in some order.\<close>

definition vendor_names :: "service \<Rightarrow> string list \<Rightarrow> bool" where
  "vendor_names sv names \<longleftrightarrow> distinct names \<and> (\<forall>n. n \<in> set names \<longleftrightarrow> sv_vendors sv n \<noteq> None)"

definition check_all_vendors_health ::
    "service \<Rightarrow> string list \<Rightarrow> nat \<Rightarrow> (string \<Rightarrow> vendor_task) \<Rightarrow> executor_error + unit" where
  "check_all_vendors_health sv names timeout_secs task =
     (if names = [] then Err NoVendorsConfigured
      else and_then (spawn_checks sv timeout_secs task names) any_healthy)"

definition default_route_has_usable_target :: "registry \<Rightarrow> catalog \<Rightarrow> bool" where
  "default_route_has_usable_target reg c =
     (case map_of (cat_routes c) (cat_default_route c) of
        None \<Rightarrow> False
      | Some route \<Rightarrow> list_ex (target_is_usable reg) (ro_primary route # ro_fallbacks route))"

section \<open>Errors and statuses\<close>

datatype health_error =
    SystemStatusCheckFailed | DependencyValidationFailed | ResourceMonitoringFailed | HealthAggregationFailed

text \<open>The status and the message of the response.\<close>

definition health_error_response :: "health_error \<Rightarrow> nat \<times> string" where
  "health_error_response e = (503, ''Health check failed - service temporarily unavailable.'')"

record dependency_status =
  ds_status :: string
  ds_latency_ms :: "nat option"
  ds_error :: "string option"

definition ds_healthy :: "nat option \<Rightarrow> dependency_status" where
  "ds_healthy latency_ms = \<lparr>ds_status = ''healthy'', ds_latency_ms = latency_ms, ds_error = None\<rparr>"

definition ds_unhealthy :: "string \<Rightarrow> nat option \<Rightarrow> dependency_status" where
  "ds_unhealthy message latency_ms =
     \<lparr>ds_status = ''unhealthy'', ds_latency_ms = latency_ms, ds_error = Some message\<rparr>"

definition ds_is_healthy :: "dependency_status \<Rightarrow> bool" where
  "ds_is_healthy d \<longleftrightarrow> ds_status d = ''healthy''"

record readiness_dependencies =
  rd_database :: dependency_status
  rd_upstream :: dependency_status
  rd_default_route :: dependency_status

record readiness_response =
  rr_status :: string
  rr_timestamp :: string
  rr_dependencies :: readiness_dependencies
  rr_draining :: bool

record health_response =
  hp_status :: string
  hp_timestamp :: string
  hp_version :: "string option"
  hp_uptime_seconds :: "nat option"

abbreviation database_unavailable :: string where
  "database_unavailable \<equiv> ''Authentication database unavailable''"
abbreviation upstream_unavailable :: string where
  "upstream_unavailable \<equiv> ''Upstream provider unreachable''"
abbreviation no_usable_target :: string where
  "no_usable_target \<equiv> ''No usable default-route target''"

section \<open>Configuration\<close>

record health_config =
  hcf_timeout :: nat
  hcf_cache_ttl_secs :: nat

definition health_config_new :: "nat \<Rightarrow> nat \<Rightarrow> health_config" where
  "health_config_new timeout cache_ttl_secs = \<lparr>hcf_timeout = timeout, hcf_cache_ttl_secs = cache_ttl_secs\<rparr>"

definition env_u64_or :: "env_source \<Rightarrow> string \<Rightarrow> nat \<Rightarrow> nat" where
  "env_u64_or env name d = (case Option.bind (env name) parse_rust_u64 of Some v \<Rightarrow> v | None \<Rightarrow> d)"

definition health_config_from_env :: "env_source \<Rightarrow> health_config" where
  "health_config_from_env env =
     \<lparr>hcf_timeout = env_u64_or env ''HEALTH_CHECK_TIMEOUT'' 2,
      hcf_cache_ttl_secs = env_u64_or env ''HEALTH_CHECK_CACHE_TTL_SECS'' 5\<rparr>"

definition probe_timeout :: "health_config \<Rightarrow> nat" where
  "probe_timeout c = from_secs (max (hcf_timeout c) 1)"

definition cache_ttl :: "health_config \<Rightarrow> nat" where
  "cache_ttl c = from_secs (hcf_cache_ttl_secs c)"

section \<open>The service\<close>

record 's health_service =
  hs_executor :: "service option"
  hs_auth :: "'s auth_store_ops option"
  hs_catalog :: "catalog option"
  hs_config :: health_config
  hs_start_time :: nat

definition health_service_new :: "env_source \<Rightarrow> nat \<Rightarrow> 's health_service" where
  "health_service_new env now =
     \<lparr>hs_executor = None, hs_auth = None, hs_catalog = None, hs_config = health_config_from_env env,
      hs_start_time = now\<rparr>"

definition with_executor :: "env_source \<Rightarrow> service \<Rightarrow> nat \<Rightarrow> 's health_service" where
  "with_executor env sv now =
     \<lparr>hs_executor = Some sv, hs_auth = None, hs_catalog = None, hs_config = health_config_from_env env,
      hs_start_time = now\<rparr>"

definition with_dependencies ::
    "service \<Rightarrow> 's auth_store_ops \<Rightarrow> catalog \<Rightarrow> health_config \<Rightarrow> nat \<Rightarrow> 's health_service" where
  "with_dependencies sv ops c config now =
     \<lparr>hs_executor = Some sv, hs_auth = Some ops, hs_catalog = Some c, hs_config = config,
      hs_start_time = now\<rparr>"

text \<open>\<open>get_system_status\<close> and the liveness response.\<close>

definition get_system_status :: "health_error + bool" where
  "get_system_status = Ok True"

definition check_health ::
    "'s health_service \<Rightarrow> string \<Rightarrow> string \<Rightarrow> nat \<Rightarrow> health_error + health_response" where
  "check_health hs version timestamp now =
     and_then get_system_status (\<lambda>is_healthy.
       Ok \<lparr>hp_status = (if is_healthy then ''healthy'' else ''unhealthy''), hp_timestamp = timestamp,
           hp_version = Some version,
           hp_uptime_seconds = Some ((now - hs_start_time hs) div from_secs 1)\<rparr>)"

definition cache_is_fresh :: "'s health_service \<Rightarrow> nat \<Rightarrow> nat \<Rightarrow> bool" where
  "cache_is_fresh hs now cached_at \<longleftrightarrow>
     cache_ttl (hs_config hs) \<noteq> 0 \<and> now - cached_at < cache_ttl (hs_config hs)"

text \<open>
  What one probe meets: the clock at its cache test, at its start, when its timer is armed, after it and
  when a success is recorded; when the probe is ready, the scheduling lag, and the state that dropping
  it would leave.
\<close>

record 's probe_run =
  pb_cache_now :: nat
  pb_start :: nat
  pb_armed :: nat
  pb_ready :: "nat option"
  pb_lag :: nat
  pb_end :: nat
  pb_stored :: nat
  pb_dropped :: 's

text \<open>The status, what is written to the cache, and the store.\<close>

definition probe_database ::
    "'s health_service \<Rightarrow> 's probe_run \<Rightarrow> nat option \<Rightarrow> 's
      \<Rightarrow> dependency_status \<times> nat option \<times> 's" where
  "probe_database hs pb cached s =
     (if (case cached of Some cached_at \<Rightarrow> cache_is_fresh hs (pb_cache_now pb) cached_at | None \<Rightarrow> False)
      then (ds_healthy None, None, s)
      else
        (case hs_auth hs of
           None \<Rightarrow> (ds_unhealthy database_unavailable None, None, s)
         | Some ops \<Rightarrow>
             (let latency_ms = Some (as_millis (pb_end pb - pb_start pb) mod 2 ^ 64);
                  cutoff = pb_armed pb + probe_timeout (hs_config hs)
              in if timeout_poll (pb_ready pb) (poll_at (pb_ready pb) cutoff (pb_armed pb) (pb_lag pb))
                 then (case service_probe_access ops s of
                         (Inr _, s') \<Rightarrow> (ds_healthy latency_ms, Some (pb_stored pb), s')
                       | (Inl _, s') \<Rightarrow> (ds_unhealthy database_unavailable latency_ms, None, s'))
                 else (ds_unhealthy database_unavailable latency_ms, None, pb_dropped pb))))"

record upstream_run =
  up_cache_now :: nat
  up_names :: "string list"
  up_task :: "string \<Rightarrow> vendor_task"
  up_start :: nat
  up_end :: nat
  up_stored :: nat

definition probe_upstream ::
    "'s health_service \<Rightarrow> upstream_run \<Rightarrow> nat option \<Rightarrow> dependency_status \<times> nat option" where
  "probe_upstream hs up cached =
     (if (case cached of Some cached_at \<Rightarrow> cache_is_fresh hs (up_cache_now up) cached_at | None \<Rightarrow> False)
      then (ds_healthy None, None)
      else
        (case hs_executor hs of
           None \<Rightarrow> (ds_unhealthy upstream_unavailable None, None)
         | Some executor \<Rightarrow>
             (let latency_ms = Some (as_millis (up_end up - up_start up) mod 2 ^ 64)
              in case check_all_vendors_health executor (up_names up) (max (hcf_timeout (hs_config hs)) 1) (up_task up) of
                   Inr _ \<Rightarrow> (ds_healthy latency_ms, Some (up_stored up))
                 | Inl _ \<Rightarrow> (ds_unhealthy upstream_unavailable latency_ms, None))))"

definition probe_default_route :: "'s health_service \<Rightarrow> registry \<Rightarrow> dependency_status" where
  "probe_default_route hs reg =
     (case (hs_executor hs, hs_catalog hs) of
        (Some _, Some c) \<Rightarrow>
          (if default_route_has_usable_target reg c then ds_healthy None else ds_unhealthy no_usable_target None)
      | _ \<Rightarrow> ds_unhealthy no_usable_target None)"

definition cached_status :: "string \<Rightarrow> nat option \<Rightarrow> dependency_status" where
  "cached_status message cached = (case cached of Some _ \<Rightarrow> ds_healthy None | None \<Rightarrow> ds_unhealthy message None)"

definition cached_database_status :: "nat option \<Rightarrow> dependency_status" where
  "cached_database_status cached = cached_status database_unavailable cached"

definition cached_upstream_status :: "nat option \<Rightarrow> dependency_status" where
  "cached_upstream_status cached = cached_status upstream_unavailable cached"

text \<open>What one readiness check meets.\<close>

record ('s, 'p) ready_run =
  ry_timestamp :: string
  ry_shutdown_before :: "'p shutdown_state"
  ry_shutdown_after :: "'p shutdown_state"
  ry_cached_database :: "nat option"
  ry_cached_upstream :: "nat option"
  ry_database :: "'s probe_run"
  ry_upstream :: upstream_run
  ry_circuits :: registry

text \<open>The response, the writes to the two caches, and the store.\<close>

definition check_readiness ::
    "'s health_service \<Rightarrow> ('s, 'p) ready_run \<Rightarrow> 's
      \<Rightarrow> readiness_response \<times> nat option \<times> nat option \<times> 's" where
  "check_readiness hs ry s =
     (if is_draining (ry_shutdown_before ry)
      then (\<lparr>rr_status = ''not_ready'', rr_timestamp = ry_timestamp ry,
             rr_dependencies = \<lparr>rd_database = cached_database_status (ry_cached_database ry),
                                rd_upstream = cached_upstream_status (ry_cached_upstream ry),
                                rd_default_route = probe_default_route hs (ry_circuits ry)\<rparr>,
             rr_draining = True\<rparr>, None, None, s)
      else
        (case probe_database hs (ry_database ry) (ry_cached_database ry) s of
           (database, wrote_database, s') \<Rightarrow>
         (case probe_upstream hs (ry_upstream ry) (ry_cached_upstream ry) of
           (upstream, wrote_upstream) \<Rightarrow>
            (let default_route = probe_default_route hs (ry_circuits ry);
                 draining = is_draining (ry_shutdown_after ry);
                 ready = (\<not> draining \<and> ds_is_healthy database \<and> ds_is_healthy upstream
                            \<and> ds_is_healthy default_route)
             in (\<lparr>rr_status = (if ready then ''ready'' else ''not_ready''), rr_timestamp = ry_timestamp ry,
                  rr_dependencies = \<lparr>rd_database = database, rd_upstream = upstream,
                                     rd_default_route = default_route\<rparr>,
                  rr_draining = draining\<rparr>, wrote_database, wrote_upstream, s')))))"

section \<open>The handlers\<close>

definition health_handler ::
    "'s health_service \<Rightarrow> string \<Rightarrow> string \<Rightarrow> nat \<Rightarrow> (nat \<times> string) + health_response" where
  "health_handler hs version timestamp now = map_err health_error_response (check_health hs version timestamp now)"

definition ready_handler ::
    "'s health_service \<Rightarrow> ('s, 'p) ready_run \<Rightarrow> 's
      \<Rightarrow> (nat \<times> readiness_response) \<times> nat option \<times> nat option \<times> 's" where
  "ready_handler hs ry s =
     (case check_readiness hs ry s of
        (readiness, wd, wu, s') \<Rightarrow>
          ((if rr_status readiness = ''ready'' then 200 else 503, readiness), wd, wu, s'))"

end
