(* ===== verification/Health_Properties.thy ===== *)
theory Health_Properties
  imports Health Auth_Healthy Config_Properties Demo_Deployment
begin

text \<open>
  Readiness over a history of checks: what a check that reports ready rests on, when its probes' results
  come from the success caches.
\<close>

section \<open>Histories of checks\<close>

text \<open>The store and the values each cache has held, newest first.\<close>

record 's health_system =
  hy_store :: 's
  hy_database :: "nat option list"
  hy_upstream :: "nat option list"

definition health_initial :: "'s \<Rightarrow> 's health_system" where
  "health_initial s = \<lparr>hy_store = s, hy_database = [None], hy_upstream = [None]\<rparr>"

text \<open>A finished check: the store it met, what it met besides, its status and its response.\<close>

record ('s, 'p) check_event =
  ce_store :: 's
  ce_run :: "('s, 'p) ready_run"
  ce_code :: nat
  ce_response :: readiness_response

definition held :: "nat option \<Rightarrow> nat option list \<Rightarrow> nat option list" where
  "held written vs = (case written of Some t \<Rightarrow> Some t # vs | None \<Rightarrow> vs)"

text \<open>
  A check that finishes has read, from each cache, some value the cache has held: a check may overlap
  with others, and the store changes between checks as it likes.
\<close>

inductive readiness_run ::
    "'s health_service \<Rightarrow> 's health_system \<Rightarrow> ('s, 'p) check_event list \<Rightarrow> 's health_system \<Rightarrow> bool"
  for hs where
  run_nil: "readiness_run hs a [] a"
| run_check: "ry_cached_database ry \<in> set (hy_database a) \<Longrightarrow> ry_cached_upstream ry \<in> set (hy_upstream a) \<Longrightarrow>
    ready_handler hs ry (hy_store a) = ((code, rd), wd, wu, s') \<Longrightarrow>
    readiness_run hs \<lparr>hy_store = s', hy_database = held wd (hy_database a), hy_upstream = held wu (hy_upstream a)\<rparr> es b \<Longrightarrow>
    readiness_run hs a (\<lparr>ce_store = hy_store a, ce_run = ry, ce_code = code, ce_response = rd\<rparr> # es) b"
| run_store: "readiness_run hs (a\<lparr>hy_store := s'\<rparr>) es b \<Longrightarrow> readiness_run hs a es b"

text \<open>A probe of this check succeeded, within its timeout, and was recorded at \<open>t\<close>.\<close>

definition database_probed :: "'s health_service \<Rightarrow> ('s, 'p) check_event \<Rightarrow> nat \<Rightarrow> bool" where
  "database_probed hs e t \<longleftrightarrow>
     (let pb = ry_database (ce_run e) in
      t = pb_stored pb \<and>
      timeout_poll (pb_ready pb) (poll_at (pb_ready pb) (pb_armed pb + probe_timeout (hs_config hs)) (pb_armed pb) (pb_lag pb)) \<and>
      (\<exists>ops s'. hs_auth hs = Some ops \<and> as_probe_authentication_access ops (ce_store e) = (Ok (), s')))"

definition upstream_probed :: "'s health_service \<Rightarrow> ('s, 'p) check_event \<Rightarrow> nat \<Rightarrow> bool" where
  "upstream_probed hs e t \<longleftrightarrow>
     (let up = ry_upstream (ce_run e) in
      t = up_stored up \<and>
      (\<exists>sv n vendor. hs_executor hs = Some sv \<and> n \<in> set (up_names up) \<and> sv_vendors sv n = Some vendor \<and>
         joined_result (sv_libs sv) vendor (max (hcf_timeout (hs_config hs)) 1) (up_task up n) = Ok ()))"

section \<open>Facts\<close>

lemma ds_is_healthy_simps [simp]: "ds_is_healthy (ds_healthy l)" "\<not> ds_is_healthy (ds_unhealthy m l)"
  by (simp_all add: ds_is_healthy_def ds_healthy_def ds_unhealthy_def)

lemma spawn_checks_Ok:
  "spawn_checks sv to task ns = Ok rs \<Longrightarrow> r \<in> set rs \<Longrightarrow>
     \<exists>n vendor. n \<in> set ns \<and> sv_vendors sv n = Some vendor \<and> r = joined_result (sv_libs sv) vendor to (task n)"
proof (induction ns arbitrary: rs)
  case (Cons n ns)
  then obtain v xs where v: "sv_vendors sv n = Some v" "spawn_checks sv to task ns = Ok xs"
      "rs = joined_result (sv_libs sv) v to (task n) # xs"
    by (auto simp: and_then_Inr_iff get_vendor_def ok_or_Inr_iff)
  show ?case
  proof (cases "r = joined_result (sv_libs sv) v to (task n)")
    case True
    with v show ?thesis by auto
  next
    case False
    with Cons v show ?thesis by fastforce
  qed
qed simp

text \<open>The vendors are healthy exactly when the registry is known and one of them answered.\<close>

lemma check_all_vendors_Ok:
  assumes "check_all_vendors_health sv names to task = Ok u"
  shows "\<exists>n vendor. n \<in> set names \<and> sv_vendors sv n = Some vendor \<and> joined_result (sv_libs sv) vendor to (task n) = Ok ()"
proof -
  obtain rs where rs: "spawn_checks sv to task names = Ok rs" "any_healthy rs = Ok ()"
    using assms by (auto simp: check_all_vendors_health_def and_then_Inr_iff split: if_splits)
  then obtain r where "r \<in> set rs" "is_ok r"
    by (auto simp: any_healthy_def filter_empty_conv split: if_splits option.splits sum.splits)
  with spawn_checks_Ok [OF rs(1), of r] show ?thesis by (cases r) (auto simp: is_ok_iff)
qed

lemma probe_database_healthy:
  assumes "probe_database hs pb cached s = (d, w, s')" "ds_is_healthy d"
  shows "(\<exists>t. cached = Some t \<and> cache_is_fresh hs (pb_cache_now pb) t) \<and> w = None
    \<or> w = Some (pb_stored pb)"
  using assms by (auto simp: probe_database_def Let_def split: if_splits option.splits prod.splits sum.splits)

lemma probe_database_wrote:
  assumes "probe_database hs (ry_database (ce_run e)) cached (ce_store e) = (d, Some t, s')"
  shows "database_probed hs e t"
  using assms by (auto simp: probe_database_def database_probed_def service_probe_access_def Let_def
      split: if_splits option.splits prod.splits sum.splits)

lemma probe_upstream_healthy:
  assumes "probe_upstream hs up cached = (d, w)" "ds_is_healthy d"
  shows "(\<exists>t. cached = Some t \<and> cache_is_fresh hs (up_cache_now up) t) \<and> w = None \<or> w = Some (up_stored up)"
  using assms by (auto simp: probe_upstream_def Let_def split: if_splits option.splits sum.splits)

lemma probe_upstream_wrote:
  assumes "probe_upstream hs (ry_upstream (ce_run e)) cached = (d, Some t)"
  shows "upstream_probed hs e t"
  using assms check_all_vendors_Ok
  by (fastforce simp: probe_upstream_def upstream_probed_def Let_def split: if_splits option.splits sum.splits)

text \<open>What one check writes, and what a ready one rests on.\<close>

lemma ready_handler_wrote:
  assumes "ready_handler hs (ce_run e) (ce_store e) = ((code, rd), wd, wu, s')"
  shows "(wd = Some t \<longrightarrow> database_probed hs e t) \<and> (wu = Some t \<longrightarrow> upstream_probed hs e t)"
  using assms probe_database_wrote [of hs e] probe_upstream_wrote [of hs e]
  by (auto simp: ready_handler_def check_readiness_def Let_def split: prod.splits if_splits)

lemma ready_handler_ready:
  assumes "ready_handler hs ry s = ((200, rd), wd, wu, s')"
  shows "\<not> is_draining (ry_shutdown_before ry)" "\<not> is_draining (ry_shutdown_after ry)"
    "ds_is_healthy (probe_default_route hs (ry_circuits ry))"
    "(\<exists>t. ry_cached_database ry = Some t \<and> cache_is_fresh hs (pb_cache_now (ry_database ry)) t) \<or> wd \<noteq> None"
    "(\<exists>t. ry_cached_upstream ry = Some t \<and> cache_is_fresh hs (up_cache_now (ry_upstream ry)) t) \<or> wu \<noteq> None"
proof -
  obtain d w1 s1 where d: "probe_database hs (ry_database ry) (ry_cached_database ry) s = (d, w1, s1)"
    by (metis prod_cases3)
  obtain u w2 where u: "probe_upstream hs (ry_upstream ry) (ry_cached_upstream ry) = (u, w2)" by force
  have h: "\<not> is_draining (ry_shutdown_before ry) \<and> \<not> is_draining (ry_shutdown_after ry)
    \<and> ds_is_healthy (probe_default_route hs (ry_circuits ry)) \<and> ds_is_healthy d \<and> ds_is_healthy u \<and> wd = w1 \<and> wu = w2"
    using assms d u by (auto simp: ready_handler_def check_readiness_def Let_def split: if_splits)
  then show "\<not> is_draining (ry_shutdown_before ry)" "\<not> is_draining (ry_shutdown_after ry)"
    "ds_is_healthy (probe_default_route hs (ry_circuits ry))" by auto
  from h probe_database_healthy [OF d]
  show "(\<exists>t. ry_cached_database ry = Some t \<and> cache_is_fresh hs (pb_cache_now (ry_database ry)) t) \<or> wd \<noteq> None" by auto
  from h probe_upstream_healthy [OF u]
  show "(\<exists>t. ry_cached_upstream ry = Some t \<and> cache_is_fresh hs (up_cache_now (ry_upstream ry)) t) \<or> wu \<noteq> None" by auto
qed

lemma default_route_healthy:
  "ds_is_healthy (probe_default_route hs reg) \<Longrightarrow>
     \<exists>c r i. hs_catalog hs = Some c \<and> map_of (cat_routes c) (cat_default_route c) = Some r
        \<and> i \<in> set (ro_primary r # ro_fallbacks r) \<and> target_is_usable reg i"
  by (auto simp: probe_default_route_def default_route_has_usable_target_def list_ex_iff
      split: option.splits if_splits)

text \<open>Whatever a cache has held since, a successful probe put there.\<close>

lemma caches_are_earned:
  "readiness_run hs a es b \<Longrightarrow>
     (Some t \<in> set (hy_database b) \<longrightarrow> Some t \<in> set (hy_database a) \<or> (\<exists>e \<in> set es. database_probed hs e t))
     \<and> (Some t \<in> set (hy_upstream b) \<longrightarrow> Some t \<in> set (hy_upstream a) \<or> (\<exists>e \<in> set es. upstream_probed hs e t))"
proof (induction rule: readiness_run.induct)
  case (run_check ry a code rd wd wu s' es b)
  let ?e = "\<lparr>ce_store = hy_store a, ce_run = ry, ce_code = code, ce_response = rd\<rparr>"
  have "(wd = Some t \<longrightarrow> database_probed hs ?e t) \<and> (wu = Some t \<longrightarrow> upstream_probed hs ?e t)"
    by (rule ready_handler_wrote) (use run_check.hyps(3) in simp)
  with run_check.IH show ?case by (auto simp: held_def split: option.splits)
qed auto

lemma readiness_run_append:
  "readiness_run hs a (es @ fs) b \<Longrightarrow> \<exists>c. readiness_run hs a es c \<and> readiness_run hs c fs b"
proof (induction a "es @ fs" b arbitrary: es rule: readiness_run.induct)
  case (run_nil a)
  then show ?case by (auto intro: readiness_run.run_nil)
next
  case (run_check ry a code rd wd wu s' gs b)
  show ?case
  proof (cases es)
    case Nil
    then show ?thesis using run_check.hyps by (metis append_Nil readiness_run.run_check readiness_run.run_nil)
  next
    case (Cons x xs)
    with run_check.hyps(6) have x: "x = \<lparr>ce_store = hy_store a, ce_run = ry, ce_code = code, ce_response = rd\<rparr>"
      and gs: "gs = xs @ fs" by auto
    from run_check.hyps(5) [OF gs] obtain c where c: "readiness_run hs \<lparr>hy_store = s',
      hy_database = held wd (hy_database a), hy_upstream = held wu (hy_upstream a)\<rparr> xs c" "readiness_run hs c fs b"
      by blast
    show ?thesis using readiness_run.run_check [OF run_check.hyps(1-3) c(1)] c(2) Cons x by blast
  qed
next
  case (run_store a s' b)
  then show ?case by (metis readiness_run.run_store)
qed

lemma last_check:
  "readiness_run hs c [e] b \<Longrightarrow>
     ry_cached_database (ce_run e) \<in> set (hy_database c) \<and> ry_cached_upstream (ce_run e) \<in> set (hy_upstream c)
       \<and> (\<exists>wd wu s'. ready_handler hs (ce_run e) (ce_store e) = ((ce_code e, ce_response e), wd, wu, s'))"
proof (induction c "[e]" b rule: readiness_run.induct)
  case (run_check ry a code rd wd wu s' b)
  from run_check.hyps(1-3) show ?case unfolding run_check.hyps(5) [symmetric] by simp
qed simp

section \<open>Property\<close>

text \<open>
  C14. Readiness tells the truth. In every history of checks, however they overlap, a check answers 200
  only if the process was not draining at either snapshot, some target of the default route had a closed
  circuit when it was inspected, and the database and the upstream were each reached by a probe of this
  history, in this check or recorded less than the cache's lifetime before the cache was read: a failed
  probe is never cached. Once the drain is visible, the answer is 503 and says so, whatever the caches
  hold.
\<close>

theorem readiness_tells_the_truth:
  assumes run: "readiness_run hs (health_initial s0) (es @ [e]) b"
  shows "(is_draining (ry_shutdown_before (ce_run e)) \<or> is_draining (ry_shutdown_after (ce_run e)) \<longrightarrow>
        ce_code e = 503 \<and> rr_draining (ce_response e))
    \<and> (ce_code e = 200 \<longrightarrow>
        \<not> is_draining (ry_shutdown_before (ce_run e)) \<and> \<not> is_draining (ry_shutdown_after (ce_run e))
        \<and> (\<exists>c r i. hs_catalog hs = Some c \<and> map_of (cat_routes c) (cat_default_route c) = Some r
             \<and> i \<in> set (ro_primary r # ro_fallbacks r) \<and> target_is_usable (ry_circuits (ce_run e)) i)
        \<and> (\<exists>e' t. e' \<in> set (es @ [e]) \<and> database_probed hs e' t
             \<and> (e' = e \<or> pb_cache_now (ry_database (ce_run e)) - t < cache_ttl (hs_config hs)))
        \<and> (\<exists>e' t. e' \<in> set (es @ [e]) \<and> upstream_probed hs e' t
             \<and> (e' = e \<or> up_cache_now (ry_upstream (ce_run e)) - t < cache_ttl (hs_config hs))))"
proof -
  obtain c where c: "readiness_run hs (health_initial s0) es c" "readiness_run hs c [e] b"
    using readiness_run_append [OF run] by blast
  obtain wd wu s' where cached: "ry_cached_database (ce_run e) \<in> set (hy_database c)"
      "ry_cached_upstream (ce_run e) \<in> set (hy_upstream c)"
    and h: "ready_handler hs (ce_run e) (ce_store e) = ((ce_code e, ce_response e), wd, wu, s')"
    using last_check [OF c(2)] by blast
  have earned: "ry_cached_database (ce_run e) = Some t \<Longrightarrow> \<exists>e' \<in> set es. database_probed hs e' t"
    "ry_cached_upstream (ce_run e) = Some t \<Longrightarrow> \<exists>e' \<in> set es. upstream_probed hs e' t" for t
    using caches_are_earned [OF c(1), of t] cached by (auto simp: health_initial_def)
  have wrote: "wd \<noteq> None \<Longrightarrow> \<exists>t. database_probed hs e t" "wu \<noteq> None \<Longrightarrow> \<exists>t. upstream_probed hs e t"
    using ready_handler_wrote [OF h] by blast+
  have drain: "is_draining (ry_shutdown_before (ce_run e)) \<or> is_draining (ry_shutdown_after (ce_run e)) \<Longrightarrow>
      ce_code e = 503 \<and> rr_draining (ce_response e)"
    using h by (auto simp: ready_handler_def check_readiness_def Let_def split: if_splits prod.splits
        dest!: sym [of _ "ce_response e"])
  have truth: "\<not> is_draining (ry_shutdown_before (ce_run e)) \<and> \<not> is_draining (ry_shutdown_after (ce_run e))
        \<and> (\<exists>c r i. hs_catalog hs = Some c \<and> map_of (cat_routes c) (cat_default_route c) = Some r
             \<and> i \<in> set (ro_primary r # ro_fallbacks r) \<and> target_is_usable (ry_circuits (ce_run e)) i)
        \<and> (\<exists>e' t. e' \<in> set (es @ [e]) \<and> database_probed hs e' t
             \<and> (e' = e \<or> pb_cache_now (ry_database (ce_run e)) - t < cache_ttl (hs_config hs)))
        \<and> (\<exists>e' t. e' \<in> set (es @ [e]) \<and> upstream_probed hs e' t
             \<and> (e' = e \<or> up_cache_now (ry_upstream (ce_run e)) - t < cache_ttl (hs_config hs)))"
    if "ce_code e = 200"
  proof -
    note r = ready_handler_ready [OF h [unfolded that]]
    have db: "\<exists>e' t. e' \<in> set (es @ [e]) \<and> database_probed hs e' t
        \<and> (e' = e \<or> pb_cache_now (ry_database (ce_run e)) - t < cache_ttl (hs_config hs))"
      using r(4) wrote(1) earned(1) by (fastforce simp: cache_is_fresh_def)
    have up: "\<exists>e' t. e' \<in> set (es @ [e]) \<and> upstream_probed hs e' t
        \<and> (e' = e \<or> up_cache_now (ry_upstream (ce_run e)) - t < cache_ttl (hs_config hs))"
      using r(5) wrote(2) earned(2) by (fastforce simp: cache_is_fresh_def)
    show ?thesis by (intro conjI r(1,2) default_route_healthy r(3) db up)
  qed
  from drain truth show ?thesis by blast
qed

text \<open>Two checks of the concrete deployment: the first probes, the second answers from the caches.\<close>

definition demo_health :: "pg_store health_service" where
  "demo_health = with_dependencies demo_service (pg_ops True) demo_catalog (health_config_new 2 5) 0"

definition demo_probe :: "pg_store probe_run" where
  "demo_probe = \<lparr>pb_cache_now = 20, pb_start = 20, pb_armed = 20, pb_ready = Some 21, pb_lag = 0, pb_end = 22,
     pb_stored = 22, pb_dropped = demo_after\<rparr>"

definition demo_upstream :: upstream_run where
  "demo_upstream = \<lparr>up_cache_now = 20, up_names = [''openai''],
     up_task = (\<lambda>_. \<lparr>vt_now = 20, vt_exchange = Some (1, Inr (demo_response 200 ''{}'')), vt_lag = 0,
                       vt_join_error = None\<rparr>),
     up_start = 20, up_end = 22, up_stored = 22\<rparr>"

definition demo_check :: "nat option \<Rightarrow> (pg_store, nat \<times> bool) ready_run" where
  "demo_check cached = \<lparr>ry_timestamp = ''t'', ry_shutdown_before = with_admission (1, False),
     ry_shutdown_after = with_admission (1, False), ry_cached_database = cached, ry_cached_upstream = cached,
     ry_database = demo_probe, ry_upstream = demo_upstream, ry_circuits = Map.empty\<rparr>"

lemma demo_route_usable: "ds_is_healthy (probe_default_route demo_health Map.empty)"
  by (simp add: probe_default_route_def demo_health_def with_dependencies_def default_route_has_usable_target_def
      demo_catalog_def catalog_of_raw_def hash_iter_def route_of_raw_def demo_raw_route_def target_is_usable_def)

lemma demo_first_check:
  "\<exists>rd. ready_handler demo_health (demo_check None) demo_after = ((200, rd), Some 22, Some 22, demo_after)"
proof -
  have p: "service_probe_access (pg_ops True) demo_after = (Ok (), demo_after)"
    by (simp add: service_probe_access_def pg_ops_def pg_probe_authentication_access_def pg_autocommit_def sbind_def
        healthy_trips demo_after_def)
  have d: "\<exists>l. probe_database demo_health demo_probe None demo_after = (ds_healthy l, Some 22, demo_after)"
    by (simp add: probe_database_def demo_health_def with_dependencies_def demo_probe_def Let_def p timeout_poll_def
        poll_at_def probe_timeout_def health_config_new_def from_secs_def) blast
  have u: "\<exists>l. probe_upstream demo_health demo_upstream None = (ds_healthy l, Some 22)"
    by (simp add: probe_upstream_def demo_health_def with_dependencies_def demo_upstream_def Let_def
        check_all_vendors_health_def get_vendor_def demo_service_def joined_result_def vendor_health_check_def
        demo_key_sendable         demo_response_def timeout_poll_def poll_at_def any_healthy_def health_config_new_def from_secs_def) blast
  from d u demo_route_usable show ?thesis
    by (auto simp: ready_handler_def check_readiness_def demo_check_def with_admission_def is_draining_def Let_def)
qed

lemma demo_second_check:
  "\<exists>rd. ready_handler demo_health (demo_check (Some 22)) demo_after = ((200, rd), None, None, demo_after)"
  using demo_route_usable
  by (simp add: ready_handler_def check_readiness_def demo_check_def with_admission_def is_draining_def Let_def
      probe_database_def probe_upstream_def cache_is_fresh_def demo_health_def with_dependencies_def
      health_config_new_def cache_ttl_def from_secs_def demo_probe_def demo_upstream_def)

theorem readiness_tells_the_truth_witness:
  "\<exists>e1 e2 b e' t. readiness_run demo_health (health_initial demo_after) [e1, e2] b \<and> ce_code e2 = 200
     \<and> ce_run e2 = demo_check (Some 22) \<and> e' \<in> {e1, e2} \<and> database_probed demo_health e' t"
proof -
  obtain rd1 where c1: "ready_handler demo_health (demo_check None) demo_after = ((200, rd1), Some 22, Some 22, demo_after)"
    using demo_first_check by blast
  obtain rd2 where c2: "ready_handler demo_health (demo_check (Some 22)) demo_after = ((200, rd2), None, None, demo_after)"
    using demo_second_check by blast
  let ?e = "\<lambda>c rd. \<lparr>ce_store = demo_after, ce_run = demo_check c, ce_code = 200, ce_response = rd\<rparr>"
  let ?b = "\<lparr>hy_store = demo_after, hy_database = [Some 22, None], hy_upstream = [Some 22, None]\<rparr>"
  have "readiness_run demo_health ?b [?e (Some 22) rd2] ?b"
    using run_check [of "demo_check (Some 22)" ?b demo_health 200 rd2 None None demo_after "[]" ?b] c2
    by (simp add: demo_check_def held_def run_nil)
  then have run: "readiness_run demo_health (health_initial demo_after) ([?e None rd1] @ [?e (Some 22) rd2]) ?b"
    using run_check [of "demo_check None" "health_initial demo_after" demo_health 200 rd1 "Some 22" "Some 22"
        demo_after "[?e (Some 22) rd2]" ?b] c1
    by (simp add: demo_check_def held_def health_initial_def)
  from readiness_tells_the_truth [OF run] obtain e' t
    where "e' \<in> {?e None rd1, ?e (Some 22) rd2}" "database_probed demo_health e' t" by auto
  with run show ?thesis
    by (intro exI [of _ "?e None rd1"] exI [of _ "?e (Some 22) rd2"] exI [of _ ?b] exI [of _ e'] exI [of _ t]) simp
qed

end
