(* ===== verification/Lifecycle.thy ===== *)
theory Lifecycle
  imports Admission
begin

text \<open>
  The process's life in \<open>core/lifecycle.rs\<close>: the watch channel's waiters, the signal handler, the listener
  and the serving loop. Time is an instant in nanoseconds. The server is the library's: an argument that
  says, from the instant its graceful shutdown starts (if ever), when it completes and with what.
  Log lines are not modelled.
\<close>

section \<open>Waiting for the drain\<close>

text \<open>What ends one \<open>changed()\<close>: a new value, with the value the next \<open>borrow_and_update\<close> reads, or a closed channel.\<close>

datatype watch_event = WatchChanged bool | WatchClosed

text \<open>The instant the waiter returns; \<open>None\<close> while it waits.\<close>

fun wait_until_draining :: "nat \<Rightarrow> bool \<Rightarrow> (nat \<times> watch_event) list \<Rightarrow> nat option" where
  "wait_until_draining now True evs = Some now"
| "wait_until_draining now False [] = None"
| "wait_until_draining now False ((t, WatchClosed) # evs) = Some t"
| "wait_until_draining now False ((t, WatchChanged v) # evs) = wait_until_draining t v evs"

text \<open>A waiter of this channel: the drain is published at most once as a change, the sender is never dropped.\<close>

definition drain_waiter :: "nat \<Rightarrow> nat option \<Rightarrow> nat \<Rightarrow> nat option" where
  "drain_waiter now published lag =
     (case published of
        None \<Rightarrow> wait_until_draining now False []
      | Some p \<Rightarrow> (if p \<le> now then wait_until_draining now True []
                   else wait_until_draining now False [(p + lag, WatchChanged True)]))"

section \<open>Signals\<close>

text \<open>\<open>CtrlCFailed\<close> is an error of \<open>ctrl_c()\<close> itself.\<close>

datatype signal_event = CtrlC | CtrlCFailed | SigTerm

text \<open>
  What the spawned handler does with the process: nothing yet, \<open>mark_draining\<close> at an instant, or, when
  the handler of SIGTERM could not be installed, the system's default action on that signal.
\<close>

datatype handler_outcome = HandlerWaiting | HandlerDrains nat | HandlerKilled nat

fun signal_handler :: "bool \<Rightarrow> (nat \<times> signal_event) list \<Rightarrow> handler_outcome" where
  "signal_handler sigterm_installed [] = HandlerWaiting"
| "signal_handler sigterm_installed ((t, SigTerm) # evs) =
     (if sigterm_installed then HandlerDrains t else HandlerKilled t)"
| "signal_handler sigterm_installed ((t, CtrlC) # evs) = HandlerDrains t"
| "signal_handler sigterm_installed ((t, CtrlCFailed) # evs) = HandlerDrains t"

section \<open>The listener\<close>

datatype listen_error = ListenInUse | ListenFailed

fun listen_category :: "listen_error \<Rightarrow> string" where
  "listen_category ListenInUse = ''bind_address_in_use''"
| "listen_category ListenFailed = ''listen_failed''"

fun listen_message :: "listen_error \<Rightarrow> string" where
  "listen_message ListenInUse = ''failed to bind the listen address because it is already in use''"
| "listen_message ListenFailed = ''failed to bind the configured listen address''"

definition listen_error_display :: "listen_error \<Rightarrow> string" where
  "listen_error_display e = listen_category e @ '': '' @ listen_message e"

datatype io_error_kind = AddrInUse | OtherKind string

text \<open>\<open>bind\<close> is the library's \<open>TcpListener::bind\<close>.\<close>

definition bind_listener :: "('addr \<Rightarrow> io_error_kind + 'l) \<Rightarrow> 'addr \<Rightarrow> listen_error + 'l" where
  "bind_listener bind addr =
     (case bind addr of
        Inr listener \<Rightarrow> Ok listener
      | Inl AddrInUse \<Rightarrow> Err ListenInUse
      | Inl (OtherKind _) \<Rightarrow> Err ListenFailed)"

section \<open>Serving\<close>

text \<open>
  \<open>select!\<close> of two futures ready at these instants, polled with a lag: when, and whether the first one
  won. When both are ready at the poll, \<open>pick\<close> decides.
\<close>

definition select2 :: "nat option \<Rightarrow> nat option \<Rightarrow> nat \<Rightarrow> bool \<Rightarrow> (nat \<times> bool) option" where
  "select2 a b lag pick =
     (case (a, b) of
        (None, None) \<Rightarrow> None
      | (Some x, None) \<Rightarrow> Some (x + lag, True)
      | (None, Some y) \<Rightarrow> Some (y + lag, False)
      | (Some x, Some y) \<Rightarrow>
          (let t = min x y + lag
           in if x \<le> t \<and> y \<le> t then Some (t, pick) else Some (t, x \<le> t)))"

type_synonym 'e server = "nat option \<Rightarrow> (nat \<times> ('e + unit)) option"

text \<open>What one call meets: its start, and the scheduling of the two waiters and of the selection.\<close>

record serve_run =
  se_start :: nat
  se_server_lag :: nat
  se_grace_lag :: nat
  se_select_lag :: nat
  se_pick :: bool

text \<open>\<open>published\<close> is the instant the drain flag is published, if ever. The result comes with its instant.\<close>

definition serve_until_shutdown ::
    "'e server \<Rightarrow> nat option \<Rightarrow> nat \<Rightarrow> serve_run \<Rightarrow> (nat \<times> ('e + unit)) option" where
  "serve_until_shutdown server published grace se =
     (let served = server (drain_waiter (se_start se) published (se_server_lag se));
          elapsed = map_option (\<lambda>t. t + grace) (drain_waiter (se_start se) published (se_grace_lag se))
      in case select2 (map_option fst served) elapsed (se_select_lag se) (se_pick se) of
           None \<Rightarrow> None
         | Some (t, True) \<Rightarrow> map_option (\<lambda>r. (t, snd r)) served
         | Some (t, False) \<Rightarrow> Some (t, Ok ()))"

text \<open>The serving process with its signal handler; publication follows the signal by \<open>delay\<close>.\<close>

datatype 'e process_end = Served "'e + unit" | Killed

definition serve_with_signals ::
    "'e server \<Rightarrow> bool \<Rightarrow> (nat \<times> signal_event) list \<Rightarrow> nat \<Rightarrow> nat \<Rightarrow> serve_run \<Rightarrow> (nat \<times> 'e process_end) option" where
  "serve_with_signals server sigterm_installed signals delay grace se =
     (case signal_handler sigterm_installed signals of
        HandlerWaiting \<Rightarrow> map_option (map_prod id Served) (serve_until_shutdown server None grace se)
      | HandlerDrains t \<Rightarrow>
          map_option (map_prod id Served) (serve_until_shutdown server (Some (t + delay)) grace se)
      | HandlerKilled t \<Rightarrow>
          (case serve_until_shutdown server None grace se of
             Some (u, r) \<Rightarrow> (if u < t then Some (u, Served r) else Some (t, Killed))
           | None \<Rightarrow> Some (t, Killed)))"

section \<open>Facts\<close>

lemma drain_waiter_None [simp]: "drain_waiter now None lag = None"
  by (simp add: drain_waiter_def)

lemma drain_waiter_Some: "drain_waiter now (Some p) lag = Some (if p \<le> now then now else p + lag)"
  by (simp add: drain_waiter_def)

lemma select2_cases:
  assumes "select2 a b lag pick = Some (t, first)"
  shows "first \<Longrightarrow> \<exists>x. a = Some x \<and> x \<le> t" "\<not> first \<Longrightarrow> \<exists>y. b = Some y \<and> y \<le> t"
  using assms by (auto simp: select2_def Let_def split: option.splits if_splits)

lemma select2_bound:
  assumes "b = Some y"
  shows "\<exists>t first. select2 a b lag pick = Some (t, first) \<and> t \<le> y + lag"
  using assms by (auto simp: select2_def Let_def split: option.splits)

lemma select2_first:
  assumes "a = Some x" "b = Some y" "x + lag < y"
  shows "select2 a b lag pick = Some (x + lag, True)"
  using assms by (auto simp: select2_def Let_def)

text \<open>
  An error of \<open>ctrl_c()\<close> is taken for a signal: the process drains although none was received.
\<close>

lemma ctrl_c_failure_drains: "signal_handler installed ((t, CtrlCFailed) # evs) = HandlerDrains t"
  by (cases installed) simp_all

section \<open>Property\<close>

text \<open>
  C16. Shutdown is bounded and orderly: once SIGINT or SIGTERM arrives, the serving loop ends no later than
  the grace after the drain was published, plus the scheduler's lags, whatever the server does and however
  long requests hang. A server that finishes its admitted work within the grace is not cut off, and its
  own result is the process's. Without a signal the process serves as long as the server does.
\<close>

theorem shutdown_is_bounded:
  assumes first: "signals = (t, sg) # later"
  shows "(\<exists>u r. serve_with_signals server True signals delay grace se = Some (u, Served r)
        \<and> u \<le> max (se_start se) (t + delay + se_grace_lag se) + grace + se_select_lag se
        \<and> (\<forall>e. r = Err e \<longrightarrow> (\<exists>x. server (drain_waiter (se_start se) (Some (t + delay)) (se_server_lag se)) = Some (x, Err e))))
    \<and> (\<forall>x r. server (drain_waiter (se_start se) (Some (t + delay)) (se_server_lag se)) = Some (x, r)
          \<and> x + se_select_lag se < t + delay + grace \<longrightarrow>
          serve_with_signals server True signals delay grace se = Some (x + se_select_lag se, Served r))
    \<and> (server None = None \<longrightarrow> serve_with_signals server True [] delay grace se = None)"
proof -
  let ?p = "t + delay"
  let ?served = "server (drain_waiter (se_start se) (Some ?p) (se_server_lag se))"
  let ?y = "(if ?p \<le> se_start se then se_start se else ?p + se_grace_lag se) + grace"
  have h: "signal_handler True signals = HandlerDrains t" using first by (cases sg) simp_all
  have run: "serve_with_signals server True signals delay grace se =
      map_option (map_prod id Served) (serve_until_shutdown server (Some ?p) grace se)"
    by (simp add: serve_with_signals_def h)
  have y: "?y \<le> max (se_start se) (?p + se_grace_lag se) + grace" "?p + grace \<le> ?y" by auto
  obtain u f where sel: "select2 (map_option fst ?served) (Some ?y) (se_select_lag se) (se_pick se) = Some (u, f)"
    and u: "u \<le> ?y + se_select_lag se" using select2_bound [OF refl] by blast
  have "\<exists>r. serve_until_shutdown server (Some ?p) grace se = Some (u, r) \<and> (\<forall>e. r = Err e \<longrightarrow> (\<exists>x. ?served = Some (x, Err e)))"
    using sel select2_cases(1) [OF sel]
    by (cases f) (auto simp: serve_until_shutdown_def drain_waiter_Some Let_def)
  moreover have "serve_until_shutdown server (Some ?p) grace se = Some (x + se_select_lag se, r)"
    if s: "?served = Some (x, r)" "x + se_select_lag se < ?p + grace" for x r
  proof -
    have "x + se_select_lag se < ?y" using s(2) y(2) by linarith
    then have "select2 (map_option fst ?served) (Some ?y) (se_select_lag se) (se_pick se) = Some (x + se_select_lag se, True)"
      by (intro select2_first) (simp_all add: s(1))
    then show ?thesis using s(1) by (simp add: serve_until_shutdown_def drain_waiter_Some Let_def)
  qed
  moreover have "server None = None \<Longrightarrow> serve_with_signals server True [] delay grace se = None"
    by (simp add: serve_with_signals_def serve_until_shutdown_def select2_def)
  ultimately show ?thesis unfolding run using u y(1) by fastforce
qed

theorem shutdown_is_bounded_witness:
  "\<exists>u r. serve_with_signals (\<lambda>_. None :: (nat \<times> (string + unit)) option) True [(100, SigTerm)] 1 30
       \<lparr>se_start = 0, se_server_lag = 2, se_grace_lag = 3, se_select_lag = 4, se_pick = True\<rparr> = Some (u, Served r)
     \<and> u \<le> 138"
  using shutdown_is_bounded [of "[(100, SigTerm)]" 100 SigTerm "[]" "\<lambda>_. None" 1 30
      "\<lparr>se_start = 0, se_server_lag = 2, se_grace_lag = 3, se_select_lag = 4, se_pick = True\<rparr>"] by auto

end
