(* ===== verification/Database_Config.thy ===== *)
theory Database_Config
  imports Settings
begin

text \<open>
  \<open>core/db.rs\<close>: the bounds of the connection pool and the roles its sessions assume. The environment is
  what the operating system holds, where a value need not be Unicode. SQLx's parser of connection strings
  is the argument \<open>pg_parse\<close>; connecting is the library's. The redacted \<open>Debug\<close> form
  is in the theory \<open>Redaction\<close>.
\<close>

section \<open>The environment\<close>

text \<open>\<open>Some None\<close> is a value that is not Unicode.\<close>

type_synonym os_env = "string \<Rightarrow> string option option"

text \<open>\<open>std::env::var(name).ok()\<close>, also the \<open>get\<close> of the environment the settings are read from.\<close>

definition env_var :: "os_env \<Rightarrow> env_source" where
  "env_var E name = Option.bind (E name) (\<lambda>v. v)"

section \<open>Errors\<close>

datatype database_config_error = DbMissingUrl | DbInvalidUrl | DbInvalidPoolBound | DbInvalidRole

fun database_error_as_str :: "database_config_error \<Rightarrow> string" where
  "database_error_as_str DbMissingUrl = ''missing_database_url''"
| "database_error_as_str DbInvalidUrl = ''invalid_database_url''"
| "database_error_as_str DbInvalidPoolBound = ''invalid_database_pool_bound''"
| "database_error_as_str DbInvalidRole = ''invalid_database_role''"

fun database_error_display :: "database_config_error \<Rightarrow> string" where
  "database_error_display DbMissingUrl = ''DATABASE_URL is required and must be nonempty''"
| "database_error_display DbInvalidUrl = ''DATABASE_URL must be a PostgreSQL URL without being logged''"
| "database_error_display DbInvalidPoolBound = ''database pool bounds are invalid''"
| "database_error_display DbInvalidRole = ''OPMUX_RUNTIME_DB_ROLE must be a lowercase identifier''"

section \<open>Pool settings\<close>

record database_pool_config =
  dp_url :: string
  dp_max_connections :: nat
  dp_acquire_timeout :: nat
  dp_statement_timeout :: nat

abbreviation default_max_connections :: nat where "default_max_connections \<equiv> 10"
abbreviation max_max_connections :: nat where "max_max_connections \<equiv> 32"

definition default_acquire_timeout :: nat where "default_acquire_timeout = from_millis 3000"
definition default_statement_timeout :: nat where "default_statement_timeout = from_millis 5000"

definition pool_config_new :: "(string \<Rightarrow> 'o option) \<Rightarrow> string \<Rightarrow> database_config_error + database_pool_config" where
  "pool_config_new pg_parse url =
     (if str_trim url = [] then Err DbMissingUrl
      else case pg_parse (str_trim url) of
             None \<Rightarrow> Err DbInvalidUrl
           | Some _ \<Rightarrow> Ok \<lparr>dp_url = url, dp_max_connections = default_max_connections,
                        dp_acquire_timeout = default_acquire_timeout,
                        dp_statement_timeout = default_statement_timeout\<rparr>)"

definition parse_rust_u32 :: "string \<Rightarrow> nat option" where
  "parse_rust_u32 s =
     (let digits = (case s of c # cs \<Rightarrow> (if c = CHR ''+'' then cs else s) | [] \<Rightarrow> s) in
      if digits \<noteq> [] \<and> list_all is_ascii_digit digits \<and> decimal_value digits \<le> u32_max
      then Some (decimal_value digits) else None)"

text \<open>\<open>parse_u32\<close>, on a value that may not be Unicode.\<close>

definition parse_os_u32 :: "string option \<Rightarrow> nat option" where
  "parse_os_u32 raw = Option.bind raw parse_rust_u32"

definition bounded_timeout_ms :: "nat \<Rightarrow> database_config_error + nat" where
  "bounded_timeout_ms ms = (if \<not> (100 \<le> ms \<and> ms \<le> 60000) then Err DbInvalidPoolBound else Ok (from_millis ms))"

definition with_max_connections ::
    "nat \<Rightarrow> database_pool_config \<Rightarrow> database_config_error + database_pool_config" where
  "with_max_connections n c =
     (if n = 0 \<or> max_max_connections < n then Err DbInvalidPoolBound else Ok (c\<lparr>dp_max_connections := n\<rparr>))"

definition with_acquire_timeout ::
    "nat \<Rightarrow> database_pool_config \<Rightarrow> database_config_error + database_pool_config" where
  "with_acquire_timeout d c =
     (if u32_max < as_millis d then Err DbInvalidPoolBound
      else and_then (bounded_timeout_ms (as_millis d)) (\<lambda>t. Ok (c\<lparr>dp_acquire_timeout := t\<rparr>)))"

text \<open>One optional variable: absent, it changes nothing; present, it must parse and be accepted.\<close>

definition override_bound ::
    "os_env \<Rightarrow> string \<Rightarrow> (nat \<Rightarrow> database_pool_config \<Rightarrow> database_config_error + database_pool_config)
      \<Rightarrow> database_pool_config \<Rightarrow> database_config_error + database_pool_config" where
  "override_bound E name put c =
     (case E name of
        None \<Rightarrow> Ok c
      | Some raw \<Rightarrow> and_then (ok_or DbInvalidPoolBound (parse_os_u32 raw)) (\<lambda>v. put v c))"

definition pool_config_from_env ::
    "(string \<Rightarrow> 'o option) \<Rightarrow> os_env \<Rightarrow> database_config_error + database_pool_config" where
  "pool_config_from_env pg_parse E =
     and_then (ok_or DbMissingUrl (env_var E ''DATABASE_URL'')) (\<lambda>url.
     and_then (pool_config_new pg_parse url) (\<lambda>c.
     and_then (override_bound E ''OPMUX_DB_MAX_CONNECTIONS'' with_max_connections c) (\<lambda>c.
     and_then (override_bound E ''OPMUX_DB_ACQUIRE_TIMEOUT_MS''
         (\<lambda>v c. and_then (bounded_timeout_ms v) (\<lambda>t. Ok (c\<lparr>dp_acquire_timeout := t\<rparr>))) c) (\<lambda>c.
       override_bound E ''OPMUX_DB_STATEMENT_TIMEOUT_MS''
         (\<lambda>v c. and_then (bounded_timeout_ms v) (\<lambda>t. Ok (c\<lparr>dp_statement_timeout := t\<rparr>))) c))))"

section \<open>Roles\<close>

definition role_char :: "char \<Rightarrow> bool" where
  "role_char c \<longleftrightarrow> (97 \<le> (of_char c :: nat) \<and> (of_char c :: nat) \<le> 122) \<or> c = CHR ''_''"

abbreviation default_runtime_role :: string where "default_runtime_role \<equiv> ''opmux_runtime''"

definition runtime_role_from_env :: "os_env \<Rightarrow> database_config_error + string" where
  "runtime_role_from_env E =
     (case env_var E ''OPMUX_RUNTIME_DB_ROLE'' of
        Some raw \<Rightarrow> (let v = str_trim raw in
                      if v = [] \<or> \<not> list_all role_char v then Err DbInvalidRole else Ok v)
      | None \<Rightarrow> Ok default_runtime_role)"

datatype connect_error = ConnectProtocol string | ConnectUrl | ConnectFailed

definition validate_role_name :: "string \<Rightarrow> connect_error + unit" where
  "validate_role_name role =
     (if role = [] \<or> \<not> list_all role_char role then Err (ConnectProtocol ''invalid session role name'') else Ok ())"

section \<open>Opening the pool\<close>

text \<open>The options handed to SQLx, and the statement each new session runs.\<close>

record 'o pool_options =
  po_connect :: 'o
  po_application_name :: string
  po_statement_timeout :: string
  po_max_connections :: nat
  po_acquire_timeout :: nat
  po_after_connect :: "string option"

definition pool_options_of ::
    "(string \<Rightarrow> 'o option) \<Rightarrow> string option \<Rightarrow> database_pool_config \<Rightarrow> connect_error + 'o pool_options" where
  "pool_options_of pg_parse extra c =
     and_then (ok_or ConnectUrl (pg_parse (dp_url c))) (\<lambda>options.
       Ok \<lparr>po_connect = options, po_application_name = ''opmux-gateway'',
           po_statement_timeout = show_nat (as_millis (dp_statement_timeout c)),
           po_max_connections = dp_max_connections c, po_acquire_timeout = dp_acquire_timeout c,
           po_after_connect = extra\<rparr>)"

definition connect_lazy_with_startup_sql ::
    "(string \<Rightarrow> 'o option) \<Rightarrow> string option \<Rightarrow> database_pool_config \<Rightarrow> connect_error + 'o pool_options" where
  "connect_lazy_with_startup_sql pg_parse extra c = pool_options_of pg_parse extra c"

definition connect_lazy ::
    "(string \<Rightarrow> 'o option) \<Rightarrow> database_pool_config \<Rightarrow> connect_error + 'o pool_options" where
  "connect_lazy pg_parse c = connect_lazy_with_startup_sql pg_parse None c"

definition connect_lazy_with_role ::
    "(string \<Rightarrow> 'o option) \<Rightarrow> string \<Rightarrow> database_pool_config \<Rightarrow> connect_error + 'o pool_options" where
  "connect_lazy_with_role pg_parse role c =
     and_then (validate_role_name role) (\<lambda>_.
       connect_lazy_with_startup_sql pg_parse (Some (''SET ROLE '' @ role)) c)"

text \<open>\<open>open_pool\<close> is SQLx connecting at once: whether it succeeds.\<close>

definition connect_with_startup_sql ::
    "(string \<Rightarrow> 'o option) \<Rightarrow> ('o pool_options \<Rightarrow> bool) \<Rightarrow> string option \<Rightarrow> database_pool_config
      \<Rightarrow> connect_error + 'o pool_options" where
  "connect_with_startup_sql pg_parse open_pool extra c =
     and_then (pool_options_of pg_parse extra c) (\<lambda>po. if open_pool po then Ok po else Err ConnectFailed)"

definition connect_with_role ::
    "(string \<Rightarrow> 'o option) \<Rightarrow> ('o pool_options \<Rightarrow> bool) \<Rightarrow> string \<Rightarrow> database_pool_config
      \<Rightarrow> connect_error + 'o pool_options" where
  "connect_with_role pg_parse open_pool role c =
     and_then (validate_role_name role) (\<lambda>_.
       connect_with_startup_sql pg_parse open_pool (Some (''SET ROLE '' @ role)) c)"

section \<open>Bounds\<close>

text \<open>The documented bounds of a pool.\<close>

definition pool_in_bounds :: "database_pool_config \<Rightarrow> bool" where
  "pool_in_bounds c \<longleftrightarrow>
     1 \<le> dp_max_connections c \<and> dp_max_connections c \<le> max_max_connections
     \<and> from_millis 100 \<le> dp_acquire_timeout c \<and> dp_acquire_timeout c \<le> from_millis 60000
     \<and> from_millis 100 \<le> dp_statement_timeout c \<and> dp_statement_timeout c \<le> from_millis 60000"

lemma pool_config_new_in_bounds: "pool_config_new pg url = Ok c \<Longrightarrow> pool_in_bounds c"
  by (auto simp: pool_config_new_def pool_in_bounds_def default_acquire_timeout_def default_statement_timeout_def
      from_millis_def split: if_splits option.splits)

lemma bounded_timeout_Ok: "bounded_timeout_ms v = Ok t \<longleftrightarrow> 100 \<le> v \<and> v \<le> 60000 \<and> t = from_millis v"
  by (auto simp: bounded_timeout_ms_def)

lemma override_bound_keeps:
  assumes "override_bound E name put c = Ok c'" "pool_in_bounds c"
    and "\<And>v c'. put v c = Ok c' \<Longrightarrow> pool_in_bounds c'"
  shows "pool_in_bounds c'"
  using assms by (auto simp: override_bound_def and_then_Inr_iff split: option.splits)

lemma pool_config_from_env_in_bounds:
  assumes "pool_config_from_env pg E = Ok c" shows "pool_in_bounds c"
proof -
  obtain url c0 c1 c2 where c: "pool_config_new pg url = Ok c0"
    "override_bound E ''OPMUX_DB_MAX_CONNECTIONS'' with_max_connections c0 = Ok c1"
    "override_bound E ''OPMUX_DB_ACQUIRE_TIMEOUT_MS''
       (\<lambda>v c. and_then (bounded_timeout_ms v) (\<lambda>t. Ok (c\<lparr>dp_acquire_timeout := t\<rparr>))) c1 = Ok c2"
    "override_bound E ''OPMUX_DB_STATEMENT_TIMEOUT_MS''
       (\<lambda>v c. and_then (bounded_timeout_ms v) (\<lambda>t. Ok (c\<lparr>dp_statement_timeout := t\<rparr>))) c2 = Ok c"
    using assms unfolding pool_config_from_env_def and_then_Inr_iff by blast
  have c0: "pool_in_bounds c0" by (rule pool_config_new_in_bounds [OF c(1)])
  have c1: "pool_in_bounds c1"
    by (rule override_bound_keeps [OF c(2) c0])
      (use c0 in \<open>auto simp: with_max_connections_def pool_in_bounds_def split: if_splits\<close>)
  have c2: "pool_in_bounds c2"
    by (rule override_bound_keeps [OF c(3) c1])
      (use c1 in \<open>auto simp: pool_in_bounds_def and_then_Inr_iff bounded_timeout_Ok from_millis_def\<close>)
  show ?thesis
    by (rule override_bound_keeps [OF c(4) c2])
      (use c2 in \<open>auto simp: pool_in_bounds_def and_then_Inr_iff bounded_timeout_Ok from_millis_def\<close>)
qed

text \<open>A session's first statement names a plain lower-case identifier, whatever the environment holds.\<close>

lemma session_role_is_plain:
  assumes "connect_lazy_with_role pg role c = Ok po"
  shows "po_after_connect po = Some (''SET ROLE '' @ role) \<and> role \<noteq> [] \<and> list_all role_char role"
  using assms by (auto simp: connect_lazy_with_role_def validate_role_name_def connect_lazy_with_startup_sql_def
      pool_options_of_def and_then_Inr_iff split: if_splits)

text \<open>A role that is not Unicode is ignored, and the default role is assumed.\<close>

lemma non_unicode_role_is_ignored:
  "E ''OPMUX_RUNTIME_DB_ROLE'' = Some None \<Longrightarrow> runtime_role_from_env E = Ok default_runtime_role"
  by (simp add: runtime_role_from_env_def env_var_def)

end
