(* ===== verification/App.thy ===== *)
theory App
  imports Health Lifecycle Database_Config
begin

text \<open>
  \<open>app.rs\<close>, \<open>main.rs\<close> and \<open>bin/opmux-admin.rs\<close>, with the configuration of \<open>core/metrics/mod.rs\<close> and
  \<open>core/tracing.rs\<close> they read and the error of \<open>core/error.rs\<close>: how the components are assembled from
  validated settings, the whole router with its layers, and the two processes with their exit codes. The
  HTTP metrics layer, the log subscriber and the command-line parser are libraries; what the process
  prints is modelled where a secret could be in it.
\<close>

section \<open>Metrics and logging configuration\<close>

record metrics_config =
  mc_enabled :: bool
  mc_endpoint_path :: string

definition metrics_from_env :: "os_env \<Rightarrow> metrics_config" where
  "metrics_from_env E =
     \<lparr>mc_enabled = (case env_var E ''METRICS_ENABLED'' of Some v \<Rightarrow> v = ''true'' \<or> v = ''1'' | None \<Rightarrow> True),
      mc_endpoint_path = (case env_var E ''METRICS_PATH'' of Some v \<Rightarrow> v | None \<Rightarrow> ''/metrics'')\<rparr>"

definition metrics_production :: metrics_config where
  "metrics_production = \<lparr>mc_enabled = True, mc_endpoint_path = ''/metrics''\<rparr>"

definition metrics_development :: metrics_config where
  "metrics_development = \<lparr>mc_enabled = True, mc_endpoint_path = ''/metrics''\<rparr>"

definition metrics_disabled :: metrics_config where
  "metrics_disabled = \<lparr>mc_enabled = False, mc_endpoint_path = ''/metrics''\<rparr>"

datatype log_format = LogJson | LogPretty

text \<open>\<open>lower\<close> is \<open>str::to_lowercase\<close> on ASCII text, which the accepted values are.\<close>

definition log_format_from_env :: "(string \<Rightarrow> string) \<Rightarrow> string \<Rightarrow> log_format" where
  "log_format_from_env lower v = (if lower v = ''pretty'' then LogPretty else LogJson)"

record tracing_config =
  tc_env_filter :: string
  tc_format :: log_format
  tc_with_line_number :: bool
  tc_with_thread_ids :: bool
  tc_with_target :: bool

definition tracing_from_env :: "(string \<Rightarrow> string) \<Rightarrow> os_env \<Rightarrow> tracing_config" where
  "tracing_from_env lower E =
     (let verbose = (case env_var E ''LOG_VERBOSE_DEBUG'' of Some v \<Rightarrow> v = ''true'' \<or> v = ''1'' | None \<Rightarrow> False)
      in \<lparr>tc_env_filter = (case env_var E ''RUST_LOG'' of
              Some v \<Rightarrow> v
            | None \<Rightarrow> (case env_var E ''LOG_LEVEL'' of Some v \<Rightarrow> v | None \<Rightarrow> ''info'')),
          tc_format = (case env_var E ''LOG_FORMAT'' of
              Some v \<Rightarrow> log_format_from_env lower v
            | None \<Rightarrow> (case env_var E ''LOG_JSON'' of
                         None \<Rightarrow> LogJson
                       | Some v \<Rightarrow> (if v = ''true'' then LogJson else LogPretty))),
          tc_with_line_number = verbose, tc_with_thread_ids = verbose, tc_with_target = True\<rparr>)"

definition tracing_production :: tracing_config where
  "tracing_production = \<lparr>tc_env_filter = ''info'', tc_format = LogJson, tc_with_line_number = False,
     tc_with_thread_ids = False, tc_with_target = True\<rparr>"

definition tracing_development :: tracing_config where
  "tracing_development = \<lparr>tc_env_filter = ''debug,gateway=trace'', tc_format = LogPretty,
     tc_with_line_number = True, tc_with_thread_ids = True, tc_with_target = True\<rparr>"

section \<open>Assembly\<close>

text \<open>The libraries the process is built on.\<close>

record ('addr, 's, 'p, 'o, 'l) process_libs =
  pr_config :: "'addr config_libs"
  pr_executor :: libs
  pr_client_builds :: "string \<Rightarrow> bool"
  pr_http :: http_libs
  pr_store :: "'o pool_options \<Rightarrow> 's auth_store_ops"
  pr_cred :: cred_libs
  pr_source :: secret_source
  pr_semaphore :: "'p semaphore_ops"
  pr_pg_parse :: "string \<Rightarrow> 'o option"
  pr_open_pool :: "'o pool_options \<Rightarrow> bool"
  pr_bind :: "'addr \<Rightarrow> io_error_kind + 'l"
  pr_route_ok :: "string \<Rightarrow> bool"     \<comment> \<open>whether the router takes one more GET route of this path; it panics otherwise\<close>

record ('s, 'p, 'addr) application =
  ap_gateway :: "('s, 'p, 'addr) gateway_app"
  ap_health :: "'s health_service"
  ap_shutdown :: "'p shutdown_state"
  ap_metrics :: metrics_config

definition from_settings_and_metrics ::
    "('addr, 's, 'p, 'o, 'l) process_libs \<Rightarrow> os_env \<Rightarrow> nat \<Rightarrow> 'addr settings \<Rightarrow> 's auth_store_ops \<Rightarrow> metrics_config
      \<Rightarrow> executor_error + ('s, 'p, 'addr) application" where
  "from_settings_and_metrics P E now settings auth metrics =
     and_then (service_from_config (pr_executor P) (pr_client_builds P)
                 (executor_config_from_settings (cl_hash_order (pr_config P)) settings)) (\<lambda>executor.
       Ok \<lparr>ap_gateway =
             \<lparr>ga_libs = pr_http P, ga_store = auth, ga_cred = pr_cred P, ga_source = pr_source P,
              ga_semaphore = pr_semaphore P, ga_service = executor, ga_settings = settings\<rparr>,
           ap_health = with_dependencies executor auth (st_catalog settings)
             (health_config_from_env (env_var E)) now,
           ap_shutdown = with_admission
             (limiter_new (pr_semaphore P) (pl_max_concurrent_generations (st_limits settings))),
           ap_metrics = metrics\<rparr>)"

definition from_settings ::
    "('addr, 's, 'p, 'o, 'l) process_libs \<Rightarrow> os_env \<Rightarrow> nat \<Rightarrow> 'addr settings \<Rightarrow> 's auth_store_ops
      \<Rightarrow> executor_error + ('s, 'p, 'addr) application" where
  "from_settings P E now settings auth = from_settings_and_metrics P E now settings auth metrics_disabled"

section \<open>The router\<close>

datatype app_body =
    ApiBody api_body | HtmlBody string | LivenessBody health_response | HealthErrorBody string
  | ReadyBody readiness_response | MetricsText string | NoBody

definition hello_world :: string where
  "hello_world = ''<h1>Gateway Service</h1><p>Minimal working server</p>''"

text \<open>The state all requests share: the drain flag and the caches besides what the protected endpoints share.\<close>

record ('s, 'p) app_state =
  ax_gateway :: "('s, 'p) gateway_state"
  ax_draining :: bool
  ax_database_success_at :: "nat option"
  ax_upstream_success_at :: "nat option"

text \<open>What one request meets.\<close>

record ('s, 'p) app_run =
  ar_request_id :: string
  ar_hv_to_str :: "string \<Rightarrow> string option"
  ar_hv_from_str :: "string \<Rightarrow> string option"
  ar_run :: "'p request_run"
  ar_now :: nat
  ar_lag :: nat
  ar_inner_ready :: "nat option"
  ar_dropped :: "('s, 'p) gateway_state"
  ar_ready :: "('s, 'p) ready_run"
  ar_version :: string
  ar_timestamp :: string
  ar_render :: string

definition plain_response :: "nat \<Rightarrow> 'a \<Rightarrow> 'a http_response" where
  "plain_response status body = \<lparr>r_status = status, r_headers = Map.empty, r_body = Inr body\<rparr>"

text \<open>The caches after a check: a success that was written replaces what they held.\<close>

definition written :: "nat option \<Rightarrow> nat option \<Rightarrow> nat option" where
  "written w old = (case w of Some t \<Rightarrow> Some t | None \<Rightarrow> old)"

definition ready_endpoint ::
    "('s, 'p, 'addr) application \<Rightarrow> ('s, 'p) app_run \<Rightarrow> ('s, 'p) app_state
      \<Rightarrow> app_body http_response \<times> ('s, 'p) app_state" where
  "ready_endpoint ap rn st =
     (case ready_handler (ap_health ap)
         ((ar_ready rn)\<lparr>ry_shutdown_before := \<lparr>sh_draining = ax_draining st, sh_admission = gs_limiter (ax_gateway st)\<rparr>,
                        ry_cached_database := ax_database_success_at st,
                        ry_cached_upstream := ax_upstream_success_at st\<rparr>)
         (gs_store (ax_gateway st)) of
        ((code, rd), wd, wu, s) \<Rightarrow>
          (plain_response code (ReadyBody rd),
           st\<lparr>ax_gateway := (ax_gateway st)\<lparr>gs_store := s\<rparr>,
              ax_database_success_at := written wd (ax_database_success_at st),
              ax_upstream_success_at := written wu (ax_upstream_success_at st)\<rparr>))"

text \<open>A route declared with \<open>get\<close> serves GET and HEAD and refuses every other method.\<close>

definition get_route ::
    "http_request \<Rightarrow> app_body http_response \<times> 'st \<Rightarrow> 'st \<Rightarrow> app_body http_response \<times> 'st" where
  "get_route req answer st =
     (if hr_method req = ''GET'' \<or> hr_method req = ''HEAD'' then answer else (plain_response 405 NoBody, st))"

definition route_request ::
    "('s, 'p, 'addr) application \<Rightarrow> ('s, 'p) app_run \<Rightarrow> request_context \<Rightarrow> http_request \<Rightarrow> ('s, 'p) app_state
      \<Rightarrow> app_body http_response \<times> ('s, 'p) app_state" where
  "route_request ap rn ctx req st =
     (case match_endpoint (if mc_enabled (ap_metrics ap) then Some (mc_endpoint_path (ap_metrics ap)) else None)
             (hr_path req) of
        None \<Rightarrow> (plain_response 404 NoBody, st)
      | Some RootEndpoint \<Rightarrow> get_route req (plain_response 200 (HtmlBody hello_world), st) st
      | Some HealthEndpoint \<Rightarrow> get_route req
          (case health_handler (ap_health ap) (ar_version rn) (ar_timestamp rn) (ar_now rn) of
             Inr h \<Rightarrow> (plain_response 200 (LivenessBody h), st)
           | Inl (status, message) \<Rightarrow> (plain_response status (HealthErrorBody message), st)) st
      | Some ReadyEndpoint \<Rightarrow> get_route req (ready_endpoint ap rn st) st
      | Some MetricsEndpoint \<Rightarrow> get_route req (plain_response 200 (MetricsText (ar_render rn)), st) st
      | Some ep \<Rightarrow>
          (case protected_service (ap_gateway ap) ((ar_run rn)\<lparr>rn_ctx := Some ctx\<rparr>) ep req (ar_now rn) (ar_lag rn)
                  (ar_inner_ready rn) (ar_dropped rn) (ax_gateway st) of
             (resp, g) \<Rightarrow> (map_body ApiBody resp, st\<lparr>ax_gateway := g\<rparr>)))"

text \<open>The outermost layer: every response gets its identifiers. A request's first header of a name counts.\<close>

definition production_router ::
    "('s, 'p, 'addr) application \<Rightarrow> ('s, 'p) app_run \<Rightarrow> http_request \<Rightarrow> ('s, 'p) app_state
      \<Rightarrow> app_body http_response \<times> ('s, 'p) app_state" where
  "production_router ap rn req st =
     (let ctx = request_context_new (ar_request_id rn)
                  (extract_client_correlation_id (ar_hv_to_str rn) (map_of (hr_headers req)))
      in (correlation_id_middleware (ar_hv_to_str rn) (ar_hv_from_str rn) (ar_request_id rn) (map_of (hr_headers req))
            (\<lambda>c. fst (route_request ap rn c req st)),
          snd (route_request ap rn ctx req st)))"

section \<open>Top-level errors\<close>

datatype app_error =
    AppAuth auth_error | AppHealth health_error | AppIngress ingress_error | AppInternal

definition app_error_response :: "request_context option \<Rightarrow> app_error \<Rightarrow> app_body http_response" where
  "app_error_response ctx e =
     (case e of
        AppAuth x \<Rightarrow> auth_error_response ctx x
      | AppHealth x \<Rightarrow> (case health_error_response x of (status, m) \<Rightarrow> plain_response status (HealthErrorBody m))
      | AppIngress x \<Rightarrow> the (ingress_error_response ctx x)
      | AppInternal \<Rightarrow> error_response ctx InternalError ''An internal error occurred'' None)"

section \<open>The gateway process\<close>

text \<open>
  Everything before the listener is bound, then the application with its listener and its grace. A panic
  ends the process with code 101.
\<close>

definition gateway_start ::
    "('addr, 's, 'p, 'o, 'l) process_libs \<Rightarrow> os_env \<Rightarrow> nat
      \<Rightarrow> nat + ('s, 'p, 'addr) application \<times> 'l \<times> nat" where
  "gateway_start P E now =
     and_then (map_err (\<lambda>_. 1) (load_with (pr_config P) (env_var E))) (\<lambda>settings.
     and_then (map_err (\<lambda>_. 1) (pool_config_from_env (pr_pg_parse P) E)) (\<lambda>database.
     and_then (map_err (\<lambda>_. 1) (runtime_role_from_env E)) (\<lambda>role.
     and_then (map_err (\<lambda>_. 1) (connect_lazy_with_role (pr_pg_parse P) role database)) (\<lambda>pool.
     and_then (map_err (\<lambda>_. 1) (from_settings_and_metrics P E now settings (pr_store P pool)
                 (metrics_from_env E))) (\<lambda>ap.
     and_then (if mc_enabled (ap_metrics ap) \<and> \<not> pr_route_ok P (mc_endpoint_path (ap_metrics ap))
               then Err 101 else Ok ()) (\<lambda>_.
     and_then (map_err (\<lambda>_. 1) (bind_listener (pr_bind P) (sc_bind_address (st_server settings)))) (\<lambda>listener.
       Ok (ap, listener, from_secs (sc_shutdown_timeout_secs (st_server settings))))))))))"

text \<open>
  The process's end: its exit code and the instant it ends, \<open>None\<close> while it serves. \<open>server\<close> is the
  library's server on the bound listener.
\<close>

definition gateway_main ::
    "('addr, 's, 'p, 'o, 'l) process_libs \<Rightarrow> os_env \<Rightarrow> nat \<Rightarrow> (('s, 'p, 'addr) application \<Rightarrow> 'l \<Rightarrow> 'e server)
      \<Rightarrow> bool \<Rightarrow> (nat \<times> signal_event) list \<Rightarrow> nat \<Rightarrow> serve_run \<Rightarrow> (nat \<times> nat option) option" where
  "gateway_main P E now server sigterm_installed signals publish_delay se =
     (case gateway_start P E now of
        Inl code \<Rightarrow> Some (now, Some code)
      | Inr (ap, listener, grace) \<Rightarrow>
          map_option (\<lambda>(t, r). (t, case r of
                                    Served (Inr _) \<Rightarrow> Some 0
                                  | Served (Inl _) \<Rightarrow> Some 1
                                  | Killed \<Rightarrow> None))
            (serve_with_signals (server ap listener) sigterm_installed signals publish_delay grace se))"

section \<open>The operator's process\<close>

datatype admin_command =
    TenantCreate string
  | KeyIssue uuid api_key_kind string

text \<open>What the process prints on its standard output, as the value that is serialized.\<close>

datatype admin_output = CreatedOutput created_tenant | IssuedOutput issued_key

definition connect_service ::
    "('addr, 's, 'p, 'o, 'l) process_libs \<Rightarrow> os_env \<Rightarrow> nat + 's auth_store_ops" where
  "connect_service P E =
     and_then (map_err (\<lambda>_. 1) (pool_config_from_env (pr_pg_parse P) E)) (\<lambda>config.
     and_then (map_err (\<lambda>_. 1) (connect_with_role (pr_pg_parse P) (pr_open_pool P)
         (case env_var E ''OPMUX_DB_ROLE'' of Some v \<Rightarrow> v | None \<Rightarrow> ''opmux_operator'') config)) (\<lambda>pool.
       Ok (pr_store P pool)))"

text \<open>\<open>to_json\<close> is whether the serializer succeeds: the result's fields are text.\<close>

definition print_json :: "(admin_output \<Rightarrow> bool) \<Rightarrow> admin_output \<Rightarrow> nat + admin_output" where
  "print_json to_json v = (if to_json v then Ok v else Err 1)"

definition admin_run ::
    "('addr, 's, 'p, 'o, 'l) process_libs \<Rightarrow> (admin_output \<Rightarrow> bool) \<Rightarrow> os_env \<Rightarrow> timestamp \<Rightarrow> uuid \<Rightarrow> uuid
      \<Rightarrow> admin_command \<Rightarrow> 's \<Rightarrow> (nat + admin_output) \<times> 's" where
  "admin_run P to_json E now u v command s =
     (case connect_service P E of
        Inl code \<Rightarrow> (Err code, s)
      | Inr ops \<Rightarrow>
          (case command of
             TenantCreate name \<Rightarrow>
               (case create_tenant ops (pr_cred P) (pr_source P) now u v name s of
                  (Inr created, s') \<Rightarrow> (print_json to_json (CreatedOutput created), s')
                | (Inl _, s') \<Rightarrow> (Err 1, s'))
           | KeyIssue client_id kind name \<Rightarrow>
               (case issue_key ops (pr_cred P) (pr_source P) now v client_id kind name s of
                  (Inr issued, s') \<Rightarrow> (print_json to_json (IssuedOutput issued), s')
                | (Inl _, s') \<Rightarrow> (Err 1, s'))))"

section \<open>Facts\<close>

lemma get_route_cases: "get_route req a st = a \<or> get_route req a st = (plain_response 405 NoBody, st)"
  by (simp add: get_route_def)

text \<open>Every response carries the request's identifier, whatever the endpoint and the outcome.\<close>

lemma every_response_is_identified:
  assumes "ar_hv_from_str rn (ar_request_id rn) = Some v"
  shows "r_headers (fst (production_router ap rn req st)) ''x-request-id'' = Some v"
  using assms by (simp add: production_router_def correlation_id_middleware_def request_context_new_def Let_def
      attach_request_id)

text \<open>The layers around the router change neither the status nor the body.\<close>

lemma router_status:
  "r_status (fst (production_router ap rn req st)) =
     r_status (fst (route_request ap rn (request_context_new (ar_request_id rn)
       (extract_client_correlation_id (ar_hv_to_str rn) (map_of (hr_headers req)))) req st))"
  by (simp add: production_router_def correlation_id_middleware_def Let_def)

text \<open>The public endpoints touch neither the limiter nor the provider.\<close>

lemma public_endpoints_send_nothing:
  assumes "hr_path req \<in> {''/'', ''/health'', ''/ready''}"
  shows "gs_world (ax_gateway (snd (route_request ap rn ctx req st))) = gs_world (ax_gateway st)
    \<and> gs_limiter (ax_gateway (snd (route_request ap rn ctx req st))) = gs_limiter (ax_gateway st)"
  using assms
  by (auto simp: route_request_def match_endpoint_def get_route_def ready_endpoint_def split: sum.splits prod.splits)

text \<open>
  What a process that serves has established: its settings are valid, its pool is bounded and its
  sessions assume a plain role. Everything else ends it before it serves, with code 1 or by a panic.
\<close>

lemma gateway_start_Ok:
  assumes "gateway_start P E now = Ok (ap, listener, grace)"
  obtains settings database role pool where
    "load_with (pr_config P) (env_var E) = Ok settings" "pool_config_from_env (pr_pg_parse P) E = Ok database"
    "runtime_role_from_env E = Ok role" "connect_lazy_with_role (pr_pg_parse P) role database = Ok pool"
    "from_settings_and_metrics P E now settings (pr_store P pool) (metrics_from_env E) = Ok ap"
    "grace = from_secs (sc_shutdown_timeout_secs (st_server settings))"
  using assms by (auto simp: gateway_start_def and_then_Inr_iff split: if_splits)

lemma gateway_start_Err: "gateway_start P E now = Err code \<Longrightarrow> code = 1 \<or> code = 101"
  by (auto simp: gateway_start_def and_then_Inl_iff map_err_def split: sum.splits if_splits)

text \<open>\<open>METRICS_PATH\<close> is not validated: a path the router refuses panics instead of a configuration error.\<close>

lemma invalid_metrics_path_panics:
  assumes "load_with (pr_config P) (env_var E) = Ok settings" "pool_config_from_env (pr_pg_parse P) E = Ok database"
    "runtime_role_from_env E = Ok role" "connect_lazy_with_role (pr_pg_parse P) role database = Ok pool"
    "from_settings_and_metrics P E now settings (pr_store P pool) (metrics_from_env E) = Ok ap"
    "env_var E ''METRICS_ENABLED'' = None" "env_var E ''METRICS_PATH'' = Some path" "\<not> pr_route_ok P path"
  shows "gateway_start P E now = Err 101"
proof -
  have "ap_metrics ap = \<lparr>mc_enabled = True, mc_endpoint_path = path\<rparr>"
    using assms(5-7) by (auto simp: from_settings_and_metrics_def and_then_Inr_iff metrics_from_env_def)
  with assms show ?thesis by (simp add: gateway_start_def)
qed

lemma serving_pool_in_bounds:
  assumes "gateway_start P E now = Ok (ap, listener, grace)"
  shows "\<exists>database. pool_config_from_env (pr_pg_parse P) E = Ok database \<and> pool_in_bounds database"
  using assms pool_config_from_env_in_bounds by (elim gateway_start_Ok) blast

text \<open>A failed command prints no credential and reports code 1.\<close>

lemma admin_run_Err: "admin_run P to_json E now u v command s = (Err code, s') \<Longrightarrow> code = 1"
  by (auto simp: admin_run_def connect_service_def print_json_def and_then_Inl_iff map_err_def
      split: sum.splits prod.splits admin_command.splits if_splits)

end
