(* ===== verification/Legacy_Config.thy ===== *)
theory Legacy_Config
  imports App
begin

text \<open>
  The configuration the code keeps for compatibility beside the validated settings: the global \<open>Config\<close> of
  \<open>core/config/process.rs\<close>, its accessor in \<open>features/auth/config.rs\<close>, and the environment loaders and test
  policy of \<open>features/executor/config.rs\<close>. Unlike the settings they fall back to a default on a value that does not
  parse, and only the bind address can fail, by a panic (\<open>None\<close>). The processes read the settings instead.
\<close>

section \<open>Reading one variable\<close>

text \<open>\<open>env::var(name).ok().and_then(parse).unwrap_or(default)\<close>.\<close>

definition env_parsed :: "os_env \<Rightarrow> (string \<Rightarrow> 'a option) \<Rightarrow> string \<Rightarrow> 'a \<Rightarrow> 'a" where
  "env_parsed E parse name d = (case Option.bind (env_var E name) parse of Some v \<Rightarrow> v | None \<Rightarrow> d)"

definition env_text :: "os_env \<Rightarrow> string \<Rightarrow> string \<Rightarrow> string" where
  "env_text E name d = (case env_var E name of Some v \<Rightarrow> v | None \<Rightarrow> d)"

definition parse_rust_u16 :: "string \<Rightarrow> nat option" where
  "parse_rust_u16 s = Option.bind (parse_rust_u32 s) (\<lambda>n. if n \<le> 65535 then Some n else None)"

section \<open>The global configuration\<close>

record logging_config =
  lg_level :: string
  lg_json_format :: bool

record service_config =
  sx_router_url :: string
  sx_memory_url :: string
  sx_rewrite_url :: string
  sx_validation_url :: string
  sx_connection_timeout_ms :: nat
  sx_request_timeout_ms :: nat

record 'addr global_config =
  cg_server :: "'addr server_config"
  cg_auth :: auth_config
  cg_logging :: logging_config
  cg_services :: service_config

definition auth_config_default :: auth_config where
  "auth_config_default = \<lparr>ac_development_mode = False, ac_dev_client_id = ''dev-client-123'',
     ac_slow_operation_threshold_ms = 10\<rparr>"

definition logging_config_default :: logging_config where
  "logging_config_default = \<lparr>lg_level = ''info'', lg_json_format = True\<rparr>"

definition service_config_default :: service_config where
  "service_config_default =
     \<lparr>sx_router_url = ''http://localhost:50051'', sx_memory_url = ''http://localhost:50052'',
      sx_rewrite_url = ''http://localhost:50053'', sx_validation_url = ''http://localhost:50054'',
      sx_connection_timeout_ms = 5000, sx_request_timeout_ms = 30000\<rparr>"

definition server_from_env :: "(string \<rightharpoonup> 'addr) \<Rightarrow> os_env \<Rightarrow> 'addr server_config option" where
  "server_from_env parse_socket E =
     (let host = env_text E ''SERVER_HOST'' ''0.0.0.0'';
          port = env_parsed E parse_rust_u16 ''SERVER_PORT'' 3000
      in map_option (\<lambda>addr. \<lparr>sc_bind_address = addr,
                         sc_shutdown_timeout_secs = env_parsed E parse_rust_u64 ''SERVER_SHUTDOWN_TIMEOUT'' 30\<rparr>)
           (parse_socket (host @ '':'' @ show_nat port)))"

definition auth_from_env :: "os_env \<Rightarrow> auth_config" where
  "auth_from_env E =
     \<lparr>ac_development_mode = env_parsed E parse_bool ''AUTH_DEVELOPMENT_MODE'' False,
      ac_dev_client_id = env_text E ''AUTH_DEV_CLIENT_ID'' ''dev-client-123'',
      ac_slow_operation_threshold_ms = env_parsed E parse_rust_u64 ''AUTH_SLOW_THRESHOLD_MS'' 10\<rparr>"

definition logging_from_env :: "(string \<Rightarrow> string) \<Rightarrow> os_env \<Rightarrow> logging_config" where
  "logging_from_env lower E =
     (let t = tracing_from_env lower E
      in \<lparr>lg_level = tc_env_filter t, lg_json_format = (tc_format t = LogJson)\<rparr>)"

definition services_from_env :: "os_env \<Rightarrow> service_config" where
  "services_from_env E =
     \<lparr>sx_router_url = env_text E ''ROUTER_SERVICE_URL'' ''http://localhost:50051'',
      sx_memory_url = env_text E ''MEMORY_SERVICE_URL'' ''http://localhost:50052'',
      sx_rewrite_url = env_text E ''REWRITE_SERVICE_URL'' ''http://localhost:50053'',
      sx_validation_url = env_text E ''VALIDATION_SERVICE_URL'' ''http://localhost:50054'',
      sx_connection_timeout_ms = env_parsed E parse_rust_u64 ''GRPC_CONNECTION_TIMEOUT_MS'' 5000,
      sx_request_timeout_ms = env_parsed E parse_rust_u64 ''GRPC_REQUEST_TIMEOUT_MS'' 30000\<rparr>"

definition global_from_env ::
    "(string \<rightharpoonup> 'addr) \<Rightarrow> (string \<Rightarrow> string) \<Rightarrow> os_env \<Rightarrow> 'addr global_config option" where
  "global_from_env parse_socket lower E =
     map_option (\<lambda>server. \<lparr>cg_server = server, cg_auth = auth_from_env E, cg_logging = logging_from_env lower E,
                           cg_services = services_from_env E\<rparr>)
       (server_from_env parse_socket E)"

text \<open>\<open>get_config\<close>: the cell, filled by the first call; \<open>None\<close> is a panic of the initialization.\<close>

definition get_config ::
    "(string \<rightharpoonup> 'addr) \<Rightarrow> (string \<Rightarrow> string) \<Rightarrow> os_env \<Rightarrow> 'addr global_config option
      \<Rightarrow> ('addr global_config \<times> 'addr global_config option) option" where
  "get_config parse_socket lower E cell =
     (case cell of
        Some c \<Rightarrow> Some (c, cell)
      | None \<Rightarrow> map_option (\<lambda>c. (c, Some c)) (global_from_env parse_socket lower E))"

definition get_auth_config ::
    "(string \<rightharpoonup> 'addr) \<Rightarrow> (string \<Rightarrow> string) \<Rightarrow> os_env \<Rightarrow> 'addr global_config option
      \<Rightarrow> (auth_config \<times> 'addr global_config option) option" where
  "get_auth_config parse_socket lower E cell = map_option (map_prod cg_auth id) (get_config parse_socket lower E cell)"

section \<open>The executor's environment loaders\<close>

definition sample_models :: "string list" where
  "sample_models = [''gpt-4'', ''gpt-4-turbo'', ''gpt-3.5-turbo'']"

definition openai_from_env :: "os_env \<Rightarrow> openai_config" where
  "openai_from_env E =
     \<lparr>oc_api_key = env_text E ''OPENAI_API_KEY'' [],
      oc_base_url = env_text E ''OPENAI_BASE_URL'' ''https://api.openai.com/v1'',
      oc_timeout_ms = env_parsed E parse_rust_u64 ''OPENAI_TIMEOUT_MS'' 30000,
      oc_supported_models = sample_models,
      oc_pricing = (\<lambda>m. if m \<in> set sample_models then Some (model_pricing_new (Fin 1) (Fin 2)) else None),
      oc_max_response_bytes = lb_default b_max_upstream_response_bytes\<rparr>"

definition openai_validate :: "openai_config \<Rightarrow> string + unit" where
  "openai_validate c =
     (if oc_api_key c = [] then Err ''OPENAI_API_KEY is not set or empty''
      else if oc_supported_models c = [] then Err ''No supported models configured'' else Ok ())"

definition mock_policy :: "nat \<Rightarrow> nat \<Rightarrow> executor_config" where
  "mock_policy max_retries timeout_ms =
     \<lparr>xc_openai = None, xc_timeout_ms = timeout_ms, xc_max_retries = max_retries,
      xc_max_total_attempts = max (sat_add u32_max max_retries 1) 1, xc_backoff_cap_ms = 2000,
      xc_circuit_failure_threshold = 3, xc_circuit_cooldown_ms = 30000\<rparr>"

definition executor_config_default :: executor_config where
  "executor_config_default = mock_policy 3 30000"

text \<open>The key of the vendor that does not exist yet, \<open>anthropic_api_key\<close>, is not part of the record.\<close>

definition executor_config_from_env :: "os_env \<Rightarrow> executor_config" where
  "executor_config_from_env E =
     \<lparr>xc_openai = (if env_var E ''OPENAI_API_KEY'' \<noteq> None then Some (openai_from_env E) else None),
      xc_timeout_ms = env_parsed E parse_rust_u64 ''EXECUTOR_TIMEOUT_MS'' 30000,
      xc_max_retries = env_parsed E parse_rust_u32 ''EXECUTOR_MAX_RETRIES'' 3,
      xc_max_total_attempts = env_parsed E parse_rust_u32 ''OPMUX_MAX_TOTAL_ATTEMPTS'' 3,
      xc_backoff_cap_ms = env_parsed E parse_rust_u64 ''OPMUX_BACKOFF_CAP_MS'' 2000,
      xc_circuit_failure_threshold = env_parsed E parse_rust_u32 ''OPMUX_CIRCUIT_FAILURE_THRESHOLD'' 3,
      xc_circuit_cooldown_ms = env_parsed E parse_rust_u64 ''OPMUX_CIRCUIT_COOLDOWN_MS'' 30000\<rparr>"

section \<open>Facts\<close>

text \<open>The two readers of the authentication variables agree, and so do the defaults.\<close>

lemma auth_readers_agree: "auth_from_env E = auth_from_source (env_var E)"
  by (auto simp: auth_from_env_def auth_from_source_def env_parsed_def env_text_def parse_bool_def
      split: option.splits)

lemma empty_environment_gives_defaults:
  "auth_from_env (\<lambda>_. None) = auth_config_default" "services_from_env (\<lambda>_. None) = service_config_default"
  "logging_from_env lower (\<lambda>_. None) = logging_config_default"
  by (simp_all add: auth_from_env_def auth_config_default_def services_from_env_def service_config_default_def
      logging_from_env_def logging_config_default_def tracing_from_env_def env_parsed_def env_text_def env_var_def Let_def)

text \<open>The cell is written once: every later call returns the first configuration, whatever the environment.\<close>

lemma get_config_is_stable:
  "get_config ps lower E cell = Some (c, cell') \<Longrightarrow> get_config ps' lower' E' cell' = Some (c, cell')"
  by (auto simp: get_config_def split: option.splits)

text \<open>
  The OpenAI loader names its sample models itself, so validation can only fail on the key, and an executor that has
  a vendor from the environment may still fail it: the variable counts as set when it is empty.
\<close>

lemma openai_from_env_validates:
  "openai_validate (openai_from_env E) = Ok () \<longleftrightarrow> (\<exists>k. env_var E ''OPENAI_API_KEY'' = Some k \<and> k \<noteq> [])"
  by (auto simp: openai_validate_def openai_from_env_def env_text_def sample_models_def split: option.splits)

lemma empty_key_still_configures_the_vendor:
  "env_var E ''OPENAI_API_KEY'' = Some [] \<Longrightarrow>
     (\<exists>c. xc_openai (executor_config_from_env E) = Some c \<and> openai_validate c \<noteq> Ok ())"
  by (simp add: executor_config_from_env_def openai_validate_def openai_from_env_def env_text_def)

text \<open>The mock policy leaves room for the first attempt and every retry, up to the width of the counter.\<close>

lemma mock_policy_attempts:
  "max_retries < u32_max \<Longrightarrow> xc_max_total_attempts (mock_policy max_retries t) = max_retries + 1"
  by (simp add: mock_policy_def sat_add_def)

end
