(* ===== verification/Key_Confinement.thy ===== *)
theory Key_Confinement
  imports App
begin

text \<open>
  The provider credential is confined: it enters the process in one environment variable and leaves it in
  one place, the authorization header of the requests to the provider. The proof compares the program with
  itself under another key: every operation commutes with replacing the key, as long as both keys are legal
  header values or neither is (\<open>same_sendable\<close>).
\<close>

section \<open>Another key\<close>

definition rekey_openai :: "string \<Rightarrow> openai_config \<Rightarrow> openai_config" where
  "rekey_openai k c = c\<lparr>oc_api_key := k\<rparr>"

definition rekey_config :: "string \<Rightarrow> executor_config \<Rightarrow> executor_config" where
  "rekey_config k c = c\<lparr>xc_openai := map_option (rekey_openai k) (xc_openai c)\<rparr>"

definition rekey_service :: "string \<Rightarrow> service \<Rightarrow> service" where
  "rekey_service k sv = sv\<lparr>sv_vendors := (\<lambda>v. map_option (rekey_openai k) (sv_vendors sv v)),
                            sv_config := rekey_config k (sv_config sv)\<rparr>"

definition rekey_settings :: "string \<Rightarrow> 'addr settings \<Rightarrow> 'addr settings" where
  "rekey_settings k s = s\<lparr>st_provider := (st_provider s)\<lparr>ps_api_key := k\<rparr>\<rparr>"

text \<open>The requests put on the wire, had they been sent with another key.\<close>

definition reauth_request :: "string \<Rightarrow> chat_request \<Rightarrow> chat_request" where
  "reauth_request k q = q\<lparr>cr_authorization := ''Bearer '' @ k\<rparr>"

definition reauth_call :: "string \<Rightarrow> wire_call \<Rightarrow> wire_call" where
  "reauth_call k c = c\<lparr>wc_request := reauth_request k (wc_request c)\<rparr>"

definition reauth :: "string \<Rightarrow> world \<Rightarrow> world" where
  "reauth k w = w\<lparr>w_sent := map (reauth_call k) (w_sent w)\<rparr>"

definition rekey_gateway :: "string \<Rightarrow> ('s, 'p, 'addr) gateway_app \<Rightarrow> ('s, 'p, 'addr) gateway_app" where
  "rekey_gateway k A = A\<lparr>ga_service := rekey_service k (ga_service A), ga_settings := rekey_settings k (ga_settings A)\<rparr>"

definition rekey_health :: "string \<Rightarrow> 's health_service \<Rightarrow> 's health_service" where
  "rekey_health k hs = hs\<lparr>hs_executor := map_option (rekey_service k) (hs_executor hs)\<rparr>"

definition rekey_application :: "string \<Rightarrow> ('s, 'p, 'addr) application \<Rightarrow> ('s, 'p, 'addr) application" where
  "rekey_application k ap = ap\<lparr>ap_gateway := rekey_gateway k (ap_gateway ap), ap_health := rekey_health k (ap_health ap)\<rparr>"

definition reauth_gateway :: "string \<Rightarrow> ('s, 'p) gateway_state \<Rightarrow> ('s, 'p) gateway_state" where
  "reauth_gateway k g = g\<lparr>gs_world := reauth k (gs_world g)\<rparr>"

definition reauth_state :: "string \<Rightarrow> ('s, 'p) app_state \<Rightarrow> ('s, 'p) app_state" where
  "reauth_state k st = st\<lparr>ax_gateway := reauth_gateway k (ax_gateway st)\<rparr>"

definition reauth_run :: "string \<Rightarrow> ('s, 'p) app_run \<Rightarrow> ('s, 'p) app_run" where
  "reauth_run k rn = rn\<lparr>ar_dropped := reauth_gateway k (ar_dropped rn)\<rparr>"

lemma rekey_service_simps [simp]:
  "sv_libs (rekey_service k sv) = sv_libs sv" "sv_circuit (rekey_service k sv) = sv_circuit sv"
  "xc_timeout_ms (sv_config (rekey_service k sv)) = xc_timeout_ms (sv_config sv)"
  "xc_max_retries (sv_config (rekey_service k sv)) = xc_max_retries (sv_config sv)"
  "xc_max_total_attempts (sv_config (rekey_service k sv)) = xc_max_total_attempts (sv_config sv)"
  "xc_backoff_cap_ms (sv_config (rekey_service k sv)) = xc_backoff_cap_ms (sv_config sv)"
  "sv_vendors (rekey_service k sv) v = map_option (rekey_openai k) (sv_vendors sv v)"
  by (simp_all add: rekey_service_def rekey_config_def)

lemma reauth_simps [simp]:
  "w_now (reauth k w) = w_now w" "w_ticks (reauth k w) = w_ticks w" "w_circuits (reauth k w) = w_circuits w"
  "w_others (reauth k w) = w_others w" "w_events (reauth k w) = w_events w" "w_net (reauth k w) = w_net w"
  "w_entropy (reauth k w) = w_entropy w" "w_sent (reauth k w) = map (reauth_call k) (w_sent w)"
  by (simp_all add: reauth_def)

text \<open>An update of the world in place commutes with the change of key.\<close>

lemma reauth_updates [simp]:
  "(reauth k w)\<lparr>w_now := t\<rparr> = reauth k (w\<lparr>w_now := t\<rparr>)"
  "(reauth k w)\<lparr>w_ticks := ts\<rparr> = reauth k (w\<lparr>w_ticks := ts\<rparr>)"
  "(reauth k w)\<lparr>w_circuits := reg\<rparr> = reauth k (w\<lparr>w_circuits := reg\<rparr>)"
  "(reauth k w)\<lparr>w_others := os\<rparr> = reauth k (w\<lparr>w_others := os\<rparr>)"
  "(reauth k w)\<lparr>w_events := es\<rparr> = reauth k (w\<lparr>w_events := es\<rparr>)"
  "(reauth k w)\<lparr>w_net := net\<rparr> = reauth k (w\<lparr>w_net := net\<rparr>)"
  "(reauth k w)\<lparr>w_entropy := ent\<rparr> = reauth k (w\<lparr>w_entropy := ent\<rparr>)"
  "(reauth k w)\<lparr>w_sent := map (reauth_call k) cs\<rparr> = reauth k (w\<lparr>w_sent := cs\<rparr>)"
  by (simp_all add: reauth_def)

section \<open>The executor commutes with the change of key\<close>

named_theorems rekey "an operation under another key"

lemma read_clock_rekey [rekey]: "read_clock (reauth k w) = map_prod id (reauth k) (read_clock w)"
  by (simp add: read_clock_def split: list.splits)

lemma next_lag_rekey [rekey]: "next_lag (reauth k w) = map_prod id (reauth k) (next_lag w)"
  by (simp add: next_lag_def split: list.splits)

lemma emit_rekey [rekey]: "emit es (reauth k w) = reauth k (emit es w)"
  by (simp add: emit_def)

lemma with_circuits_rekey [rekey]: "with_circuits op (reauth k w) = map_prod id (reauth k) (with_circuits op w)"
  by (simp add: with_circuits_def emit_rekey split: list.splits prod.splits)

lemma deadline_exceeded_rekey [rekey]: "deadline_exceeded (reauth k w) = map_prod id (reauth k) (deadline_exceeded w)"
  by (simp add: deadline_exceeded_def emit_rekey)

lemma observe_terminal_rekey [rekey]: "observe_terminal e (reauth k w) = map_prod id (reauth k) (observe_terminal e w)"
  by (simp add: observe_terminal_def emit_rekey)

lemma record_success_rekey [rekey]: "record_success t r (reauth k w) = reauth k (record_success t r w)"
  by (simp add: record_success_def emit_rekey)

lemma terminate_rekey [rekey]:
  "terminate_for_provider_minimum e dl (reauth k w) = map_prod id (reauth k) (terminate_for_provider_minimum e dl w)"
  by (auto simp: terminate_for_provider_minimum_def rekey split: prod.splits executor_error.splits option.splits)

lemma sleep_rekey [rekey]: "sleep_until_retry dl t (reauth k w) = map_prod id (reauth k) (sleep_until_retry dl t w)"
  by (simp add: sleep_until_retry_def rekey Let_def split: prod.splits)

lemma retry_wait_rekey [rekey]:
  "retry_wait (rekey_service k sv) plan dl a h le (reauth k w) = map_prod id (reauth k) (retry_wait sv plan dl a h le w)"
proof -
  obtain planned ent where p: "plan_retry_delay system_jitter a (from_millis (xc_backoff_cap_ms (sv_config sv)))
      (map_option from_millis h) (w_entropy w) = (planned, ent)" by fastforce
  obtain t w1 where r: "read_clock (w\<lparr>w_entropy := ent\<rparr>) = (t, w1)" by fastforce
  have r': "read_clock ((reauth k w)\<lparr>w_entropy := ent\<rparr>) = (t, reauth k w1)"
    using r by (simp add: read_clock_rekey)
  show ?thesis
  proof (cases "evaluate_retry_delay planned (remaining dl t)")
    case (Inl e)
    then show ?thesis by (cases e) (simp_all add: retry_wait_def p r r' rekey split: prod.splits)
  next
    case (Inr d)
    obtain ok w2 where s: "(if d = 0 then (True, w1) else sleep_until_retry dl d w1) = (ok, w2)" by fastforce
    then have s': "(if d = 0 then (True, reauth k w1) else sleep_until_retry dl d (reauth k w1)) = (ok, reauth k w2)"
      by (auto simp: sleep_rekey)
    show ?thesis
      by (cases ok) (simp_all add: retry_wait_def p r r' Inr s s' rekey split: prod.splits)
  qed
qed

lemma rekey_openai_simps [simp]:
  "oc_base_url (rekey_openai k c) = oc_base_url c" "oc_timeout_ms (rekey_openai k c) = oc_timeout_ms c"
  "oc_supported_models (rekey_openai k c) = oc_supported_models c" "oc_pricing (rekey_openai k c) = oc_pricing c"
  "oc_max_response_bytes (rekey_openai k c) = oc_max_response_bytes c" "oc_api_key (rekey_openai k c) = k"
  by (simp_all add: rekey_openai_def)

lemma supports_model_rekey [simp]: "supports_model (rekey_openai k c) m = supports_model c m"
  by (simp add: supports_model_def)

lemma wire_request_rekey [rekey]: "wire_request (rekey_openai k c) m ps = reauth_request k (wire_request c m ps)"
  by (simp add: wire_request_def reauth_request_def)

lemma answer_run_rekey [rekey]: "answer_run L (rekey_openai k c) = answer_run L c"
  by (intro ext) (simp add: answer_run_def Let_def split: option.splits sum.splits prod.splits)

text \<open>
  The two keys are both legal header values, or both not: otherwise the requests of one of them are never
  sent, and every call fails at once.
\<close>

definition same_sendable :: "string \<Rightarrow> service \<Rightarrow> bool" where
  "same_sendable k sv \<longleftrightarrow>
     (\<forall>v c. sv_vendors sv v = Some c \<longrightarrow>
        key_is_sendable (sv_libs sv) (rekey_openai k c) = key_is_sendable (sv_libs sv) c)"

lemma same_sendableD:
  "same_sendable k sv \<Longrightarrow> sv_vendors sv v = Some c \<Longrightarrow>
     key_is_sendable (sv_libs sv) (rekey_openai k c) = key_is_sendable (sv_libs sv) c"
  by (simp add: same_sendable_def)

definition same_sendable_app :: "string \<Rightarrow> ('s, 'p, 'addr) application \<Rightarrow> bool" where
  "same_sendable_app k ap \<longleftrightarrow> same_sendable k (ga_service (ap_gateway ap))
     \<and> (\<forall>sv. hs_executor (ap_health ap) = Some sv \<longrightarrow> same_sendable k sv)"

lemma same_sendable_appD:
  assumes "same_sendable_app k ap"
  shows "same_sendable k (ga_service (ap_gateway ap))"
    "hs_executor (ap_health ap) = Some sv \<Longrightarrow> same_sendable k sv"
  using assms by (simp_all add: same_sendable_app_def)

lemma execute_classified_rekey [rekey]:
  assumes [simp]: "key_is_sendable L (rekey_openai k c) = key_is_sendable L c"
  shows "execute_classified L (rekey_openai k c) m t ps cutoff now net =
     map_prod id (map_prod (map (reauth_request k)) id) (execute_classified L c m t ps cutoff now net)"
  by (simp add: execute_classified_def rekey split: list.splits)

lemma call_llm_rekey [rekey]:
  assumes [simp]: "same_sendable k sv"
  shows "call_llm (sv_libs sv) (sv_vendors (rekey_service k sv)) plan ps cutoff now net =
     map_prod id (map_prod (map (reauth_request k)) id) (call_llm (sv_libs sv) (sv_vendors sv) plan ps cutoff now net)"
  by (auto simp: call_llm_def get_vendor_def ok_or_def rekey same_sendableD split: option.splits)

lemma timed_call_rekey [rekey]:
  assumes [simp]: "same_sendable k sv"
  shows "timed_call (rekey_service k sv) plan ps cutoff (reauth k w) = map_prod id (reauth k) (timed_call sv plan ps cutoff w)"
proof -
  obtain t w1 where r: "read_clock w = (t, w1)" by fastforce
  obtain run wire net where c: "call_llm (sv_libs sv) (sv_vendors sv) plan ps cutoff t (w_net w1) = (run, wire, net)"
    by (metis prod_cases3)
  obtain lag w2 where l: "next_lag w1 = (lag, w2)" by fastforce
  have u: "(reauth k w')\<lparr>w_sent := map (reauth_call k) cs @ map (\<lambda>q. \<lparr>wc_time = t, wc_target = i, wc_request = reauth_request k q\<rparr>) qs\<rparr>
      = reauth k (w'\<lparr>w_sent := cs @ map (\<lambda>q. \<lparr>wc_time = t, wc_target = i, wc_request = q\<rparr>) qs\<rparr>)" for w' cs i qs
    by (simp add: reauth_def reauth_call_def o_def)
  show ?thesis by (simp add: timed_call_def rekey r c l Let_def o_def u)
qed

lemma after_error_rekey [rekey]: "after_error dl e (reauth k w) = map_prod id (reauth k) (after_error dl e w)"
  by (simp add: after_error_def rekey split: prod.splits option.splits)

lemma conclude_rekey [rekey]:
  "conclude_attempt dl g am out obs (reauth k w) = map_prod id (reauth k) (conclude_attempt dl g am out obs w)"
proof -
  obtain t w1 where r: "read_clock w = (t, w1)" by fastforce
  consider "out = None" "obs = None" | e where "out = None" "obs = Some e" | e where "out = Some (Inl e)"
    | x where "out = Some (Inr x)" by (cases out; cases obs; cases "the out") auto
  then show ?thesis
    by cases (simp_all add: conclude_attempt_def r rekey deadline_exceeded_def)
qed

text \<open>Under another key an operation with a budget returns the same result and budget.\<close>

abbreviation rekey3 :: "string \<Rightarrow> 'a \<times> 'b \<times> world \<Rightarrow> 'a \<times> 'b \<times> world" where
  "rekey3 k \<equiv> map_prod id (map_prod id (reauth k))"

lemma run_attempt_rekey [rekey]:
  assumes [simp]: "same_sendable k sv"
  shows "run_attempt (rekey_service k sv) plan ps dl a b (reauth k w) = rekey3 k (run_attempt sv plan ps dl a b w)"
proof -
  obtain t w1 where r: "read_clock w = (t, w1)" by fastforce
  obtain started b' where b: "try_start b = (started, b')" by fastforce
  define wa where "wa = (if 0 < a then emit (record_retry (target_id plan)) w1 else w1)"
  then have wa: "(if 0 < a then emit (record_retry (target_id plan)) (reauth k w1) else reauth k w1) = reauth k wa"
    by (simp add: emit_rekey)
  obtain t2 w2 where r2: "read_clock wa = (t2, w2)" by fastforce
  show ?thesis
  proof (cases "attempt_cutoff dl (from_millis (xc_timeout_ms (sv_config sv))) t")
    case None
    then show ?thesis by (simp add: run_attempt_def r rekey deadline_exceeded_def)
  next
    case (Some cutoff)
    obtain out obs w3 where c: "timed_call sv plan ps cutoff w2 = ((out, obs), w3)" by (metis surj_pair)
    obtain st w4 where d: "conclude_attempt dl (started_attempt_new (target_id plan) dl) (cutoff - t2) out obs w3 = (st, w4)"
      by fastforce
    show ?thesis
      by (cases started) (simp_all add: run_attempt_def r b Some rekey wa r2 c d Let_def flip: wa_def)
  qed
qed

lemma attempts_loop_rekey [rekey]:
  assumes [simp]: "same_sendable k sv"
  shows "attempts_loop (rekey_service k sv) plan ps dl js le h b (reauth k w) = rekey3 k (attempts_loop sv plan ps dl js le h b w)"
proof (induction js arbitrary: le h b w)
  case (Cons a rest)
  obtain t w1 where r: "read_clock w = (t, w1)" by fastforce
  obtain oe w2 where d: "(if 0 < a then retry_wait sv plan dl a h le w1 else (None, w1)) = (oe, w2)" by fastforce
  then have d': "(if 0 < a then retry_wait (rekey_service k sv) plan dl a h le (reauth k w1) else (None, reauth k w1))
      = (oe, reauth k w2)" by (auto simp: rekey)
  obtain st b' w3 where ra: "run_attempt sv plan ps dl a b w2 = (st, b', w3)" by (metis prod_cases3)
  show ?case
    by (cases oe; cases st) (simp_all add: rekey r d d' ra Cons.IH split: prod.splits)
qed (simp add: rekey)

lemma execute_attempts_rekey [rekey]:
  assumes [simp]: "same_sendable k sv"
  shows "execute_attempts (rekey_service k sv) plan ps dl b n (reauth k w) = rekey3 k (execute_attempts sv plan ps dl b n w)"
  by (simp add: execute_attempts_def rekey)

lemma settle_hop_rekey [rekey]: "settle_hop (rekey_service k sv) p out (reauth k w) = reauth k (settle_hop sv p out w)"
  by (simp add: settle_hop_def rekey split: prod.splits)

lemma drop_hop_rekey [rekey]: "drop_hop p (reauth k w) = reauth k (drop_hop p w)"
  by (simp add: drop_hop_def rekey)

lemma admit_hop_rekey [rekey]: "admit_hop (rekey_service k sv) t (reauth k w) = map_prod id (reauth k) (admit_hop sv t w)"
proof -
  obtain t1 w1 where r: "read_clock w = (t1, w1)" by fastforce
  obtain t2 w2 where r2: "read_clock w1 = (t2, w2)" by fastforce
  show ?thesis by (simp add: admit_hop_def r r2 rekey)
qed

lemma execute_hop_rekey [rekey]:
  assumes [simp]: "same_sendable k sv"
  shows "execute_hop (rekey_service k sv) plan ps dl b (reauth k w) = rekey3 k (execute_hop sv plan ps dl b w)"
proof -
  obtain t w1 where r: "read_clock w = (t, w1)" by fastforce
  obtain adm w2 where a: "admit_hop sv (target_id plan) w1 = (adm, w2)" by fastforce
  obtain r0 b0 w3 where e0: "execute_attempts sv plan ps dl b 0 w2 = (r0, b0, w3)" by (metis prod_cases3)
  obtain rn bn w4 where en: "execute_attempts sv plan ps dl b (xc_max_retries (sv_config sv)) w2 = (rn, bn, w4)"
    by (metis prod_cases3)
  show ?thesis
    by (cases adm; cases r0; cases rn) (simp_all add: execute_hop_def r rekey a e0 en deadline_exceeded_def)
qed

lemma finish_fallbacks_rekey [rekey]:
  "finish_fallbacks e dl b (reauth k w) = rekey3 k (finish_fallbacks e dl b w)"
proof -
  obtain t w1 where r: "read_clock w = (t, w1)" by fastforce
  show ?thesis by (simp add: finish_fallbacks_def r rekey deadline_exceeded_def)
qed

lemma fallbacks_loop_rekey [rekey]:
  assumes [simp]: "same_sendable k sv"
  shows "fallbacks_loop (rekey_service k sv) ps e dl ps' fr b (reauth k w) = rekey3 k (fallbacks_loop sv ps e dl ps' fr b w)"
proof (induction ps' arbitrary: fr b w)
  case (Cons hop rest)
  obtain t w1 where r: "read_clock w = (t, w1)" by fastforce
  obtain res b' w2 where h: "execute_hop sv hop ps dl b (emit (record_fallback fr (target_id hop)) w1) = (res, b', w2)"
    by (metis prod_cases3)
  show ?case
  proof (cases res)
    case (Inl x)
    obtain tm w3 where m: "terminate_for_provider_minimum x dl w2 = (tm, w3)" by fastforce
    show ?thesis
      by (cases tm) (simp_all add: r h Inl m rekey Cons.IH deadline_exceeded_def observe_terminal_def id_def)
  next
    case (Inr x)
    then show ?thesis by (simp add: r h rekey Cons.IH deadline_exceeded_def)
  qed
qed (simp add: rekey)

lemma execute_fallbacks_rekey [rekey]:
  assumes [simp]: "same_sendable k sv"
  shows "execute_fallbacks (rekey_service k sv) plans ps e dl b fr (reauth k w) =
     rekey3 k (execute_fallbacks sv plans ps e dl b fr w)"
proof -
  obtain t w1 where r: "read_clock w = (t, w1)" by fastforce
  show ?thesis by (simp add: execute_fallbacks_def r rekey deadline_exceeded_def)
qed

lemma execute_rekey [rekey]:
  assumes [simp]: "same_sendable k sv"
  shows "execute (rekey_service k sv) plan payload dl (reauth k w) = map_prod id (reauth k) (execute sv plan payload dl w)"
proof -
  obtain t w1 where r: "read_clock w = (t, w1)" by fastforce
  show ?thesis
  proof (cases "extract_params payload")
    case (Inr ps)
    obtain res b w2 where h: "execute_hop sv plan ps dl (budget_new (xc_max_total_attempts (sv_config sv))) w1 = (res, b, w2)"
      by (metis prod_cases3)
    show ?thesis
    proof (cases res)
      case (Inl x)
      obtain tm w3 where m: "terminate_for_provider_minimum x dl w2 = (tm, w3)" by fastforce
      obtain fx fb w4 where f: "execute_fallbacks sv (fallback_plans plan) ps x dl b (target_id plan) w3 = (fx, fb, w4)"
        by (metis prod_cases3)
      show ?thesis
        by (cases tm) (simp_all add: execute_unfold r Inr h Inl m f rekey deadline_exceeded_def observe_terminal_def)
    qed (simp add: execute_unfold r Inr h rekey deadline_exceeded_def)
  qed (simp add: execute_unfold r rekey deadline_exceeded_def)
qed

section \<open>The handlers and the router\<close>

lemma rekey_settings_simps [simp]:
  "st_catalog (rekey_settings k s) = st_catalog s" "st_limits (rekey_settings k s) = st_limits s"
  "st_server (rekey_settings k s) = st_server s" "ps_base_url (st_provider (rekey_settings k s)) = ps_base_url (st_provider s)"
  "ps_api_key (st_provider (rekey_settings k s)) = k"
  by (simp_all add: rekey_settings_def)

lemma process_request_rekey [rekey]:
  assumes [simp]: "same_sendable k sv"
  shows "process_request (rekey_service k sv) c rq dl (reauth k w) = map_prod id (reauth k) (process_request sv c rq dl w)"
proof -
  obtain t w1 where r: "read_clock w = (t, w1)" by fastforce
  obtain t2 w2 where r2: "read_clock w1 = (t2, w2)" by fastforce
  show ?thesis
  proof (cases "resolve_route c (iq_route rq) (iq_allow_fallback rq)")
    case (Inr rr)
    obtain res w3 where e: "execute sv (rr_plan rr) (build_payload rq rr) dl w2 = (res, w3)" by fastforce
    obtain t4 w4 where r4: "read_clock w3 = (t4, w4)" by fastforce
    show ?thesis
      by (cases res) (simp_all add: process_request_def execute_llm_call_def r r2 Inr e r4 rekey split: option.splits)
  qed (simp add: process_request_def r r2 rekey)
qed

lemma ingress_handler_rekey [rekey]:
  assumes [simp]: "same_sendable k sv"
  shows "ingress_handler S tv (rekey_service k sv) (rekey_settings k st) mw au dl body (p, reauth k w) =
     rekey3 k (ingress_handler S tv sv st mw au dl body (p, w))"
  by (simp add: ingress_handler_def rekey split: sum.splits prod.splits admission_denied.splits)

lemma reauth_gateway_simps [simp]:
  "gs_store (reauth_gateway k g) = gs_store g" "gs_limiter (reauth_gateway k g) = gs_limiter g"
  "gs_world (reauth_gateway k g) = reauth k (gs_world g)"
  "(reauth_gateway k g)\<lparr>gs_store := s\<rparr> = reauth_gateway k (g\<lparr>gs_store := s\<rparr>)"
  "(reauth_gateway k g)\<lparr>gs_limiter := p\<rparr> = reauth_gateway k (g\<lparr>gs_limiter := p\<rparr>)"
  "(reauth_gateway k g)\<lparr>gs_world := reauth k w\<rparr> = reauth_gateway k (g\<lparr>gs_world := w\<rparr>)"
  by (simp_all add: reauth_gateway_def)

lemma rekey_gateway_simps [simp]:
  "ga_libs (rekey_gateway k A) = ga_libs A" "ga_store (rekey_gateway k A) = ga_store A"
  "ga_cred (rekey_gateway k A) = ga_cred A" "ga_source (rekey_gateway k A) = ga_source A"
  "ga_semaphore (rekey_gateway k A) = ga_semaphore A" "ga_service (rekey_gateway k A) = rekey_service k (ga_service A)"
  "ga_settings (rekey_gateway k A) = rekey_settings k (ga_settings A)"
  by (simp_all add: rekey_gateway_def)

lemma generate_endpoint_rekey [rekey]:
  assumes [simp]: "same_sendable k (ga_service A)"
  shows "generate_endpoint (rekey_gateway k A) rn req dl au (reauth_gateway k g) =
     map_prod id (reauth_gateway k) (generate_endpoint A rn req dl au g)"
proof (cases "api_json (ga_libs A) (Some (max_request_body_limit A)) (max_request_body_limit A) req")
  case (Inr body)
  obtain res p w where h: "ingress_handler (ga_semaphore A) (hl_to_vec (ga_libs A)) (ga_service A) (ga_settings A)
      (rn_meanwhile rn) au dl body (gs_limiter g, gs_world g) = (res, p, w)" by (metis prod_cases3)
  show ?thesis using Inr by (simp add: generate_endpoint_def max_request_body_limit_def rekey h)
qed (simp add: generate_endpoint_def max_request_body_limit_def)

lemma auth_endpoint_rekey [rekey]:
  "auth_endpoint ctx op (reauth_gateway k g) = map_prod id (reauth_gateway k) (auth_endpoint ctx op g)"
  by (simp add: auth_endpoint_def split: prod.splits)

lemma protected_endpoint_rekey [rekey]:
  assumes [simp]: "same_sendable k (ga_service A)"
  shows "protected_endpoint (rekey_gateway k A) rn ep req dl au (reauth_gateway k g) =
     map_prod id (reauth_gateway k) (protected_endpoint A rn ep req dl au g)"
  by (cases ep) (simp_all add: protected_endpoint_def max_request_body_limit_def rekey split: sum.splits)

lemma auth_middleware_rekey [rekey]:
  assumes [simp]: "same_sendable k (ga_service A)"
  shows "auth_middleware (rekey_gateway k A) rn dl req (protected_endpoint (rekey_gateway k A) rn ep req d) (reauth_gateway k g) =
     map_prod id (reauth_gateway k) (auth_middleware A rn dl req (protected_endpoint A rn ep req d) g)"
  by (simp add: auth_middleware_def rekey split: prod.splits sum.splits)

lemma protected_service_rekey [rekey]:
  assumes [simp]: "same_sendable k (ga_service A)"
  shows "protected_service (rekey_gateway k A) rn ep req now lag ready (reauth_gateway k dropped) (reauth_gateway k g) =
     map_prod id (reauth_gateway k) (protected_service A rn ep req now lag ready dropped g)"
  by (simp add: protected_service_def deadline_middleware_def rekey Let_def)

text \<open>Readiness asks the same questions under every key.\<close>

lemma joined_result_rekey:
  "key_is_sendable L (rekey_openai k c) = key_is_sendable L c \<Longrightarrow>
     joined_result L (rekey_openai k c) n task = joined_result L c n task"
  by (cases "vt_join_error task") (simp_all add: joined_result_def vendor_health_check_def)

lemma spawn_checks_rekey:
  assumes [simp]: "same_sendable k sv"
  shows "spawn_checks (rekey_service k sv) n task ns = spawn_checks sv n task ns"
  by (induction ns)
    (auto simp: get_vendor_def ok_or_def joined_result_rekey [OF same_sendableD] split: option.splits)

lemma rekey_health_simps [simp]:
  "hs_executor (rekey_health k hs) = map_option (rekey_service k) (hs_executor hs)" "hs_auth (rekey_health k hs) = hs_auth hs"
  "hs_catalog (rekey_health k hs) = hs_catalog hs" "hs_config (rekey_health k hs) = hs_config hs"
  "hs_start_time (rekey_health k hs) = hs_start_time hs" "cache_is_fresh (rekey_health k hs) = cache_is_fresh hs"
  by (simp_all add: rekey_health_def cache_is_fresh_def fun_eq_iff)

lemma check_all_vendors_rekey:
  assumes [simp]: "same_sendable k sv"
  shows "check_all_vendors_health (rekey_service k sv) = check_all_vendors_health sv"
  by (simp add: check_all_vendors_health_def spawn_checks_rekey fun_eq_iff)

lemma probe_upstream_rekey:
  assumes [simp]: "\<And>sv. hs_executor hs = Some sv \<Longrightarrow> same_sendable k sv"
  shows "probe_upstream (rekey_health k hs) up cached = probe_upstream hs up cached"
  by (cases "hs_executor hs"; cases cached) (simp_all add: probe_upstream_def check_all_vendors_rekey)

lemma probe_database_rekey: "probe_database (rekey_health k hs) pb cached s = probe_database hs pb cached s"
  by (cases "hs_auth hs"; cases cached) (simp_all add: probe_database_def)

lemma probe_default_route_rekey: "probe_default_route (rekey_health k hs) reg = probe_default_route hs reg"
  by (cases "hs_executor hs"; cases "hs_catalog hs") (simp_all add: probe_default_route_def)

lemma ready_handler_rekey [simp]:
  assumes [simp]: "\<And>sv. hs_executor hs = Some sv \<Longrightarrow> same_sendable k sv"
  shows "ready_handler (rekey_health k hs) ry s = ready_handler hs ry s"
  by (simp add: ready_handler_def check_readiness_def probe_upstream_rekey probe_database_rekey probe_default_route_rekey)

lemma health_handler_rekey [simp]: "health_handler (rekey_health k hs) v t n = health_handler hs v t n"
  by (simp add: health_handler_def check_health_def)

lemma rekey_application_simps [simp]:
  "ap_gateway (rekey_application k ap) = rekey_gateway k (ap_gateway ap)"
  "ap_health (rekey_application k ap) = rekey_health k (ap_health ap)"
  "ap_metrics (rekey_application k ap) = ap_metrics ap" "ap_shutdown (rekey_application k ap) = ap_shutdown ap"
  by (simp_all add: rekey_application_def)

lemma reauth_run_simps [simp]:
  "ar_run (reauth_run k rn) = ar_run rn" "ar_now (reauth_run k rn) = ar_now rn" "ar_lag (reauth_run k rn) = ar_lag rn"
  "ar_inner_ready (reauth_run k rn) = ar_inner_ready rn" "ar_dropped (reauth_run k rn) = reauth_gateway k (ar_dropped rn)"
  "ar_ready (reauth_run k rn) = ar_ready rn" "ar_version (reauth_run k rn) = ar_version rn"
  "ar_timestamp (reauth_run k rn) = ar_timestamp rn" "ar_render (reauth_run k rn) = ar_render rn"
  "ar_request_id (reauth_run k rn) = ar_request_id rn" "ar_hv_to_str (reauth_run k rn) = ar_hv_to_str rn"
  "ar_hv_from_str (reauth_run k rn) = ar_hv_from_str rn"
  by (simp_all add: reauth_run_def)

lemma ready_endpoint_rekey [rekey]:
  assumes [simp]: "same_sendable_app k ap"
  shows "ready_endpoint (rekey_application k ap) (reauth_run k rn) (reauth_state k st) =
     map_prod id (reauth_state k) (ready_endpoint ap rn st)"
  by (simp add: ready_endpoint_def reauth_state_def same_sendable_appD(2) [OF assms] split: prod.splits)

lemma get_route_rekey [rekey]:
  "get_route req (map_prod id f a) (f st) = map_prod id f (get_route req a st)"
  by (simp add: get_route_def)

lemma get_route_answer_rekey [rekey]:
  "get_route req (r, reauth_state k st) (reauth_state k st) = map_prod id (reauth_state k) (get_route req (r, st) st)"
  by (simp add: get_route_def)

lemma route_request_rekey [rekey]:
  assumes [simp]: "same_sendable_app k ap"
  shows "route_request (rekey_application k ap) (reauth_run k rn) ctx req (reauth_state k st) =
     map_prod id (reauth_state k) (route_request ap rn ctx req st)"
proof -
  have p: "ax_gateway (reauth_state k st) = reauth_gateway k (ax_gateway st)"
    "(reauth_state k st)\<lparr>ax_gateway := reauth_gateway k g\<rparr> = reauth_state k (st\<lparr>ax_gateway := g\<rparr>)" for g
    by (simp_all add: reauth_state_def)
  show ?thesis
    by (simp add: route_request_def rekey p same_sendable_appD(1) [OF assms] split: option.splits endpoint.splits sum.splits prod.splits)
qed

lemma production_router_rekey:
  assumes [simp]: "same_sendable_app k ap"
  shows "production_router (rekey_application k ap) (reauth_run k rn) req (reauth_state k st) =
     map_prod id (reauth_state k) (production_router ap rn req st)"
  by (simp add: production_router_def rekey Let_def)

section \<open>Start-up under another key\<close>

text \<open>Two environments that differ in the key only, neither of which is blank.\<close>

lemma env_var_rekey: "n \<noteq> ''OPENAI_API_KEY'' \<Longrightarrow> env_var (E(''OPENAI_API_KEY'' \<mapsto> v)) n = env_var E n"
  by (simp add: env_var_def)

lemma override_limit_cong:
  "(\<And>n. n \<in> set names \<Longrightarrow> env' n = env n) \<Longrightarrow> override_limit env' names cv put l = override_limit env names cv put l"
proof -
  assume a: "\<And>n. n \<in> set names \<Longrightarrow> env' n = env n"
  then have "env_u64 env' names = env_u64 env names" by (induction names) (auto split: option.splits)
  then show ?thesis by (simp add: override_limit_def)
qed

text \<open>The settings' readers other than the provider's see no secret.\<close>

lemma settings_readers_cong:
  assumes e: "\<And>n. n \<noteq> ''OPENAI_API_KEY'' \<Longrightarrow> n \<noteq> ''DATABASE_URL'' \<Longrightarrow> env' n = env n"
  shows "apply_env_overrides env' = apply_env_overrides env" "auth_from_source env' = auth_from_source env"
    "server_try_from_source p env' = server_try_from_source p env"
proof -
  have o: "override_limit env' names cv put = override_limit env names cv put"
    if "''OPENAI_API_KEY'' \<notin> set names" "''DATABASE_URL'' \<notin> set names" for names cv put
    by (intro ext override_limit_cong e) (use that in blast)+
  show "apply_env_overrides env' = apply_env_overrides env"
    by (simp add: fun_eq_iff apply_env_overrides_def bound_defs o)
  show "auth_from_source env' = auth_from_source env"
    by (simp add: auth_from_source_def e)
  have e': "env' ''SERVER_HOST'' = env ''SERVER_HOST''" "env' ''SERVER_PORT'' = env ''SERVER_PORT''"
    "env' ''SERVER_SHUTDOWN_TIMEOUT'' = env ''SERVER_SHUTDOWN_TIMEOUT''"
    by (rule e; simp)+
  show "server_try_from_source p env' = server_try_from_source p env"
    unfolding server_try_from_source_def e' ..
qed

lemma provider_from_env_rekey:
  assumes "\<And>n. n \<noteq> ''OPENAI_API_KEY'' \<Longrightarrow> env' n = env n"
    and "env ''OPENAI_API_KEY'' = Some k0" "env' ''OPENAI_API_KEY'' = Some k" "\<not> is_blank k0" "\<not> is_blank k"
  shows "provider_from_env parse env' = map_sum id (\<lambda>p. p\<lparr>ps_api_key := k\<rparr>) (provider_from_env parse env)"
  using assms by (auto simp: provider_from_env_def and_then_def split: sum.splits)

lemma map_sum_and_then: "map_sum id f (and_then m g) = and_then m (\<lambda>x. map_sum id f (g x))"
  by (cases m) simp_all

lemma and_then_map_sum: "and_then (map_sum id f m) g = and_then m (\<lambda>x. g (f x))"
  by (cases m) simp_all

lemma map_err_map_sum: "map_err g (map_sum id f x) = map_sum id f (map_err g x)"
  by (cases x) simp_all

lemma from_catalog_path_rekey:
  assumes e: "\<And>n. n \<noteq> ''OPENAI_API_KEY'' \<Longrightarrow> env' n = env n"
    and k: "env ''OPENAI_API_KEY'' = Some k0" "env' ''OPENAI_API_KEY'' = Some k" "\<not> is_blank k0" "\<not> is_blank k"
  shows "from_catalog_path L path env' = map_sum id (rekey_settings k) (from_catalog_path L path env)"
proof -
  note r = settings_readers_cong [of env' env]
  have p: "provider_from_env parse env' = map_sum id (\<lambda>p. p\<lparr>ps_api_key := k\<rparr>) (provider_from_env parse env)" for parse
    by (rule provider_from_env_rekey [where env = env and env' = env' and k = k and ?k0.0 = k0]) (simp_all add: e k)
  show ?thesis
    by (simp add: from_catalog_path_def r e p map_sum_and_then and_then_map_sum
        rekey_settings_def build_provider_http_client_def)
qed

lemma load_with_database_url: "load_with L (env_var (E(''DATABASE_URL'' \<mapsto> u))) = load_with L (env_var E)"
proof -
  let ?env = "env_var (E(''DATABASE_URL'' \<mapsto> u))"
  have e: "?env n = env_var E n" if "n \<noteq> ''DATABASE_URL''" for n
    using that by (simp add: env_var_def)
  note r = settings_readers_cong [of ?env "env_var E"]
  have k: "?env ''OPENAI_API_KEY'' = env_var E ''OPENAI_API_KEY''" "?env ''OPENAI_BASE_URL'' = env_var E ''OPENAI_BASE_URL''"
    by (rule e; simp)+
  have p: "provider_from_env parse ?env = provider_from_env parse (env_var E)" for parse
    unfolding provider_from_env_def k ..
  have "from_catalog_path L path ?env = from_catalog_path L path (env_var E)" for path
    by (simp add: from_catalog_path_def r e p)
  then show ?thesis by (simp add: load_with_def e split: option.splits)
qed

lemma load_with_rekey:
  assumes "env_var E ''OPENAI_API_KEY'' = Some k0" "\<not> is_blank k0" "\<not> is_blank k"
  shows "load_with L (env_var (E(''OPENAI_API_KEY'' \<mapsto> Some k))) = map_sum id (rekey_settings k) (load_with L (env_var E))"
proof -
  have "from_catalog_path L path (env_var (E(''OPENAI_API_KEY'' \<mapsto> Some k))) =
      map_sum id (rekey_settings k) (from_catalog_path L path (env_var E))" for path
    by (rule from_catalog_path_rekey [where ?k0.0 = k0]) (simp_all add: env_var_rekey assms, simp add: env_var_def)
  then show ?thesis by (simp add: load_with_def env_var_rekey split: option.splits)
qed

lemma not_blank_trim: "\<not> is_blank k \<Longrightarrow> str_trim k \<noteq> []"
  by (simp add: is_blank_def)

lemma service_from_config_rekey:
  assumes "xc_openai cfg = Some oc" "\<not> is_blank (oc_api_key oc)" "\<not> is_blank k"
  shows "service_from_config L cb (rekey_config k cfg) = map_sum id (rekey_service k) (service_from_config L cb cfg)"
  using assms
  by (auto simp: service_from_config_def repository_from_config_def openai_vendor_new_def rekey_config_def
      rekey_service_def not_blank_trim rekey_openai_def)

lemma from_settings_rekey:
  assumes "\<not> is_blank (ps_api_key (st_provider st))" "\<not> is_blank k"
    "health_config_from_env (env_var E') = health_config_from_env (env_var E)"
  shows "from_settings_and_metrics P E' now (rekey_settings k st) auth m =
    map_sum id (rekey_application k) (from_settings_and_metrics P E now st auth m)"
proof -
  have c: "executor_config_from_settings ord (rekey_settings k st) = rekey_config k (executor_config_from_settings ord st)" for ord
    by (simp add: executor_config_from_settings_def Let_def rekey_config_def rekey_openai_def)
  have sv: "service_from_config L cb (rekey_config k (executor_config_from_settings ord st)) =
      map_sum id (rekey_service k) (service_from_config L cb (executor_config_from_settings ord st))" for L cb ord
    by (rule service_from_config_rekey [OF _ _ assms(2)], simp add: executor_config_from_settings_def Let_def)
       (simp add: assms)
  show ?thesis
    by (simp add: from_settings_and_metrics_def c sv and_then_map_sum map_sum_and_then assms(3) rekey_application_def
        rekey_gateway_def rekey_health_def with_dependencies_def)
qed

lemma loaded_key_is_not_blank: "load_with L env = Ok st \<Longrightarrow> \<not> is_blank (ps_api_key (st_provider st))"
  using provider_from_env_blank
  by (fastforce simp: load_with_def from_catalog_path_def and_then_Inr_iff Let_def split: option.splits if_splits)

lemma loaded_key:
  "load_with L env = Ok st \<Longrightarrow> env ''OPENAI_API_KEY'' = Some (ps_api_key (st_provider st))"
  by (auto simp: load_with_def from_catalog_path_def and_then_Inr_iff provider_from_env_def Let_def
      split: option.splits if_splits)

lemma started_same_sendable:
  assumes "gateway_start P E now = Ok (ap, listener, grace)" "env_var E ''OPENAI_API_KEY'' = Some k0"
    and "lib_header_value_ok (pr_executor P) (''Bearer '' @ k) = lib_header_value_ok (pr_executor P) (''Bearer '' @ k0)"
  shows "same_sendable_app k ap"
proof -
  obtain settings database role pool where st: "load_with (pr_config P) (env_var E) = Ok settings"
    and ap: "from_settings_and_metrics P E now settings (pr_store P pool) (metrics_from_env E) = Ok ap"
    by (rule gateway_start_Ok [OF assms(1)])
  have k0: "ps_api_key (st_provider settings) = k0" using loaded_key [OF st] assms(2) by simp
  obtain sv where sv: "service_from_config (pr_executor P) (pr_client_builds P)
      (executor_config_from_settings (cl_hash_order (pr_config P)) settings) = Ok sv"
    "ga_service (ap_gateway ap) = sv" "hs_executor (ap_health ap) = Some sv"
    using ap by (auto simp: from_settings_and_metrics_def and_then_Inr_iff with_dependencies_def)
  have "same_sendable k sv"
    using sv(1) k0 assms(3)
    by (auto simp: service_from_config_def repository_from_config_def openai_vendor_new_def and_then_Inr_iff
        executor_config_from_settings_def Let_def same_sendable_def key_is_sendable_def split: if_splits)
  with sv show ?thesis by (simp add: same_sendable_app_def)
qed

lemma environment_rekey:
  fixes E :: os_env and k
  defines "E' \<equiv> E(''OPENAI_API_KEY'' \<mapsto> Some k)"
  shows "pool_config_from_env pg E' = pool_config_from_env pg E" "runtime_role_from_env E' = runtime_role_from_env E"
    "metrics_from_env E' = metrics_from_env E"
    "health_config_from_env (env_var E') = health_config_from_env (env_var E)"
  by (simp_all add: E'_def pool_config_from_env_def override_bound_def env_var_rekey runtime_role_from_env_def
      metrics_from_env_def health_config_from_env_def env_u64_or_def)

lemma gateway_start_rekey:
  assumes "env_var E ''OPENAI_API_KEY'' = Some k0" "\<not> is_blank k0" "\<not> is_blank k"
  shows "gateway_start P (E(''OPENAI_API_KEY'' \<mapsto> Some k)) now =
    map_sum id (map_prod (rekey_application k) id) (gateway_start P E now)"
proof -
  let ?E = "E(''OPENAI_API_KEY'' \<mapsto> Some k)"
  note start = environment_rekey [where E = E and k = k]
  show ?thesis
  proof (cases "load_with (pr_config P) (env_var E)")
    case (Inl e)
    then show ?thesis by (simp add: gateway_start_def load_with_rekey [OF assms])
  next
    case (Inr st)
    have f: "from_settings_and_metrics P ?E now (rekey_settings k st) auth m =
        map_sum id (rekey_application k) (from_settings_and_metrics P E now st auth m)" for auth m
      by (rule from_settings_rekey [OF loaded_key_is_not_blank [OF Inr] assms(3) start(4)])
    show ?thesis
      by (simp add: gateway_start_def load_with_rekey [OF assms] Inr start f map_err_map_sum and_then_map_sum map_sum_and_then)
  qed
qed

end
