(* ===== verification/Redaction.thy ===== *)
theory Redaction
  imports Legacy_Config
begin

text \<open>
  What the process prints: the \<open>Debug\<close> forms of the values that hold a secret, the messages of the executor's
  errors, the summary of the settings in \<open>core/config/load.rs\<close>, and the log of start-up in \<open>main.rs\<close>. A
  \<open>Debug\<close> form is the tree the code hands to the formatter; how the formatter lays it out is the library's. A
  log line is its level, its fields and its message.
\<close>

section \<open>Debug forms\<close>

datatype dbg =
    DStr string                               \<comment> \<open>a string, which the library quotes\<close>
  | DRaw string                               \<comment> \<open>text written as it is\<close>
  | DNat nat
  | DBool bool
  | DOpt "dbg option"
  | DList "dbg list"
  | DStruct string "(string \<times> dbg) list" bool \<comment> \<open>whether all fields are shown\<close>

definition redacted :: string where
  "redacted = ''[redacted]''"

text \<open>\<open>SecretString\<close>: both forms.\<close>

definition secret_debug :: "string \<Rightarrow> dbg" where
  "secret_debug secret = DRaw redacted"

definition secret_display :: "string \<Rightarrow> string" where
  "secret_display secret = redacted"

definition settings_debug :: "'addr settings \<Rightarrow> dbg" where
  "settings_debug s = DRaw ''Settings''"

definition openai_debug :: "openai_config \<Rightarrow> dbg" where
  "openai_debug c = DStruct ''OpenAIConfig''
     [(''api_key'', DStr redacted), (''base_url'', DStr ''[omitted]''), (''timeout_ms'', DNat (oc_timeout_ms c)),
      (''supported_models'', DList (map DStr (oc_supported_models c))),
      (''max_response_bytes'', DNat (oc_max_response_bytes c))] False"

text \<open>\<open>anthropic\<close> is the key of the vendor that does not exist yet, which the record does not have.\<close>

definition executor_debug :: "string option \<Rightarrow> executor_config \<Rightarrow> dbg" where
  "executor_debug anthropic c = DStruct ''ExecutorConfig''
     [(''openai'', DOpt (map_option openai_debug (xc_openai c))),
      (''anthropic_api_key'', DOpt (map_option (\<lambda>_. DStr redacted) anthropic)),
      (''timeout_ms'', DNat (xc_timeout_ms c)), (''max_retries'', DNat (xc_max_retries c)),
      (''max_total_attempts'', DNat (xc_max_total_attempts c)), (''backoff_cap_ms'', DNat (xc_backoff_cap_ms c)),
      (''circuit_failure_threshold'', DNat (xc_circuit_failure_threshold c)),
      (''circuit_cooldown_ms'', DNat (xc_circuit_cooldown_ms c))] True"

definition pool_config_debug :: "database_pool_config \<Rightarrow> dbg" where
  "pool_config_debug c = DStruct ''DatabasePoolConfig''
     [(''url'', DStr redacted), (''max_connections'', DNat (dp_max_connections c)),
      (''acquire_timeout_ms'', DNat (as_millis (dp_acquire_timeout c))),
      (''statement_timeout_ms'', DNat (as_millis (dp_statement_timeout c)))] True"

definition presented_debug :: "presented_key \<Rightarrow> dbg" where
  "presented_debug p = DRaw (case p of KeyMissing \<Rightarrow> ''Missing'' | KeyInvalid \<Rightarrow> ''Invalid'' | KeyValue _ \<Rightarrow> ''Value([redacted])'')"

definition digest_debug :: "key_digest \<Rightarrow> dbg" where
  "digest_debug d = DRaw ''KeyDigest([redacted])''"

text \<open>The derived form of the kind is the variant's name; a timestamp's is the date library's, \<open>date\<close>.\<close>

definition kind_debug :: "api_key_kind \<Rightarrow> dbg" where
  "kind_debug k = DRaw (case k of Management \<Rightarrow> ''Management'' | Inference \<Rightarrow> ''Inference'')"

definition new_api_key_debug :: "(timestamp \<Rightarrow> string) \<Rightarrow> new_api_key \<Rightarrow> dbg" where
  "new_api_key_debug date k = DStruct ''NewApiKey''
     [(''id'', DRaw (nk_id k)), (''client_id'', DRaw (nk_client_id k)), (''digest'', digest_debug (nk_digest k)),
      (''display_id'', DStr (nk_display_id k)), (''name'', DStr (nk_name k)), (''kind'', kind_debug (nk_kind k)),
      (''created_at'', DRaw (date (nk_created_at k)))] True"

definition api_key_record_debug :: "(timestamp \<Rightarrow> string) \<Rightarrow> api_key_record \<Rightarrow> dbg" where
  "api_key_record_debug date r = DStruct ''ApiKeyRecord''
     [(''id'', DRaw (kr_id r)), (''client_id'', DRaw (kr_client_id r)), (''digest'', DStr redacted),
      (''display_id'', DStr (kr_display_id r)), (''name'', DStr (kr_name r)), (''kind'', kind_debug (kr_kind r)),
      (''created_at'', DRaw (date (kr_created_at r))),
      (''last_used_at'', DOpt (map_option (DRaw \<circ> date) (kr_last_used_at r))),
      (''revoked_at'', DOpt (map_option (DRaw \<circ> date) (kr_revoked_at r)))] True"

definition generated_debug :: "generated_credential \<Rightarrow> dbg" where
  "generated_debug g = DStruct ''GeneratedCredential''
     [(''credential'', DStr redacted), (''digest'', digest_debug (gc_digest g)), (''display_id'', DStr (gc_display_id g))] True"

definition issued_debug :: "(timestamp \<Rightarrow> string) \<Rightarrow> issued_key \<Rightarrow> dbg" where
  "issued_debug date k = DStruct ''IssuedKey''
     [(''client_id'', DRaw (ik_client_id k)), (''key_id'', DRaw (ik_key_id k)), (''display_id'', DStr (ik_display_id k)),
      (''name'', DStr (ik_name k)), (''kind'', DStr (ik_kind k)), (''created_at'', DRaw (date (ik_created_at k))),
      (''credential'', DStr redacted)] True"

definition created_debug :: "(timestamp \<Rightarrow> string) \<Rightarrow> created_tenant \<Rightarrow> dbg" where
  "created_debug date t = DStruct ''CreatedTenant''
     [(''display_name'', DStr (ct_display_name t)), (''key'', issued_debug date (ct_key t))] True"

definition shutdown_debug :: "'p shutdown_state \<Rightarrow> dbg" where
  "shutdown_debug s = DStruct ''ShutdownState'' [(''draining'', DBool (is_draining s))] True"

section \<open>Messages of the executor's errors\<close>

definition quoted :: "string \<Rightarrow> string" where
  "quoted s = CHR 0x27 # s @ [CHR 0x27]"

fun executor_error_display :: "executor_error \<Rightarrow> string" where
  "executor_error_display (UnsupportedVendor v) = ''Unsupported vendor: '' @ v"
| "executor_error_display (UnsupportedModel m v) = ''Unsupported model '' @ quoted m @ '' for vendor '' @ quoted v"
| "executor_error_display (InvalidPayload m) = ''Invalid payload format: '' @ m"
| "executor_error_display (ApiCallFailed m) = ''API call failed: '' @ m"
| "executor_error_display (RateLimitExceeded v _) = ''Rate limit exceeded for vendor '' @ quoted v"
| "executor_error_display (AuthenticationFailed v) = ''Authentication failed for vendor '' @ quoted v"
| "executor_error_display (TimeoutError ms) = ''Request timeout after '' @ show_nat ms @ ''ms''"
| "executor_error_display (NetworkError m) = ''Network error: '' @ m"
| "executor_error_display (JsonError m) = ''JSON parsing error: '' @ m"
| "executor_error_display NoVendorsConfigured = ''No LLM vendors configured''"
| "executor_error_display InvalidConfiguration = ''Invalid executor configuration''"
| "executor_error_display MissingPricing = ''Missing pricing for the selected target''"
| "executor_error_display InvalidUpstreamResult = ''Invalid upstream result''"
| "executor_error_display UpstreamRejected = ''upstream rejected the request''"
| "executor_error_display QuotaExceeded = ''upstream quota exhausted''"
| "executor_error_display ExecDeadlineExceeded = ''request deadline exceeded''"
| "executor_error_display (ExecCircuitOpen v _) = ''Circuit breaker open for vendor '' @ quoted v"

section \<open>Log lines\<close>

datatype log_level = LvError | LvWarn | LvInfo

datatype log_line = LogLine log_level "(string \<times> string) list" string

text \<open>\<open>show_addr\<close> is the address's \<open>Display\<close> form.\<close>

definition log_safe_summary :: "('addr \<Rightarrow> string) \<Rightarrow> 'addr settings \<Rightarrow> log_line list" where
  "log_safe_summary show_addr s =
     (let l = st_limits s; c = st_catalog s in
      [LogLine LvInfo
         [(''bind_address'', show_addr (sc_bind_address (st_server s))), (''default_route'', cat_default_route c),
          (''target_count'', show_nat (length (cat_targets c))), (''route_count'', show_nat (length (cat_routes c))),
          (''protected_request_deadline_ms'', show_nat (limits_duration_ms (pl_protected_request_deadline l))),
          (''max_attempt_timeout_ms'', show_nat (limits_duration_ms (pl_max_attempt_timeout l))),
          (''retries_per_target'', show_nat (pl_retries_per_target l)),
          (''max_total_attempts'', show_nat (pl_max_total_attempts l)),
          (''max_fallback_targets'', show_nat (pl_max_fallback_targets l)),
          (''backoff_cap_ms'', show_nat (limits_duration_ms (pl_backoff_cap l))),
          (''circuit_failure_threshold'', show_nat (pl_circuit_failure_threshold l)),
          (''circuit_cooldown_ms'', show_nat (limits_duration_ms (pl_circuit_cooldown l))),
          (''max_concurrent_generations'', show_nat (pl_max_concurrent_generations l))]
         ''Loaded operator configuration'',
       LogLine LvInfo [] ''Policy limits are validated at startup; protected-request deadline, retries, eligible fallback switching, target-scoped circuits, and concurrent generation admission are enforced'']
      @ (if ac_development_mode (st_auth s)
         then [LogLine LvInfo [] ''AUTH_DEVELOPMENT_MODE has no effect; persisted authentication is required''] else [])
      @ [LogLine LvInfo [] ''Persisted authentication is required''])"

definition vendor_count :: "service \<Rightarrow> nat" where
  "vendor_count sv = card (dom (sv_vendors sv))"

text \<open>
  The lines from the assembly of the services on; \<open>assembled\<close> is its error, or the number of vendors. A
  router that refuses the metrics path panics, which prints nothing of the environment.
\<close>

definition assembled_log ::
    "('addr \<Rightarrow> string) \<Rightarrow> ('addr, 's, 'p, 'o, 'l) process_libs \<Rightarrow> metrics_config \<Rightarrow> 'addr settings
      \<Rightarrow> executor_error + nat \<Rightarrow> log_line list" where
  "assembled_log show_addr P metrics settings assembled =
     LogLine LvInfo [] ''Initializing application services...'' #
     (case assembled of
        Inl e \<Rightarrow> [LogLine LvError [] (''Fatal: Failed to initialize application: '' @ executor_error_display e)]
      | Inr vendors \<Rightarrow>
      [LogLine LvInfo [] (''ExecutorService initialized with '' @ show_nat vendors @ '' vendors''),
       LogLine LvInfo [] ''HealthService initialized'', LogLine LvInfo [] ''IngressService initialized'',
       LogLine LvInfo [] ''AuthService initialized''] @
     (if mc_enabled metrics \<and> \<not> pr_route_ok P (mc_endpoint_path metrics) then []
      else
     (case bind_listener (pr_bind P) (sc_bind_address (st_server settings)) of
        Inl e \<Rightarrow> [LogLine LvError [(''category'', listen_category e)] (listen_error_display e)]
      | Inr _ \<Rightarrow>
      (let addr = show_addr (sc_bind_address (st_server settings)) in
      [LogLine LvInfo [] (''gateway listening on http://'' @ addr),
       LogLine LvInfo [] (''health check: http://'' @ addr @ ''/health''),
       LogLine LvInfo [] (''readiness check: http://'' @ addr @ ''/ready''),
       LogLine LvInfo [] (''ingress API: http://'' @ addr @ ''/api/v1/route (protected)'')] @
      (if mc_enabled metrics then [LogLine LvInfo [] (''metrics: http://'' @ addr @ mc_endpoint_path metrics)] else []) @
      [LogLine LvInfo [(''shutdown_timeout_secs'', show_nat (sc_shutdown_timeout_secs (st_server settings)))]
         ''SIGTERM and SIGINT drain new generation and bound in-flight work'']))))"

text \<open>
  The lines of \<open>main\<close> from its first to the one before it serves, or to the one that reports why it
  stops. Lines that a library logs on its own, while it parses the connection string for example, are not
  among them.
\<close>

definition startup_log ::
    "('addr \<Rightarrow> string) \<Rightarrow> string \<Rightarrow> ('addr, 's, 'p, 'o, 'l) process_libs \<Rightarrow> os_env \<Rightarrow> nat \<Rightarrow> log_line list" where
  "startup_log show_addr version P E now =
     LogLine LvInfo [(''version'', version)] ''Starting gateway'' #
     (case load_with (pr_config P) (env_var E) of
        Inl e \<Rightarrow> [LogLine LvError [(''category'', category_as_str (ce_category e))] (config_error_display e)]
      | Inr settings \<Rightarrow> log_safe_summary show_addr settings @
     (case pool_config_from_env (pr_pg_parse P) E of
        Inl e \<Rightarrow> [LogLine LvError [(''category'', database_error_as_str e)] (database_error_display e)]
      | Inr database \<Rightarrow>
     (case runtime_role_from_env E of
        Inl e \<Rightarrow> [LogLine LvError [(''category'', database_error_as_str e)] (database_error_display e)]
      | Inr role \<Rightarrow>
     (case connect_lazy_with_role (pr_pg_parse P) role database of
        Inl _ \<Rightarrow> [LogLine LvError [(''category'', ''database_unavailable'')]
                    ''failed to configure the authentication database pool'']
      | Inr pool \<Rightarrow>
     (let metrics = metrics_from_env E in
      (if mc_enabled metrics
       then LogLine LvInfo [(''endpoint'', mc_endpoint_path metrics)] ''Prometheus metrics enabled''
       else LogLine LvWarn [] ''Prometheus metrics disabled by configuration'') #
      assembled_log show_addr P metrics settings
        (map_sum id (\<lambda>ap. vendor_count (ga_service (ap_gateway ap)))
          (from_settings_and_metrics P E now settings (pr_store P pool) metrics)))))))"

section \<open>Facts\<close>

text \<open>A form that is printed is the same for values that differ in a secret only.\<close>

lemma debug_forms_hide_secrets:
  "secret_debug a = secret_debug b" "secret_display a = secret_display b"
  "openai_debug (c\<lparr>oc_api_key := a, oc_base_url := u\<rparr>) = openai_debug c"
  "executor_debug (Some a) x = executor_debug (Some b) x"
  "executor_debug n (x\<lparr>xc_openai := map_option (\<lambda>o'. o'\<lparr>oc_api_key := a\<rparr>) (xc_openai x)\<rparr>) = executor_debug n x"
  "pool_config_debug (p\<lparr>dp_url := a\<rparr>) = pool_config_debug p" "presented_debug (KeyValue a) = presented_debug (KeyValue b)"
  "new_api_key_debug d (nk\<lparr>nk_digest := a\<rparr>) = new_api_key_debug d nk"
  "api_key_record_debug d (r\<lparr>kr_digest := a\<rparr>) = api_key_record_debug d r"
  "generated_debug (g\<lparr>gc_credential := a, gc_digest := b\<rparr>) = generated_debug g"
  "created_debug d (t\<lparr>ct_key := (ct_key t)\<lparr>ik_credential := a\<rparr>\<rparr>) = created_debug d t"
  by (simp_all add: secret_debug_def secret_display_def openai_debug_def [abs_def] executor_debug_def pool_config_debug_def
      presented_debug_def new_api_key_debug_def api_key_record_debug_def generated_debug_def created_debug_def
      issued_debug_def digest_debug_def option.map_comp o_def)

end
