(* ===== verification/Confinement_Properties.thy ===== *)
theory Confinement_Properties
  imports Key_Confinement Redaction Http_Properties
begin

text \<open>
  Start-up to response: what the gateway answers, records and keeps does not depend on the provider
  credential. The witness starts a whole process on a concrete environment.
\<close>

section \<open>A process that starts\<close>

definition demo_os_env :: os_env where
  "demo_os_env = [''OPENAI_API_KEY'' \<mapsto> Some ''k'', ''OPENAI_BASE_URL'' \<mapsto> Some ''u'',
     ''OPMUX_CONFIG_FILE'' \<mapsto> Some ''f'', ''DATABASE_URL'' \<mapsto> Some ''d'']"

definition demo_process :: "(string, pg_store, nat \<times> bool, string, unit) process_libs" where
  "demo_process =
     \<lparr>pr_config = demo_config_libs, pr_executor = sv_libs demo_service, pr_client_builds = (\<lambda>_. True),
      pr_http = demo_http, pr_store = (\<lambda>_. pg_ops True), pr_cred = demo_cred, pr_source = demo_source,
      pr_semaphore = counting_semaphore, pr_pg_parse = Some, pr_open_pool = (\<lambda>_. True), pr_bind = (\<lambda>_. Inr ()),
      pr_route_ok = (\<lambda>_. True)\<rparr>"

lemma demo_os_env_var:
  "env_var demo_os_env n =
     (if n = ''OPMUX_CONFIG_FILE'' then Some ''f'' else if n = ''DATABASE_URL'' then Some ''d'' else demo_env n)"
  by (simp add: env_var_def demo_os_env_def demo_env_def)

lemma demo_env_agrees:
  "n \<noteq> ''OPMUX_CONFIG_FILE'' \<Longrightarrow> n \<noteq> ''DATABASE_URL'' \<Longrightarrow> env_var demo_os_env n = demo_env n"
  by (simp add: demo_os_env_var)

lemma demo_process_settings: "load_with demo_config_libs (env_var demo_os_env) = Ok demo_settings"
proof -
  let ?env = "env_var demo_os_env"
  have o: "apply_env_overrides ?env = apply_env_overrides demo_env"
    by (simp add: fun_eq_iff apply_env_overrides_def override_limit_def demo_os_env_var demo_env_def bound_defs)
  have v: "?env ''OPENAI_API_KEY'' = demo_env ''OPENAI_API_KEY''" "?env ''OPENAI_BASE_URL'' = demo_env ''OPENAI_BASE_URL''"
    "?env ''SERVER_HOST'' = demo_env ''SERVER_HOST''" "?env ''SERVER_PORT'' = demo_env ''SERVER_PORT''"
    "?env ''SERVER_SHUTDOWN_TIMEOUT'' = demo_env ''SERVER_SHUTDOWN_TIMEOUT''"
    by (simp_all add: demo_env_agrees)
  have p: "provider_from_env parse ?env = provider_from_env parse demo_env" for parse
    unfolding provider_from_env_def v ..
  have s: "server_try_from_source parse ?env = server_try_from_source parse demo_env" for parse
    unfolding server_try_from_source_def v ..
  have a: "auth_from_source ?env = auth_from_source demo_env"
    by (simp add: auth_from_source_def demo_env_agrees)
  have "from_catalog_path demo_config_libs ''f'' ?env = from_catalog_path demo_config_libs ''f'' demo_env"
    by (simp add: from_catalog_path_def o p s a)
  then show ?thesis using demo_settings_load by (simp add: load_with_def demo_os_env_var demo_trims)
qed

lemma demo_process_starts: "is_ok (gateway_start demo_process demo_os_env 0)"
proof -
  have none: "demo_os_env n = None" if "n \<in> {''OPMUX_DB_MAX_CONNECTIONS'', ''OPMUX_DB_ACQUIRE_TIMEOUT_MS'',
      ''OPMUX_DB_STATEMENT_TIMEOUT_MS''}" for n
    using that by (auto simp: demo_os_env_def)
  have url: "env_var demo_os_env ''DATABASE_URL'' = Some ''d''" by (simp add: demo_os_env_var)
  obtain c where pool: "pool_config_from_env Some demo_os_env = Ok c"
    by (simp add: pool_config_from_env_def url override_bound_def none pool_config_new_def demo_trims)
  have role: "runtime_role_from_env demo_os_env = Ok ''opmux_runtime''"
    by (simp add: runtime_role_from_env_def demo_os_env_var demo_env_def)
  obtain po where lazy: "connect_lazy_with_role Some ''opmux_runtime'' c = Ok po"
    by (simp add: connect_lazy_with_role_def validate_role_name_def role_char_def connect_lazy_with_startup_sql_def
        pool_options_of_def)
  obtain sv where service: "service_from_config (sv_libs demo_service) (\<lambda>_. True)
      (executor_config_from_settings (cl_hash_order demo_config_libs) demo_settings) = Ok sv"
    by (simp add: service_from_config_def repository_from_config_def openai_vendor_new_def
        executor_config_from_settings_def demo_settings_def demo_trims Let_def)
  show ?thesis
    by (simp add: gateway_start_def from_settings_and_metrics_def demo_process_def demo_process_settings pool role lazy
        service bind_listener_def)
qed

section \<open>The log of start-up\<close>

text \<open>What is logged of the assembly depends on neither the store nor the key.\<close>

abbreviation assembled :: "executor_error + ('s, 'p, 'addr) application \<Rightarrow> executor_error + nat" where
  "assembled \<equiv> map_sum id (\<lambda>ap. vendor_count (ga_service (ap_gateway ap)))"

lemma assembled_eq:
  "assembled (from_settings_and_metrics P E now st auth m) =
     map_sum id vendor_count (service_from_config (pr_executor P) (pr_client_builds P)
       (executor_config_from_settings (cl_hash_order (pr_config P)) st))"
proof -
  have "map_sum id vendor_count r = and_then r (\<lambda>sv. Ok (vendor_count sv))" for r :: "executor_error + service"
    by (cases r) simp_all
  then show ?thesis by (simp add: from_settings_and_metrics_def map_sum_and_then)
qed

lemma vendor_count_rekey [simp]: "vendor_count (rekey_service k sv) = vendor_count sv"
proof -
  have "dom (\<lambda>v. map_option (rekey_openai k) (sv_vendors sv v)) = dom (sv_vendors sv)"
    by (auto simp: dom_def)
  then show ?thesis by (simp add: vendor_count_def rekey_service_def)
qed

lemma assembled_rekey: "assembled (map_sum id (rekey_application k) r) = assembled r"
  by (cases r) simp_all

lemma log_safe_summary_rekey [simp]: "log_safe_summary sh (rekey_settings k st) = log_safe_summary sh st"
  by (simp add: log_safe_summary_def rekey_settings_def)

lemma assembled_log_rekey [simp]: "assembled_log sh P m (rekey_settings k st) a = assembled_log sh P m st a"
  unfolding assembled_log_def rekey_settings_simps ..

lemma startup_log_rekey:
  assumes "env_var E ''OPENAI_API_KEY'' = Some k0" "\<not> is_blank k0" "\<not> is_blank k"
  shows "startup_log sh v P (E(''OPENAI_API_KEY'' \<mapsto> Some k)) now = startup_log sh v P E now"
proof -
  let ?E = "E(''OPENAI_API_KEY'' \<mapsto> Some k)"
  note start = environment_rekey [where E = E and k = k]
  show ?thesis
  proof (cases "load_with (pr_config P) (env_var E)")
    case (Inl e)
    then show ?thesis by (simp add: startup_log_def load_with_rekey [OF assms])
  next
    case (Inr st)
    have f: "assembled (from_settings_and_metrics P ?E now (rekey_settings k st) auth m) =
        assembled (from_settings_and_metrics P E now st auth m)" for auth m
      by (simp add: from_settings_rekey [OF loaded_key_is_not_blank [OF Inr] assms(3) start(4)] assembled_rekey)
    show ?thesis
      by (simp add: startup_log_def load_with_rekey [OF assms] Inr start f Let_def split: sum.splits)
  qed
qed

text \<open>Another connection string that the driver accepts.\<close>

definition url_accepted :: "(string \<Rightarrow> 'o option) \<Rightarrow> string \<Rightarrow> bool" where
  "url_accepted pg u \<longleftrightarrow> str_trim u \<noteq> [] \<and> pg (str_trim u) \<noteq> None \<and> pg u \<noteq> None"

lemma pool_config_new_url:
  assumes "url_accepted pg u0" "url_accepted pg u"
  shows "pool_config_new pg u = map_sum id (\<lambda>c. c\<lparr>dp_url := u\<rparr>) (pool_config_new pg u0)"
  using assms by (auto simp: pool_config_new_def url_accepted_def split: option.splits)

lemma pool_config_from_env_url:
  assumes "env_var E ''DATABASE_URL'' = Some u0" "url_accepted pg u0" "url_accepted pg u"
  shows "pool_config_from_env pg (E(''DATABASE_URL'' \<mapsto> Some u)) =
    map_sum id (\<lambda>c. c\<lparr>dp_url := u\<rparr>) (pool_config_from_env pg E)"
proof -
  let ?u = "\<lambda>c. c\<lparr>dp_url := u\<rparr>"
  have o: "override_bound (E(''DATABASE_URL'' \<mapsto> Some u)) n put (?u c) = map_sum id ?u (override_bound E n put c)"
    if "n \<noteq> ''DATABASE_URL''" "\<And>v c. put v (?u c) = map_sum id ?u (put v c)" for n put c
    using that by (simp add: override_bound_def map_sum_and_then split: option.splits)
  have swap: "c\<lparr>dp_url := u, dp_acquire_timeout := t\<rparr> = c\<lparr>dp_acquire_timeout := t, dp_url := u\<rparr>"
    "c\<lparr>dp_url := u, dp_statement_timeout := t\<rparr> = c\<lparr>dp_statement_timeout := t, dp_url := u\<rparr>"
    "c\<lparr>dp_url := u, dp_max_connections := t\<rparr> = c\<lparr>dp_max_connections := t, dp_url := u\<rparr>" for c t
    by (cases c; simp)+
  have o1: "override_bound (E(''DATABASE_URL'' \<mapsto> Some u)) ''OPMUX_DB_MAX_CONNECTIONS'' with_max_connections (?u c)
      = map_sum id ?u (override_bound E ''OPMUX_DB_MAX_CONNECTIONS'' with_max_connections c)" for c
    by (rule o) (simp_all add: with_max_connections_def swap)
  have o2: "override_bound (E(''DATABASE_URL'' \<mapsto> Some u)) ''OPMUX_DB_ACQUIRE_TIMEOUT_MS''
      (\<lambda>v c. and_then (bounded_timeout_ms v) (\<lambda>t. Ok (c\<lparr>dp_acquire_timeout := t\<rparr>))) (?u c)
      = map_sum id ?u (override_bound E ''OPMUX_DB_ACQUIRE_TIMEOUT_MS''
          (\<lambda>v c. and_then (bounded_timeout_ms v) (\<lambda>t. Ok (c\<lparr>dp_acquire_timeout := t\<rparr>))) c)" for c
    by (rule o) (simp_all add: map_sum_and_then swap)
  have o3: "override_bound (E(''DATABASE_URL'' \<mapsto> Some u)) ''OPMUX_DB_STATEMENT_TIMEOUT_MS''
      (\<lambda>v c. and_then (bounded_timeout_ms v) (\<lambda>t. Ok (c\<lparr>dp_statement_timeout := t\<rparr>))) (?u c)
      = map_sum id ?u (override_bound E ''OPMUX_DB_STATEMENT_TIMEOUT_MS''
          (\<lambda>v c. and_then (bounded_timeout_ms v) (\<lambda>t. Ok (c\<lparr>dp_statement_timeout := t\<rparr>))) c)" for c
    by (rule o) (simp_all add: map_sum_and_then swap)
  have e: "env_var (E(''DATABASE_URL'' \<mapsto> Some u)) ''DATABASE_URL'' = Some u" by (simp add: env_var_def)
  show ?thesis
    by (simp add: pool_config_from_env_def e assms(1) pool_config_new_url [OF assms(2,3)] map_sum_and_then
        and_then_map_sum o1 o2 o3)
qed

lemma pool_config_url:
  assumes "pool_config_from_env pg E = Ok c" shows "env_var E ''DATABASE_URL'' = Some (dp_url c)"
proof -
  have o: "dp_url c' = dp_url c" if "override_bound E n put c = Ok c'" "\<And>v c c'. put v c = Ok c' \<Longrightarrow> dp_url c' = dp_url c" for n put c c'
    using that by (auto simp: override_bound_def and_then_Inr_iff split: option.splits)
  from assms obtain url c1 c2 c3 where u: "env_var E ''DATABASE_URL'' = Some url" "pool_config_new pg url = Ok c1"
    and s: "override_bound E ''OPMUX_DB_MAX_CONNECTIONS'' with_max_connections c1 = Ok c2"
      "override_bound E ''OPMUX_DB_ACQUIRE_TIMEOUT_MS''
         (\<lambda>v c. and_then (bounded_timeout_ms v) (\<lambda>t. Ok (c\<lparr>dp_acquire_timeout := t\<rparr>))) c2 = Ok c3"
      "override_bound E ''OPMUX_DB_STATEMENT_TIMEOUT_MS''
         (\<lambda>v c. and_then (bounded_timeout_ms v) (\<lambda>t. Ok (c\<lparr>dp_statement_timeout := t\<rparr>))) c3 = Ok c"
    by (auto simp: pool_config_from_env_def and_then_Inr_iff ok_or_def split: option.splits)
  have "dp_url c1 = url" using u(2) by (auto simp: pool_config_new_def split: option.splits if_splits)
  moreover have "dp_url c2 = dp_url c1" by (rule o [OF s(1)]) (auto simp: with_max_connections_def split: if_splits)
  moreover have "dp_url c3 = dp_url c2" by (rule o [OF s(2)]) (auto simp: and_then_Inr_iff)
  moreover have "dp_url c = dp_url c3" by (rule o [OF s(3)]) (auto simp: and_then_Inr_iff)
  ultimately show ?thesis using u(1) by simp
qed

lemma startup_log_url:
  assumes "env_var E ''DATABASE_URL'' = Some u0" "url_accepted (pr_pg_parse P) u0" "url_accepted (pr_pg_parse P) u"
  shows "startup_log sh v P (E(''DATABASE_URL'' \<mapsto> Some u)) now = startup_log sh v P E now"
proof -
  let ?E = "E(''DATABASE_URL'' \<mapsto> Some u)"
  have r: "runtime_role_from_env ?E = runtime_role_from_env E" "metrics_from_env ?E = metrics_from_env E"
    by (simp_all add: runtime_role_from_env_def metrics_from_env_def env_var_def)
  show ?thesis
  proof (cases "pool_config_from_env (pr_pg_parse P) E")
    case (Inl e)
    then show ?thesis
      by (simp add: startup_log_def load_with_database_url pool_config_from_env_url [OF assms] split: sum.splits)
  next
    case (Inr c)
    have "dp_url c = u0" using pool_config_url [OF Inr] assms(1) by simp
    then have c: "(\<exists>e. connect_lazy_with_role (pr_pg_parse P) role (c\<lparr>dp_url := u\<rparr>) = Inl e)
        \<longleftrightarrow> (\<exists>e. connect_lazy_with_role (pr_pg_parse P) role c = Inl e)" for role
      using assms by (auto simp: connect_lazy_with_role_def connect_lazy_with_startup_sql_def pool_options_of_def
          url_accepted_def validate_role_name_def)
    show ?thesis
    proof (cases "runtime_role_from_env E")
      case (Inl e)
      then show ?thesis
        by (simp add: startup_log_def load_with_database_url pool_config_from_env_url [OF assms] Inr r split: sum.splits)
    next
      case role: (Inr role)
      show ?thesis
        using c [of role]
        by (cases "connect_lazy_with_role (pr_pg_parse P) role c";
            cases "connect_lazy_with_role (pr_pg_parse P) role (c\<lparr>dp_url := u\<rparr>)")
          (simp_all add: startup_log_def load_with_database_url pool_config_from_env_url [OF assms] Inr r role Let_def
            assembled_eq split: sum.splits)
    qed
  qed
qed

section \<open>Properties\<close>

text \<open>
  C6. The provider credential is confined. Take a process that started, and the same process started with
  another key that is not blank and that is a legal header value exactly when the first key is one (the
  library refuses to build a request with any other key, so the traffic would tell the two apart): it starts
  as well, and whatever request comes in, with whatever timing, database and provider behaviour, the response
  is the same, and so is the state that is left (the store, the limiter, the circuits, the metrics, the
  caches), except for the authorization header of the requests sent to the provider.
\<close>

theorem provider_key_is_confined:
  assumes "gateway_start P E now = Ok (ap, listener, grace)"
    and "env_var E ''OPENAI_API_KEY'' = Some k0" "\<not> is_blank k"
    and "lib_header_value_ok (pr_executor P) (''Bearer '' @ k) = lib_header_value_ok (pr_executor P) (''Bearer '' @ k0)"
  shows "gateway_start P (E(''OPENAI_API_KEY'' \<mapsto> Some k)) now = Ok (rekey_application k ap, listener, grace)
    \<and> fst (production_router (rekey_application k ap) (reauth_run k rn) req (reauth_state k st))
        = fst (production_router ap rn req st)
    \<and> snd (production_router (rekey_application k ap) (reauth_run k rn) req (reauth_state k st))
        = reauth_state k (snd (production_router ap rn req st))"
proof -
  obtain settings where st: "load_with (pr_config P) (env_var E) = Ok settings"
    using assms(1) by (elim gateway_start_Ok)
  have "\<not> is_blank k0" using loaded_key_is_not_blank [OF st] loaded_key [OF st] assms(2) by simp
  from gateway_start_rekey [OF assms(2) this assms(3), of P now] assms(1)
    production_router_rekey [OF started_same_sendable [OF assms(1,2,4)]]
  show ?thesis by simp
qed

theorem provider_key_is_confined_witness:
  "\<exists>ap listener grace. gateway_start demo_process demo_os_env 0 = Ok (ap, listener, grace)
     \<and> gateway_start demo_process (demo_os_env(''OPENAI_API_KEY'' \<mapsto> Some ''t1'')) 0
         = Ok (rekey_application ''t1'' ap, listener, grace)
     \<and> (\<forall>rn req st. fst (production_router (rekey_application ''t1'' ap) (reauth_run ''t1'' rn) req (reauth_state ''t1'' st))
           = fst (production_router ap rn req st))"
proof -
  obtain ap listener grace where s: "gateway_start demo_process demo_os_env 0 = Ok (ap, listener, grace)"
    using demo_process_starts by (cases "gateway_start demo_process demo_os_env 0") auto
  have key: "\<not> is_blank ''t1''" by (simp add: is_blank_def demo_trims)
  have "env_var demo_os_env ''OPENAI_API_KEY'' = Some ''k''" by (simp add: demo_os_env_var demo_env_def)
  moreover have "lib_header_value_ok (pr_executor demo_process) (''Bearer '' @ ''t1'')
      = lib_header_value_ok (pr_executor demo_process) (''Bearer '' @ ''k'')"
    by (simp add: demo_process_def demo_service_def demo_libs_def demo_header_value_ok_def)
  ultimately show ?thesis using provider_key_is_confined [OF s _ key] s by blast
qed

text \<open>
  C17. The log of start-up shows neither secret. Whatever the rest of the environment, the lines \<open>main\<close> logs,
  from its first to the one before it serves or to the error that stops it, are the same for every provider
  key that is not blank and for every connection string the driver accepts.
\<close>

theorem startup_log_hides_secrets:
  assumes "env_var E ''OPENAI_API_KEY'' = Some k0" "\<not> is_blank k0" "\<not> is_blank k"
    and "env_var E ''DATABASE_URL'' = Some u0" "url_accepted (pr_pg_parse P) u0" "url_accepted (pr_pg_parse P) u"
  shows "startup_log sh v P (E(''OPENAI_API_KEY'' \<mapsto> Some k, ''DATABASE_URL'' \<mapsto> Some u)) now = startup_log sh v P E now"
proof -
  let ?E = "E(''OPENAI_API_KEY'' \<mapsto> Some k)"
  have "env_var ?E ''DATABASE_URL'' = Some u0" using assms(4) by (simp add: env_var_def)
  from startup_log_url [OF this assms(5,6)] startup_log_rekey [OF assms(1-3)] show ?thesis by simp
qed

theorem startup_log_hides_secrets_witness:
  "startup_log (\<lambda>a. a) ''1'' demo_process
     (demo_os_env(''OPENAI_API_KEY'' \<mapsto> Some ''t1'', ''DATABASE_URL'' \<mapsto> Some ''m1'')) 0
   = startup_log (\<lambda>a. a) ''1'' demo_process demo_os_env 0"
  by (rule startup_log_hides_secrets [where ?k0.0 = "''k''" and ?u0.0 = "''d''"])
     (simp_all add: demo_os_env_var demo_env_def is_blank_def demo_trims url_accepted_def demo_process_def)

end
