(* ===== verification/Fixtures.thy ===== *)
theory Fixtures
  imports Legacy_Config Config_Properties Executor_Lemmas
begin

text \<open>
  The values the crate offers to its own tests, and the remaining legacy authentication code: the dummy settings of
  \<open>core/config/load.rs\<close> and \<open>provider.rs\<close>, the dummy vendor configuration of \<open>features/executor/config.rs\<close>, the
  former public keys of \<open>features/auth/mockdata.rs\<close> behind \<open>repository.rs\<close>, the deprecated struct of
  \<open>features/auth/config.rs\<close>, what \<open>ExecutorConfig::validate\<close> and \<open>Config::validate\<close> log, the defaults of
  \<open>core/config/process.rs\<close>, and the hooks of the executor's tests. The facts are that the dummy settings satisfy
  every invariant of loaded ones, and that no former public key is a credential the gateway can parse. A panic
  of the code (\<open>expect\<close>) is \<open>None\<close>.
\<close>

section \<open>Dummy settings\<close>

definition dummy_local :: provider_settings where
  "dummy_local = \<lparr>ps_api_key = ''test-dummy-openai-key'', ps_base_url = ''http://127.0.0.1:9/v1''\<rparr>"

definition catalog_for_tests :: catalog where
  "catalog_for_tests =
     \<lparr>cat_version = 1, cat_default_route = ''default'',
      cat_targets =
        [(''primary'', \<lparr>tg_vendor = Openai, tg_model = ''example-chat-model'', tg_max_output_tokens = 512,
            tg_pricing = \<lparr>tp_input_per_million = Fin 1, tp_output_per_million = Fin 2\<rparr>\<rparr>),
         (''secondary'', \<lparr>tg_vendor = Openai, tg_model = ''example-chat-model-mini'', tg_max_output_tokens = 256,
            tg_pricing = \<lparr>tp_input_per_million = Fin (1 / 4), tp_output_per_million = Fin (1 / 2)\<rparr>\<rparr>)],
      cat_routes =
        [(''default'', \<lparr>ro_primary = ''primary'', ro_fallbacks = []\<rparr>),
         (''fast'', \<lparr>ro_primary = ''secondary'', ro_fallbacks = []\<rparr>)]\<rparr>"

definition settings_for_tests :: "(string \<rightharpoonup> 'addr) \<Rightarrow> 'addr settings option" where
  "settings_for_tests parse_socket =
     (case parse_socket ''127.0.0.1:3000'' of
        None \<Rightarrow> None
      | Some addr \<Rightarrow>
          (case documented_defaults of
             Inl _ \<Rightarrow> None
           | Inr limits \<Rightarrow> Some
               \<lparr>st_server = \<lparr>sc_bind_address = addr, sc_shutdown_timeout_secs = 30\<rparr>,
                st_auth = auth_config_default, st_catalog = catalog_for_tests, st_limits = limits,
                st_provider = dummy_local, st_catalog_path = ''test://catalog''\<rparr>))"

definition settings_for_tests_with_provider ::
    "(string \<rightharpoonup> 'addr) \<Rightarrow> (string \<rightharpoonup> url) \<Rightarrow> string \<Rightarrow> string \<Rightarrow> 'addr settings option" where
  "settings_for_tests_with_provider parse_socket parse_url base_url api_key =
     Option.bind (settings_for_tests parse_socket) (\<lambda>s.
       (case validate_provider_url parse_url base_url of
          Inl _ \<Rightarrow> None
        | Inr u \<Rightarrow> Some (s\<lparr>st_provider := \<lparr>ps_api_key = api_key,
                                          ps_base_url = trim_end_slashes (u_as_str u)\<rparr>\<rparr>)))"

section \<open>The executor's configuration\<close>

definition openai_for_tests :: openai_config where
  "openai_for_tests =
     \<lparr>oc_api_key = ''test-dummy-openai-key'', oc_base_url = ''http://127.0.0.1:9/v1'', oc_timeout_ms = 200,
      oc_supported_models = [''example-chat-model'', ''example-chat-model-mini'', ''gpt-4'', ''gpt-4-turbo'', ''gpt-3.5-turbo''],
      oc_pricing =
        [''primary'' \<mapsto> model_pricing_new (Fin 1) (Fin 2), ''secondary'' \<mapsto> model_pricing_new (Fin (1 / 4)) (Fin (1 / 2)),
         ''example-chat-model'' \<mapsto> model_pricing_new (Fin 1) (Fin 2),
         ''example-chat-model-mini'' \<mapsto> model_pricing_new (Fin (1 / 4)) (Fin (1 / 2)),
         ''gpt-4'' \<mapsto> model_pricing_new (Fin 1) (Fin 2), ''gpt-4-turbo'' \<mapsto> model_pricing_new (Fin 1) (Fin 2),
         ''gpt-3.5-turbo'' \<mapsto> model_pricing_new (Fin 1) (Fin 2)],
      oc_max_response_bytes = lb_default b_max_upstream_response_bytes\<rparr>"

text \<open>
  \<open>validate\<close> returns nothing and logs what it finds. The key of the vendor that does not exist yet is not part of the
  record and is the first argument.
\<close>

datatype config_note =
    NoVendorKeys | OpenaiInvalid string | OpenaiModels nat
  | AnthropicEmpty | AnthropicConfigured
  | ExecutorTimeout nat | ExecutorRetries nat | ExecutorAttempts nat | ExecutorBackoff nat

definition executor_config_validate :: "string option \<Rightarrow> executor_config \<Rightarrow> config_note list" where
  "executor_config_validate anthropic c =
     (if xc_openai c = None \<and> anthropic = None then [NoVendorKeys] else [])
     @ (case xc_openai c of
          None \<Rightarrow> []
        | Some oc \<Rightarrow> [case openai_validate oc of
                       Inl e \<Rightarrow> OpenaiInvalid e
                     | Inr _ \<Rightarrow> OpenaiModels (length (oc_supported_models oc))])
     @ (case anthropic of
          None \<Rightarrow> []
        | Some key \<Rightarrow> [if key = [] then AnthropicEmpty else AnthropicConfigured])
     @ [ExecutorTimeout (xc_timeout_ms c), ExecutorRetries (xc_max_retries c),
        ExecutorAttempts (xc_max_total_attempts c), ExecutorBackoff (xc_backoff_cap_ms c)]"

section \<open>The deprecated authentication configuration\<close>

record legacy_auth_config =
  la_development_mode :: bool
  la_dev_client_id :: string
  la_slow_operation_threshold_ms :: nat

definition legacy_auth_default :: legacy_auth_config where
  "legacy_auth_default = \<lparr>la_development_mode = False, la_dev_client_id = ''dev-client-123'',
     la_slow_operation_threshold_ms = 10\<rparr>"

definition legacy_auth_from_env :: "os_env \<Rightarrow> legacy_auth_config" where
  "legacy_auth_from_env E =
     \<lparr>la_development_mode = env_parsed E parse_bool ''AUTH_DEVELOPMENT_MODE'' False,
      la_dev_client_id = env_text E ''AUTH_DEV_CLIENT_ID'' ''dev-client-123'',
      la_slow_operation_threshold_ms = env_parsed E parse_rust_u64 ''AUTH_SLOW_THRESHOLD_MS'' 10\<rparr>"

definition is_development_mode :: "legacy_auth_config \<Rightarrow> bool" where
  "is_development_mode c = la_development_mode c"

definition get_dev_client_id :: "legacy_auth_config \<Rightarrow> string" where
  "get_dev_client_id c = la_dev_client_id c"

definition get_slow_threshold_ms :: "legacy_auth_config \<Rightarrow> nat" where
  "get_slow_threshold_ms c = la_slow_operation_threshold_ms c"

text \<open>Whether the line that development mode has no effect is logged.\<close>

definition legacy_auth_warns :: "legacy_auth_config \<Rightarrow> bool" where
  "legacy_auth_warns c \<longleftrightarrow> la_development_mode c"

section \<open>Defaults of the global configuration, and the client without a URL\<close>

definition server_config_default :: "(string \<rightharpoonup> 'addr) \<Rightarrow> 'addr server_config option" where
  "server_config_default parse_socket =
     map_option (\<lambda>addr. \<lparr>sc_bind_address = addr, sc_shutdown_timeout_secs = 30\<rparr>) (parse_socket ''0.0.0.0:3000'')"

definition global_config_default :: "(string \<rightharpoonup> 'addr) \<Rightarrow> 'addr global_config option" where
  "global_config_default parse_socket =
     map_option (\<lambda>server. \<lparr>cg_server = server, cg_auth = auth_config_default, cg_logging = logging_config_default,
                           cg_services = service_config_default\<rparr>) (server_config_default parse_socket)"

definition build_bounded_http_client :: "'addr config_libs \<Rightarrow> nat \<Rightarrow> config_error + http_client" where
  "build_bounded_http_client L timeout = build_client L timeout False"

definition client_from_build_result :: "'e + http_client \<Rightarrow> config_error + http_client" where
  "client_from_build_result r = map_err (\<lambda>_. http_client_construction) r"

section \<open>The former public keys\<close>

record mock_api_key_info =
  mk_id :: string
  mk_client_id :: string
  mk_is_active :: bool

definition mock_api_keys :: "string \<rightharpoonup> mock_api_key_info" where
  "mock_api_keys =
     [''test-api-key-123'' \<mapsto> \<lparr>mk_id = ''key_001'', mk_client_id = ''test-client-456'', mk_is_active = True\<rparr>,
      ''dev-api-key-456'' \<mapsto> \<lparr>mk_id = ''key_002'', mk_client_id = ''dev-client-789'', mk_is_active = True\<rparr>]"

definition get_api_key_by_hash :: "string \<Rightarrow> mock_api_key_info option" where
  "get_api_key_by_hash key_hash = mock_api_keys key_hash"

definition mock_find_api_key_by_hash :: "string \<Rightarrow> mock_api_key_info option" where
  "mock_find_api_key_by_hash key_hash = get_api_key_by_hash key_hash"

section \<open>Hooks of the executor's tests\<close>

definition force_open :: "circuit_config \<Rightarrow> nat \<Rightarrow> string \<Rightarrow> registry \<Rightarrow> registry \<times> metric_event list" where
  "force_open cfg now t reg =
     (case set_open cfg t (entry_or_default reg t) now of (st, evs) \<Rightarrow> (reg(t \<mapsto> st), evs))"

definition force_close :: "string \<Rightarrow> registry \<Rightarrow> registry \<times> metric_event list" where
  "force_close t reg =
     (case close_circuit t (entry_or_default reg t) of (st, evs) \<Rightarrow> (reg(t \<mapsto> st), evs))"

definition execute_with_retry ::
    "service \<Rightarrow> route_plan \<Rightarrow> execution_params \<Rightarrow> request_deadline \<Rightarrow> world \<Rightarrow> call_result \<times> world" where
  "execute_with_retry sv plan params dl w =
     (let budget = budget_new (xc_max_total_attempts (sv_config sv))
      in case execute_attempts sv plan params dl budget (xc_max_retries (sv_config sv)) w of (r, _, w') \<Rightarrow> (r, w'))"

section \<open>What the global configuration logs\<close>

definition global_config_validate :: "('addr \<Rightarrow> string) \<Rightarrow> 'addr global_config \<Rightarrow> string list" where
  "global_config_validate show_addr c =
     [''Server will bind to: '' @ show_addr (sc_bind_address (cg_server c)),
      ''Shutdown timeout: '' @ show_nat (sc_shutdown_timeout_secs (cg_server c)) @ ''s'']
     @ (if ac_development_mode (cg_auth c)
        then [''AUTH_DEVELOPMENT_MODE has no effect; persisted authentication is required''] else [])
     @ [''Persisted authentication is required'',
        ''Log level: '' @ lg_level (cg_logging c),
        ''JSON format: '' @ (if lg_json_format (cg_logging c) then ''true'' else ''false''),
        ''Router service: '' @ sx_router_url (cg_services c),
        ''Memory service: '' @ sx_memory_url (cg_services c),
        ''Rewrite service: '' @ sx_rewrite_url (cg_services c),
        ''Validation service: '' @ sx_validation_url (cg_services c)]"

section \<open>Facts\<close>

lemmas trim_eval = str_trim_def trim_start_def trim_end_def trim_done ws_prefix_def code_of_def white_space_bytes_def

lemma dummy_identifiers:
  "ident ''primary''" "ident ''secondary''" "ident ''default''" "ident ''fast''" "ident ''example-chat-model''"
  "ident ''example-chat-model-mini''" "\<not> is_blank ''test-dummy-openai-key''"
  by (simp_all add: ident_def is_blank_def trim_eval)

lemma catalog_for_tests_wf: "catalog_wf catalog_for_tests"
  by (simp add: catalog_for_tests_def catalog_wf_def route_wf_def target_wf_def dummy_identifiers in_bound_def
      b_max_output_tokens_def)

text \<open>The dummy settings satisfy what \<open>load\<close> guarantees, so a test that starts from them starts from a loadable state.\<close>

lemma settings_for_tests_Some:
  "settings_for_tests ps = Some s \<longleftrightarrow>
     (\<exists>addr. ps ''127.0.0.1:3000'' = Some addr
        \<and> s = \<lparr>st_server = \<lparr>sc_bind_address = addr, sc_shutdown_timeout_secs = 30\<rparr>,
               st_auth = auth_config_default, st_catalog = catalog_for_tests, st_limits = demo_limits,
               st_provider = dummy_local, st_catalog_path = ''test://catalog''\<rparr>)"
  by (auto simp: settings_for_tests_def documented_defaults_are split: option.splits)

lemma settings_for_tests_wf: "settings_for_tests ps = Some s \<Longrightarrow> settings_wf s"
  using limits_from_raw_in_range [of None demo_limits] documented_defaults_are
  by (auto simp: settings_for_tests_Some settings_wf_def catalog_for_tests_wf documented_defaults_def dummy_local_def
      dummy_identifiers in_bound_def b_shutdown_timeout_secs_def) (simp add: catalog_for_tests_def)

lemma settings_for_tests_with_provider_wf:
  assumes "settings_for_tests_with_provider ps pu url key = Some s" "\<not> is_blank key"
  shows "settings_wf s"
proof -
  obtain t p where t: "settings_for_tests ps = Some t" and s: "s = t\<lparr>st_provider := p\<rparr>" "ps_api_key p = key"
    using assms(1) by (cases "validate_provider_url pu url")
      (auto simp: settings_for_tests_with_provider_def bind_eq_Some_conv)
  show ?thesis using settings_for_tests_wf [OF t] assms(2) by (simp add: s settings_wf_def)
qed

text \<open>No former public key is a credential: the gateway refuses it before any lookup.\<close>

lemma mock_keys_are_no_credentials:
  "mock_find_api_key_by_hash key \<noteq> None \<Longrightarrow> parse_credential_payload C key = None"
  by (auto simp: mock_find_api_key_by_hash_def get_api_key_by_hash_def mock_api_keys_def parse_credential_payload_def
      strip_prefix_def split: if_splits)

text \<open>The deprecated reader and the reader of the settings take the same values from the same variables.\<close>

lemma legacy_auth_agrees:
  "legacy_auth_from_env E = (let a = auth_from_env E in
     \<lparr>la_development_mode = ac_development_mode a, la_dev_client_id = ac_dev_client_id a,
      la_slow_operation_threshold_ms = ac_slow_operation_threshold_ms a\<rparr>)"
  by (simp add: legacy_auth_from_env_def auth_from_env_def Let_def)

text \<open>The start-up notes always end with the four numbers; only a configuration without any vendor is warned about as such.\<close>

lemma no_vendor_note_iff:
  "NoVendorKeys \<in> set (executor_config_validate a c) \<longleftrightarrow> xc_openai c = None \<and> a = None"
  by (cases "xc_openai c"; cases a; cases "openai_validate (the (xc_openai c))")
    (simp_all add: executor_config_validate_def)

text \<open>The default of the global configuration is what an empty environment gives.\<close>

lemma global_default_is_empty_environment:
  "global_from_env parse_socket lower (\<lambda>_. None) = global_config_default parse_socket"
  by (simp add: global_from_env_def global_config_default_def server_from_env_def server_config_default_def env_parsed_def
      env_text_def env_var_def empty_environment_gives_defaults show_3000 option.map_comp comp_def Let_def)

text \<open>A client is built through the sanitizing conversion, whatever the builder reports.\<close>

lemma build_client_sanitizes:
  "0 < timeout \<Longrightarrow> build_client L timeout np
     = client_from_build_result (if cl_client_builds L timeout np then Inr \<lparr>hc_timeout = timeout, hc_no_proxy = np\<rparr>
                                 else Inl (e :: 'e))"
  by (simp add: build_client_def client_from_build_result_def)

text \<open>The hooks decide whether a target is usable, and a forced circuit is one the breaker itself could be in: opened
  now, it refuses until the cooldown ends.\<close>

lemma forced_targets:
  "force_open cfg now t reg = (reg', evs) \<Longrightarrow> target_is_usable reg' t' = (t' \<noteq> t \<and> target_is_usable reg t')"
  "force_close t reg = (reg', evs) \<Longrightarrow> target_is_usable reg' t' = (t' = t \<or> target_is_usable reg t')"
  by (cases "t' = t"; simp add: force_open_def set_open_def force_close_def close_circuit_def target_is_usable_def;
      force)+

lemma forced_open_refuses:
  assumes "force_open cfg now t reg = (reg', evs)" "later < now + cooldown cfg"
  shows "fst (admit cfg later later' t reg') \<in> range Reject"
  using assms by (auto simp: force_open_def set_open_def admit_def entry_or_default_def Let_def)

text \<open>A hop that is executed without the circuit spends one fresh budget.\<close>

lemma execute_with_retry_spends:
  assumes "xc_max_total_attempts (sv_config sv) \<le> u32_max" "execute_with_retry sv plan params dl w = (r, w')"
  shows "\<exists>b'. spends dl (target_id plan) (model_id plan) (Suc (xc_max_retries (sv_config sv)))
           (budget_new (xc_max_total_attempts (sv_config sv))) w b' w'"
  using assms execute_attempts_spends [OF budget_new_wf [OF assms(1)]]
  by (fastforce simp: execute_with_retry_def Let_def split: prod.splits)

end
