(* ===== verification/Observability.thy ===== *)
theory Observability
  imports App Fixtures
begin

text \<open>
  What \<open>core/metrics/\<close> and \<open>core/tracing.rs\<close> hand to their libraries when the process starts: the families of
  execution metrics, the HTTP metrics layer and the recorder behind it, and the subscriber's filter and format. The
  recorder and the prefix are static cells of the process, so \<open>create_metrics\<close> is a step on their state; it may run
  any number of times, and the lemmas say that the recorder is installed once and the prefix given out once. The
  selectors of the recording sink that only tests use are here too.
\<close>

section \<open>Families of execution metrics\<close>

datatype metric_kind = CounterFamily | GaugeFamily

definition describe_execution_metrics :: "(metric_kind \<times> string \<times> string) list" where
  "describe_execution_metrics =
     [(CounterFamily, ''gateway_execution_attempts_total'',
         ''Started provider attempts by configured target and bounded outcome class.''),
      (CounterFamily, ''gateway_execution_retries_total'',
         ''Retry provider calls after a prior attempt on the same target.''),
      (CounterFamily, ''gateway_execution_fallbacks_total'',
         ''Fallback hops from one configured target to a later configured target.''),
      (CounterFamily, ''gateway_circuit_transitions_total'',
         ''Target circuit transitions by destination phase.''),
      (GaugeFamily, ''gateway_circuit_state'',
         ''Current target circuit phase (0 closed, 1 half-open, 2 open).''),
      (CounterFamily, ''gateway_deadline_exceeded_total'',
         ''Protected-request overall deadline expirations.''),
      (CounterFamily, ''gateway_overload_rejected_total'',
         ''Local generation admission rejections. Distinct from provider throttling.''),
      (CounterFamily, ''gateway_successful_prompt_tokens_total'',
         ''Validated prompt tokens from successful responses only.''),
      (CounterFamily, ''gateway_successful_completion_tokens_total'',
         ''Validated completion tokens from successful responses only.'')]"

text \<open>The series the Prometheus sink writes for an event: the family, its kind, and the labels.\<close>

fun series_of :: "metric_event \<Rightarrow> (metric_kind \<times> string \<times> (string \<times> string) list) list" where
  "series_of (MAttempt t out) =
     [(CounterFamily, ''gateway_execution_attempts_total'', [(''outcome'', outcome_as_str out), (''target'', t)])]"
| "series_of (MRetry t) = [(CounterFamily, ''gateway_execution_retries_total'', [(''target'', t)])]"
| "series_of (MFallback a b) =
     [(CounterFamily, ''gateway_execution_fallbacks_total'', [(''from_target'', a), (''to_target'', b)])]"
| "series_of (MCircuitTransition t s) =
     [(CounterFamily, ''gateway_circuit_transitions_total'', [(''target'', t), (''to_state'', state_label_as_str s)])]"
| "series_of (MCircuitState t s) = [(GaugeFamily, ''gateway_circuit_state'', [(''target'', t)])]"
| "series_of MDeadlineExceeded = [(CounterFamily, ''gateway_deadline_exceeded_total'', [])]"
| "series_of MOverloadRejected = [(CounterFamily, ''gateway_overload_rejected_total'', [])]"
| "series_of (MUsage t p c) =
     [(CounterFamily, ''gateway_successful_prompt_tokens_total'', [(''target'', t)]),
      (CounterFamily, ''gateway_successful_completion_tokens_total'', [(''target'', t)])]"

text \<open>Every series belongs to a described family of its kind, and the descriptions name each family once.\<close>

lemma series_are_described:
  "list_all (\<lambda>(k, name, labels). (k, name) \<in> set (map (\<lambda>(k, name, help). (k, name)) describe_execution_metrics))
     (series_of e)"
  by (cases e) (simp_all add: describe_execution_metrics_def)

lemma families_are_described_once: "distinct (map (\<lambda>(k, name, help). name) describe_execution_metrics)"
  by code_simp

fun circuit_transitions_of :: "metric_event list \<Rightarrow> (string \<times> circuit_state_label) list" where
  "circuit_transitions_of [] = []"
| "circuit_transitions_of (MCircuitTransition t s # es) = (t, s) # circuit_transitions_of es"
| "circuit_transitions_of (_ # es) = circuit_transitions_of es"

fun usage_of :: "metric_event list \<Rightarrow> (string \<times> int \<times> int) list" where
  "usage_of [] = []"
| "usage_of (MUsage t p c # es) = (t, p, c) # usage_of es"
| "usage_of (_ # es) = usage_of es"

definition deadline_count :: "metric_event list \<Rightarrow> nat" where
  "deadline_count es = length (filter (\<lambda>e. e = MDeadlineExceeded) es)"

text \<open>What the selectors of the recording sink count is what the Prometheus sink totals.\<close>

lemma prometheus_view_snoc: "prometheus_view (es @ [e]) = prometheus_record (prometheus_view es) e"
  by (simp add: prometheus_view_def)

lemma deadline_total_is_count: "deadline_total (prometheus_view es) = deadline_count es"
proof (induction es rule: rev_induct)
  case Nil
  show ?case by (simp add: prometheus_view_def prometheus_empty_def deadline_count_def)
next
  case (snoc e es)
  then show ?case by (cases e) (simp_all add: prometheus_view_snoc deadline_count_def)
qed

lemma circuit_transitions_of_append [simp]:
  "circuit_transitions_of (a @ b) = circuit_transitions_of a @ circuit_transitions_of b"
  by (induction a rule: circuit_transitions_of.induct) auto

lemma usage_of_append [simp]: "usage_of (a @ b) = usage_of a @ usage_of b"
  by (induction a rule: usage_of.induct) auto

lemma transitions_total_is_count:
  "transitions_total (prometheus_view es) (t, state_label_as_str s)
     = length (filter (\<lambda>x. x = (t, s)) (circuit_transitions_of es))"
proof (induction es rule: rev_induct)
  case Nil
  show ?case by (simp add: prometheus_view_def prometheus_empty_def)
next
  case (snoc e es)
  have "state_label_as_str a = state_label_as_str b \<longleftrightarrow> a = b" for a b by (cases a; cases b) simp_all
  with snoc show ?case by (cases e) (auto simp: prometheus_view_snoc bump_def)
qed

lemma tokens_total_are_sums:
  "prompt_tokens_total (prometheus_view es) t = (\<Sum>(t', p, c) \<leftarrow> usage_of es. if t' = t then nat p else 0)"
  "completion_tokens_total (prometheus_view es) t = (\<Sum>(t', p, c) \<leftarrow> usage_of es. if t' = t then nat c else 0)"
proof (induction es rule: rev_induct)
  case Nil
  { case 1 show ?case by (simp add: prometheus_view_def prometheus_empty_def) }
  { case 2 show ?case by (simp add: prometheus_view_def prometheus_empty_def) }
next
  case (snoc e es)
  have m: "nat (max x 0) = nat x" for x :: int by (simp add: max_def)
  { case 1 from snoc.IH show ?case by (cases e) (auto simp: prometheus_view_snoc bump_def m) }
  { case 2 from snoc.IH show ?case by (cases e) (auto simp: prometheus_view_snoc bump_def m) }
qed

section \<open>The HTTP metrics layer\<close>

text \<open>The two static cells, and the layer as it is configured. A handle is the handle of the one recorder.\<close>

record metrics_cells =
  mx_recorders :: nat
  mx_prefix_set :: bool

definition metrics_cells_start :: metrics_cells where
  "metrics_cells_start = \<lparr>mx_recorders = 0, mx_prefix_set = False\<rparr>"

record metrics_layer =
  ml_ignore_pattern :: string
  ml_prefix :: "string option"
  ml_endpoint_label :: "string \<Rightarrow> string"

definition shared_prometheus_handle :: "metrics_cells \<Rightarrow> metrics_cells" where
  "shared_prometheus_handle m =
     (if mx_recorders m = 0 then m\<lparr>mx_recorders := mx_recorders m + 1\<rparr> else m)"

definition create_metrics :: "metrics_config \<Rightarrow> metrics_cells \<Rightarrow> metrics_layer option \<times> metrics_cells" where
  "create_metrics config m =
     (if \<not> mc_enabled config then (None, m)
      else
        (let prefix = (if mx_prefix_set m then None else Some ''gateway'');
             m' = shared_prometheus_handle (m\<lparr>mx_prefix_set := True\<rparr>)
         in (Some \<lparr>ml_ignore_pattern = ''/metrics'', ml_prefix = prefix, ml_endpoint_label = bounded_http_endpoint\<rparr>, m')))"

fun create_all :: "metrics_config list \<Rightarrow> metrics_cells \<Rightarrow> metrics_layer option list \<times> metrics_cells" where
  "create_all [] m = ([], m)"
| "create_all (c # cs) m =
     (case create_metrics c m of (l, m1) \<Rightarrow> case create_all cs m1 of (ls, m2) \<Rightarrow> (l # ls, m2))"

fun gives_prefix :: "metrics_layer option \<Rightarrow> bool" where
  "gives_prefix None = False"
| "gives_prefix (Some l) = (ml_prefix l \<noteq> None)"

lemma created_later_has_no_prefix:
  "create_all cs m = (ls, m') \<Longrightarrow> mx_prefix_set m \<Longrightarrow> mx_recorders m = 1 \<Longrightarrow>
     mx_recorders m' = 1 \<and> list_all (\<lambda>l. \<not> gives_prefix l) ls"
proof (induction cs arbitrary: m ls)
  case (Cons c cs)
  obtain l m1 where c: "create_metrics c m = (l, m1)" by (cases "create_metrics c m")
  obtain ls' where ls: "create_all cs m1 = (ls', m')" "ls = l # ls'"
    using Cons.prems(1) c by (auto split: prod.splits)
  have "mx_prefix_set m1 \<and> mx_recorders m1 = 1 \<and> \<not> gives_prefix l"
    using c Cons.prems(2,3) by (auto simp: create_metrics_def shared_prometheus_handle_def Let_def split: if_splits)
  with Cons.IH [OF ls(1)] show ?case by (auto simp: ls(2))
qed simp

lemma one_recorder_one_prefix:
  assumes "create_all cs metrics_cells_start = (ls, m)"
  shows "mx_recorders m = (if list_ex mc_enabled cs then 1 else 0)"
    and "length (filter gives_prefix ls)
           = (if list_ex mc_enabled cs then 1 else 0)"
proof -
  have "mx_recorders m = (if list_ex mc_enabled cs then 1 else 0)
      \<and> length (filter gives_prefix ls) = (if list_ex mc_enabled cs then 1 else 0)"
    using assms
  proof (induction cs arbitrary: ls)
    case Nil
    then show ?case by (auto simp: metrics_cells_start_def)
  next
    case (Cons c cs)
    show ?case
    proof (cases "mc_enabled c")
      case False
      then show ?thesis using Cons by (auto simp: create_metrics_def split: prod.splits)
    next
      case True
      obtain ls' where ls: "create_all cs \<lparr>mx_recorders = 1, mx_prefix_set = True\<rparr> = (ls', m)"
          "ls = Some \<lparr>ml_ignore_pattern = ''/metrics'', ml_prefix = Some ''gateway'',
                       ml_endpoint_label = bounded_http_endpoint\<rparr> # ls'"
        using Cons.prems True
        by (auto simp: create_metrics_def shared_prometheus_handle_def metrics_cells_start_def Let_def split: prod.splits)
      note later = created_later_has_no_prefix [OF ls(1)]
      then have "filter gives_prefix ls' = []" by (simp add: filter_empty_conv list_all_iff)
      with later True show ?thesis by (simp add: ls(2))
    qed
  qed
  then show "mx_recorders m = (if list_ex mc_enabled cs then 1 else 0)"
    and "length (filter gives_prefix ls) = (if list_ex mc_enabled cs then 1 else 0)" by simp_all
qed

section \<open>The subscriber\<close>

text \<open>
  \<open>try_parse\<close> is the strict parser of a filter, \<open>lossy\<close> the one of \<open>EnvFilter::new\<close>, which drops the directives
  it cannot read.
\<close>

record 'f subscriber =
  sb_filter :: 'f
  sb_json :: bool
  sb_target :: bool
  sb_line_number :: bool
  sb_thread_ids :: bool

definition init_tracing ::
    "(string \<Rightarrow> 'f option) \<Rightarrow> (string \<Rightarrow> 'f) \<Rightarrow> os_env \<Rightarrow> tracing_config \<Rightarrow> 'f subscriber" where
  "init_tracing try_parse lossy E config =
     \<lparr>sb_filter = (case Option.bind (env_var E ''RUST_LOG'') try_parse of
                     Some f \<Rightarrow> f | None \<Rightarrow> lossy (tc_env_filter config)),
      sb_json = (tc_format config = LogJson), sb_target = tc_with_target config,
      sb_line_number = tc_with_line_number config, sb_thread_ids = tc_with_thread_ids config\<rparr>"

text \<open>With the configuration of the environment, a filter that parses in both ways is the one in effect.\<close>

lemma environment_filter_in_effect:
  assumes "\<And>s f. try_parse s = Some f \<Longrightarrow> lossy s = f"
  shows "sb_filter (init_tracing try_parse lossy E (tracing_from_env lower E))
           = lossy (tc_env_filter (tracing_from_env lower E))"
  using assms by (auto simp: init_tracing_def tracing_from_env_def Let_def split: option.splits)

section \<open>Log records of a request\<close>

text \<open>The record of a failed response, and whether the ingress warns of a slow request.\<close>

datatype log_level = LevelError | LevelDebug

record log_record =
  lr_level :: log_level
  lr_error_code :: string
  lr_status :: nat
  lr_request_id :: string
  lr_client_correlation_id :: "string option"
  lr_message :: string

definition log_boundary :: "request_context option \<Rightarrow> nat \<Rightarrow> error_code \<Rightarrow> string \<Rightarrow> log_record" where
  "log_boundary ctx status code request =
     (let server_error = 500 \<le> status \<and> status < 600
      in \<lparr>lr_level = (if server_error then LevelError else LevelDebug), lr_error_code = code_as_str code,
          lr_status = status, lr_request_id = request, lr_client_correlation_id = current_client_correlation_id ctx,
          lr_message = (if server_error then ''request failed'' else ''request rejected'')\<rparr>)"

text \<open>What \<open>error_response\<close> logs before it answers: the code, never the message of the error.\<close>

definition error_response_log :: "request_context option \<Rightarrow> error_code \<Rightarrow> log_record" where
  "error_response_log ctx code = log_boundary ctx (code_status code) code (current_request_id ctx)"

lemma logged_as_answered:
  "lr_status (error_response_log ctx code) = r_status (error_response ctx code message s :: 'a http_response)"
  "(lr_level (error_response_log ctx code) = LevelError) = (500 \<le> code_status code)"
  by (cases code; simp add: error_response_log_def log_boundary_def error_response_def Let_def)+

definition slow_request_threshold :: "os_env \<Rightarrow> nat" where
  "slow_request_threshold E = env_parsed E parse_rust_u64 ''INGRESS_SLOW_REQUEST_THRESHOLD_MS'' 1000"

definition slow_request_warned :: "os_env \<Rightarrow> ingress_response \<Rightarrow> bool" where
  "slow_request_warned E response = (slow_request_threshold E \<le> ir_processing_time_ms response)"

end
