(* ===== verification/Float_Eval.thy ===== *)
theory Float_Eval
  imports Rust_Float
begin

text \<open>
  Evaluating the executable binary64 of \<open>Rust_Float\<close> on concrete values: the exponent of a positive rational is
  determined by the two powers of two around it, and a rounding by the nearest multiple of the last place.
\<close>

lemma pow2_mono: "a \<le> b \<Longrightarrow> pow2 a \<le> pow2 b"
proof -
  assume ab: "a \<le> b"
  define c where "c = \<bar>a\<bar>"
  have "pow2 (a + c - c) * 2 ^ nat c = 2 ^ nat (a + c)" "pow2 (b + c - c) * 2 ^ nat c = 2 ^ nat (b + c)"
    using ab by (intro pow2_diff; simp add: c_def)+
  moreover have "(2::rat) ^ nat (a + c) \<le> 2 ^ nat (b + c)"
    using ab by (intro power_increasing) (auto simp: c_def)
  ultimately have "pow2 a * 2 ^ nat c \<le> pow2 b * 2 ^ nat c" by simp
  then show ?thesis by simp
qed

lemma exponent_of_upper:
  assumes "0 < x" shows "x < pow2 (exponent_of x + 1)"
proof -
  obtain n d where q: "quotient_of x = (n, d)" by force
  then have d: "0 < d" and x: "x = of_int n / of_int d"
    by (auto dest: quotient_of_denom_pos quotient_of_div)
  with assms have n: "0 < n" by (simp add: zero_less_divide_iff)
  define a where "a = bit_length n"
  define b where "b = bit_length d"
  have a: "0 < a" "n < 2 ^ nat a" using bit_length_bounds [OF n] by (simp_all add: a_def)
  have b: "0 < b" "2 ^ nat (b - 1) \<le> d" using bit_length_bounds [OF d] by (simp_all add: b_def)
  have "x < pow2 (a - b + 1)"
  proof -
    have p: "pow2 (a - (b - 1)) * 2 ^ nat (b - 1) = 2 ^ nat a" using a(1) b(1) by (intro pow2_diff) auto
    have "(of_int n :: rat) < of_int (2 ^ nat a)" using a(2) by (intro of_int_less_iff [THEN iffD2])
    also have "\<dots> = pow2 (a - b + 1) * 2 ^ nat (b - 1)" using p by (simp add: algebra_simps)
    also have "\<dots> \<le> pow2 (a - b + 1) * of_int d"
    proof (rule mult_left_mono)
      have "(of_int (2 ^ nat (b - 1)) :: rat) \<le> of_int d" using b(2) by (intro of_int_le_iff [THEN iffD2])
      then show "(2 :: rat) ^ nat (b - 1) \<le> of_int d" by simp
    qed (simp add: less_imp_le)
    finally show ?thesis using d by (simp add: x field_simps)
  qed
  then show ?thesis by (simp add: exponent_of_def q a_def b_def Let_def)
qed

lemma exponent_of_eq: "pow2 k \<le> x \<Longrightarrow> x < pow2 (k + 1) \<Longrightarrow> exponent_of x = k"
proof -
  assume k: "pow2 k \<le> x" "x < pow2 (k + 1)"
  then have x: "0 < x" using pow2_pos [of k] by linarith
  have "\<not> exponent_of x + 1 \<le> k" using pow2_mono [of "exponent_of x + 1" k] exponent_of_upper [OF x] k by linarith
  moreover have "\<not> k + 1 \<le> exponent_of x" using pow2_mono [of "k + 1" "exponent_of x"] exponent_of_le [OF x] k by linarith
  ultimately show ?thesis by simp
qed

lemma round_half_even_near: "\<bar>m - of_int n\<bar> < 1 / 2 \<Longrightarrow> round_half_even m = n"
proof -
  assume m: "\<bar>m - of_int n\<bar> < 1 / 2"
  show ?thesis
  proof (cases "of_int n \<le> m")
    case True
    then have "\<lfloor>m\<rfloor> = n" using m by (intro floor_unique) linarith+
    moreover have "m - of_int n < 1 / 2" using True m by linarith
    ultimately show ?thesis unfolding round_half_even_def Let_def by simp
  next
    case False
    then have "\<lfloor>m\<rfloor> = n - 1" using m False by (intro floor_unique) (simp_all add: abs_if split: if_splits)
    moreover have "1 / 2 < m - of_int (n - 1)" using False m by simp
    ultimately show ?thesis unfolding round_half_even_def Let_def by simp
  qed
qed

text \<open>Evaluating one rounding: the exponent of the last bit and the integer nearest to the scaled value.\<close>

lemma rnd_eval:
  assumes "pow2 (q + 52) \<le> x" "x < pow2 (q + 53)" "- 1074 \<le> q" "\<bar>x / pow2 q - of_int n\<bar> < 1 / 2"
    "of_int n * pow2 q < 2 ^ 1024"
  shows "rnd x = Fin (of_int n * pow2 q)"
proof -
  have x: "0 < x" using assms(1) pow2_pos [of "q + 52"] by linarith
  have "exponent_of x = q + 52" using assms(1,2) by (intro exponent_of_eq) (simp_all add: algebra_simps)
  then have "ulp_exponent x = q" using assms(3) by (simp add: ulp_exponent_def)
  then have "round_positive x = of_int n * pow2 q"
    using round_half_even_near [OF assms(4)] by (simp add: round_positive_def Let_def)
  with x assms(5) show ?thesis by (simp add: rnd_def Let_def)
qed

end
