(* ===== verification/Unit_Tests_Executor.thy ===== *)
theory Unit_Tests_Executor
  imports Fixtures Float_Eval
begin

text \<open>
  The unit tests of \<open>features/executor/\<close> and \<open>core/deadline.rs\<close> on the model. A test function of a \<open>tests\<close> module
  is a definition of its name that is true when every assertion holds and no \<open>expect\<close> or \<open>panic\<close> is reached, and one
  lemma per file states that the model passes them. What a test leaves to its environment stays an argument: the
  instant at which a paused clock starts, the JSON printer and parser, the iteration order of a hash map. The lemmas
  hold for every value of these, so they say more than one run of the tests does.
\<close>

lemmas duration_eval = from_secs_def from_millis_def as_millis_def duration_ms_def

lemmas sat_eval = sat_add_def sat_mul_def sat_pow_def

section \<open>Attempt budget and retry delays: \<open>budget.rs\<close>\<close>

definition attempt_budget_never_replenishes :: bool where
  "attempt_budget_never_replenishes =
     (let (ok1, b1) = try_start (budget_new 3); (ok2, b2) = try_start b1; (ok3, b3) = try_start b2;
          (ok4, b4) = try_start b3
      in ok1 \<and> ok2 \<and> ok3 \<and> \<not> ok4 \<and> started b4 = 3 \<and> budget_remaining b4 = 0)"

definition considering_a_target_does_not_consume_a_slot :: bool where
  "considering_a_target_does_not_consume_a_slot =
     (let budget = budget_new 2 in started budget = 0 \<and> budget_remaining budget = 2)"

definition full_jitter_uses_exponential_windows_capped_at_two_seconds :: bool where
  "full_jitter_uses_exponential_windows_capped_at_two_seconds =
     (let cap = 2000
      in fst (jittered_backoff_ms scripted_jitter 1 cap [0]) = 0
         \<and> fst (jittered_backoff_ms scripted_jitter 1 cap [250]) = 250
         \<and> fst (jittered_backoff_ms scripted_jitter 1 cap [1000]) = 1000
         \<and> fst (jittered_backoff_ms scripted_jitter 2 cap [2000]) = 2000
         \<and> fst (jittered_backoff_ms scripted_jitter 3 cap [2000]) = 2000)"

definition backoff_cap_does_not_shorten_provider_retry_after :: bool where
  "backoff_cap_does_not_shorten_provider_retry_after =
     (fst (plan_retry_delay scripted_jitter 1 (from_millis 2000) (Some (from_secs 5)) [2000])
        = Sleep (from_secs 5) True)"

definition missing_retry_after_uses_capped_jitter :: bool where
  "missing_retry_after_uses_capped_jitter =
     (fst (plan_retry_delay scripted_jitter 2 (from_millis 2000) None [1500]) = Sleep (from_millis 1500) False)"

definition delta_seconds_retry_after_parses :: "(string \<Rightarrow> int option) \<Rightarrow> bool" where
  "delta_seconds_retry_after_parses http_date =
     (let now = int (from_secs 10)
      in parse_retry_after http_date ''2'' now = Some (from_secs 2)
         \<and> parse_retry_after http_date ''0'' now = Some 0
         \<and> parse_retry_after http_date '' 120 '' now = Some (from_secs 120))"

text \<open>\<open>header\<close> and \<open>past\<close> are the dates the test prints for the two instants.\<close>

definition http_date_retry_after_uses_controlled_clock :: "(string \<Rightarrow> int option) \<Rightarrow> string \<Rightarrow> string \<Rightarrow> bool" where
  "http_date_retry_after_uses_controlled_clock http_date header past =
     (let now = int (from_secs 1700000000)
      in parse_retry_after http_date header now = Some (from_secs 7)
         \<and> parse_retry_after http_date past now = Some 0)"

definition malformed_retry_after_is_ignored :: "(string \<Rightarrow> int option) \<Rightarrow> bool" where
  "malformed_retry_after_is_ignored http_date =
     (let now = int (from_secs 1)
      in parse_retry_after http_date ''not-a-delay'' now = None
         \<and> parse_retry_after http_date ''1.5'' now = None
         \<and> parse_retry_after http_date ''2s'' now = None
         \<and> parse_retry_after http_date '''' now = None
         \<and> parse_retry_after http_date ''-1'' now = None)"

definition provider_delay_that_cannot_fit_is_throttling_not_deadline :: bool where
  "provider_delay_that_cannot_fit_is_throttling_not_deadline =
     (case evaluate_retry_delay (Sleep (from_secs 30) True) (from_millis 400) of
        Inl (ProviderDelayCannotFit ra) \<Rightarrow> ra = from_secs 30
      | _ \<Rightarrow> False)"

definition jitter_that_cannot_fit_is_deadline_not_throttling :: bool where
  "jitter_that_cannot_fit_is_deadline_not_throttling =
     (evaluate_retry_delay (Sleep (from_secs 2) False) (from_millis 200) = Err DelayDeadlineExceeded)"

definition delay_that_fits_is_slept_in_full :: bool where
  "delay_that_fits_is_slept_in_full =
     (evaluate_retry_delay (Sleep (from_millis 250) True) (from_secs 1) = Ok (from_millis 250))"

definition provider_minimum_cannot_fit_ignores_missing_or_zero_delays :: bool where
  "provider_minimum_cannot_fit_ignores_missing_or_zero_delays =
     (\<not> provider_minimum_cannot_fit None (from_millis 1)
      \<and> \<not> provider_minimum_cannot_fit (Some 0) (from_millis 1)
      \<and> \<not> provider_minimum_cannot_fit (Some (from_millis 200)) (from_secs 1)
      \<and> provider_minimum_cannot_fit (Some (from_secs 30)) (from_millis 400)
      \<and> provider_minimum_cannot_fit (Some (from_secs 30)) 0)"

lemma budget_unit_tests_pass:
  "attempt_budget_never_replenishes"
  "considering_a_target_does_not_consume_a_slot"
  "full_jitter_uses_exponential_windows_capped_at_two_seconds"
  "backoff_cap_does_not_shorten_provider_retry_after"
  "missing_retry_after_uses_capped_jitter"
  "provider_delay_that_cannot_fit_is_throttling_not_deadline"
  "jitter_that_cannot_fit_is_deadline_not_throttling"
  "delay_that_fits_is_slept_in_full"
  "provider_minimum_cannot_fit_ignores_missing_or_zero_delays"
  by (simp_all add: attempt_budget_never_replenishes_def considering_a_target_does_not_consume_a_slot_def
      full_jitter_uses_exponential_windows_capped_at_two_seconds_def jittered_backoff_ms_def scripted_jitter_def
      backoff_cap_does_not_shorten_provider_retry_after_def plan_retry_delay_def missing_retry_after_uses_capped_jitter_def
      provider_delay_that_cannot_fit_is_throttling_not_deadline_def evaluate_retry_delay_def
      jitter_that_cannot_fit_is_deadline_not_throttling_def delay_that_fits_is_slept_in_full_def
      provider_minimum_cannot_fit_ignores_missing_or_zero_delays_def provider_minimum_cannot_fit_def
      try_start_def budget_new_def budget_remaining_def duration_eval sat_eval Let_def)

text \<open>
  The tests of the header hold for every date parser that accepts no malformed text, and the dates are those the
  library prints: texts that are not digits and that it reads back.
\<close>

lemma retry_after_unit_tests_pass:
  "delta_seconds_retry_after_parses http_date"
  "\<lbrakk>str_trim header = header; \<not> list_all is_ascii_digit header;
    http_date header = Some (int (from_secs 1700000007));
    str_trim past = past; \<not> list_all is_ascii_digit past; http_date past = Some (int (from_secs 1699999970))\<rbrakk>
     \<Longrightarrow> http_date_retry_after_uses_controlled_clock http_date header past"
  "(\<And>s. s \<in> {''not-a-delay'', ''1.5'', ''2s'', ''-1''} \<Longrightarrow> http_date s = None)
     \<Longrightarrow> malformed_retry_after_is_ignored http_date"
proof -
  have t: "str_trim ''2'' = ''2''" "str_trim ''0'' = ''0''" "str_trim '' 120 '' = ''120''"
    "str_trim ''not-a-delay'' = ''not-a-delay''" "str_trim ''1.5'' = ''1.5''" "str_trim ''2s'' = ''2s''"
    "str_trim [] = []" "str_trim ''-1'' = ''-1''"
    by code_simp+
  show "delta_seconds_retry_after_parses http_date"
    by (simp add: delta_seconds_retry_after_parses_def parse_retry_after_def t is_ascii_digit_def
        parse_u64_digits_def decimal_value_def from_secs_def Let_def)
  show "http_date_retry_after_uses_controlled_clock http_date header past"
    if "str_trim header = header" "\<not> list_all is_ascii_digit header"
      "http_date header = Some (int (from_secs 1700000007))"
      "str_trim past = past" "\<not> list_all is_ascii_digit past" "http_date past = Some (int (from_secs 1699999970))"
    using that by (auto simp: http_date_retry_after_uses_controlled_clock_def parse_retry_after_def from_secs_def Let_def)
  show "malformed_retry_after_is_ignored http_date"
    if "\<And>s. s \<in> {''not-a-delay'', ''1.5'', ''2s'', ''-1''} \<Longrightarrow> http_date s = None"
    using that by (simp add: malformed_retry_after_is_ignored_def parse_retry_after_def t is_ascii_digit_def Let_def)
qed

section \<open>Costs: \<open>pricing.rs\<close>\<close>

text \<open>A decimal literal denotes the nearest binary64 value.\<close>

definition illustrative_primary_prices_yield_documented_cost :: bool where
  "illustrative_primary_prices_yield_documented_cost =
     (estimate_successful_response_cost 120 30 (Some (model_pricing_new (Fin 1) (Fin 2))) = Ok (rnd (18 / 100000)))"

definition second_target_prices_are_used_for_the_same_usage :: bool where
  "second_target_prices_are_used_for_the_same_usage =
     (estimate_successful_response_cost 120 30 (Some (model_pricing_new (Fin (1 / 4)) (Fin (1 / 2))))
        = Ok (rnd (45 / 1000000)))"

definition missing_prices_do_not_become_zero :: bool where
  "missing_prices_do_not_become_zero = (estimate_successful_response_cost 120 30 None = Err MissingPricing)"

definition zero_tokens_with_configured_prices_may_be_zero :: bool where
  "zero_tokens_with_configured_prices_may_be_zero =
     (estimate_successful_response_cost 0 0 (Some (model_pricing_new (Fin 1) (Fin 2))) = Ok (Fin 0))"

definition negative_usage_is_not_a_successful_estimate :: bool where
  "negative_usage_is_not_a_successful_estimate =
     (estimate_successful_response_cost (- 1) 30 (Some (model_pricing_new (Fin 1) (Fin 2))) = Err InvalidUpstreamResult)"

text \<open>The roundings of the two estimates, step by step.\<close>

lemma rnd_small: "f64_of_int 120 = Fin 120" "f64_of_int 30 = Fin 30" "f64_of_int 0 = Fin 0" "rnd 0 = Fin 0"
  using rnd_int_exact [of 120] rnd_int_exact [of 30] by (simp_all add: f64_of_int_def rnd_def)

lemma rnd_steps:
  "rnd (3 / 25000) = Fin (8854437155380585 / 2 ^ 66)"
  "rnd (8854437155380585 / 73786976294838206464) = Fin (8854437155380585 / 2 ^ 66)"
  "rnd (8854437155380585 / 295147905179352825856) = Fin (8854437155380585 / 2 ^ 68)"
  "rnd (3 / 100000) = Fin (8854437155380585 / 2 ^ 68)"
  "rnd (8854437155380585 / 147573952589676412928) = Fin (8854437155380585 / 2 ^ 67)"
  "rnd (8854437155380585 / 590295810358705651712) = Fin (8854437155380585 / 2 ^ 69)"
  "rnd (26563311466141755 / 147573952589676412928) = Fin (6640827866535439 / 2 ^ 65)"
  "rnd (26563311466141755 / 590295810358705651712) = Fin (6640827866535439 / 2 ^ 67)"
  "rnd (2594073385365405859375 / 144115188075855872) = Fin 18000"
  "rnd (2594073385365405859375 / 576460752303423488) = Fin 4500"
  using rnd_eval [of "- 66" "3 / 25000" 8854437155380585]
    rnd_eval [of "- 66" "8854437155380585 / 73786976294838206464" 8854437155380585]
    rnd_eval [of "- 68" "8854437155380585 / 295147905179352825856" 8854437155380585]
    rnd_eval [of "- 68" "3 / 100000" 8854437155380585]
    rnd_eval [of "- 67" "8854437155380585 / 147573952589676412928" 8854437155380585]
    rnd_eval [of "- 69" "8854437155380585 / 590295810358705651712" 8854437155380585]
    rnd_eval [of "- 65" "26563311466141755 / 147573952589676412928" 6640827866535439]
    rnd_eval [of "- 67" "26563311466141755 / 590295810358705651712" 6640827866535439]
    rnd_eval [of "- 38" "2594073385365405859375 / 144115188075855872" 4947802324992000]
    rnd_eval [of "- 40" "2594073385365405859375 / 576460752303423488" 4947802324992000]
  by (simp_all add: pow2_def)

lemma rounded_halves: "\<lfloor>36001 / 2 :: rat\<rfloor> = 18000" "\<lfloor>9001 / 2 :: rat\<rfloor> = 4500" "\<lfloor>1 / 2 :: rat\<rfloor> = 0"
  by (rule floor_unique; simp)+

lemma documented_costs:
  "estimate_successful_response_cost 120 30 (Some (model_pricing_new (Fin 1) (Fin 2))) = Ok (rnd (18 / 100000))"
  "estimate_successful_response_cost 120 30 (Some (model_pricing_new (Fin (1 / 4)) (Fin (1 / 2)))) = Ok (rnd (45 / 1000000))"
  by (simp_all add: estimate_successful_response_cost_def model_pricing_new_def rnd_small rnd_steps
      rounded_halves Let_def)

lemma pricing_unit_tests_pass:
  "illustrative_primary_prices_yield_documented_cost"
  "second_target_prices_are_used_for_the_same_usage"
  "missing_prices_do_not_become_zero"
  "zero_tokens_with_configured_prices_may_be_zero"
  "negative_usage_is_not_a_successful_estimate"
  unfolding illustrative_primary_prices_yield_documented_cost_def second_target_prices_are_used_for_the_same_usage_def
    documented_costs
  by (simp_all add: missing_prices_do_not_become_zero_def zero_tokens_with_configured_prices_may_be_zero_def
      negative_usage_is_not_a_successful_estimate_def estimate_successful_response_cost_def model_pricing_new_def
      rnd_small rounded_halves Let_def)

section \<open>Successful payloads: \<open>openai_response.rs\<close>\<close>

text \<open>The printer and the parser of \<open>serde_json\<close>: a printed value is read back. \<open>body[key]\<close> and \<open>body[i]\<close> on the left
  of an assignment are \<open>at_key\<close> and \<open>at_index\<close>; an absent key is added, other uses would panic and do not occur.\<close>

record json_codec =
  jc_print :: "json \<Rightarrow> string"
  jc_parse :: "string \<Rightarrow> json option"

definition json_codec_laws :: "json_codec \<Rightarrow> bool" where
  "json_codec_laws J \<longleftrightarrow> (\<forall>v. jc_parse J (jc_print J v) = Some v)"

definition at_key :: "string \<Rightarrow> (json \<Rightarrow> json) \<Rightarrow> json \<Rightarrow> json" where
  "at_key k f v = (case v of
     JObj kvs \<Rightarrow> JObj (if k \<in> fst ` set kvs then map (\<lambda>(i, x). (i, if i = k then f x else x)) kvs
                       else kvs @ [(k, f JNull)])
   | _ \<Rightarrow> v)"

definition at_index :: "nat \<Rightarrow> (json \<Rightarrow> json) \<Rightarrow> json \<Rightarrow> json" where
  "at_index i f v = (case v of JArr xs \<Rightarrow> JArr (if i < length xs then xs[i := f (xs ! i)] else xs) | _ \<Rightarrow> v)"

definition put_key :: "string \<Rightarrow> json \<Rightarrow> json \<Rightarrow> json" where
  "put_key k x = at_key k (\<lambda>_. x)"

definition remove_key :: "string \<Rightarrow> json \<Rightarrow> json" where
  "remove_key k v = (case v of JObj kvs \<Rightarrow> JObj (filter (\<lambda>(i, _). i \<noteq> k) kvs) | _ \<Rightarrow> v)"

definition valid_body :: json where
  "valid_body = JObj
     [(''id'', JStr ''chatcmpl-local-fixture''), (''object'', JStr ''chat.completion''), (''created'', JNum (PosInt 0)),
      (''model'', JStr ''reported-snapshot-model''),
      (''choices'', JArr [JObj [(''index'', JNum (PosInt 0)),
         (''message'', JObj [(''role'', JStr ''assistant''), (''content'', JStr ''SIMULATED_OPENAI_OK'')]),
         (''finish_reason'', JStr ''stop'')]]),
      (''usage'', JObj [(''prompt_tokens'', JNum (PosInt 120)), (''completion_tokens'', JNum (PosInt 30)),
         (''total_tokens'', JNum (PosInt 150))])]"

definition parse_value :: "json_codec \<Rightarrow> json \<Rightarrow> executor_error + execution_result" where
  "parse_value J value =
     parse_successful_chat_completion (jc_parse J) (jc_print J value) (Some (model_pricing_new (Fin 1) (Fin 2)))"

definition assert_invalid :: "executor_error + execution_result \<Rightarrow> bool" where
  "assert_invalid result = (result = Err InvalidUpstreamResult)"

definition valid_payload_uses_reported_model_and_priced_usage :: "json_codec \<Rightarrow> bool" where
  "valid_payload_uses_reported_model_and_priced_usage J =
     (case parse_value J valid_body of
        Inl _ \<Rightarrow> False
      | Inr r \<Rightarrow> er_content r = ''SIMULATED_OPENAI_OK'' \<and> er_role r = ''assistant'' \<and> er_finish_reason r = ''stop''
          \<and> er_model_used r = ''reported-snapshot-model'' \<and> er_prompt_tokens r = 120 \<and> er_completion_tokens r = 30
          \<and> er_total_cost r = rnd (18 / 100000))"

text \<open>\<open>text.contains(part)\<close> is \<open>str_contains part text\<close>.\<close>

fun str_contains :: "string \<Rightarrow> string \<Rightarrow> bool" where
  "str_contains part [] = (part = [])"
| "str_contains part (c # cs) = (take (length part) (c # cs) = part \<or> str_contains part cs)"

definition malformed_json_is_a_protocol_parse_error :: "json_codec \<Rightarrow> bool" where
  "malformed_json_is_a_protocol_parse_error J =
     (case parse_successful_chat_completion (jc_parse J) ''{not-json RAW_UPSTREAM_SENTINEL''
             (Some (model_pricing_new (Fin 1) (Fin 2))) of
        Inl (JsonError message) \<Rightarrow> message = ''malformed upstream JSON'' \<and> \<not> str_contains ''RAW_UPSTREAM_SENTINEL'' message
      | _ \<Rightarrow> False)"

definition empty_choices_cannot_become_success :: "json_codec \<Rightarrow> bool" where
  "empty_choices_cannot_become_success J = assert_invalid (parse_value J (put_key ''choices'' (JArr []) valid_body))"

definition missing_required_fields_cannot_become_success :: "json_codec \<Rightarrow> bool" where
  "missing_required_fields_cannot_become_success J \<longleftrightarrow>
     list_all (\<lambda>field. assert_invalid (parse_value J (remove_key field valid_body))) [''model'', ''choices'', ''usage'']
     \<and> assert_invalid (parse_value J
          (at_key ''choices'' (at_index 0 (at_key ''message'' (remove_key ''content''))) valid_body))
     \<and> assert_invalid (parse_value J
          (at_key ''choices'' (at_index 0 (at_key ''message'' (remove_key ''role''))) valid_body))
     \<and> assert_invalid (parse_value J (at_key ''choices'' (at_index 0 (remove_key ''finish_reason'')) valid_body))"

definition empty_required_strings_cannot_become_success :: "json_codec \<Rightarrow> bool" where
  "empty_required_strings_cannot_become_success J =
     assert_invalid (parse_value J (put_key ''model'' (JStr []) valid_body))"

definition non_assistant_roles_cannot_become_success :: "json_codec \<Rightarrow> bool" where
  "non_assistant_roles_cannot_become_success J =
     list_all (\<lambda>role. assert_invalid (parse_value J
         (at_key ''choices'' (at_index 0 (at_key ''message'' (put_key ''role'' (JStr role)))) valid_body)))
       [''user'', ''system'', '' '', '' assistant '', [CHR 0x09], ''Assistant'']"

definition non_text_content_cannot_become_success :: "json_codec \<Rightarrow> bool" where
  "non_text_content_cannot_become_success J =
     assert_invalid (parse_value J (at_key ''choices'' (at_index 0 (at_key ''message'' (put_key ''content''
       (JArr [JObj [(''type'', JStr ''text''), (''text'', JStr ''SIMULATED_OPENAI_OK'')]])))) valid_body))"

definition negative_and_fractional_usage_cannot_become_success :: "json_codec \<Rightarrow> bool" where
  "negative_and_fractional_usage_cannot_become_success J \<longleftrightarrow>
     assert_invalid (parse_value J (at_key ''usage'' (put_key ''prompt_tokens'' (JNum (NegInt 0))) valid_body))
     \<and> assert_invalid (parse_value J
          (at_key ''usage'' (put_key ''completion_tokens'' (JNum (FloatNum (Fin (3 / 2))))) valid_body))"

definition inconsistent_total_tokens_cannot_become_success :: "json_codec \<Rightarrow> bool" where
  "inconsistent_total_tokens_cannot_become_success J =
     assert_invalid (parse_value J (at_key ''usage'' (put_key ''total_tokens'' (JNum (PosInt 999))) valid_body))"

definition valid_payload_still_parses_after_an_invalid_one :: "json_codec \<Rightarrow> bool" where
  "valid_payload_still_parses_after_an_invalid_one J \<longleftrightarrow>
     assert_invalid (parse_value J (put_key ''choices'' (JArr []) valid_body))
     \<and> (case parse_value J valid_body of
          Inl _ \<Rightarrow> False
        | Inr r \<Rightarrow> er_content r = ''SIMULATED_OPENAI_OK'' \<and> er_model_used r = ''reported-snapshot-model''
            \<and> er_total_cost r = rnd (18 / 100000))"

lemmas json_edit_eval = valid_body_def at_key_def at_index_def put_key_def remove_key_def

lemma parse_value_eq:
  "json_codec_laws J \<Longrightarrow> parse_value J v
     = parse_successful_chat_completion (\<lambda>_. Some v) [] (Some (model_pricing_new (Fin 1) (Fin 2)))"
  by (simp add: parse_value_def parse_successful_chat_completion_def json_codec_laws_def)

lemmas parse_eval = parse_successful_chat_completion_def required_nonempty_string_def required_string_def
  required_assistant_role_def required_token_count_def checked_add_i64_def

lemma openai_response_unit_tests_pass:
  assumes J: "json_codec_laws J"
  shows "valid_payload_uses_reported_model_and_priced_usage J"
    "empty_choices_cannot_become_success J"
    "missing_required_fields_cannot_become_success J"
    "empty_required_strings_cannot_become_success J"
    "non_assistant_roles_cannot_become_success J"
    "non_text_content_cannot_become_success J"
    "negative_and_fractional_usage_cannot_become_success J"
    "inconsistent_total_tokens_cannot_become_success J"
    "valid_payload_still_parses_after_an_invalid_one J"
  unfolding valid_payload_uses_reported_model_and_priced_usage_def empty_choices_cannot_become_success_def
    missing_required_fields_cannot_become_success_def empty_required_strings_cannot_become_success_def
    non_assistant_roles_cannot_become_success_def non_text_content_cannot_become_success_def
    negative_and_fractional_usage_cannot_become_success_def inconsistent_total_tokens_cannot_become_success_def
    valid_payload_still_parses_after_an_invalid_one_def assert_invalid_def parse_value_eq [OF J]
  by (simp_all add: json_edit_eval parse_eval documented_costs)

lemma openai_malformed_unit_test_passes:
  "jc_parse J ''{not-json RAW_UPSTREAM_SENTINEL'' = None \<Longrightarrow> malformed_json_is_a_protocol_parse_error J"
  by (simp add: malformed_json_is_a_protocol_parse_error_def parse_successful_chat_completion_def)

end
