(* ===== verification/Unit_Tests_Provider.thy ===== *)
theory Unit_Tests_Provider
  imports Unit_Tests_Executor
begin

text \<open>
  The unit tests of the provider call and of the deadline on the model: \<open>bounded_body.rs\<close>, \<open>attempt.rs\<close>, \<open>error.rs\<close>,
  \<open>config.rs\<close> and \<open>vendors/openai.rs\<close> of \<open>features/executor/\<close>, and \<open>core/deadline.rs\<close>, with the conventions of
  \<open>Unit_Tests_Executor\<close>.
\<close>

section \<open>Bounded bodies: \<open>bounded_body.rs\<close>\<close>

text \<open>
  The loop over an iterator, which the test counts: the result, and how many bytes were pulled, the chunk that does
  not fit included.
\<close>

fun accumulate_chunks :: "string \<Rightarrow> nat \<Rightarrow> string list \<Rightarrow> nat \<Rightarrow> (executor_error + string) \<times> nat" where
  "accumulate_chunks buf pulled [] max_bytes = (Ok buf, pulled)"
| "accumulate_chunks buf pulled (chunk # chunks) max_bytes =
     (let pulled' = sat_add u64_max pulled (length chunk)
      in case append_bounded buf chunk max_bytes of
           Inl e \<Rightarrow> (Err e, pulled')
         | Inr buf' \<Rightarrow> accumulate_chunks buf' pulled' chunks max_bytes)"

definition ok_body :: string where
  "ok_body = ''{\"ok\":true}''"

definition exact_cap_is_accepted_without_parsing :: bool where
  "exact_cap_is_accepted_without_parsing = (fst (accumulate_chunks [] 0 [ok_body] 11) = Ok ok_body)"

text \<open>On the error the buffer is the one before the call, which the caller still holds.\<close>

definition one_byte_over_cap_fails_and_does_not_keep_the_overflow_bytes :: bool where
  "one_byte_over_cap_fails_and_does_not_keep_the_overflow_bytes =
     (append_bounded ok_body ''!'' 11 = Err InvalidUpstreamResult)"

definition accumulation_stops_before_pulling_remaining_chunks :: bool where
  "accumulation_stops_before_pulling_remaining_chunks =
     (accumulate_chunks [] 0 [replicate 10 CHR ''a'', replicate 10 CHR ''b'', replicate 10 CHR ''c'', replicate 10000 CHR ''x''] 25
        = (Err InvalidUpstreamResult, 30))"

definition advertised_content_length_above_cap_fails_without_reading :: bool where
  "advertised_content_length_above_cap_fails_without_reading \<longleftrightarrow>
     check_advertised_content_length (Some 101) 100 = Err InvalidUpstreamResult
     \<and> check_advertised_content_length (Some 100) 100 = Ok ()
     \<and> check_advertised_content_length None 100 = Ok ()"

text \<open>The bytes pulled exceed the cap by less than the last chunk, and the chunks after it are not touched.\<close>

lemma bounded_body_unit_tests_pass:
  "exact_cap_is_accepted_without_parsing"
  "one_byte_over_cap_fails_and_does_not_keep_the_overflow_bytes"
  "accumulation_stops_before_pulling_remaining_chunks"
  "advertised_content_length_above_cap_fails_without_reading"
  by (simp_all add: exact_cap_is_accepted_without_parsing_def ok_body_def append_bounded_def sat_add_def Let_def
      one_byte_over_cap_fails_and_does_not_keep_the_overflow_bytes_def check_advertised_content_length_def
      accumulation_stops_before_pulling_remaining_chunks_def advertised_content_length_above_cap_fails_without_reading_def)

text \<open>The loop over an iterator and the loop over a response accept the same bodies.\<close>

lemma accumulate_agrees:
  "map_option snd (read_chunks max_bytes buf t (map (\<lambda>c. (0, BChunk c)) chunks @ [(0, BEof)]))
     = Some (fst (accumulate_chunks buf pulled chunks max_bytes))"
  by (induction buf pulled chunks max_bytes rule: accumulate_chunks.induct) (auto simp: Let_def split: sum.splits)

section \<open>The attempt context: \<open>attempt.rs\<close>\<close>

text \<open>\<open>start\<close> is the clock when the context is made; \<open>slept\<close> is how long a sleep of 5 milliseconds took.\<close>

definition remaining_is_zero_after_cutoff :: "nat \<Rightarrow> nat \<Rightarrow> bool" where
  "remaining_is_zero_after_cutoff start slept =
     (let cutoff = start + from_millis 1
      in attempt_remaining cutoff (start + slept) = 0 \<and> observed_at [] (start + slept) = None)"

definition body_refinement_window_stays_inside_remaining_budget :: "nat \<Rightarrow> bool" where
  "body_refinement_window_stays_inside_remaining_budget start \<longleftrightarrow>
     body_refinement_window (start + from_millis 400) start = from_millis 100
     \<and> body_refinement_window (start + from_millis 50) start = from_millis 25
     \<and> body_refinement_window (start + from_millis 1) (start + from_millis 5) = 0"

definition observe_replaces_throttling_with_quota :: "nat \<Rightarrow> nat \<Rightarrow> nat \<Rightarrow> bool" where
  "observe_replaces_throttling_with_quota t1 t2 t3 =
     (observed_at [(t1, RateLimitExceeded ''openai'' (Some 1000)), (t2, QuotaExceeded)] t3 = Some QuotaExceeded)"

lemma attempt_unit_tests_pass:
  "from_millis 5 \<le> slept \<Longrightarrow> remaining_is_zero_after_cutoff start slept"
  "body_refinement_window_stays_inside_remaining_budget start"
  "t1 \<le> t2 \<Longrightarrow> t2 \<le> t3 \<Longrightarrow> observe_replaces_throttling_with_quota t1 t2 t3"
  by (simp_all add: remaining_is_zero_after_cutoff_def attempt_remaining_def observed_at_def duration_eval
      body_refinement_window_stays_inside_remaining_budget_def body_refinement_window_def
      observe_replaces_throttling_with_quota_def)

section \<open>Deadlines: \<open>core/deadline.rs\<close>\<close>

text \<open>The clock is paused: it stands at \<open>start\<close> until the test advances it.\<close>

definition remaining_budget_shrinks_without_resetting_the_deadline :: "nat \<Rightarrow> bool" where
  "remaining_budget_shrinks_without_resetting_the_deadline start =
     (let deadline = deadline_from_timeout start (from_secs 5);
          first = remaining deadline start;
          now = start + from_secs 2;
          second = remaining deadline now
      in first \<le> from_secs 5 \<and> from_millis 4990 \<le> first
         \<and> second \<le> from_millis 3000 \<and> from_millis 2990 \<le> second
         \<and> cap deadline (from_secs 30) now = Some second
         \<and> as_instant deadline = as_instant deadline \<and> \<not> is_expired deadline now)"

definition cap_returns_none_after_expiry :: "nat \<Rightarrow> bool" where
  "cap_returns_none_after_expiry start =
     (let deadline = deadline_from_timeout start (from_millis 10); now = start + from_millis 10
      in is_expired deadline now \<and> remaining deadline now = 0 \<and> cap deadline (from_secs 10) now = None)"

definition cap_uses_remaining_when_shorter_than_attempt_timeout :: "nat \<Rightarrow> bool" where
  "cap_uses_remaining_when_shorter_than_attempt_timeout start =
     (let deadline = deadline_from_timeout start (from_millis 40); now = start + from_millis 25
      in case cap deadline (from_secs 10) now of
           None \<Rightarrow> False
         | Some capped \<Rightarrow> capped \<le> from_millis 15 \<and> 0 < capped)"

definition attempt_cutoff_uses_absolute_deadline_not_later_now_plus_remaining :: "nat \<Rightarrow> bool" where
  "attempt_cutoff_uses_absolute_deadline_not_later_now_plus_remaining start =
     (let deadline = deadline_from_timeout start (from_millis 100);
          stale_remaining = remaining deadline (start + from_millis 40);
          now = start + from_millis 50
      in case attempt_cutoff deadline (from_secs 10) now of
           None \<Rightarrow> False
         | Some cutoff \<Rightarrow> cutoff = as_instant deadline \<and> cutoff < now + stale_remaining
             \<and> attempt_cutoff deadline (from_millis 5) now \<noteq> None)"

definition attempt_cutoff_returns_none_after_expiry :: "nat \<Rightarrow> bool" where
  "attempt_cutoff_returns_none_after_expiry start =
     (attempt_cutoff (deadline_from_timeout start (from_millis 10)) (from_secs 10) (start + from_millis 10) = None)"

lemma deadline_unit_tests_pass:
  "remaining_budget_shrinks_without_resetting_the_deadline start"
  "cap_returns_none_after_expiry start"
  "cap_uses_remaining_when_shorter_than_attempt_timeout start"
  "attempt_cutoff_uses_absolute_deadline_not_later_now_plus_remaining start"
  "attempt_cutoff_returns_none_after_expiry start"
  by (simp_all add: remaining_budget_shrinks_without_resetting_the_deadline_def cap_returns_none_after_expiry_def
      cap_uses_remaining_when_shorter_than_attempt_timeout_def attempt_cutoff_returns_none_after_expiry_def
      attempt_cutoff_uses_absolute_deadline_not_later_now_plus_remaining_def deadline_from_timeout_def remaining_def
      cap_def is_expired_def as_instant_def attempt_cutoff_def duration_eval Let_def)

section \<open>HTTP mapping of the executor's errors: \<open>error.rs\<close>\<close>

text \<open>The envelope as it is printed: no value of a test needs escaping. A test runs outside any request context.\<close>

definition envelope_text :: "error_body \<Rightarrow> string" where
  "envelope_text b = ''{\"error\":{\"code\":\"'' @ eb_code b @ ''\",\"message\":\"'' @ eb_message b
     @ ''\",\"request_id\":\"'' @ eb_request_id b @ ''\"}}''"

definition response_json :: "executor_error \<Rightarrow> nat \<times> error_body" where
  "response_json error =
     (let response = (executor_error_response None error :: unit http_response)
      in (r_status response,
          case r_body response of Inl b \<Rightarrow> b | Inr _ \<Rightarrow> \<lparr>eb_code = [], eb_message = [], eb_request_id = []\<rparr>))"

definition upstream_authentication_is_bad_gateway_not_gateway_unauthorized :: bool where
  "upstream_authentication_is_bad_gateway_not_gateway_unauthorized =
     (case response_json (AuthenticationFailed ''openai'') of (status, body) \<Rightarrow>
        status = 502 \<and> eb_code body = ''UPSTREAM_AUTHENTICATION''
        \<and> eb_message body = ''Upstream provider rejected the credentials''
        \<and> \<not> str_contains ''openai'' (envelope_text body) \<and> \<not> str_contains ''Bearer'' (envelope_text body)
        \<and> status \<noteq> 401)"

definition provider_protocol_and_rate_limit_use_distinct_sanitized_codes :: bool where
  "provider_protocol_and_rate_limit_use_distinct_sanitized_codes =
     (case response_json (JsonError ''malformed upstream JSON'') of (json_status, json_body) \<Rightarrow>
      case response_json InvalidUpstreamResult of (oversize_status, oversize_body) \<Rightarrow>
      case response_json (RateLimitExceeded ''openai'' (Some 2000)) of (limit_status, limit_body) \<Rightarrow>
      case response_json QuotaExceeded of (quota_status, quota_body) \<Rightarrow>
        json_status = 502 \<and> eb_code json_body = ''UPSTREAM_PROTOCOL''
        \<and> \<not> str_contains ''malformed upstream JSON'' (envelope_text json_body)
        \<and> oversize_status = 502 \<and> eb_code oversize_body = ''UPSTREAM_PROTOCOL'' \<and> oversize_status \<noteq> 413
        \<and> limit_status = 429 \<and> eb_code limit_body = ''UPSTREAM_RATE_LIMIT''
        \<and> \<not> str_contains ''openai'' (envelope_text limit_body) \<and> eb_code limit_body \<noteq> ''UNAUTHORIZED''
        \<and> quota_status = 502 \<and> eb_code quota_body = ''UPSTREAM_ERROR''
        \<and> eb_message quota_body = ''Upstream provider quota was exhausted''
        \<and> eb_code quota_body \<noteq> ''UPSTREAM_RATE_LIMIT'' \<and> eb_code quota_body \<noteq> ''UNAUTHORIZED'')"

text \<open>That the body has no member \<open>response\<close> is the envelope's type.\<close>

definition unexpected_internal_and_future_policy_variants_map_deterministically :: bool where
  "unexpected_internal_and_future_policy_variants_map_deterministically =
     (case response_json MissingPricing of (internal_status, internal_body) \<Rightarrow>
      case response_json (ExecCircuitOpen ''openai'' 5000) of (circuit_status, circuit_body) \<Rightarrow>
      case response_json ExecDeadlineExceeded of (deadline_status, deadline_body) \<Rightarrow>
        internal_status = 500 \<and> eb_code internal_body = ''INTERNAL_ERROR''
        \<and> eb_message internal_body = ''An internal error occurred''
        \<and> circuit_status = 503 \<and> eb_code circuit_body = ''CIRCUIT_OPEN''
        \<and> \<not> str_contains ''openai'' (envelope_text circuit_body)
        \<and> deadline_status = 504 \<and> eb_code deadline_body = ''DEADLINE_EXCEEDED'')"

lemma executor_error_unit_tests_pass:
  "upstream_authentication_is_bad_gateway_not_gateway_unauthorized"
  "provider_protocol_and_rate_limit_use_distinct_sanitized_codes"
  "unexpected_internal_and_future_policy_variants_map_deterministically"
  by (simp_all add: upstream_authentication_is_bad_gateway_not_gateway_unauthorized_def response_json_def
      provider_protocol_and_rate_limit_use_distinct_sanitized_codes_def envelope_text_def executor_error_response_def
      unexpected_internal_and_future_policy_variants_map_deterministically_def current_request_id_def Let_def)

section \<open>The executor's configuration: \<open>config.rs\<close>\<close>

definition from_settings_uses_catalog_models_only :: "(string list \<Rightarrow> string list) \<Rightarrow> (string \<rightharpoonup> 'addr) \<Rightarrow> bool" where
  "from_settings_uses_catalog_models_only ord parse_socket =
     (case settings_for_tests parse_socket of
        None \<Rightarrow> False
      | Some settings \<Rightarrow>
          (let config = executor_config_from_settings ord settings in
           case xc_openai config of
             None \<Rightarrow> False
           | Some openai \<Rightarrow>
               ''example-chat-model'' \<in> set (oc_supported_models openai)
               \<and> ''example-chat-model-mini'' \<in> set (oc_supported_models openai)
               \<and> ''gpt-4'' \<notin> set (oc_supported_models openai)
               \<and> oc_base_url openai = ''http://127.0.0.1:9/v1'' \<and> oc_api_key openai = ''test-dummy-openai-key''
               \<and> oc_pricing openai ''primary'' = Some (model_pricing_new (Fin 1) (Fin 2))
               \<and> oc_pricing openai ''secondary'' = Some (model_pricing_new (Fin (1 / 4)) (Fin (1 / 2)))
               \<and> oc_pricing openai ''example-chat-model'' = None \<and> oc_pricing openai ''gpt-4'' = None
               \<and> oc_max_response_bytes openai = pl_max_upstream_response_bytes (st_limits settings)
               \<and> xc_timeout_ms config = 10000 \<and> xc_max_retries config = 1 \<and> xc_max_total_attempts config = 3
               \<and> xc_backoff_cap_ms config = 2000 \<and> xc_circuit_failure_threshold config = 3
               \<and> xc_circuit_cooldown_ms config = 30000))"

definition same_model_alt :: target where
  "same_model_alt = \<lparr>tg_vendor = Openai, tg_model = ''example-chat-model'', tg_max_output_tokens = 512,
     tg_pricing = \<lparr>tp_input_per_million = Fin 10, tp_output_per_million = Fin 20\<rparr>\<rparr>"

definition from_settings_keeps_distinct_prices_for_same_requested_model ::
    "(string list \<Rightarrow> string list) \<Rightarrow> (string \<rightharpoonup> 'addr) \<Rightarrow> bool" where
  "from_settings_keeps_distinct_prices_for_same_requested_model ord parse_socket =
     (case settings_for_tests parse_socket of
        None \<Rightarrow> False
      | Some settings \<Rightarrow>
          (let catalog = st_catalog settings;
               settings' = settings\<lparr>st_catalog := catalog\<lparr>cat_targets :=
                 AList.update ''same-model-alt'' same_model_alt (cat_targets catalog)\<rparr>\<rparr>
           in case xc_openai (executor_config_from_settings ord settings') of
                None \<Rightarrow> False
              | Some openai \<Rightarrow>
                  length (filter (\<lambda>m. m = ''example-chat-model'') (oc_supported_models openai)) = 1
                  \<and> (case (oc_pricing openai ''primary'', oc_pricing openai ''same-model-alt'') of
                       (Some primary, Some alt) \<Rightarrow>
                         input_per_million primary = Fin 1 \<and> output_per_million primary = Fin 2
                         \<and> input_per_million alt = Fin 10 \<and> output_per_million alt = Fin 20
                         \<and> (input_per_million primary, output_per_million primary)
                              \<noteq> (input_per_million alt, output_per_million alt)
                     | _ \<Rightarrow> False)))"

lemma from_settings_models:
  assumes "iterates ord" "distinct (map fst (cat_targets (st_catalog s)))"
    "xc_openai (executor_config_from_settings ord s) = Some oc"
  shows "set (oc_supported_models oc) = (tg_model \<circ> snd) ` set (cat_targets (st_catalog s))"
    "distinct (oc_supported_models oc)"
proof -
  have "oc_supported_models oc = collect_models [] (hash_iter ord (cat_targets (st_catalog s)))"
    using assms(3) by (auto simp: executor_config_from_settings_def Let_def)
  then show "set (oc_supported_models oc) = (tg_model \<circ> snd) ` set (cat_targets (st_catalog s))"
    "distinct (oc_supported_models oc)"
    by (simp_all add: collect_models_set collect_models_distinct hash_iter_set [OF assms(1,2)])
qed

lemma from_settings_prices:
  assumes "iterates ord" "distinct (map fst (cat_targets (st_catalog s)))"
    "xc_openai (executor_config_from_settings ord s) = Some oc"
  shows "oc_pricing oc k = map_option pricing_of_target (map_of (cat_targets (st_catalog s)) k)"
proof -
  have "distinct (map fst (hash_iter ord (cat_targets (st_catalog s))))"
    using assms(2) by (simp add: iterates_distinct [OF assms(1)])
  then show ?thesis using assms(3)
    by (auto simp: executor_config_from_settings_def Let_def collect_pricing_eq hash_iter_map_of [OF assms(1,2)]
        split: option.splits)
qed

lemma filter_distinct_length: "distinct xs \<Longrightarrow> x \<in> set xs \<Longrightarrow> length (filter (\<lambda>y. y = x) xs) = 1"
  by (induction xs) (auto simp: filter_empty_conv)

lemma executor_config_unit_tests_pass:
  assumes ord: "iterates ord" and addr: "parse_socket ''127.0.0.1:3000'' = Some (addr :: 'addr)"
  shows "from_settings_uses_catalog_models_only ord parse_socket"
    "from_settings_keeps_distinct_prices_for_same_requested_model ord parse_socket"
proof -
  obtain s where s: "settings_for_tests parse_socket = Some s" and c: "st_catalog s = catalog_for_tests"
    and l: "st_limits s = demo_limits" and p: "st_provider s = dummy_local"
    using addr by (auto simp: settings_for_tests_Some)
  obtain oc where oc: "xc_openai (executor_config_from_settings ord s) = Some oc"
    by (simp add: executor_config_from_settings_def Let_def)
  have d: "distinct (map fst (cat_targets (st_catalog s)))" by (simp add: c catalog_for_tests_def)
  have "oc_base_url oc = ps_base_url dummy_local" "oc_api_key oc = ps_api_key dummy_local"
    "oc_max_response_bytes oc = pl_max_upstream_response_bytes (st_limits s)"
    using oc by (auto simp: executor_config_from_settings_def Let_def p)
  then show "from_settings_uses_catalog_models_only ord parse_socket"
    using from_settings_models(1) [OF ord d oc]
    by (simp add: from_settings_uses_catalog_models_only_def s oc from_settings_prices [OF ord d oc] dummy_local_def
        c catalog_for_tests_def pricing_of_target_def Let_def)
      (simp add: executor_config_from_settings_def Let_def l demo_limits_def limits_duration_ms_def duration_eval)
  let ?s = "s\<lparr>st_catalog := (st_catalog s)\<lparr>cat_targets := AList.update ''same-model-alt'' same_model_alt
      (cat_targets (st_catalog s))\<rparr>\<rparr>"
  obtain oc' where oc': "xc_openai (executor_config_from_settings ord ?s) = Some oc'"
    by (simp add: executor_config_from_settings_def Let_def)
  have d': "distinct (map fst (cat_targets (st_catalog ?s)))" by (simp add: c catalog_for_tests_def)
  have "''example-chat-model'' \<in> set (oc_supported_models oc')"
    by (simp add: from_settings_models(1) [OF ord d' oc'] c catalog_for_tests_def)
  then show "from_settings_keeps_distinct_prices_for_same_requested_model ord parse_socket"
    using from_settings_models(2) [OF ord d' oc'] oc'
    by (simp add: from_settings_keeps_distinct_prices_for_same_requested_model_def s Let_def filter_distinct_length
        from_settings_prices [OF ord d' oc'])
      (simp add: c catalog_for_tests_def same_model_alt_def pricing_of_target_def model_pricing_new_def)
qed

section \<open>Unsuccessful statuses: \<open>vendors/openai.rs\<close>\<close>

text \<open>The bodies of the tests, and what the JSON parser reads in them.\<close>

definition quota_both :: string where
  "quota_both = ''{\"error\":{\"code\":\"insufficient_quota\",\"type\":\"insufficient_quota\"}}''"
definition quota_code :: string where "quota_code = ''{\"error\":{\"code\":\"insufficient_quota\"}}''"
definition quota_type :: string where "quota_type = ''{\"error\":{\"type\":\"insufficient_quota\"}}''"
definition rate_body :: string where "rate_body = ''{\"error\":{\"message\":\"rate\"}}''"
definition broken_body :: string where "broken_body = ''{\"error\":{\"code\":\"not-json''"
definition bad_key_body :: string where "bad_key_body = ''{\"error\":{\"message\":\"invalid api key\"}}''"
definition transient_body :: string where "transient_body = ''{\"error\":{\"message\":\"transient\"}}''"

definition reads_test_bodies :: "libs \<Rightarrow> bool" where
  "reads_test_bodies L \<longleftrightarrow>
     lib_from_slice L quota_both = Some (JObj [(''error'', JObj [(''code'', JStr ''insufficient_quota''),
        (''type'', JStr ''insufficient_quota'')])])
     \<and> lib_from_slice L quota_code = Some (JObj [(''error'', JObj [(''code'', JStr ''insufficient_quota'')])])
     \<and> lib_from_slice L quota_type = Some (JObj [(''error'', JObj [(''type'', JStr ''insufficient_quota'')])])
     \<and> lib_from_slice L rate_body = Some (JObj [(''error'', JObj [(''message'', JStr ''rate'')])])
     \<and> lib_from_slice L broken_body = None
     \<and> lib_from_slice L bad_key_body = Some (JObj [(''error'', JObj [(''message'', JStr ''invalid api key'')])])
     \<and> lib_from_slice L transient_body = Some (JObj [(''error'', JObj [(''message'', JStr ''transient'')])])
     \<and> lib_from_slice L ''{}'' = Some (JObj [])"

definition insufficient_quota_body_is_quota_exhausted :: "libs \<Rightarrow> bool" where
  "insufficient_quota_body_is_quota_exhausted L \<longleftrightarrow>
     quota_exhausted L quota_both \<and> quota_exhausted L quota_code \<and> quota_exhausted L quota_type
     \<and> \<not> quota_exhausted L rate_body \<and> \<not> quota_exhausted L broken_body
     \<and> classify_unsuccessful_status L 403 quota_both = QuotaExceeded
     \<and> classify_unsuccessful_status L 400 quota_both = QuotaExceeded"

definition credential_failures_without_quota_code_stay_authentication :: "libs \<Rightarrow> bool" where
  "credential_failures_without_quota_code_stay_authentication L \<longleftrightarrow>
     \<not> quota_exhausted L bad_key_body
     \<and> (case classify_unsuccessful_status L 401 bad_key_body of AuthenticationFailed _ \<Rightarrow> True | _ \<Rightarrow> False)
     \<and> (case classify_unsuccessful_status L 403 bad_key_body of AuthenticationFailed _ \<Rightarrow> True | _ \<Rightarrow> False)"

definition other_client_errors_are_permanent_rejections :: "libs \<Rightarrow> bool" where
  "other_client_errors_are_permanent_rejections L \<longleftrightarrow>
     classify_unsuccessful_status L 400 ''{}'' = UpstreamRejected
     \<and> (case classify_unsuccessful_status L 500 transient_body of ApiCallFailed _ \<Rightarrow> True | _ \<Rightarrow> False)"

lemma openai_status_unit_tests_pass:
  assumes "reads_test_bodies L"
  shows "insufficient_quota_body_is_quota_exhausted L"
    "credential_failures_without_quota_code_stay_authentication L"
    "other_client_errors_are_permanent_rejections L"
  using assms unfolding reads_test_bodies_def
  by (simp_all add: insufficient_quota_body_is_quota_exhausted_def other_client_errors_are_permanent_rejections_def
      credential_failures_without_quota_code_stay_authentication_def quota_exhausted_def classify_unsuccessful_status_def
      json_pointer2_def eq_ignore_ascii_case_def to_ascii_lower_def)

end
