(* ===== verification/Unit_Tests_Ingress.thy ===== *)
theory Unit_Tests_Ingress
  imports Unit_Tests_Executor
begin

text \<open>
  The unit tests of \<open>features/ingress/\<close> on the model: \<open>validate.rs\<close>, \<open>routing.rs\<close> and \<open>error.rs\<close>, with the
  conventions of \<open>Unit_Tests_Executor\<close>. An object of the JSON library holds its members sorted by key, and so do
  the literals here. The serializer of the metadata is an argument; the lemmas ask it to print the few values that
  occur as JSON.
\<close>

section \<open>Validation: \<open>validate.rs\<close>\<close>

definition limits_with_prompt :: "nat \<Rightarrow> policy_limits option" where
  "limits_with_prompt n =
     (case documented_defaults of Inl _ \<Rightarrow> None | Inr limits \<Rightarrow> Some (limits\<lparr>pl_max_prompt_chars := n\<rparr>))"

definition ingress_parse :: "(json \<Rightarrow> string option) \<Rightarrow> json \<Rightarrow> (ingress_error + ingress_request) option" where
  "ingress_parse to_vec body =
     (case documented_defaults of Inl _ \<Rightarrow> None | Inr limits \<Rightarrow> Some (parse_ingress_request to_vec body limits))"

text \<open>The message of an invalid request; \<open>None\<close> is a panic of the test.\<close>

definition invalid_message :: "(json \<Rightarrow> string option) \<Rightarrow> json \<Rightarrow> string option" where
  "invalid_message to_vec body =
     (case ingress_parse to_vec body of Some (Inl (IngressInvalidRequest message)) \<Rightarrow> Some message | _ \<Rightarrow> None)"

definition prompt_and_metadata_use_documented_defaults :: "(json \<Rightarrow> string option) \<Rightarrow> bool" where
  "prompt_and_metadata_use_documented_defaults to_vec =
     (case ingress_parse to_vec (JObj [(''metadata'', JObj []), (''prompt'', JStr ''hello'')]) of
        Some (Inr rq) \<Rightarrow> iq_prompt rq = ''hello'' \<and> iq_metadata rq = JObj [] \<and> iq_route rq = None
          \<and> iq_allow_fallback rq = None \<and> gp_temperature (iq_parameters rq) = None
          \<and> gp_top_p (iq_parameters rq) = None \<and> gp_max_tokens (iq_parameters rq) = None
      | _ \<Rightarrow> False)"

definition accepted_numeric_endpoints_preserve_json_numbers :: "(json \<Rightarrow> string option) \<Rightarrow> bool" where
  "accepted_numeric_endpoints_preserve_json_numbers to_vec =
     (case ingress_parse to_vec (JObj [(''metadata'', JObj [(''trace'', JBool True)]),
             (''parameters'', JObj [(''max_tokens'', JNum (PosInt 32)), (''temperature'', JNum (FloatNum (Fin 0))),
                                    (''top_p'', JNum (FloatNum (Fin 1)))]),
             (''prompt'', JStr ''hello'')]) of
        Some (Inr rq) \<Rightarrow> map_option JNum (gp_temperature (iq_parameters rq)) = Some (JNum (FloatNum (Fin 0)))
          \<and> map_option JNum (gp_top_p (iq_parameters rq)) = Some (JNum (FloatNum (Fin 1)))
          \<and> gp_max_tokens (iq_parameters rq) = Some 32
      | _ \<Rightarrow> False)"

text \<open>Five times the letter e with an acute accent, two bytes each.\<close>

definition five_accented :: string where
  "five_accented = concat (replicate 5 [CHR 0xC3, CHR 0xA9])"

definition original_prompt_bounds_reject_padding_and_keep_accepted_text :: "(json \<Rightarrow> string option) \<Rightarrow> bool" where
  "original_prompt_bounds_reject_padding_and_keep_accepted_text to_vec =
     (case limits_with_prompt 8 of
        None \<Rightarrow> False
      | Some limits \<Rightarrow>
          (let parse = (\<lambda>prompt. parse_ingress_request to_vec
                 (JObj [(''metadata'', JObj []), (''prompt'', JStr prompt)]) limits)
           in (case parse '' ab cd '' of Inr rq \<Rightarrow> iq_prompt rq = '' ab cd '' | Inl _ \<Rightarrow> False)
              \<and> (case parse ''abcdefgh '' of
                   Inl (IngressInvalidRequest message) \<Rightarrow> str_contains ''characters'' message | _ \<Rightarrow> False)
              \<and> (case parse five_accented of
                   Inl (IngressInvalidRequest message) \<Rightarrow> str_contains ''bytes'' message | _ \<Rightarrow> False)))"

definition unknown_and_unsupported_controls_are_rejected :: "(json \<Rightarrow> string option) \<Rightarrow> bool" where
  "unknown_and_unsupported_controls_are_rejected to_vec \<longleftrightarrow>
     invalid_message to_vec (JObj [(''metadata'', JObj []), (''model'', JStr ''x''), (''prompt'', JStr ''hello'')])
       = Some ''unknown control''
     \<and> invalid_message to_vec (JObj [(''metadata'', JObj []), (''prompt'', JStr ''hello''), (''stream'', JBool True)])
       = Some ''stream is not supported''
     \<and> invalid_message to_vec (JObj [(''metadata'', JObj []), (''prompt'', JStr ''hello''), (''rewrite'', JBool True)])
       = Some ''rewrite is not supported''
     \<and> invalid_message to_vec (JObj [(''metadata'', JObj []), (''parameters'', JObj [(''n'', JNum (PosInt 1))]),
           (''prompt'', JStr ''hello'')])
       = Some ''unknown parameter''"

definition with_parameter :: "string \<Rightarrow> json \<Rightarrow> json" where
  "with_parameter name v =
     JObj [(''metadata'', JObj []), (''parameters'', JObj [(name, v)]), (''prompt'', JStr ''hello'')]"

definition wrong_types_and_ranges_are_rejected :: "(json \<Rightarrow> string option) \<Rightarrow> bool" where
  "wrong_types_and_ranges_are_rejected to_vec \<longleftrightarrow>
     invalid_message to_vec (JObj [(''metadata'', JObj [])]) = Some ''prompt is required''
     \<and> invalid_message to_vec (JObj [(''prompt'', JStr ''hello'')]) = Some ''metadata is required''
     \<and> invalid_message to_vec (JObj [(''metadata'', JObj []), (''prompt'', JNum (PosInt 1))])
       = Some ''prompt must be a string''
     \<and> invalid_message to_vec (JObj [(''metadata'', JObj []), (''prompt'', JStr [CHR 0x20, CHR 0x0A])])
       = Some ''Prompt cannot be empty''
     \<and> invalid_message to_vec (JObj [(''metadata'', JObj []), (''prompt'', JStr ''hello''), (''route'', JNum (PosInt 1))])
       = Some ''route must be a string''
     \<and> invalid_message to_vec (JObj [(''allow_fallback'', JStr ''false''), (''metadata'', JObj []), (''prompt'', JStr ''hello'')])
       = Some ''allow_fallback must be a boolean''
     \<and> invalid_message to_vec (with_parameter ''temperature'' (JStr ''0.5'')) = Some ''temperature must be a number''
     \<and> invalid_message to_vec (with_parameter ''temperature'' (JNum (FloatNum (rnd (21 / 10)))))
       = Some ''temperature must be between 0.0 and 2.0''
     \<and> invalid_message to_vec (with_parameter ''top_p'' (JBool True)) = Some ''top_p must be a number''
     \<and> invalid_message to_vec (with_parameter ''max_tokens'' (JNum (PosInt 0)))
       = Some ''max_tokens must be a positive integer''"

text \<open>\<open>from_str\<close> is the JSON parser; it reads the raw text as the literal.\<close>

definition fractional_text :: string where
  "fractional_text = ''{\"prompt\":\"hello\",\"metadata\":{},\"parameters\":{\"max_tokens\":1.5}}''"

definition fractional_max_tokens_is_rejected :: "(string \<Rightarrow> json option) \<Rightarrow> (json \<Rightarrow> string option) \<Rightarrow> bool" where
  "fractional_max_tokens_is_rejected from_str to_vec =
     (case from_str fractional_text of
        None \<Rightarrow> False
      | Some body \<Rightarrow> invalid_message to_vec body = Some ''max_tokens must be a positive integer'')"

definition object_key_order_does_not_affect_required_fields :: "(json \<Rightarrow> string option) \<Rightarrow> bool" where
  "object_key_order_does_not_affect_required_fields to_vec =
     (case ingress_parse to_vec (json_set ''prompt'' (JStr ''hello'') (json_set ''metadata'' (JObj []) (JObj []))) of
        Some (Inr rq) \<Rightarrow> iq_prompt rq = ''hello''
      | _ \<Rightarrow> False)"

definition metadata_serialized_byte_bound_is_inclusive :: "(json \<Rightarrow> string option) \<Rightarrow> bool" where
  "metadata_serialized_byte_bound_is_inclusive to_vec =
     (case documented_defaults of
        Inl _ \<Rightarrow> False
      | Inr defaults \<Rightarrow>
          (let limits = defaults\<lparr>pl_max_metadata_bytes := 8\<rparr>;
               exact = JObj [(''k'', JStr [])]; over = JObj [(''k'', JStr ''a'')];
               parse = (\<lambda>m. parse_ingress_request to_vec (JObj [(''metadata'', m), (''prompt'', JStr ''hello'')]) limits)
           in (case to_vec exact of Some bytes \<Rightarrow> length bytes = 8 | None \<Rightarrow> False)
              \<and> is_ok (parse exact)
              \<and> (case to_vec over of Some bytes \<Rightarrow> 8 < length bytes | None \<Rightarrow> False)
              \<and> (case parse over of
                   Inl (IngressInvalidRequest message) \<Rightarrow>
                     str_contains ''Metadata exceeds maximum size of 8 bytes'' message
                 | _ \<Rightarrow> False)))"

definition prints_test_metadata :: "(json \<Rightarrow> string option) \<Rightarrow> bool" where
  "prints_test_metadata to_vec \<longleftrightarrow>
     to_vec (JObj []) = Some ''{}''
     \<and> to_vec (JObj [(''trace'', JBool True)]) = Some ''{\"trace\":true}''
     \<and> to_vec (JObj [(''k'', JStr [])]) = Some ''{\"k\":\"\"}''
     \<and> to_vec (JObj [(''k'', JStr ''a'')]) = Some ''{\"k\":\"a\"}''"

lemma prompt_trims:
  "str_trim ''hello'' \<noteq> []" "str_trim '' ab cd '' \<noteq> []" "str_trim ''abcdefgh '' \<noteq> []" "str_trim five_accented \<noteq> []"
  "str_trim [CHR 0x20, CHR 0x0A] = []"
  by code_simp+

lemma temperature_text: "show_fixed1 0 = ''0.0''" "show_fixed1 2 = ''2.0''" "show_nat 8 = ''8''"
  by (simp_all add: show_fixed1_def show_nat.simps digit_char_def char_of_def bit_iff_odd)

lemma rnd_21_10: "rnd (21 / 10) = Fin (4728779608739021 / 2 ^ 51)"
  using rnd_eval [of "- 51" "21 / 10" 4728779608739021] by (simp add: pow2_def)

lemma five_accented_counts: "length five_accented = 10" "char_count five_accented = 5"
  by (simp_all add: five_accented_def char_count_def is_continuation_def numeral_eq_Suc)

lemmas parse_request_eval = parse_ingress_request_def parse_prompt_def parse_string_control_def parse_bool_control_def
  parse_bounded_number_def parse_max_tokens_def parse_parameters_def ingress_fields_empty_def
  generation_parameters_default_def validate_prompt_bounds_def validate_metadata_size_def

lemma hello_counts: "char_count ''hello'' = 5" "char_count '' ab cd '' = 7" "char_count ''abcdefgh '' = 9"
  by (simp_all add: char_count_def is_continuation_def)

lemma limits_eval:
  "limits_with_prompt n = Some (demo_limits\<lparr>pl_max_prompt_chars := n\<rparr>)"
  "pl_max_prompt_chars demo_limits = lb_default b_max_prompt_chars"
  "pl_max_metadata_bytes demo_limits = lb_default b_max_metadata_bytes"
  by (simp_all add: limits_with_prompt_def documented_defaults_are demo_limits_def bound_defs)

lemma validate_unit_tests_pass:
  assumes P: "prints_test_metadata to_vec"
  shows "prompt_and_metadata_use_documented_defaults to_vec"
    "accepted_numeric_endpoints_preserve_json_numbers to_vec"
    "original_prompt_bounds_reject_padding_and_keep_accepted_text to_vec"
    "unknown_and_unsupported_controls_are_rejected to_vec"
    "object_key_order_does_not_affect_required_fields to_vec"
    "metadata_serialized_byte_bound_is_inclusive to_vec"
  using P unfolding prints_test_metadata_def
  by (simp_all add: prompt_and_metadata_use_documented_defaults_def ingress_parse_def documented_defaults_are
      accepted_numeric_endpoints_preserve_json_numbers_def original_prompt_bounds_reject_padding_and_keep_accepted_text_def
      unknown_and_unsupported_controls_are_rejected_def invalid_message_def
      object_key_order_does_not_affect_required_fields_def
      metadata_serialized_byte_bound_is_inclusive_def parse_request_eval prompt_trims hello_counts five_accented_counts
      limits_eval bound_defs temperature_text Let_def)

lemma validate_range_unit_tests_pass:
  assumes P: "prints_test_metadata to_vec"
  shows "wrong_types_and_ranges_are_rejected to_vec"
    "from_str fractional_text = Some (JObj [(''metadata'', JObj []), (''parameters'', JObj [(''max_tokens'',
        JNum (FloatNum (Fin (3 / 2))))]), (''prompt'', JStr ''hello'')])
       \<Longrightarrow> fractional_max_tokens_is_rejected from_str to_vec"
  using P unfolding prints_test_metadata_def
  by (simp_all add: wrong_types_and_ranges_are_rejected_def fractional_max_tokens_is_rejected_def invalid_message_def
      ingress_parse_def documented_defaults_are with_parameter_def parse_request_eval prompt_trims hello_counts
      rnd_21_10 temperature_text)

section \<open>Routing: \<open>routing.rs\<close>\<close>

definition routing_catalog :: "(string \<rightharpoonup> 'addr) \<Rightarrow> catalog option" where
  "routing_catalog parse_socket =
     Option.bind (settings_for_tests parse_socket) (\<lambda>s.
     Option.bind (map_of (cat_routes (st_catalog s)) ''default'') (\<lambda>r.
       Some ((st_catalog s)\<lparr>cat_routes :=
         AList.update ''default'' (r\<lparr>ro_fallbacks := [''secondary'']\<rparr>) (cat_routes (st_catalog s))\<rparr>)))"

text \<open>The route the test's catalog resolves to; \<open>None\<close> is a panic.\<close>

definition test_route :: "(string \<rightharpoonup> 'addr) \<Rightarrow> string option \<Rightarrow> bool option \<Rightarrow> resolved_route option" where
  "test_route parse_socket requested allow =
     Option.bind (routing_catalog parse_socket) (\<lambda>c.
       (case resolve_route c requested allow of Inl _ \<Rightarrow> None | Inr r \<Rightarrow> Some r))"

definition omitted_route_selects_default_primary_and_configured_fallbacks :: "(string \<rightharpoonup> 'addr) \<Rightarrow> bool" where
  "omitted_route_selects_default_primary_and_configured_fallbacks parse_socket =
     (case test_route parse_socket None None of
        None \<Rightarrow> False
      | Some r \<Rightarrow>
          (let plan = rr_plan r; fallback = fallback_plans plan ! 0
           in rr_route_id r = ''default'' \<and> rr_target_id r = ''primary'' \<and> vendor_id plan = ''openai''
              \<and> target_id plan = ''primary'' \<and> model_id plan = ''example-chat-model'' \<and> rr_max_output_tokens r = 512
              \<and> max_output_tokens plan = 512 \<and> length (fallback_plans plan) = 1 \<and> target_id fallback = ''secondary''
              \<and> max_output_tokens fallback = 256 \<and> model_id fallback = ''example-chat-model-mini''
              \<and> fallback_plans fallback = []))"

definition named_route_selects_its_configured_primary :: "(string \<rightharpoonup> 'addr) \<Rightarrow> bool" where
  "named_route_selects_its_configured_primary parse_socket =
     (case test_route parse_socket (Some ''fast'') None of
        None \<Rightarrow> False
      | Some r \<Rightarrow>
          (let plan = rr_plan r
           in rr_route_id r = ''fast'' \<and> rr_target_id r = ''secondary'' \<and> target_id plan = ''secondary''
              \<and> model_id plan = ''example-chat-model-mini'' \<and> rr_max_output_tokens r = 256 \<and> fallback_plans plan = []))"

definition allow_fallback_false_omits_configured_fallbacks :: "(string \<rightharpoonup> 'addr) \<Rightarrow> bool" where
  "allow_fallback_false_omits_configured_fallbacks parse_socket =
     (case test_route parse_socket None (Some False) of
        None \<Rightarrow> False
      | Some r \<Rightarrow> target_id (rr_plan r) = ''primary'' \<and> model_id (rr_plan r) = ''example-chat-model''
          \<and> fallback_plans (rr_plan r) = [])"

definition allow_fallback_true_keeps_configured_fallbacks :: "(string \<rightharpoonup> 'addr) \<Rightarrow> bool" where
  "allow_fallback_true_keeps_configured_fallbacks parse_socket =
     (case test_route parse_socket None (Some True) of
        None \<Rightarrow> False | Some r \<Rightarrow> length (fallback_plans (rr_plan r)) = 1)"

definition alternative_target :: target where
  "alternative_target = \<lparr>tg_vendor = Openai, tg_model = ''example-chat-model'', tg_max_output_tokens = 512,
     tg_pricing = \<lparr>tp_input_per_million = Fin 10, tp_output_per_million = Fin 20\<rparr>\<rparr>"

definition same_requested_model_targets_keep_distinct_plan_identity :: "(string \<rightharpoonup> 'addr) \<Rightarrow> bool" where
  "same_requested_model_targets_keep_distinct_plan_identity parse_socket =
     (case routing_catalog parse_socket of
        None \<Rightarrow> False
      | Some c \<Rightarrow>
          (let c' = c\<lparr>cat_targets := AList.update ''same-model-alt'' alternative_target (cat_targets c),
                      cat_routes := AList.update ''same-model-chain''
                        \<lparr>ro_primary = ''primary'', ro_fallbacks = [''same-model-alt'']\<rparr> (cat_routes c)\<rparr>
           in case resolve_route c' (Some ''same-model-chain'') None of
                Inl _ \<Rightarrow> False
              | Inr r \<Rightarrow>
                  (let plan = rr_plan r; fallback = fallback_plans plan ! 0
                   in target_id plan = ''primary'' \<and> model_id plan = ''example-chat-model''
                      \<and> length (fallback_plans plan) = 1 \<and> target_id fallback = ''same-model-alt''
                      \<and> model_id fallback = ''example-chat-model'' \<and> target_id plan \<noteq> target_id fallback)))"

definition unknown_or_blank_route_is_invalid :: "(string \<rightharpoonup> 'addr) \<Rightarrow> bool" where
  "unknown_or_blank_route_is_invalid parse_socket =
     (case routing_catalog parse_socket of
        None \<Rightarrow> False
      | Some c \<Rightarrow> list_all (\<lambda>name. resolve_route c (Some name) None = Err (IngressInvalidRequest ''Unknown route''))
          [''not-a-configured-route'', [], '' fast '', ''default ''])"

lemma route_trims: "str_trim ''fast'' = ''fast''" "str_trim ''same-model-chain'' = ''same-model-chain''"
  by code_simp+

lemma routing_unit_tests_pass:
  assumes "parse_socket ''127.0.0.1:3000'' = Some addr"
  shows "omitted_route_selects_default_primary_and_configured_fallbacks parse_socket"
    "named_route_selects_its_configured_primary parse_socket"
    "allow_fallback_false_omits_configured_fallbacks parse_socket"
    "allow_fallback_true_keeps_configured_fallbacks parse_socket"
    "same_requested_model_targets_keep_distinct_plan_identity parse_socket"
    "unknown_or_blank_route_is_invalid parse_socket"
proof -
  have "routing_catalog parse_socket = Some (catalog_for_tests\<lparr>cat_routes :=
      [(''default'', \<lparr>ro_primary = ''primary'', ro_fallbacks = [''secondary'']\<rparr>),
       (''fast'', \<lparr>ro_primary = ''secondary'', ro_fallbacks = []\<rparr>)]\<rparr>)"
    using assms by (simp add: routing_catalog_def settings_for_tests_def documented_defaults_are catalog_for_tests_def)
  then show "omitted_route_selects_default_primary_and_configured_fallbacks parse_socket"
    "named_route_selects_its_configured_primary parse_socket"
    "allow_fallback_false_omits_configured_fallbacks parse_socket"
    "allow_fallback_true_keeps_configured_fallbacks parse_socket"
    "same_requested_model_targets_keep_distinct_plan_identity parse_socket"
    "unknown_or_blank_route_is_invalid parse_socket"
    by (simp_all add: omitted_route_selects_default_primary_and_configured_fallbacks_def test_route_def
        named_route_selects_its_configured_primary_def allow_fallback_false_omits_configured_fallbacks_def
        allow_fallback_true_keeps_configured_fallbacks_def alternative_target_def
        same_requested_model_targets_keep_distinct_plan_identity_def unknown_or_blank_route_is_invalid_def
        resolve_route_def is_configured_route_def target_of_def plan_for_target_def catalog_for_tests_def route_trims Let_def)
qed

section \<open>Errors: \<open>error.rs\<close>\<close>

definition ingress_envelope :: "ingress_error \<Rightarrow> (nat \<times> headers \<times> error_body) option" where
  "ingress_envelope e =
     (case (ingress_error_response None e :: unit http_response option) of
        None \<Rightarrow> None
      | Some response \<Rightarrow>
          (case r_body response of
             Inl b \<Rightarrow> Some (r_status response, r_headers response, b)
           | Inr _ \<Rightarrow> None))"

text \<open>That the body has a text as request identifier and no member \<open>response\<close> is the envelope's type.\<close>

definition invalid_request_uses_canonical_envelope :: bool where
  "invalid_request_uses_canonical_envelope =
     (case ingress_envelope (IngressInvalidRequest ''Unknown route'') of
        None \<Rightarrow> False
      | Some (status, _, body) \<Rightarrow> status = 400 \<and> eb_code body = ''INVALID_REQUEST'' \<and> eb_message body = ''Unknown route'')"

definition execution_failures_preserve_executor_mapping :: bool where
  "execution_failures_preserve_executor_mapping =
     (case ingress_envelope (IngressExecutionFailed (AuthenticationFailed ''openai'')) of
        None \<Rightarrow> False
      | Some (status, _, body) \<Rightarrow> status = 502 \<and> eb_code body = ''UPSTREAM_AUTHENTICATION'' \<and> status \<noteq> 401
          \<and> \<not> str_contains ''openai'' (eb_code body) \<and> \<not> str_contains ''openai'' (eb_message body)
          \<and> \<not> str_contains ''openai'' (eb_request_id body))"

definition payload_too_large_and_overload_map_to_documented_codes :: bool where
  "payload_too_large_and_overload_map_to_documented_codes =
     (case (ingress_envelope IngressPayloadTooLarge, ingress_envelope IngressOverloaded) of
        (Some (too_large_status, _, too_large), Some (overloaded_status, hs, overloaded)) \<Rightarrow>
          too_large_status = 413 \<and> eb_code too_large = ''PAYLOAD_TOO_LARGE'' \<and> overloaded_status = 429
          \<and> hs retry_after_name = Some ''1'' \<and> eb_code overloaded = ''OVERLOADED''
      | _ \<Rightarrow> False)"

definition draining_maps_to_sanitized_503 :: bool where
  "draining_maps_to_sanitized_503 =
     (case ingress_envelope IngressDraining of
        None \<Rightarrow> False
      | Some (status, _, body) \<Rightarrow> status = 503 \<and> eb_code body = ''DRAINING''
          \<and> eb_message body = ''The service is shutting down'')"

lemma ingress_error_unit_tests_pass:
  "invalid_request_uses_canonical_envelope"
  "execution_failures_preserve_executor_mapping"
  "payload_too_large_and_overload_map_to_documented_codes"
  "draining_maps_to_sanitized_503"
  by (simp_all add: invalid_request_uses_canonical_envelope_def ingress_envelope_def ingress_error_response_def
      execution_failures_preserve_executor_mapping_def executor_error_response_def current_request_id_def
      payload_too_large_and_overload_map_to_documented_codes_def draining_maps_to_sanitized_503_def error_response_def
      show_nat.simps digit_char_def char_of_def bit_iff_odd)

end
