(* ===== verification/Test_Stores.thy ===== *)
theory Test_Stores
  imports Auth_Handler Catalog
begin

text \<open>
  The two stores the authentication tests use in place of PostgreSQL: \<open>ScriptedStore\<close> of
  \<open>features/auth/service.rs\<close> and \<open>RecordingStore\<close> of \<open>provision.rs\<close>, both implementations of the trait
  \<open>AuthStore\<close>. They are state machines over their mutexes, each of which is locked for a moment and never across an
  await, so a dropped future has run to its end or not started; the operation \<open>as_authenticate_dropped\<close> is the latter.
  Neither keeps the whole contract of \<open>Auth_Store\<close>: nothing stops a second key with a stored digest. But the
  scripted store with its failures switched off authenticates exactly as the directory of the contract does, which
  is what the last lemma shows, so what the tests observe of authentication they would observe of PostgreSQL.
\<close>

section \<open>The scripted store\<close>

text \<open>\<open>ord\<close> is the order in which the hash map is iterated.\<close>

record scripted_store =
  ss_records :: "(key_digest \<times> api_key_record) list"
  ss_lookups :: nat
  ss_touches :: nat
  ss_inserts :: nat
  ss_revokes :: nat
  ss_fail_lookup :: bool
  ss_fail_touch :: bool
  ss_fail_revoke :: bool
  ss_revoke_after_find :: bool

definition with_record :: "api_key_record \<Rightarrow> scripted_store" where
  "with_record r =
     \<lparr>ss_records = [(kr_digest r, r)], ss_lookups = 0, ss_touches = 0, ss_inserts = 0, ss_revokes = 0,
      ss_fail_lookup = False, ss_fail_touch = False, ss_fail_revoke = False, ss_revoke_after_find = False\<rparr>"

definition unavailable_double :: scripted_store where
  "unavailable_double =
     \<lparr>ss_records = [], ss_lookups = 0, ss_touches = 0, ss_inserts = 0, ss_revokes = 0,
      ss_fail_lookup = True, ss_fail_touch = False, ss_fail_revoke = False, ss_revoke_after_find = False\<rparr>"

definition ss_put :: "api_key_record \<Rightarrow> scripted_store \<Rightarrow> scripted_store" where
  "ss_put r s = s\<lparr>ss_records := AList.update (kr_digest r) r (ss_records s)\<rparr>"

definition scripted_insert_key ::
    "new_api_key \<Rightarrow> scripted_store \<Rightarrow> (auth_store_error + api_key_record) \<times> scripted_store" where
  "scripted_insert_key key s =
     (let s1 = s\<lparr>ss_inserts := ss_inserts s + 1\<rparr>; r = record_of_new key in (Ok r, ss_put r s1))"

definition scripted_find_key_by_digest ::
    "key_digest \<Rightarrow> scripted_store \<Rightarrow> (auth_store_error + api_key_record option) \<times> scripted_store" where
  "scripted_find_key_by_digest digest s =
     (let s1 = s\<lparr>ss_lookups := ss_lookups s + 1\<rparr>
      in if ss_fail_lookup s1 then (Err AsUnavailable, s1) else (Ok (map_of (ss_records s1) digest), s1))"

definition scripted_authenticate_digest ::
    "key_digest \<Rightarrow> timestamp \<Rightarrow> scripted_store
      \<Rightarrow> (auth_store_error + api_key_record option) \<times> scripted_store" where
  "scripted_authenticate_digest digest used_at s =
     (let s1 = s\<lparr>ss_lookups := ss_lookups s + 1\<rparr>
      in if ss_fail_lookup s1 then (Err AsUnavailable, s1)
         else case map_of (ss_records s1) digest of
                None \<Rightarrow> (Ok None, s1)
              | Some r \<Rightarrow>
                  (if ss_revoke_after_find s1 \<and> kr_revoked_at r = None
                   then let r' = r\<lparr>kr_revoked_at := Some used_at\<rparr> in (Ok (Some r'), ss_put r' s1)
                   else if is_revoked r then (Ok (Some r), s1)
                   else
                     let s2 = s1\<lparr>ss_touches := ss_touches s1 + 1\<rparr>
                     in if ss_fail_touch s2 then (Err AsUnavailable, s2)
                        else if (case kr_last_used_at r of Some existing \<Rightarrow> used_at \<le> existing | None \<Rightarrow> False)
                        then (Ok (Some r), s2)
                        else let r' = r\<lparr>kr_last_used_at := Some used_at\<rparr> in (Ok (Some r'), ss_put r' s2)))"

definition scripted_touch_last_used :: "scripted_store \<Rightarrow> (auth_store_error + bool) \<times> scripted_store" where
  "scripted_touch_last_used s =
     (let s1 = s\<lparr>ss_touches := ss_touches s + 1\<rparr>
      in if ss_fail_touch s1 then (Err AsUnavailable, s1) else (Ok True, s1))"

text \<open>\<open>sort_by\<close> is stable and descending: the order of equal elements is the order of the iteration.\<close>

definition scripted_list_keys ::
    "(key_digest list \<Rightarrow> key_digest list) \<Rightarrow> uuid \<Rightarrow> int \<Rightarrow> int \<Rightarrow> api_key_kind option \<Rightarrow> scripted_store
      \<Rightarrow> (auth_store_error + api_key_record list) \<times> scripted_store" where
  "scripted_list_keys ord client_id limit offset kind s =
     (if \<not> (1 \<le> limit \<and> limit \<le> max_key_list_limit) \<or> offset < 0 then (Err AsInvalidLimit, s)
      else
        (let values = map snd (hash_iter ord (ss_records s));
             records = filter (\<lambda>r. kr_client_id r = client_id) values;
             records = filter (\<lambda>r. case kind of None \<Rightarrow> True | Some expected \<Rightarrow> kr_kind r = expected) records;
             records = rev (sort_key (\<lambda>r. (kr_created_at r, kr_id r)) (rev records))
         in (Ok (take (nat limit) (drop (nat offset) records)), s)))"

definition scripted_revoke_key ::
    "(key_digest list \<Rightarrow> key_digest list) \<Rightarrow> uuid \<Rightarrow> uuid \<Rightarrow> timestamp \<Rightarrow> scripted_store
      \<Rightarrow> (auth_store_error + revoke_outcome) \<times> scripted_store" where
  "scripted_revoke_key ord client_id key_id revoked_at s =
     (let s1 = s\<lparr>ss_revokes := ss_revokes s + 1\<rparr>
      in if ss_fail_revoke s1 then (Err AsUnavailable, s1)
         else case List.find (\<lambda>r. kr_id r = key_id \<and> kr_client_id r = client_id)
                     (map snd (hash_iter ord (ss_records s1))) of
                None \<Rightarrow> (Ok RevokeNotFound, s1)
              | Some found \<Rightarrow>
                  (let digest = kr_digest found
                   in case map_of (ss_records s1) digest of
                        None \<Rightarrow> (Ok RevokeNotFound, s1)       \<comment> \<open>a panic, excluded by \<open>scripted_ok\<close>\<close>
                      | Some r \<Rightarrow>
                          (if kr_revoked_at r \<noteq> None then (Ok (AlreadyRevoked r), s1)
                           else let r' = r\<lparr>kr_revoked_at := Some revoked_at\<rparr>
                                in (Ok (Revoked r'),
                                    s1\<lparr>ss_records := AList.update digest r' (ss_records s1)\<rparr>))))"

definition scripted_probe :: "scripted_store \<Rightarrow> (auth_store_error + unit) \<times> scripted_store" where
  "scripted_probe s = (if ss_fail_lookup s then (Err AsUnavailable, s) else (Ok (), s))"

definition scripted_ops :: "(key_digest list \<Rightarrow> key_digest list) \<Rightarrow> scripted_store auth_store_ops" where
  "scripted_ops ord =
     \<lparr>as_provision_client_with_key = (\<lambda>_ _ s. (Err AsUnavailable, s)),
      as_insert_key = scripted_insert_key,
      as_find_key_by_digest = scripted_find_key_by_digest,
      as_authenticate_digest = scripted_authenticate_digest,
      as_authenticate_dropped = (\<lambda>_ _ _ _ s. s),
      as_touch_last_used = (\<lambda>_ _ _. scripted_touch_last_used),
      as_list_keys_for_client = scripted_list_keys ord,
      as_revoke_key = scripted_revoke_key ord,
      as_probe_authentication_access = scripted_probe\<rparr>"

section \<open>The recording store\<close>

record recording_store =
  rs_last_key :: "new_api_key option"

definition recording_new :: recording_store where
  "recording_new = \<lparr>rs_last_key = None\<rparr>"

definition record_from_new :: "new_api_key \<Rightarrow> api_key_record" where
  "record_from_new key =
     \<lparr>kr_id = nk_id key, kr_client_id = nk_client_id key, kr_digest = nk_digest key,
      kr_display_id = nk_display_id key, kr_name = nk_name key, kr_kind = nk_kind key,
      kr_created_at = nk_created_at key, kr_last_used_at = None, kr_revoked_at = None\<rparr>"

definition recording_provision ::
    "new_client \<Rightarrow> new_api_key \<Rightarrow> recording_store
      \<Rightarrow> (auth_store_error + client_record \<times> api_key_record) \<times> recording_store" where
  "recording_provision client key s =
     (Ok (\<lparr>cr_id = nc_id client, cr_display_name = nc_display_name client, cr_created_at = nc_created_at client\<rparr>,
          record_from_new key), s\<lparr>rs_last_key := Some key\<rparr>)"

definition recording_insert_key ::
    "new_api_key \<Rightarrow> recording_store \<Rightarrow> (auth_store_error + api_key_record) \<times> recording_store" where
  "recording_insert_key key s = (Ok (record_from_new key), s\<lparr>rs_last_key := Some key\<rparr>)"

definition recording_find ::
    "key_digest \<Rightarrow> recording_store \<Rightarrow> (auth_store_error + api_key_record option) \<times> recording_store" where
  "recording_find digest s =
     (Ok (case rs_last_key s of
            None \<Rightarrow> None
          | Some key \<Rightarrow> (if nk_digest key = digest then Some (record_from_new key) else None)), s)"

definition recording_ops :: "recording_store auth_store_ops" where
  "recording_ops =
     \<lparr>as_provision_client_with_key = recording_provision,
      as_insert_key = recording_insert_key,
      as_find_key_by_digest = recording_find,
      as_authenticate_digest = (\<lambda>digest _. recording_find digest),
      as_authenticate_dropped = (\<lambda>_ _ _ _ s. s),
      as_touch_last_used = (\<lambda>_ _ _ s. (Ok False, s)),
      as_list_keys_for_client = (\<lambda>_ _ _ _ s. (Ok [], s)),
      as_revoke_key = (\<lambda>_ _ _ s. (Ok RevokeNotFound, s)),
      as_probe_authentication_access = (\<lambda>s. (Ok (), s))\<rparr>"

section \<open>What the scripted store shares with the contract\<close>

text \<open>Every record is stored under its own digest, once, and identifiers differ.\<close>

definition scripted_ok :: "scripted_store \<Rightarrow> bool" where
  "scripted_ok s \<longleftrightarrow>
     distinct (map fst (ss_records s)) \<and> list_all (\<lambda>(d, r). kr_digest r = d) (ss_records s)
     \<and> distinct (map (kr_id \<circ> snd) (ss_records s))"

definition all_switches_off :: "scripted_store \<Rightarrow> bool" where
  "all_switches_off s \<longleftrightarrow>
     \<not> ss_fail_lookup s \<and> \<not> ss_fail_touch s \<and> \<not> ss_fail_revoke s \<and> \<not> ss_revoke_after_find s"

definition scripted_view :: "scripted_store \<Rightarrow> directory" where
  "scripted_view s = \<lparr>dr_tenants = UNIV, dr_keys = map snd (ss_records s)\<rparr>"

lemma find_by_stored_digest:
  "list_all (\<lambda>(d, r). kr_digest r = d) m \<Longrightarrow> List.find (\<lambda>r. kr_digest r = dg) (map snd m) = map_of m dg"
  by (induction m) auto

lemma update_is_map:
  assumes "distinct (map fst m)" "map_of m d = Some r"
  shows "AList.update d r' m = map (\<lambda>(k, v). (k, if k = d then r' else v)) m"
  using assms
proof (induction m)
  case (Cons e m)
  show ?case
  proof (cases "fst e = d")
    case True
    with Cons.prems(1) have "d \<notin> fst ` set m" by auto
    then have "map (\<lambda>(k, v). (k, if k = d then r' else v)) m = m" by (intro map_idI) force
    with True show ?thesis by (cases e) simp
  next
    case False
    with Cons show ?thesis by (cases e) simp
  qed
qed simp

text \<open>Replacing the record stored under a digest, as a map over the records.\<close>

abbreviation by_digest :: "(key_digest \<times> api_key_record) list \<Rightarrow> bool" where
  "by_digest m \<equiv> distinct (map fst m) \<and> list_all (\<lambda>(d, r). kr_digest r = d) m"

lemma stored_under_its_digest:
  assumes "by_digest m" "z \<in> set (map snd m)"
  shows "map_of m (kr_digest z) = Some z"
proof -
  obtain dz where "(dz, z) \<in> set m" using assms(2) by auto
  with assms(1) show ?thesis by (auto simp: list_all_iff)
qed

lemma map_at_digest:
  assumes m: "by_digest m" and y: "map_of m dg = Some y"
  shows "map snd (AList.update dg (f y) m) = map (\<lambda>r. if kr_digest r = dg then f r else r) (map snd m)"
    and "f y = y \<Longrightarrow> map snd m = map (\<lambda>r. if kr_digest r = dg then f r else r) (map snd m)"
proof -
  have same: "r = y" if "r \<in> set (map snd m)" "kr_digest r = dg" for r
    using stored_under_its_digest [OF m that(1)] that(2) y by simp
  have "map snd (AList.update dg (f y) m) = map (\<lambda>r. if kr_digest r = dg then f y else r) (map snd m)"
    using m by (auto simp: update_is_map [OF _ y] list_all_iff)
  also have "\<dots> = map (\<lambda>r. if kr_digest r = dg then f r else r) (map snd m)"
    using same by (intro map_cong) auto
  finally show "map snd (AList.update dg (f y) m) = map (\<lambda>r. if kr_digest r = dg then f r else r) (map snd m)" .
  show "map snd m = map (\<lambda>r. if kr_digest r = dg then f r else r) (map snd m)" if "f y = y"
    using same that by (intro map_idI [symmetric]) auto
qed

lemma map_at_absent_digest:
  "by_digest m \<Longrightarrow> map_of m dg = None \<Longrightarrow>
     map (\<lambda>r. if kr_digest r = dg then f r else r) (map snd m) = map snd m"
  by (intro map_idI) (force simp: map_of_eq_None_iff list_all_iff image_iff)

lemma scripted_authenticates_as_the_directory:
  assumes ok: "scripted_ok s" "all_switches_off s"
    and run: "scripted_authenticate_digest dg t s = (r, s')"
  shows "r = Ok (fst (dir_authenticate dg t (scripted_view s)))"
    and "scripted_view s' = snd (dir_authenticate dg t (scripted_view s))"
proof -
  let ?m = "ss_records s"
  have m: "by_digest ?m" using ok(1) by (simp add: scripted_ok_def)
  then have find: "dir_find dg (scripted_view s) = map_of ?m dg"
    by (simp add: dir_find_def scripted_view_def find_by_stored_digest)
  have rs: "r = fst (scripted_authenticate_digest dg t s)" "s' = snd (scripted_authenticate_digest dg t s)"
    and off: "\<not> ss_fail_lookup s" "\<not> ss_fail_touch s" "\<not> ss_revoke_after_find s"
    using run ok(2) by (simp_all add: all_switches_off_def)
  have "r = Ok (map_option (touch t) (map_of ?m dg))
      \<and> map snd (ss_records s') = map (\<lambda>r. if kr_digest r = dg then touch t r else r) (map snd ?m)"
  proof (cases "map_of ?m dg")
    case None
    then show ?thesis
      using rs off map_at_absent_digest [OF m None] by (simp add: scripted_authenticate_digest_def Let_def)
  next
    case (Some y)
    have "kr_digest y = dg" using map_of_SomeD [OF Some] m by (auto simp: list_all_iff)
    then have "r = Ok (Some (touch t y))
        \<and> (ss_records s' = ?m \<and> touch t y = y \<or> ss_records s' = AList.update dg (touch t y) ?m)"
      using rs off
      by (simp add: scripted_authenticate_digest_def Some ss_put_def touch_def Let_def split: option.split)
    with map_at_digest [OF m Some, of "touch t"] Some show ?thesis by auto
  qed
  then show "r = Ok (fst (dir_authenticate dg t (scripted_view s)))"
    and "scripted_view s' = snd (dir_authenticate dg t (scripted_view s))"
    by (simp_all add: dir_authenticate_def find touch_where_def) (simp_all add: scripted_view_def)
qed

end
