(* ===== verification/Unit_Tests_Auth.thy ===== *)
theory Unit_Tests_Auth
  imports Unit_Tests_Core Test_Stores
begin

text \<open>
  The unit tests of \<open>features/auth/\<close> and of \<open>middleware/auth.rs\<close> that need no store, on the model, with the
  conventions of \<open>Unit_Tests_Executor\<close>: credentials, errors, requests and headers. What a test draws is an argument. Assertions on printed
  forms and log lines are left to \<open>Redaction\<close>, and tests that search the text of a source file have no counterpart.
\<close>

section \<open>Credentials: \<open>credentials.rs\<close> and \<open>persist/mod.rs\<close>\<close>

definition starts_with :: "string \<Rightarrow> string \<Rightarrow> bool" where
  "starts_with p s = (take (length p) s = p)"

text \<open>\<open>src1\<close> and \<open>src2\<close> are what the two calls draw.\<close>

definition generated_credentials_use_versioned_32_byte_payload ::
    "cred_libs \<Rightarrow> secret_source \<Rightarrow> secret_source \<Rightarrow> bool" where
  "generated_credentials_use_versioned_32_byte_payload C src1 src2 =
     (case (generate_credential C src1, generate_credential C src2) of
        (Inr first, Inr second) \<Rightarrow>
          (let first_secret = gc_credential first; second_secret = gc_credential second
           in case (parse_credential_payload C first_secret, parse_credential_payload C second_secret) of
                (Some first_payload, Some second_payload) \<Rightarrow>
                  starts_with credential_prefix first_secret \<and> starts_with credential_prefix second_secret
                  \<and> length first_payload = secret_payload_len \<and> length second_payload = secret_payload_len
                  \<and> first_secret \<noteq> second_secret \<and> gc_digest first \<noteq> gc_digest second
                  \<and> gc_display_id first \<noteq> gc_display_id second
                  \<and> gc_digest first = hash_credential C first_secret
                  \<and> \<not> str_contains first_secret (gc_display_id first) \<and> starts_with ''opk_'' (gc_display_id first)
              | _ \<Rightarrow> False)
      | _ \<Rightarrow> False)"

definition many_generated_secrets_are_unique :: "cred_libs \<Rightarrow> secret_source list \<Rightarrow> bool" where
  "many_generated_secrets_are_unique C srcs =
     (case collect_results (generate_credential C) srcs of
        Inl _ \<Rightarrow> False | Inr gs \<Rightarrow> card (set (map gc_credential gs)) = 8)"

definition parse_rejects_malformed_credentials :: "cred_libs \<Rightarrow> bool" where
  "parse_rejects_malformed_credentials C \<longleftrightarrow>
     parse_credential_payload C ''not-a-key'' = None \<and> parse_credential_payload C ''opmx_v1_???'' = None
     \<and> parse_credential_payload C ''opmx_v2_abcd'' = None"

definition digest_rejects_wrong_length :: bool where
  "digest_rejects_wrong_length = (\<not> is_ok (digest_from_slice [CHR 0x01, CHR 0x02, CHR 0x03]))"

definition digest_debug_is_redacted :: bool where
  "digest_debug_is_redacted =
     (digest_debug (replicate 32 CHR 0x07) = DRaw ''KeyDigest([redacted])'' \<and> \<not> str_contains ''7'' ''KeyDigest([redacted])'')"

definition digest_length_is_fixed :: "cred_libs \<Rightarrow> bool" where
  "digest_length_is_fixed C = (length (hash_credential C ''opmx_v1_example'') = key_digest_len)"

lemma str_contains_length: "str_contains p s \<Longrightarrow> length p \<le> length s"
  by (induction p s rule: str_contains.induct) (auto dest: arg_cong [where f = length])

lemma generated_parts:
  assumes "cred_laws C" "fills src" "src 0 32 = Some p" "src 1 16 = Some q"
  shows "generate_credential C src = Ok (assemble_credential C p q)"
    "parse_credential_payload C (gc_credential (assemble_credential C p q)) = Some p" "length p = 32"
    "length (gc_display_id (assemble_credential C p q)) < length (gc_credential (assemble_credential C p q))"
proof -
  show g: "generate_credential C src = Ok (assemble_credential C p q)"
    using assms(3,4) by (simp add: generate_credential_Ok)
  show "parse_credential_payload C (gc_credential (assemble_credential C p q)) = Some p"
    using parse_generated [OF assms(1,2) g] assms(3) by simp
  show l: "length p = 32" using assms(2,3) by (auto simp: fills_def)
  have "length q = 16" using assms(2,4) by (auto simp: fills_def)
  with l show "length (gc_display_id (assemble_credential C p q)) < length (gc_credential (assemble_credential C p q))"
    using assms(1) by (simp add: assemble_credential_def cred_laws_def Let_def)
qed

text \<open>Different draws give different secrets and identifiers, since the encoding can be decoded; that different secrets
  have different digests is an assumption on the hash.\<close>

lemma encode_inj: "cred_laws C \<Longrightarrow> b64_encode C a = b64_encode C b \<longleftrightarrow> a = b"
  unfolding cred_laws_def by (metis option.inject)

lemma credential_unit_tests_pass:
  assumes C: "cred_laws C" and f: "fills src1" "fills src2"
    and s1: "src1 0 32 = Some p1" "src1 1 16 = Some q1" and s2: "src2 0 32 = Some p2" "src2 1 16 = Some q2"
    and fresh: "p1 \<noteq> p2" "q1 \<noteq> q2"
    and digests: "\<And>a b. hash_credential C a = hash_credential C b \<Longrightarrow> a = b"
  shows "generated_credentials_use_versioned_32_byte_payload C src1 src2"
proof -
  note g1 = generated_parts [OF C f(1) s1] and g2 = generated_parts [OF C f(2) s2]
  have "\<not> str_contains (gc_credential (assemble_credential C p1 q1)) (gc_display_id (assemble_credential C p1 q1))"
    using g1(4) str_contains_length leD by blast
  moreover have "gc_credential (assemble_credential C p1 q1) \<noteq> gc_credential (assemble_credential C p2 q2)"
    using fresh(1) by (simp add: assemble_credential_def encode_inj [OF C] Let_def)
  moreover from this have "gc_digest (assemble_credential C p1 q1) \<noteq> gc_digest (assemble_credential C p2 q2)"
    using digests by (auto simp: assemble_credential_def Let_def)
  moreover have "gc_digest g = hash_credential C (gc_credential g)"
      "starts_with credential_prefix (gc_credential g)" "starts_with ''opk_'' (gc_display_id g)"
    if "g \<in> {assemble_credential C p1 q1, assemble_credential C p2 q2}" for g
    using that by (auto simp: assemble_credential_def starts_with_def Let_def)
  moreover have "gc_display_id (assemble_credential C p1 q1) \<noteq> gc_display_id (assemble_credential C p2 q2)"
    using fresh(2) by (simp add: assemble_credential_def encode_inj [OF C] Let_def)
  ultimately show ?thesis
    unfolding generated_credentials_use_versioned_32_byte_payload_def g1(1) g2(1) Let_def prod.case sum.case g1(2) g2(2)
      option.case
    using g1(3) g2(3) by simp
qed

lemma distinct_secrets:
  assumes C: "cred_laws C" and "length srcs = 8" "list_all fills srcs"
    and draws: "list_all (\<lambda>src. src 0 32 \<noteq> None \<and> src 1 16 \<noteq> None) srcs" "distinct (map (\<lambda>src. src 0 32) srcs)"
  shows "many_generated_secrets_are_unique C srcs"
proof -
  let ?g = "\<lambda>src. assemble_credential C (the (src 0 32)) (the (src 1 16))"
  have g: "collect_results (generate_credential C) xs = Ok (map ?g xs)"
    if "list_all (\<lambda>src. src 0 32 \<noteq> None \<and> src 1 16 \<noteq> None) xs" for xs
    using that by (induction xs) (auto simp: generate_credential_def)
  have "a 0 32 = b 0 32" if "a \<in> set srcs" "b \<in> set srcs" "the (a 0 32) = the (b 0 32)" for a b
  proof -
    have "a 0 32 \<noteq> None" "b 0 32 \<noteq> None" using that(1,2) draws(1) by (auto simp: list_all_iff)
    with that(3) show ?thesis by auto
  qed
  then have "distinct (map (gc_credential \<circ> ?g) srcs)"
    using draws(2) by (auto simp: distinct_map inj_on_def assemble_credential_def Let_def encode_inj [OF C])
  then have "card (set (map (gc_credential \<circ> ?g) srcs)) = 8"
    by (simp only: distinct_card length_map assms(2))
  then show ?thesis by (simp add: many_generated_secrets_are_unique_def g [OF draws(1)] del: set_map)
qed

lemma credential_shape_unit_tests_pass:
  "b64_decode C ''???'' = None \<Longrightarrow> parse_rejects_malformed_credentials C"
  "digest_rejects_wrong_length" "digest_debug_is_redacted"
  "cred_laws C \<Longrightarrow> digest_length_is_fixed C"
  by (simp_all add: parse_rejects_malformed_credentials_def parse_credential_payload_def strip_prefix_def
      digest_rejects_wrong_length_def digest_from_slice_def digest_debug_is_redacted_def digest_debug_def
      digest_length_is_fixed_def hash_credential_def cred_laws_def)

section \<open>The mapping to HTTP: \<open>error.rs\<close>\<close>

text \<open>The response of the error, made outside any request.\<close>

definition auth_envelope :: "auth_error \<Rightarrow> (nat \<times> error_body) option" where
  "auth_envelope error = envelope_of (auth_error_response None error :: unit http_response)"

definition invalid_credentials_map_to_401 :: bool where
  "invalid_credentials_map_to_401 =
     (case auth_envelope AuthInvalidCredentials of
        None \<Rightarrow> False
      | Some (status, body) \<Rightarrow>
          status = 401 \<and> eb_code body = ''UNAUTHORIZED'' \<and> eb_message body = ''Authentication failed''
          \<and> \<not> envelope_mentions ''digest'' body \<and> \<not> envelope_mentions ''postgres'' body)"

definition capability_denied_maps_to_403 :: bool where
  "capability_denied_maps_to_403 =
     (case auth_envelope AuthCapabilityDenied of
        None \<Rightarrow> False
      | Some (status, body) \<Rightarrow>
          status = 403 \<and> eb_code body = ''FORBIDDEN'' \<and> str_contains ''permission'' (eb_message body)
          \<and> \<not> envelope_mentions ''digest'' body)"

definition invalid_input_maps_to_400 :: bool where
  "invalid_input_maps_to_400 =
     (case auth_envelope (AuthInvalidInput ''kind must be management or inference'') of
        None \<Rightarrow> False
      | Some (status, body) \<Rightarrow>
          status = 400 \<and> eb_code body = ''INVALID_REQUEST''
          \<and> eb_message body = ''kind must be management or inference'' \<and> \<not> envelope_mentions ''digest'' body)"

definition key_not_found_maps_to_indistinguishable_404 :: bool where
  "key_not_found_maps_to_indistinguishable_404 =
     (case auth_envelope AuthKeyNotFound of
        None \<Rightarrow> False
      | Some (status, body) \<Rightarrow>
          status = 404 \<and> eb_code body = ''NOT_FOUND'' \<and> eb_message body = ''API key was not found''
          \<and> \<not> envelope_mentions ''tenant'' body \<and> \<not> envelope_mentions ''digest'' body
          \<and> \<not> envelope_mentions ''revoked'' body)"

definition store_unavailable_maps_to_503 :: bool where
  "store_unavailable_maps_to_503 =
     (case auth_envelope AuthStoreUnavailable of
        None \<Rightarrow> False
      | Some (status, body) \<Rightarrow>
          status = 503 \<and> eb_code body = ''AUTH_DEPENDENCY_UNAVAILABLE''
          \<and> str_contains ''unavailable'' (eb_message body) \<and> status \<noteq> 401
          \<and> \<not> envelope_mentions ''postgres://'' body)"

definition deadline_exceeded_maps_to_504 :: bool where
  "deadline_exceeded_maps_to_504 =
     (case auth_envelope AuthDeadlineExceeded of
        None \<Rightarrow> False
      | Some (status, body) \<Rightarrow>
          status = 504 \<and> eb_code body = ''DEADLINE_EXCEEDED''
          \<and> eb_message body = ''The request deadline was exceeded'' \<and> \<not> envelope_mentions ''postgres://'' body)"

lemma auth_error_unit_tests_pass:
  "invalid_credentials_map_to_401" "capability_denied_maps_to_403" "invalid_input_maps_to_400"
  "key_not_found_maps_to_indistinguishable_404" "store_unavailable_maps_to_503" "deadline_exceeded_maps_to_504"
  by (simp_all add: invalid_credentials_map_to_401_def capability_denied_maps_to_403_def invalid_input_maps_to_400_def
      key_not_found_maps_to_indistinguishable_404_def store_unavailable_maps_to_503_def
      deadline_exceeded_maps_to_504_def auth_envelope_def envelope_of_def envelope_mentions_def auth_error_response_def
      current_request_id_def)

section \<open>The requests of key management: \<open>handler.rs\<close>\<close>

definition parse_accepts_name_and_supported_kind :: bool where
  "parse_accepts_name_and_supported_kind =
     (case parse_create_key_request (JObj [(''kind'', JStr ''inference''), (''name'', JStr ''route-key'')]) of
        Inl _ \<Rightarrow> False
      | Inr (name, kind) \<Rightarrow> name = ''route-key'' \<and> kind = Inference)"

fun is_invalid_input :: "auth_error + 'a \<Rightarrow> bool" where
  "is_invalid_input (Inl (AuthInvalidInput _)) = True"
| "is_invalid_input _ = False"

definition parse_rejects_ownership_fields_and_admin_kind :: bool where
  "parse_rejects_ownership_fields_and_admin_kind \<longleftrightarrow>
     is_invalid_input (parse_create_key_request (JObj
       [(''client_id'', JStr ''11111111-1111-1111-1111-111111111111''), (''kind'', JStr ''inference''),
        (''name'', JStr ''stolen'')]))
     \<and> is_invalid_input (parse_create_key_request (JObj
       [(''kind'', JStr ''inference''), (''name'', JStr ''stolen''),
        (''tenant_id'', JStr ''11111111-1111-1111-1111-111111111111'')]))
     \<and> is_invalid_input (parse_create_key_request (JObj [(''kind'', JStr ''admin''), (''name'', JStr ''admin-kind'')]))"

definition parse_list_query_defaults_and_accepts_paging :: bool where
  "parse_list_query_defaults_and_accepts_paging =
     (case (parse_list_keys_query None, parse_list_keys_query (Some ''limit=2&offset=4&kind=inference'')) of
        (Inr defaults, Inr page) \<Rightarrow>
          lo_limit defaults = max_key_list_limit \<and> lo_offset defaults = 0 \<and> lo_kind defaults = None
          \<and> lo_limit page = 2 \<and> lo_offset page = 4 \<and> lo_kind page = Some Inference
      | _ \<Rightarrow> False)"

definition parse_list_query_rejects_ownership_and_malformed_paging :: bool where
  "parse_list_query_rejects_ownership_and_malformed_paging =
     list_all (\<lambda>raw. is_invalid_input (parse_list_keys_query (Some raw)))
       [''client_id=11111111-1111-1111-1111-111111111111'', ''tenant_id=11111111-1111-1111-1111-111111111111'',
        ''kind=admin'', ''limit=0'', ''limit=-1'', ''limit=101'', ''limit=abc'', ''offset=-1'', ''offset=nope'',
        ''unknown=1'', ''limit=1&limit=2'']"

lemma handler_unit_tests_pass:
  "parse_accepts_name_and_supported_kind" "parse_rejects_ownership_fields_and_admin_kind"
  "parse_list_query_defaults_and_accepts_paging" "parse_list_query_rejects_ownership_and_malformed_paging"
  by (simp_all add: parse_accepts_name_and_supported_kind_def parse_create_key_request_def
      parse_rejects_ownership_fields_and_admin_kind_def parse_list_query_defaults_and_accepts_paging_def
      parse_list_query_rejects_ownership_and_malformed_paging_def parse_list_keys_query_def apply_query_pair_def
      parse_i64_query_def parse_i64_def parse_kind_query_def key_list_options_default_def is_ascii_digit_def
      decimal_value_def ok_or_def Let_def)

section \<open>The header: \<open>middleware/auth.rs\<close>\<close>

definition extract_api_key_missing_when_absent :: "http_libs \<Rightarrow> bool" where
  "extract_api_key_missing_when_absent H = (presented_api_key H [] = KeyMissing)"

definition extract_api_key_invalid_for_empty_duplicate_and_comma :: "http_libs \<Rightarrow> bool" where
  "extract_api_key_invalid_for_empty_duplicate_and_comma H \<longleftrightarrow>
     presented_api_key H [(''x-api-key'', '' '')] = KeyInvalid
     \<and> presented_api_key H [(''x-api-key'', ''abc''), (''x-api-key'', ''abc'')] = KeyInvalid
     \<and> presented_api_key H [(''x-api-key'', ''one,two'')] = KeyInvalid
     \<and> presented_api_key H [(''x-api-key'', [CHR 0xFF])] = KeyInvalid"

definition extract_api_key_value_when_single_token :: "http_libs \<Rightarrow> bool" where
  "extract_api_key_value_when_single_token H =
     (presented_api_key H [(''x-api-key'', ''opmx_v1_token'')] = KeyValue ''opmx_v1_token'')"

lemma presented_trims: "str_trim '' '' = []" "str_trim ''opmx_v1_token'' = ''opmx_v1_token''"
  by code_simp+

lemma presented_key_unit_tests_pass:
  assumes "reads_visible_ascii (hl_to_str H)"
  shows "extract_api_key_missing_when_absent H" "extract_api_key_invalid_for_empty_duplicate_and_comma H"
    "extract_api_key_value_when_single_token H"
  using assms
  by (simp_all add: extract_api_key_missing_when_absent_def extract_api_key_invalid_for_empty_duplicate_and_comma_def
      extract_api_key_value_when_single_token_def presented_api_key_def get_all_def reads_visible_ascii_def
      visible_ascii_def presented_trims)

section \<open>The mock keys: \<open>mockdata.rs\<close> and \<open>repository.rs\<close>\<close>

definition mock_keys_exist_only_as_test_fixtures :: bool where
  "mock_keys_exist_only_as_test_fixtures \<longleftrightarrow>
     get_api_key_by_hash ''test-api-key-123'' \<noteq> None \<and> get_api_key_by_hash ''dev-api-key-456'' \<noteq> None"

definition find_api_key_by_hash_returns_some_for_known_key :: bool where
  "find_api_key_by_hash_returns_some_for_known_key =
     (case mock_find_api_key_by_hash ''test-api-key-123'' of
        None \<Rightarrow> False
      | Some info \<Rightarrow> mk_id info = ''key_001'' \<and> mk_client_id info = ''test-client-456'' \<and> mk_is_active info)"

definition find_api_key_by_hash_returns_none_for_unknown_key :: bool where
  "find_api_key_by_hash_returns_none_for_unknown_key = (mock_find_api_key_by_hash ''does-not-exist'' = None)"

lemma mock_unit_tests_pass:
  "mock_keys_exist_only_as_test_fixtures" "find_api_key_by_hash_returns_some_for_known_key"
  "find_api_key_by_hash_returns_none_for_unknown_key"
  by (simp_all add: mock_keys_exist_only_as_test_fixtures_def find_api_key_by_hash_returns_some_for_known_key_def
      find_api_key_by_hash_returns_none_for_unknown_key_def mock_find_api_key_by_hash_def get_api_key_by_hash_def
      mock_api_keys_def)

end
