(* ===== verification/Unit_Tests_Services.thy ===== *)
theory Unit_Tests_Services
  imports Unit_Tests_Auth
begin

text \<open>
  The unit tests of \<open>features/auth/provision.rs\<close> and \<open>service.rs\<close> over the stores of \<open>Test_Stores\<close>, with the
  conventions of \<open>Unit_Tests_Executor\<close>. What a test draws or reads (identifiers, times, entropy, the order of a hash
  map) is an argument; where a test relies on draws that differ, so do the lemmas. Assertions on printed forms and
  log lines are left to \<open>Redaction\<close>.
\<close>

section \<open>Provisioning: \<open>provision.rs\<close>\<close>

definition hashes_before_store_and_omits_secret_from_internal_record ::
    "cred_libs \<Rightarrow> secret_source \<Rightarrow> timestamp \<Rightarrow> uuid \<Rightarrow> uuid \<Rightarrow> bool" where
  "hashes_before_store_and_omits_secret_from_internal_record C src now client_uuid key_uuid =
     (case create_tenant recording_ops C src now client_uuid key_uuid ''tenant-a'' recording_new of
        (Inr created, store) \<Rightarrow>
          (case rs_last_key store of
             None \<Rightarrow> False
           | Some stored \<Rightarrow>
               (let secret = ik_credential (ct_key created)
                in nk_digest stored = hash_credential C secret \<and> length (nk_digest stored) = key_digest_len
                   \<and> nk_display_id stored \<noteq> secret \<and> \<not> str_contains secret (nk_display_id stored)
                   \<and> nk_kind stored = Management \<and> nk_name stored = initial_management_key_name
                   \<and> ik_kind (ct_key created) = ''management''))
      | _ \<Rightarrow> False)"

definition issue_key_hashes_before_insert ::
    "cred_libs \<Rightarrow> secret_source \<Rightarrow> timestamp \<Rightarrow> uuid \<Rightarrow> uuid \<Rightarrow> bool" where
  "issue_key_hashes_before_insert C src now key_uuid client_id =
     (case issue_key recording_ops C src now key_uuid client_id Inference ''route-key'' recording_new of
        (Inr issued, store) \<Rightarrow>
          (case rs_last_key store of
             None \<Rightarrow> False
           | Some stored \<Rightarrow>
               (let secret = ik_credential issued
                in nk_digest stored = hash_credential C secret \<and> nk_client_id stored = client_id
                   \<and> nk_kind stored = Inference \<and> ik_kind issued = ''inference''
                   \<and> (case resolve_credential recording_ops C secret store of
                        (Inr (Some identity), _) \<Rightarrow>
                          id_client_id identity = client_id \<and> id_key_id identity = ik_key_id issued
                          \<and> id_kind identity = Inference
                      | _ \<Rightarrow> False)))
      | _ \<Rightarrow> False)"

definition rejects_blank_and_oversized_names ::
    "cred_libs \<Rightarrow> secret_source \<Rightarrow> timestamp \<Rightarrow> uuid \<Rightarrow> uuid \<Rightarrow> bool" where
  "rejects_blank_and_oversized_names C src now uuid1 uuid2 \<longleftrightarrow>
     fst (create_tenant recording_ops C src now uuid1 uuid2 ''   '' recording_new) = Err PvInvalidName
     \<and> fst (issue_key recording_ops C src now uuid2 uuid1 Management (replicate 129 CHR ''n'') recording_new)
         = Err PvInvalidName"

definition unknown_credential_resolves_to_none :: "cred_libs \<Rightarrow> bool" where
  "unknown_credential_resolves_to_none C =
     (fst (resolve_credential recording_ops C ''opmx_v1_unknown'' recording_new) = Ok None)"

lemma test_names:
  "validate_name ''tenant-a'' = Ok ''tenant-a''" "validate_name ''route-key'' = Ok ''route-key''"
  "validate_name ''new-inference'' = Ok ''new-inference''" "validate_name ''   '' = Err PvInvalidName"
  "validate_name (replicate 129 CHR ''n'') = Err PvInvalidName"
  by code_simp+

lemma provision_unit_tests_pass:
  assumes "cred_laws C" "fills src" "src 0 32 = Some p" "src 1 16 = Some q"
  shows "hashes_before_store_and_omits_secret_from_internal_record C src now client_uuid key_uuid"
    "issue_key_hashes_before_insert C src now key_uuid client_id"
    "rejects_blank_and_oversized_names C src now client_uuid key_uuid"
    "unknown_credential_resolves_to_none C"
proof -
  note g = generated_parts [OF assms]
  let ?g = "assemble_credential C p q"
  have d: "gc_digest ?g = hash_credential C (gc_credential ?g)" by (rule gc_digest_is_hash [OF g(1)])
  have l: "length (hash_credential C s) = 32" for s using assms(1) by (simp add: cred_laws_def hash_credential_def)
  have "gc_display_id ?g \<noteq> gc_credential ?g" "\<not> str_contains (gc_credential ?g) (gc_display_id ?g)"
    using g(4) str_contains_length leD by (metis less_irrefl, blast)
  then show "hashes_before_store_and_omits_secret_from_internal_record C src now client_uuid key_uuid"
    by (simp add: hashes_before_store_and_omits_secret_from_internal_record_def create_tenant_def test_names g(1)
        sbind_def smap_err_def recording_ops_def recording_provision_def recording_new_def record_from_new_def
        issued_of_record_def d l)
  show "issue_key_hashes_before_insert C src now key_uuid client_id"
    by (simp add: issue_key_hashes_before_insert_def issue_key_def test_names g(1) resolve_credential_def
        sbind_def smap_err_def recording_ops_def recording_insert_key_def recording_find_def recording_new_def
        record_from_new_def issued_of_record_def identity_of_record_def d)
  show "rejects_blank_and_oversized_names C src now client_uuid key_uuid"
    by (simp only: rejects_blank_and_oversized_names_def create_tenant_def issue_key_def test_names sum.case fst_conv simp_thms)
  show "unknown_credential_resolves_to_none C"
    by (simp add: unknown_credential_resolves_to_none_def resolve_credential_def sbind_def smap_err_def
        recording_ops_def recording_find_def recording_new_def)
qed

section \<open>Authentication: \<open>service.rs\<close>\<close>

text \<open>What \<open>record\<close> draws, and the two times it may read.\<close>

record drawn =
  dw_secret :: string
  dw_id :: uuid
  dw_client :: uuid
  dw_display :: string
  dw_created :: timestamp
  dw_revoked :: timestamp

definition record_fixture :: "cred_libs \<Rightarrow> api_key_kind \<Rightarrow> bool \<Rightarrow> drawn \<Rightarrow> string \<times> api_key_record" where
  "record_fixture C kind revoked w =
     (let presented = ''opmx_v1_fixture-'' @ dw_secret w; digest = hash_credential C presented
      in (presented,
          \<lparr>kr_id = dw_id w, kr_client_id = dw_client w, kr_digest = digest, kr_display_id = ''opk_'' @ dw_display w,
           kr_name = ''fixture'', kr_kind = kind, kr_created_at = dw_created w, kr_last_used_at = None,
           kr_revoked_at = (if revoked then Some (dw_revoked w) else None)\<rparr>))"

definition authenticate_returns_persisted_client_key_and_kind ::
    "cred_libs \<Rightarrow> (key_digest list \<Rightarrow> key_digest list) \<Rightarrow> timestamp \<Rightarrow> drawn \<Rightarrow> bool" where
  "authenticate_returns_persisted_client_key_and_kind C ord now w =
     (case record_fixture C Inference False w of (presented, stored) \<Rightarrow>
      case authenticate (scripted_ops ord) C now presented (with_record stored) of
        (Inr ctx, store) \<Rightarrow>
          au_client_id ctx = kr_client_id stored \<and> au_key_id ctx = kr_id stored \<and> au_kind ctx = Inference
          \<and> ss_lookups store = 1 \<and> ss_touches store = 1
      | _ \<Rightarrow> False)"

definition authenticate_rejects_unknown_and_revoked_keys ::
    "cred_libs \<Rightarrow> (key_digest list \<Rightarrow> key_digest list) \<Rightarrow> timestamp \<Rightarrow> timestamp \<Rightarrow> drawn \<Rightarrow> drawn \<Rightarrow> bool" where
  "authenticate_rejects_unknown_and_revoked_keys C ord now now' w w' \<longleftrightarrow>
     fst (authenticate (scripted_ops ord) C now ''opmx_v1_missing''
            (with_record (snd (record_fixture C Management True w)))) = Err AeInvalidCredentials
     \<and> (case record_fixture C Management True w' of (presented, stored) \<Rightarrow>
        case authenticate (scripted_ops ord) C now' presented (with_record stored) of (revoked, store) \<Rightarrow>
          revoked = Err AeInvalidCredentials \<and> ss_touches store = 0)"

definition authenticate_denies_when_revoke_commits_before_last_used ::
    "cred_libs \<Rightarrow> (key_digest list \<Rightarrow> key_digest list) \<Rightarrow> timestamp \<Rightarrow> drawn \<Rightarrow> bool" where
  "authenticate_denies_when_revoke_commits_before_last_used C ord now w =
     (case record_fixture C Inference False w of (presented, stored) \<Rightarrow>
      case authenticate (scripted_ops ord) C now presented ((with_record stored)\<lparr>ss_revoke_after_find := True\<rparr>) of
        (denied, store) \<Rightarrow> denied = Err AeInvalidCredentials \<and> ss_lookups store = 1 \<and> ss_touches store = 0)"

text \<open>The deadline is made at \<open>start\<close>; the sleep of a millisecond makes every later reading later.\<close>

definition authenticate_with_deadline_fails_when_already_expired ::
    "cred_libs \<Rightarrow> (key_digest list \<Rightarrow> key_digest list) \<Rightarrow> timestamp \<Rightarrow> nat \<Rightarrow> auth_timing \<Rightarrow> bool" where
  "authenticate_with_deadline_fails_when_already_expired C ord now start tm =
     (let deadline = deadline_at start
      in fst (authenticate_with_deadline (scripted_ops ord) C now tm ''opmx_v1_any'' deadline unavailable_double)
         = Err AeDeadlineExceeded)"

definition authenticate_fails_closed_on_store_errors ::
    "cred_libs \<Rightarrow> (key_digest list \<Rightarrow> key_digest list) \<Rightarrow> timestamp \<Rightarrow> timestamp \<Rightarrow> drawn \<Rightarrow> bool" where
  "authenticate_fails_closed_on_store_errors C ord now now' w \<longleftrightarrow>
     fst (authenticate (scripted_ops ord) C now ''opmx_v1_any'' unavailable_double) = Err AeStoreUnavailable
     \<and> (case record_fixture C Inference False w of (presented, stored) \<Rightarrow>
          fst (authenticate (scripted_ops ord) C now' presented ((with_record stored)\<lparr>ss_fail_touch := True\<rparr>))
            = Err AeStoreUnavailable)"

definition kind_comes_from_stored_row_not_key_name ::
    "cred_libs \<Rightarrow> (key_digest list \<Rightarrow> key_digest list) \<Rightarrow> timestamp \<Rightarrow> drawn \<Rightarrow> bool" where
  "kind_comes_from_stored_row_not_key_name C ord now w =
     (case record_fixture C Management False w of (presented, drawn_record) \<Rightarrow>
      let stored = drawn_record\<lparr>kr_name := ''inference-looking-name''\<rparr>
      in case authenticate (scripted_ops ord) C now presented (with_record stored) of
           (Inr ctx, _) \<Rightarrow> au_kind ctx = Management \<and> au_kind ctx = kr_kind stored
         | _ \<Rightarrow> False)"

lemmas authenticate_eval = authenticate_def sbind_def smap_err_def scripted_ops_def scripted_authenticate_digest_def
  with_record_def record_fixture_def unavailable_double_def context_of_record_def is_revoked_def ss_put_def

lemma authentication_unit_tests_pass:
  "authenticate_returns_persisted_client_key_and_kind C ord now w"
  "hash_credential C ''opmx_v1_missing'' \<noteq> hash_credential C (''opmx_v1_fixture-'' @ dw_secret w)
     \<Longrightarrow> authenticate_rejects_unknown_and_revoked_keys C ord now now' w w'"
  "authenticate_denies_when_revoke_commits_before_last_used C ord now w"
  "start < at_now tm \<Longrightarrow> authenticate_with_deadline_fails_when_already_expired C ord now start tm"
  "authenticate_fails_closed_on_store_errors C ord now now' w"
  "kind_comes_from_stored_row_not_key_name C ord now w"
  by (simp_all add: authenticate_returns_persisted_client_key_and_kind_def
      authenticate_rejects_unknown_and_revoked_keys_def authenticate_denies_when_revoke_commits_before_last_used_def
      authenticate_with_deadline_fails_when_already_expired_def authenticate_fails_closed_on_store_errors_def
      kind_comes_from_stored_row_not_key_name_def authenticate_eval authenticate_with_deadline_def is_expired_def
      deadline_at_def Let_def)

section \<open>Key management: \<open>service.rs\<close>\<close>

definition actor_of :: "api_key_record \<Rightarrow> api_key_kind \<Rightarrow> auth_context" where
  "actor_of stored kind = \<lparr>au_client_id = kr_client_id stored, au_key_id = kr_id stored, au_kind = kind\<rparr>"

definition create_key_requires_management_and_uses_actor_tenant ::
    "cred_libs \<Rightarrow> (key_digest list \<Rightarrow> key_digest list) \<Rightarrow> secret_source \<Rightarrow> secret_source \<Rightarrow> timestamp \<Rightarrow> timestamp
      \<Rightarrow> uuid \<Rightarrow> uuid \<Rightarrow> drawn \<Rightarrow> bool" where
  "create_key_requires_management_and_uses_actor_tenant C ord src src' now now' key_uuid key_uuid' w =
     (let stored = snd (record_fixture C Management False w); ops = scripted_ops ord;
          actor = actor_of stored Management; inference_actor = actor_of stored Inference
      in case create_key ops C src now key_uuid actor ''new-inference'' Inference (with_record stored) of
           (Inl _, _) \<Rightarrow> False
         | (Inr issued, store) \<Rightarrow>
             ik_client_id issued = au_client_id actor \<and> ik_kind issued = ''inference''
             \<and> ik_name issued = ''new-inference'' \<and> ss_inserts store = 1
             \<and> starts_with ''opmx_v1_'' (ik_credential issued)
             \<and> (case create_key ops C src' now' key_uuid' inference_actor ''should-not-create'' Management store of
                  (denied, store') \<Rightarrow>
                    denied = Err AuthCapabilityDenied \<and> ss_inserts store' = 1
                    \<and> (case list_keys ops actor key_list_options_default store' of
                         (Inl _, _) \<Rightarrow> False
                       | (Inr listed, store'') \<Rightarrow>
                           list_ex (\<lambda>item. md_key_id item = ik_key_id issued \<and> md_kind item = ''inference'')
                             (ki_keys listed)
                           \<and> \<not> ki_has_more listed
                           \<and> fst (list_keys ops inference_actor key_list_options_default store'')
                               = Err AuthCapabilityDenied)))"

text \<open>The two further records of the test, from what it draws for each.\<close>

definition revocation_record :: "cred_libs \<Rightarrow> string \<Rightarrow> string \<Rightarrow> uuid \<Rightarrow> drawn \<Rightarrow> api_key_record" where
  "revocation_record C credential name client w =
     \<lparr>kr_id = dw_id w, kr_client_id = client, kr_digest = hash_credential C credential,
      kr_display_id = ''opk_'' @ dw_display w, kr_name = name, kr_kind = Inference, kr_created_at = dw_created w,
      kr_last_used_at = None, kr_revoked_at = None\<rparr>"

definition revocation_store :: "cred_libs \<Rightarrow> drawn \<Rightarrow> drawn \<Rightarrow> drawn \<Rightarrow> scripted_store" where
  "revocation_store C w wt wo =
     (let stored = snd (record_fixture C Management False w)
      in ss_put (revocation_record C ''opmx_v1_other-tenant'' ''other'' (dw_client wo) wo)
           (ss_put (revocation_record C ''opmx_v1_revoke-target'' ''revoke-target'' (kr_client_id stored) wt)
             (with_record stored)))"

definition revoke_key_is_tenant_scoped_idempotent_and_management_only ::
    "cred_libs \<Rightarrow> (key_digest list \<Rightarrow> key_digest list) \<Rightarrow> (nat \<Rightarrow> timestamp) \<Rightarrow> uuid \<Rightarrow> drawn \<Rightarrow> drawn \<Rightarrow> drawn \<Rightarrow> bool" where
  "revoke_key_is_tenant_scoped_idempotent_and_management_only C ord clock unknown_id w wt wo =
     (let stored = snd (record_fixture C Management False w); ops = scripted_ops ord;
          target_digest = hash_credential C ''opmx_v1_revoke-target'';
          other_digest = hash_credential C ''opmx_v1_other-tenant'';
          actor = actor_of stored Management; inference_actor = actor_of stored Inference;
          (first, s1) = revoke_key ops (clock 0) actor (dw_id wt) (revocation_store C w wt wo);
          (again, s2) = revoke_key ops (clock 1) actor (dw_id wt) s1;
          (missing, s3) = revoke_key ops (clock 2) actor (dw_id wo) s2;
          (unknown, s4) = revoke_key ops (clock 3) actor unknown_id s3;
          (denied, s5) = revoke_key ops (clock 4) inference_actor (dw_id wt) s4
      in first = Ok () \<and> again = Ok ()
         \<and> (case map_of (ss_records s2) target_digest of Some r \<Rightarrow> kr_revoked_at r \<noteq> None | None \<Rightarrow> False)
         \<and> ss_revokes s2 = 2 \<and> missing = Err AuthKeyNotFound \<and> unknown = Err AuthKeyNotFound
         \<and> (case map_of (ss_records s4) other_digest of Some r \<Rightarrow> kr_revoked_at r = None | None \<Rightarrow> False)
         \<and> denied = Err AuthCapabilityDenied \<and> ss_revokes s5 = 4)"

text \<open>The scripted store in its own terms: what a short list answers, and which record a revocation finds.\<close>

lemma scripted_list_short:
  assumes ord: "iterates ord" and d: "distinct (map fst (ss_records s))" and short: "length (ss_records s) < 100"
  obtains rs where "scripted_list_keys ord c 100 0 None s = (Ok rs, s)" "length rs < 100"
    "set rs = {r \<in> snd ` set (ss_records s). kr_client_id r = c}"
proof
  let ?h = "hash_iter ord (ss_records s)"
  let ?rs = "rev (sort_key (\<lambda>r. (kr_created_at r, kr_id r)) (rev (filter (\<lambda>r. kr_client_id r = c) (map snd ?h))))"
  have "length ?h = length (ss_records s)"
    using ord [unfolded iterates_def, THEN spec, THEN mset_eq_length] by (simp add: hash_iter_def)
  moreover have "length ?rs \<le> length ?h"
    using length_filter_le [of "\<lambda>r. kr_client_id r = c" "map snd ?h"] by simp
  ultimately have l: "length ?rs < 100" using short by simp
  then show "length ?rs < 100" .
  show "scripted_list_keys ord c 100 0 None s = (Ok ?rs, s)"
    using l by (simp add: scripted_list_keys_def Let_def)
  show "set ?rs = {r \<in> snd ` set (ss_records s). kr_client_id r = c}"
    by (auto simp: hash_iter_set [OF ord d])
qed

lemma find_the_one: "x \<in> set xs \<Longrightarrow> P x \<Longrightarrow> (\<And>y. y \<in> set xs \<Longrightarrow> P y \<Longrightarrow> y = x) \<Longrightarrow> List.find P xs = Some x"
proof (induction xs)
  case (Cons a xs)
  show ?case
  proof (cases "P a")
    case True
    with Cons.prems(3) [of a] show ?thesis by simp
  next
    case False
    with Cons.prems(1,2) have "x \<in> set xs" by auto
    with False Cons.IH [OF _ Cons.prems(2)] Cons.prems(3) show ?thesis by simp
  qed
qed simp

lemma scripted_revoke:
  assumes ord: "iterates ord" and ok: "scripted_ok s" and on: "\<not> ss_fail_revoke s"
  shows "\<And>d r. (d, r) \<in> set (ss_records s) \<Longrightarrow> scripted_revoke_key ord (kr_client_id r) (kr_id r) t s =
           (if kr_revoked_at r \<noteq> None then (Ok (AlreadyRevoked r), s\<lparr>ss_revokes := ss_revokes s + 1\<rparr>)
            else (Ok (Revoked (r\<lparr>kr_revoked_at := Some t\<rparr>)),
                  s\<lparr>ss_revokes := ss_revokes s + 1,
                    ss_records := AList.update d (r\<lparr>kr_revoked_at := Some t\<rparr>) (ss_records s)\<rparr>))"
    and "(\<And>d r. (d, r) \<in> set (ss_records s) \<Longrightarrow> kr_client_id r = c \<Longrightarrow> kr_id r \<noteq> k) \<Longrightarrow>
           scripted_revoke_key ord c k t s = (Ok RevokeNotFound, s\<lparr>ss_revokes := ss_revokes s + 1\<rparr>)"
proof -
  let ?m = "ss_records s" and ?xs = "map snd (hash_iter ord (ss_records s))"
  have d: "distinct (map fst ?m)" and dig: "\<And>d r. (d, r) \<in> set ?m \<Longrightarrow> kr_digest r = d"
    and ids: "inj_on (kr_id \<circ> snd) (set ?m)"
    using ok by (auto simp: scripted_ok_def list_all_iff distinct_map)
  have xs: "set ?xs = snd ` set ?m" by (simp add: hash_iter_set [OF ord d])
  { fix dg r assume r: "(dg, r) \<in> set ?m"
    have "y = r" if "y \<in> set ?xs" "kr_id y = kr_id r" for y
      using that r ids by (auto simp: hash_iter_set [OF ord d] inj_on_def)
    then have find: "List.find (\<lambda>x. kr_id x = kr_id r \<and> kr_client_id x = kr_client_id r) ?xs = Some r"
      using r xs by (intro find_the_one) force+
    show "scripted_revoke_key ord (kr_client_id r) (kr_id r) t s =
           (if kr_revoked_at r \<noteq> None then (Ok (AlreadyRevoked r), s\<lparr>ss_revokes := ss_revokes s + 1\<rparr>)
            else (Ok (Revoked (r\<lparr>kr_revoked_at := Some t\<rparr>)),
                  s\<lparr>ss_revokes := ss_revokes s + 1,
                    ss_records := AList.update dg (r\<lparr>kr_revoked_at := Some t\<rparr>) ?m\<rparr>))"
      using on dig [OF r] map_of_is_SomeI [OF d r] find by (simp add: scripted_revoke_key_def Let_def) }
  assume none: "\<And>d r. (d, r) \<in> set ?m \<Longrightarrow> kr_client_id r = c \<Longrightarrow> kr_id r \<noteq> k"
  have "List.find (\<lambda>r. kr_id r = k \<and> kr_client_id r = c) ?xs = None"
    unfolding find_None_iff xs using none by fastforce
  with on show "scripted_revoke_key ord c k t s = (Ok RevokeNotFound, s\<lparr>ss_revokes := ss_revokes s + 1\<rparr>)"
    by (simp add: scripted_revoke_key_def Let_def)
qed

lemma creation_unit_test_passes:
  assumes "src 0 32 = Some p" "src 1 16 = Some q" and ord: "iterates ord"
  shows "create_key_requires_management_and_uses_actor_tenant C ord src src' now now' key_uuid key_uuid' w"
proof -
  define stored where "stored = snd (record_fixture C Management False w)"
  define g where "g = assemble_credential C p q"
  define rec where "rec = record_of_new \<lparr>nk_id = key_uuid, nk_client_id = kr_client_id stored,
    nk_digest = gc_digest g, nk_display_id = gc_display_id g, nk_name = ''new-inference'', nk_kind = Inference,
    nk_created_at = now\<rparr>"
  define s1 where "s1 = ss_put rec ((with_record stored)\<lparr>ss_inserts := 1\<rparr>)"
  have gen: "generate_credential C src = Ok g"
    using assms(1,2) by (simp add: generate_credential_Ok g_def)
  have prefix: "starts_with ''opmx_v1_'' (gc_credential g)"
    by (simp add: g_def assemble_credential_def starts_with_def Let_def)
  have create: "create_key (scripted_ops ord) C src now key_uuid (actor_of stored Management) ''new-inference'' Inference
      (with_record stored) = (Ok (issued_of_record rec (gc_credential g)), s1)"
    by (simp add: create_key_def issue_key_def test_names gen smap_err_def sbind_def scripted_ops_def
        scripted_insert_key_def actor_of_def require_management_def rec_def s1_def with_record_def Let_def)
  have denied: "create_key (scripted_ops ord) C src' now' key_uuid' (actor_of stored Inference) ''should-not-create''
      Management s1 = (Err AuthCapabilityDenied, s1)"
    "list_keys (scripted_ops ord) (actor_of stored Inference) key_list_options_default s1 = (Err AuthCapabilityDenied, s1)"
    by (simp_all add: create_key_def list_keys_def require_management_def actor_of_def)
  have records: "ss_records s1 = AList.update (gc_digest g) rec [(kr_digest stored, stored)]"
    by (simp add: s1_def ss_put_def with_record_def rec_def record_of_new_def)
  obtain rs where rs: "scripted_list_keys ord (kr_client_id stored) 100 0 None s1 = (Ok rs, s1)" "length rs < 100"
      "set rs = {r \<in> snd ` set (ss_records s1). kr_client_id r = kr_client_id stored}"
    by (rule scripted_list_short [OF ord, of s1 "kr_client_id stored"]) (simp_all add: records)
  have "rec \<in> set rs" unfolding rs(3) by (auto simp: records rec_def record_of_new_def)
  moreover have "md_key_id (metadata_of_record rec) = key_uuid \<and> md_kind (metadata_of_record rec) = ''inference''"
    by (simp add: rec_def record_of_new_def metadata_of_record_def)
  ultimately have listed: "list_ex (\<lambda>item. md_key_id item = key_uuid \<and> md_kind item = ''inference'')
      (map metadata_of_record rs)"
    by (auto simp: list_ex_iff)
  have "list_keys (scripted_ops ord) (actor_of stored Management) key_list_options_default s1
      = (Ok \<lparr>ki_keys = map metadata_of_record rs, ki_has_more = False\<rparr>, s1)"
    using rs(1,2) by (simp add: list_keys_def require_management_def actor_of_def key_list_options_default_def
        smap_err_def sbind_def scripted_ops_def)
  with create denied listed prefix show ?thesis
    unfolding create_key_requires_management_and_uses_actor_tenant_def stored_def [symmetric] Let_def
    by (simp add: issued_of_record_def rec_def record_of_new_def actor_of_def s1_def ss_put_def)
qed

lemma revocation_unit_test_passes:
  assumes ord: "iterates ord"
    and ids: "distinct [dw_id w, dw_id wt, dw_id wo, unknown_id]" "dw_client wo \<noteq> dw_client w"
    and digests: "\<And>a b. hash_credential C a = hash_credential C b \<Longrightarrow> a = b"
  shows "revoke_key_is_tenant_scoped_idempotent_and_management_only C ord clock unknown_id w wt wo"
proof -
  define stored where "stored = snd (record_fixture C Management False w)"
  define target where "target = revocation_record C ''opmx_v1_revoke-target'' ''revoke-target'' (dw_client w) wt"
  define other where "other = revocation_record C ''opmx_v1_other-tenant'' ''other'' (dw_client wo) wo"
  define target' where "target' = target\<lparr>kr_revoked_at := Some (clock 0)\<rparr>"
  define s where "s n t = (with_record stored)\<lparr>ss_revokes := n,
    ss_records := [(kr_digest stored, stored), (kr_digest target, t), (kr_digest other, other)]\<rparr>" for n t
  have dig: "kr_digest stored \<noteq> kr_digest target" "kr_digest stored \<noteq> kr_digest other" "kr_digest target \<noteq> kr_digest other"
    by (auto simp: stored_def target_def other_def record_fixture_def revocation_record_def Let_def dest!: digests)
  have f: "kr_id stored = dw_id w" "kr_id target = dw_id wt" "kr_id other = dw_id wo" "kr_client_id stored = dw_client w"
      "kr_client_id target = dw_client w" "kr_client_id other = dw_client wo" "kr_revoked_at target = None"
      "kr_digest target' = kr_digest target" "kr_id target' = dw_id wt" "kr_client_id target' = dw_client w"
      "kr_revoked_at target' = Some (clock 0)" "kr_digest target = hash_credential C ''opmx_v1_revoke-target''"
      "kr_digest other = hash_credential C ''opmx_v1_other-tenant''" "kr_revoked_at other = None"
    by (simp_all add: stored_def target_def other_def target'_def record_fixture_def revocation_record_def Let_def)
  have s [simp]: "ss_revokes (s n t) = n" "(s n t)\<lparr>ss_revokes := m\<rparr> = s m t" "\<not> ss_fail_revoke (s n t)"
      "ss_records (s n t) = [(kr_digest stored, stored), (kr_digest target, t), (kr_digest other, other)]"
      "(s n t)\<lparr>ss_records := [(kr_digest stored, stored), (kr_digest target, u), (kr_digest other, other)]\<rparr> = s n u"
    for n m t u
    using dig by (simp_all add: s_def with_record_def)
  have ok: "scripted_ok (s n t)" if "t \<in> {target, target'}" for n t
    using that ids(1) dig dig [symmetric] by (auto simp: scripted_ok_def f)
  have s0: "revocation_store C w wt wo = s 0 target"
    using dig dig [symmetric]
    by (simp add: revocation_store_def stored_def [symmetric] Let_def f(1-6) target_def [symmetric] other_def [symmetric]
        ss_put_def s_def with_record_def)
  have r1: "scripted_revoke_key ord (dw_client w) (dw_id wt) (clock 0) (s 0 target) = (Ok (Revoked target'), s 1 target')"
    using scripted_revoke(1) [OF ord ok [of target 0], where d = "kr_digest target" and r = target and t = "clock 0"] dig
    by (simp add: f(1-11) target'_def [symmetric])
  have r2: "scripted_revoke_key ord (dw_client w) (dw_id wt) (clock 1) (s 1 target') = (Ok (AlreadyRevoked target'), s 2 target')"
    using scripted_revoke(1) [OF ord ok [of target' 1], where d = "kr_digest target" and r = target' and t = "clock 1"]
    by (simp add: f numeral_2_eq_2)
  have r3: "scripted_revoke_key ord (dw_client w) k t (s n target') = (Ok RevokeNotFound, s (Suc n) target')"
    if "k \<in> {dw_id wo, unknown_id}" for k t n
  proof -
    have none: "kr_id r \<noteq> k" if "(d, r) \<in> set (ss_records (s n target'))" "kr_client_id r = dw_client w" for d r
      using that \<open>k \<in> {dw_id wo, unknown_id}\<close> ids by (auto simp: f)
    show ?thesis by (rule trans [OF scripted_revoke(2) [OF ord ok s(3) none]]) simp_all
  qed
  show ?thesis
    unfolding revoke_key_is_tenant_scoped_idempotent_and_management_only_def stored_def [symmetric] s0
    using dig dig [symmetric]
    by (simp add: revoke_key_def require_management_def actor_of_def f smap_err_def sbind_def scripted_ops_def r1
        r2 [unfolded One_nat_def]
        r3 Let_def)
qed

end
