(* ===== verification/Unit_Tests_Process.thy ===== *)
theory Unit_Tests_Process
  imports Unit_Tests_Core Observability
begin

text \<open>
  The unit tests of \<open>core/metrics/\<close>, \<open>core/tracing.rs\<close> and \<open>core/extract.rs\<close> on the model, with the conventions
  of \<open>Unit_Tests_Executor\<close>. The body extractor of the web library is an argument; the lemma asks it to read the
  one body that fits and to refuse the one that is too long, as its limit says.
\<close>

section \<open>Metrics: \<open>metrics/mod.rs\<close> and \<open>labels.rs\<close>\<close>

definition accepted_catalog_ids_stay_verbatim :: bool where
  "accepted_catalog_ids_stay_verbatim \<longleftrightarrow>
     bound_catalog_id ''primary'' = ''primary'' \<and> bound_catalog_id ''alpha-1'' = ''alpha-1''
     \<and> bound_catalog_id ''Secondary_2'' = ''Secondary_2'' \<and> bound_catalog_id ''alpha.primary'' = ''alpha.primary''
     \<and> (let long = ''configured-long-target-'' @ replicate 50 CHR ''c''
        in 64 < length long \<and> bound_catalog_id long = long)
     \<and> outcome_as_str OCancelled = ''cancelled'' \<and> outcome_as_str ORateLimit \<noteq> ''overloaded''
     \<and> outcome_as_str ORateLimit \<noteq> ''OVERLOADED''"

definition test_metrics_config_production :: bool where
  "test_metrics_config_production = (mc_enabled metrics_production \<and> mc_endpoint_path metrics_production = ''/metrics'')"

definition test_metrics_config_development :: bool where
  "test_metrics_config_development =
     (mc_enabled metrics_development \<and> mc_endpoint_path metrics_development = ''/metrics'')"

definition test_metrics_config_disabled :: bool where
  "test_metrics_config_disabled = (\<not> mc_enabled metrics_disabled \<and> mc_endpoint_path metrics_disabled = ''/metrics'')"

text \<open>The tests of a process share its cells: \<open>m\<close> is what earlier ones left.\<close>

definition test_create_metrics_enabled :: "metrics_cells \<Rightarrow> bool" where
  "test_create_metrics_enabled m =
     (case create_metrics \<lparr>mc_enabled = True, mc_endpoint_path = ''/metrics''\<rparr> m of (result, m1) \<Rightarrow>
      case create_metrics metrics_production m1 of (second, _) \<Rightarrow> result \<noteq> None \<and> second \<noteq> None)"

definition test_create_metrics_disabled :: "metrics_cells \<Rightarrow> bool" where
  "test_create_metrics_disabled m =
     (fst (create_metrics \<lparr>mc_enabled = False, mc_endpoint_path = ''/metrics''\<rparr> m) = None)"

definition unknown_and_key_paths_collapse_to_bounded_endpoints :: bool where
  "unknown_and_key_paths_collapse_to_bounded_endpoints \<longleftrightarrow>
     bounded_http_endpoint ''/api/v1/route'' = ''/api/v1/route''
     \<and> bounded_http_endpoint ''/api/v1/auth/keys'' = ''/api/v1/auth/keys''
     \<and> bounded_http_endpoint ''/api/v1/auth/keys/11111111-2222-3333-4444-555555555555'' = ''/api/v1/auth/keys/{id}''
     \<and> bounded_http_endpoint ''/not-a-route'' = ''unmatched''
     \<and> bounded_http_endpoint ''/api/v1/auth/keys/id/extra'' = ''unmatched''"

lemma metrics_unit_tests_pass:
  "accepted_catalog_ids_stay_verbatim" "test_metrics_config_production" "test_metrics_config_development"
  "test_metrics_config_disabled" "test_create_metrics_enabled m" "test_create_metrics_disabled m"
  "unknown_and_key_paths_collapse_to_bounded_endpoints"
  by (simp_all add: accepted_catalog_ids_stay_verbatim_def bound_catalog_id_def test_metrics_config_production_def
      metrics_production_def test_metrics_config_development_def metrics_development_def
      test_metrics_config_disabled_def metrics_disabled_def test_create_metrics_enabled_def create_metrics_def
      test_create_metrics_disabled_def unknown_and_key_paths_collapse_to_bounded_endpoints_def
      bounded_http_endpoint_def is_auth_key_resource_path_def strip_prefix_def Let_def)

section \<open>Logging: \<open>tracing.rs\<close>\<close>

definition test_log_format_from_env :: "(string \<Rightarrow> string) \<Rightarrow> bool" where
  "test_log_format_from_env lower \<longleftrightarrow>
     log_format_from_env lower ''json'' = LogJson \<and> log_format_from_env lower ''JSON'' = LogJson
     \<and> log_format_from_env lower ''pretty'' = LogPretty \<and> log_format_from_env lower ''PRETTY'' = LogPretty
     \<and> log_format_from_env lower ''invalid'' = LogJson"

definition test_tracing_config_production :: bool where
  "test_tracing_config_production =
     (let config = tracing_production
      in tc_env_filter config = ''info'' \<and> tc_format config = LogJson \<and> \<not> tc_with_line_number config
         \<and> \<not> tc_with_thread_ids config \<and> tc_with_target config)"

definition test_tracing_config_development :: bool where
  "test_tracing_config_development =
     (let config = tracing_development
      in tc_env_filter config = ''debug,gateway=trace'' \<and> tc_format config = LogPretty \<and> tc_with_line_number config
         \<and> tc_with_thread_ids config \<and> tc_with_target config)"

text \<open>On ASCII text, lower case is that of each byte.\<close>

lemma lowered_texts:
  "map to_ascii_lower ''json'' = ''json''" "map to_ascii_lower ''JSON'' = ''json''"
  "map to_ascii_lower ''pretty'' = ''pretty''" "map to_ascii_lower ''PRETTY'' = ''pretty''"
  "map to_ascii_lower ''invalid'' = ''invalid''"
  "list_all (list_all visible_ascii) [''json'', ''JSON'', ''pretty'', ''PRETTY'', ''invalid'']"
  by code_simp+

lemma tracing_unit_tests_pass:
  "(\<And>s. list_all visible_ascii s \<Longrightarrow> lower s = map to_ascii_lower s) \<Longrightarrow> test_log_format_from_env lower"
  "test_tracing_config_production" "test_tracing_config_development"
proof -
  assume lower: "\<And>s. list_all visible_ascii s \<Longrightarrow> lower s = map to_ascii_lower s"
  have "lower ''json'' = ''json''" "lower ''JSON'' = ''json''" "lower ''pretty'' = ''pretty''"
      "lower ''PRETTY'' = ''pretty''" "lower ''invalid'' = ''invalid''"
    using lowered_texts by (simp_all only: lower list.pred_inject simp_thms)
  then show "test_log_format_from_env lower"
    by (simp add: test_log_format_from_env_def log_format_from_env_def)
qed (simp_all add: test_tracing_config_production_def tracing_production_def test_tracing_config_development_def
  tracing_development_def)

section \<open>Bodies: \<open>extract.rs\<close>\<close>

definition advertised_content_length_bound_is_inclusive :: "http_libs \<Rightarrow> bool" where
  "advertised_content_length_bound_is_inclusive H \<longleftrightarrow>
     \<not> advertised_content_length_exceeds H [(''content-length'', ''8'')] 8
     \<and> advertised_content_length_exceeds H [(''content-length'', ''9'')] 8
     \<and> \<not> advertised_content_length_exceeds H [] 8"

text \<open>The test's router: the handler answers 200 when the extractor does not fail.\<close>

definition extract_router :: "http_libs \<Rightarrow> nat \<Rightarrow> http_request \<Rightarrow> nat" where
  "extract_router H limit req =
     (case api_json H (Some limit) limit req of
        Inr _ \<Rightarrow> 200 | Inl e \<Rightarrow> r_status (http_error_into_response None e :: unit http_response))"

definition json_post :: "(string \<times> string) list \<Rightarrow> string \<Rightarrow> http_request" where
  "json_post more_headers body =
     \<lparr>hr_method = ''POST'', hr_path = ''/'', hr_query = None,
      hr_headers = (''content-type'', ''application/json'') # more_headers, hr_body = body\<rparr>"

definition advertised_and_streamed_oversize_bodies_map_to_payload_too_large :: "http_libs \<Rightarrow> bool" where
  "advertised_and_streamed_oversize_bodies_map_to_payload_too_large H \<longleftrightarrow>
     extract_router H 8 (json_post [(''content-length'', ''8'')] ''{\"a\":1} '') = 200
     \<and> extract_router H 8 (json_post [(''content-length'', ''9'')] ''{\"a\":1}'') = 413
     \<and> extract_router H 8 (json_post [] ''{\"a\":1234}'') = 413"

lemma read_lengths:
  "list_all visible_ascii ''8''" "list_all visible_ascii ''9''"
  "parse_rust_u64 ''8'' = Some 8" "parse_rust_u64 ''9'' = Some 9"
  by (code_simp, code_simp, simp_all add: parse_rust_u64_def decimal_value_def is_ascii_digit_def)

lemma extract_unit_tests_pass:
  assumes "reads_visible_ascii (hl_to_str H)"
    and "hl_json H 8 (json_post [(''content-length'', ''8'')] ''{\"a\":1} '') = Ok (JObj [(''a'', JNum (PosInt 1))])"
    and "hl_json H 8 (json_post [] ''{\"a\":1234}'') = Err (BytesRejection 413)"
  shows "advertised_content_length_bound_is_inclusive H"
    "advertised_and_streamed_oversize_bodies_map_to_payload_too_large H"
proof -
  have "hl_to_str H ''8'' = Some ''8''" "hl_to_str H ''9'' = Some ''9''"
    using assms(1) read_lengths(1,2) unfolding reads_visible_ascii_def by simp_all
  then have advertised: "\<not> advertised_content_length_exceeds H ((''content-length'', ''8'') # []) 8"
      "advertised_content_length_exceeds H ((''content-length'', ''9'') # []) 8"
      "\<not> advertised_content_length_exceeds H [] 8"
      "advertised_content_length_exceeds H ((''content-type'', x) # hs) 8 = advertised_content_length_exceeds H hs 8"
    for x hs
    by (simp_all add: advertised_content_length_exceeds_def get_all_def first_row_def read_lengths)
  then show "advertised_content_length_bound_is_inclusive H"
    by (simp add: advertised_content_length_bound_is_inclusive_def)
  have headers: "hr_headers (json_post hs b) = (''content-type'', ''application/json'') # hs" for hs b
    by (simp add: json_post_def)
  show "advertised_and_streamed_oversize_bodies_map_to_payload_too_large H"
    using assms(2,3)
    by (simp add: advertised_and_streamed_oversize_bodies_map_to_payload_too_large_def extract_router_def api_json_def
        headers advertised map_json_rejection_def payload_too_large_def http_error_new_def http_error_into_response_def)
qed

end
