(* ===== verification/Spec2Isabelle.thy ===== *)
theory Spec2Isabelle
  imports Circuit_Properties Executor_Properties OpenAI_Properties Config_Properties Ingress_Properties
    Auth_Properties Http_Properties Health_Properties Lifecycle App Legacy_Config
    Confinement_Properties Observability Unit_Tests_Provider Unit_Tests_Ingress Unit_Tests_Services
    Unit_Tests_Process
begin

text \<open>
  The opmux gateway: a verification development.

  The program (\<open>src/gateway/src/\<close>) is an HTTP gateway in front of model providers. A client presents an API
  key; the gateway authenticates it against a PostgreSQL store, admits the request if fewer than a
  configured number of generations run, validates the body, selects a route of the operator's catalog
  and executes it: a chain of targets, each guarded by a circuit breaker, with retries under one shared
  attempt budget and one deadline. Beside that it serves health and readiness, manages keys over HTTP and
  from the command line, and drains when it is told to stop. Everything below is translated from that
  code; file names are relative to \<open>src/gateway/src/\<close>.

  \<^bold>\<open>How the parts interact.\<close> A request passes \<open>app.rs\<close>'s layers from the outside in: correlation
  identifier, HTTP metrics, deadline, authentication, body limit, handler. The generation handler takes a
  permit of the limiter, and calls the ingress service, which validates, resolves a route plan, builds a
  provider payload and hands both to the executor. The executor walks the plan's hops: it asks the target's
  circuit for a permit, runs the attempts of the hop against the vendor, settles the permit, and goes on to
  the next fallback when the error allows it. Attempts, retries, fallbacks and circuit transitions are
  reported to the execution metrics. Readiness combines a database probe, a provider probe, the circuits of
  the default route and the drain flag. The drain closes the limiter, then publishes its flag; the serving
  loop then waits for the server within a grace period.

  \<^bold>\<open>Theories and code.\<close>

  \<^item> \<open>Gateway_Prelude\<close>: results (\<open>Err\<close>, \<open>Ok\<close>, \<open>and_then\<close>), saturating arithmetic at the widths of the code, time
    in nanoseconds, strings as UTF-8 bytes. \<open>Rust_Float\<close>: executable binary64. \<open>Json_Value\<close>: JSON values.
  \<^item> \<open>Execution_Metrics\<close> (\<open>core/metrics/labels.rs\<close>, \<open>execution.rs\<close>): the events and the three sinks, which
    interpret the locale \<open>execution_sink\<close>.
  \<^item> \<open>Deadline\<close> (\<open>core/deadline.rs\<close>), \<open>Attempt_Budget\<close> (\<open>features/executor/budget.rs\<close>, the trait
    \<open>JitterSource\<close> is the locale \<open>jitter_source\<close>), \<open>Pricing\<close> (\<open>pricing.rs\<close>).
  \<^item> \<open>Circuit\<close> (\<open>features/executor/circuit.rs\<close>), its sequential lemmas \<open>Circuit_Lemmas\<close>, the system of concurrent
    requests \<open>Circuit_System\<close> and what holds of it, \<open>Circuit_Properties\<close>. A circuit's \<open>u64\<close> generation is a 64-bit
    word that wraps.
  \<^item> \<open>Http_Error\<close> (\<open>core/http_error.rs\<close>, \<open>core/correlation.rs\<close>, \<open>middleware/correlation_id.rs\<close>), \<open>Exec_Error\<close>
    and \<open>Exec_Models\<close> (\<open>features/executor/error.rs\<close>, \<open>models.rs\<close>, \<open>core/contracts.rs\<close>).
  \<^item> \<open>OpenAI_Response\<close> (\<open>bounded_body.rs\<close>, \<open>openai_response.rs\<close>), \<open>OpenAI_Vendor\<close> (\<open>vendors/openai.rs\<close>,
    \<open>vendors/traits.rs\<close>, \<open>attempt.rs\<close>, \<open>repository.rs\<close>), \<open>OpenAI_Properties\<close>.
  \<^item> \<open>Executor\<close> (\<open>features/executor/service.rs\<close>), with \<open>Executor_Lemmas\<close>, \<open>Executor_Chain\<close>, \<open>Executor_Wire\<close>,
    \<open>Executor_Properties\<close>; \<open>Demo_Deployment\<close> is the concrete deployment of its witnesses.
  \<^item> \<open>Config_Limits\<close> (\<open>core/config/error.rs\<close>, \<open>env.rs\<close>, \<open>limits.rs\<close>), \<open>Catalog\<close> (\<open>catalog.rs\<close>), \<open>Settings\<close>
    (\<open>load.rs\<close>, \<open>provider.rs\<close>, \<open>http_client.rs\<close>, the settings' part of \<open>process.rs\<close>,
    \<open>features/executor/config.rs\<close>), \<open>Config_Properties\<close>; \<open>Legacy_Config\<close> has the global configuration that is
    kept for compatibility, \<open>Database_Config\<close> \<open>core/db.rs\<close>.
  \<^item> \<open>Admission\<close> (\<open>core/admission.rs\<close> and the drain state of \<open>core/lifecycle.rs\<close>), \<open>Lifecycle\<close> (the rest of it: the
    waiters, the signal handler, the listener, the serving loop).
  \<^item> \<open>Ingress_Routing\<close> (\<open>features/ingress/error.rs\<close>, \<open>routing.rs\<close>), \<open>Ingress_Service\<close> (\<open>validate.rs\<close>,
    \<open>service.rs\<close>, \<open>repository.rs\<close>, \<open>handler.rs\<close>), \<open>Ingress_Lemmas\<close>, \<open>Ingress_Properties\<close>.
  \<^item> \<open>Auth_Models\<close> (\<open>features/auth/persist/models.rs\<close>, \<open>error.rs\<close>), \<open>Auth_Database\<close> (the migration's tables and the
    SQL statements of \<open>postgres.rs\<close>), \<open>Auth_Store\<close> (the trait \<open>AuthStore\<close>, its contract the locale \<open>auth_store\<close>,
    \<open>unavailable.rs\<close>), \<open>Auth_Postgres\<close> (\<open>postgres.rs\<close>, which interprets the contract), \<open>Auth_Service\<close>
    (\<open>credentials.rs\<close>, \<open>provision.rs\<close>, \<open>service.rs\<close>, \<open>error.rs\<close>), \<open>Auth_Handler\<close> (\<open>handler.rs\<close>), \<open>Auth_System\<close> (the
    histories of calls), \<open>Auth_Healthy\<close> (the store while every round trip is answered), \<open>Auth_Properties\<close>.
  \<^item> \<open>Http_Stack\<close> (\<open>middleware/auth.rs\<close>, \<open>middleware/deadline.rs\<close>, \<open>core/extract.rs\<close>, the protected routes of
    \<open>app.rs\<close>), \<open>Http_Properties\<close>; \<open>Health\<close> (\<open>features/health/\<close>), \<open>Health_Properties\<close>.
  \<^item> \<open>App\<close> (\<open>app.rs\<close>, \<open>main.rs\<close>, \<open>bin/opmux-admin.rs\<close>, the configuration in \<open>core/metrics/mod.rs\<close> and
    \<open>core/tracing.rs\<close>, \<open>core/error.rs\<close>): the assembled application, the whole router and the two processes.
    \<open>Observability\<close>: what the metrics and tracing modules hand to their libraries, and the log record of an error.
  \<^item> \<open>Redaction\<close>: the hand-written \<open>Debug\<close> and \<open>Display\<close> forms of what holds a secret, in every file that has one, and the
    log of start-up (\<open>main.rs\<close>, \<open>log_safe_summary\<close> of \<open>load.rs\<close>). \<open>Key_Confinement\<close> follows two runs that differ in the
    provider key through the executor and the router; \<open>Confinement_Properties\<close> states what comes of it.
  \<^item> \<open>Fixtures\<close>: \<open>Settings::for_tests\<close> and the other dummies that are compiled with the program, the deprecated
    \<open>features/auth/config.rs\<close>, and the former public keys (\<open>mockdata.rs\<close>, \<open>repository.rs\<close> of \<open>features/auth/\<close>).
  \<^item> \<open>Test_Stores\<close>: the two test doubles of the trait \<open>AuthStore\<close>. \<open>Unit_Tests_Executor\<close>, \<open>Unit_Tests_Provider\<close>,
    \<open>Unit_Tests_Ingress\<close>, \<open>Unit_Tests_Core\<close>, \<open>Unit_Tests_Auth\<close>, \<open>Unit_Tests_Services\<close> and \<open>Unit_Tests_Process\<close>: the
    unit tests inside the source files, one definition per test function, with \<open>Float_Eval\<close> to evaluate \<open>binary64\<close>.

  \<^bold>\<open>State and operations.\<close> A struct is a record with the code's fields, an enum a datatype with its variants, a
  method a function that takes the state and returns it updated, \<open>Result\<close> a sum, a panic the value \<open>None\<close>. What
  an asynchronous operation meets while it runs is an argument: the readings of the clock and the lag of
  timers, what concurrent requests did to a shared map before its lock is taken, the replies of the provider
  and of the database (a reply may be lost before or after the server acted), the draws of jitter and
  entropy. A theorem over these arguments holds for every timing, interleaving and failure. A method that
  holds a lock for its whole body is one atomic step; where the code takes a lock twice, the
  model has two steps. Concurrency as such is an inductive step relation with reachable states: \<open>Circuit_System\<close> for
  the circuits, \<open>Admission\<close> for limiter and drain, \<open>Auth_System\<close> for the store.

  \<^bold>\<open>What the lemmas show.\<close>

  \<^item> Circuits: one recovery probe at a time under any interleaving; stale completions change nothing; nothing is
    admitted before the cooldown ends; the counter is the number of consecutive failures of the history; an open
    circuit can always recover.
  \<^item> Executor: the calls of a request follow the chain within one budget; an attempt that finds the deadline expired
    sends nothing, and a call leaves two clock readings after the check that allowed it; every started attempt is
    measured exactly once, also when it is dropped while it waits; errors that forbid a fallback end the request; the
    error of a failed fallback stays inside, but for a throttling that cannot fit the remaining time; a Retry-After
    is never shortened, and a timely valid answer is returned. These rest on the contract \<open>advance\<close> of
    \<open>Executor_Lemmas\<close>, which composes.
  \<^item> Provider call: bounded bodies, exactly the well-formed payloads accepted, finite cost, a 429 kept as such.
  \<^item> Configuration: the catalog is accepted exactly when it satisfies the declarative schema, limits are in range, every
    route resolves to hops the executor can serve.
  \<^item> Ingress: a body is accepted exactly when it fits the documented schema, and the prompt and the parameters
    reach the wire unchanged; permits are conserved and a drain is final.
  \<^item> Credentials: the Postgres store refines the abstract directory of keys even when replies are lost; its
    tables stay well formed; an acknowledged revocation is final; an issued credential authenticates; a tenant sees and
    changes its own keys only; listings are exact pages.
  \<^item> HTTP: provider traffic needs an active inference key; authentication fails closed; protected requests are
    answered by the deadline; every response carries its request identifier (\<open>App\<close>).
  \<^item> Secrets: under another provider key (both legal header values, or neither) the whole process behaves the same but
    for one header of the calls to the provider; with a key that is no legal header value nothing is ever sent
    (\<open>Executor_Wire\<close>); and the log of start-up is the same for every provider key and every connection string.
  \<^item> Conformance: the repository's own unit tests hold of the model, for every value of what a test draws. This ties the
    definitions to the code by more than reading, and is not counted among the properties.
  \<^item> Process: a ready answer rests on successful probes; shutdown ends within the grace; start-up errors are exit codes.

  \<^bold>\<open>Bounds and fuel.\<close> No definition uses fuel. Loops recurse on a list (hops, body chunks, waiters, scripted
  replies) or on the attempts that remain, which the configuration bounds; a script of replies or delays that is
  exhausted continues with a fixed answer (every database round trip is answered, no time passes), stated where it is defined.
  A call that never finishes is \<open>None\<close>, and the theorems that something returns say so as equations with \<open>Some\<close>.

  \<^bold>\<open>Assumptions.\<close> Libraries and services are arguments with their documented laws as named hypotheses:
  \<open>semaphore_laws\<close> (the async semaphore), \<open>header_text_laws\<close> and \<open>http_laws\<close> (header values, the default body limit),
  \<open>reader_laws\<close> (the derived JSON reader runs the custom deserializers), \<open>iterates\<close> (a hash map is iterated over every
  key once), \<open>cred_laws\<close> (URL-safe base64 decodes what it encodes, digests have 32 bytes). Every witness instantiates
  them with concrete functions. SQL statements have their standard meaning on the migration's tables, constraint
  checks and unique indexes included; two transactions on the same rows are serialised by their locks, so each is one
  step. That is stronger than READ COMMITTED in two places: the select of a revocation whose update matched no row, and
  the two queries of a listing (the page, and whether more follows), read one state of the tables. The HTTP client
  refuses to build a request whose authorization is no legal header value (\<open>lib_header_value_ok\<close>) and then sends
  nothing. The theorems on one hop's circuit and on the valid first answer assume that no other request touches the
  circuits meanwhile, the latter also a schedule without delays, as their hypotheses say. Facts that
  need distinct secrets to have distinct digests state it as a hypothesis.

  \<^bold>\<open>Not modelled.\<close> Log lines of the libraries, and those of the process after start-up (but
  for the record of a failed response), spans and the HTTP metrics layer, as output only; the argument parser of
  \<open>opmux-admin\<close> and the tracing subscriber, which are libraries (what they are configured with is
  modelled); the internals of the Prometheus registry, a map of counters here; connecting to PostgreSQL and to the
  network; the test modules in files of their own (\<open>*_tests.rs\<close>, \<open>core/config/tests.rs\<close>)
  and \<open>tests/\<close>, which drive the code with mock servers, mock vendors and real processes. Of the unit
  tests inside the source files, those are left out that read a log or a span, search the text of a source file,
  or clone a value, and the one of \<open>features/ingress/repository.rs\<close>, which brings a vendor of its
  own: the vendors of the model are those the program has.
\<close>

end
